(* ===== verification/Prelude.thy ===== *)
theory Prelude
  imports Complex_Main "HOL-Library.Word" "HOL-Library.List_Lexorder"
begin

text \<open>
  The shared ground of the development: JavaScript strings as lists of UTF-16 code units, the
  string and array methods the front end calls, decimal and hexadecimal text of integers, the
  stable sort of \<open>Array.prototype.sort\<close>, the exceptions of the language as values, and the
  generic list lemmas and fact collections every component uses.

  String literals are written with \<open>lit\<close> (ASCII) and \<open>ru\<close>. The latter spells Cyrillic text
  with the KOI-7 correspondence, one ASCII character per letter (\<open>a\<close> is the first letter of
  the alphabet, \<open>q\<close> the last, \<open>[ ] ~ | _ @ #\<close> are sha, shcha, che, e, hard sign, yu, yo),
  so that a literal has exactly the code units of the source's literal.
\<close>

section \<open>Fact collections\<close>

named_theorems str_simps \<open>evaluation of literals and string methods\<close>
named_theorems num_simps \<open>evaluation of number operations\<close>
named_theorems frame_simps \<open>what an operation leaves unchanged\<close>

section \<open>Strings\<close>

type_synonym cu = "16 word"
type_synonym jstr = "cu list"
type_synonym byte = "8 word"

definition lit :: "string \<Rightarrow> jstr" where
  "lit s = map of_char s"

definition ru_table :: "(char \<times> cu) list" where
  "ru_table = zip ''abcdefghijklmnopqrstuvwxyz[]|~_@#''
     [0x430, 0x431, 0x446, 0x434, 0x435, 0x444, 0x433, 0x445, 0x438, 0x439, 0x43A, 0x43B, 0x43C,
      0x43D, 0x43E, 0x43F, 0x44F, 0x440, 0x441, 0x442, 0x443, 0x436, 0x432, 0x44C, 0x44B, 0x437,
      0x448, 0x449, 0x44D, 0x447, 0x44A, 0x44E, 0x451]
   @ zip ''ABCDEFGHIJKLMNOPQRSTUVWXYZ^''
     [0x410, 0x411, 0x426, 0x414, 0x415, 0x424, 0x413, 0x425, 0x418, 0x419, 0x41A, 0x41B, 0x41C,
      0x41D, 0x41E, 0x41F, 0x42F, 0x420, 0x421, 0x422, 0x423, 0x416, 0x412, 0x42C, 0x42B, 0x417,
      0x42D]"

definition ru :: "string \<Rightarrow> jstr" where
  "ru s = map (\<lambda>c. case map_of ru_table c of Some u \<Rightarrow> u | None \<Rightarrow> of_char c) s"

lemma unat_of_char_cu [simp]: "unat (of_char c :: cu) = of_char c"
proof -
  have "unat (of_nat (of_char c) :: cu) = of_char c"
  proof -
    have "of_char c < (256 :: nat)" by simp
    also have "(256 :: nat) < 2 ^ 16" by simp
    finally have "of_char c < (2 ^ 16 :: nat)" .
    then show ?thesis by (simp only: unat_of_nat take_bit_nat_eq_self len_of_numeral_defs) simp
  qed
  then show ?thesis by (simp only: of_nat_of_char)
qed

lemma of_char_cu_inj: "(of_char c :: cu) = of_char d \<longleftrightarrow> c = d"
  by (metis of_char_eq_iff unat_of_char_cu)

lemma lit_inject [simp, str_simps]: "lit s = lit t \<longleftrightarrow> s = t"
  by (simp add: lit_def inj_map_eq_map inj_def of_char_cu_inj)

lemma distinct_lit [str_simps]: "distinct (lit s) \<longleftrightarrow> distinct s"
  by (simp add: lit_def distinct_map inj_on_def of_char_cu_inj)

lemma lit_Nil [simp, str_simps]: "lit [] = []"
  and lit_Cons_neq_Nil [simp, str_simps]: "lit (c # s) \<noteq> []"
  and lit_eq_Nil [simp, str_simps]: "lit s = [] \<longleftrightarrow> s = []"
  and length_lit [simp, str_simps]: "length (lit s) = length s"
  by (simp_all add: lit_def)

lemma length_ru [simp, str_simps]: "length (ru s) = length s"
  by (simp add: ru_def)

subsection \<open>String methods\<close>

text \<open>
  \<open>startsWith\<close>, \<open>includes\<close>, \<open>split\<close> at one code unit, \<open>replace\<close> of every occurrence of a code
  unit (a regular expression with the \<open>g\<close> flag), \<open>repeat\<close>, \<open>slice\<close>, \<open>padStart\<close>, \<open>padEnd\<close>
  with a one-unit filler, \<open>join\<close>, and \<open>trim\<close> over the white space and line terminators of
  the language.
\<close>

definition str_starts_with :: "'a list \<Rightarrow> 'a list \<Rightarrow> bool" where
  "str_starts_with p s \<longleftrightarrow> take (length p) s = p"

fun str_includes :: "'a list \<Rightarrow> 'a list \<Rightarrow> bool" where
  "str_includes p [] \<longleftrightarrow> p = []"
| "str_includes p (c # s) \<longleftrightarrow> str_starts_with p (c # s) \<or> str_includes p s"

fun str_split :: "'a \<Rightarrow> 'a list \<Rightarrow> 'a list list" where
  "str_split x [] = [[]]"
| "str_split x (c # s) =
     (if c = x then [] # str_split x s
      else (case str_split x s of [] \<Rightarrow> [[c]] | p # ps \<Rightarrow> (c # p) # ps))"

definition str_replace_all :: "'a \<Rightarrow> 'a \<Rightarrow> 'a list \<Rightarrow> 'a list" where
  "str_replace_all x y s = map (\<lambda>c. if c = x then y else c) s"

definition str_repeat :: "nat \<Rightarrow> 'a list \<Rightarrow> 'a list" where
  "str_repeat n s = concat (replicate n s)"

definition str_slice :: "nat \<Rightarrow> nat \<Rightarrow> 'a list \<Rightarrow> 'a list" where
  "str_slice i j s = drop i (take j s)"

definition str_pad_start :: "nat \<Rightarrow> 'a \<Rightarrow> 'a list \<Rightarrow> 'a list" where
  "str_pad_start n c s = replicate (n - length s) c @ s"

definition str_pad_end :: "nat \<Rightarrow> 'a \<Rightarrow> 'a list \<Rightarrow> 'a list" where
  "str_pad_end n c s = s @ replicate (n - length s) c"

fun str_join :: "'a list \<Rightarrow> 'a list list \<Rightarrow> 'a list" where
  "str_join sep [] = []"
| "str_join sep [s] = s"
| "str_join sep (s # t # ss) = s @ sep @ str_join sep (t # ss)"

definition ws_units :: "cu list" where
  "ws_units = [9, 10, 11, 12, 13, 32, 0xA0, 0x1680, 0x2000, 0x2001, 0x2002, 0x2003, 0x2004, 0x2005,
     0x2006, 0x2007, 0x2008, 0x2009, 0x200A, 0x2028, 0x2029, 0x202F, 0x205F, 0x3000, 0xFEFF]"

definition is_space :: "cu \<Rightarrow> bool" where
  "is_space c \<longleftrightarrow> c \<in> set ws_units"

definition js_trim :: "jstr \<Rightarrow> jstr" where
  "js_trim s = rev (dropWhile is_space (rev (dropWhile is_space s)))"

lemma str_split_nonempty [simp]: "str_split x s \<noteq> []"
  by (cases s) (auto split: list.splits)

lemma str_split_no_sep: "x \<notin> set s \<Longrightarrow> str_split x s = [s]"
  by (induction s) auto

lemma str_split_append: "x \<notin> set s \<Longrightarrow> str_split x (s @ x # t) = s # str_split x t"
  by (induction s) auto

lemma str_starts_with_append [simp]: "str_starts_with p (p @ s)"
  by (simp add: str_starts_with_def)

lemma str_starts_withE:
  assumes "str_starts_with p s" obtains t where "s = p @ t"
  using assms by (metis append_take_drop_id str_starts_with_def)

lemma dropWhile_rev_dropWhile:
  "dropWhile P (rev (dropWhile P (rev (dropWhile P s)))) = rev (dropWhile P (rev (dropWhile P s)))"
proof (cases "rev (dropWhile P (rev (dropWhile P s)))")
  case (Cons c t)
  then obtain u where "dropWhile P s = (c # t) @ u"
    by (metis rev_append rev_rev_ident takeWhile_dropWhile_id)
  then have "\<not> P c" by (metis append_Cons dropWhile_eq_Cons_conv)
  with Cons show ?thesis by simp
qed (simp only: dropWhile.simps)

lemma js_trim_idem [simp]: "js_trim (js_trim s) = js_trim s"
  by (simp add: js_trim_def dropWhile_rev_dropWhile)

section \<open>Text of integers\<close>

fun digits_of :: "nat \<Rightarrow> nat \<Rightarrow> nat list" where
  "digits_of b n = (if b < 2 \<or> n < b then [n] else digits_of b (n div b) @ [n mod b])"

declare digits_of.simps [simp del]

definition digit_cu :: "nat \<Rightarrow> cu" where
  "digit_cu d = of_nat (if d < 10 then 48 + d else 87 + d)"

definition nat_text :: "nat \<Rightarrow> jstr" where
  "nat_text n = map digit_cu (digits_of 10 n)"

definition hex_text :: "nat \<Rightarrow> jstr" where
  "hex_text n = map digit_cu (digits_of 16 n)"

definition int_text :: "int \<Rightarrow> jstr" where
  "int_text i = (if i < 0 then 45 # nat_text (nat (- i)) else nat_text (nat i))"

definition digits_value :: "nat \<Rightarrow> nat list \<Rightarrow> nat" where
  "digits_value b ds = foldl (\<lambda>a d. a * b + d) 0 ds"

lemma digits_value_snoc [simp]: "digits_value b (ds @ [d]) = digits_value b ds * b + d"
  by (simp add: digits_value_def)

lemma digits_of_value [simp]: "digits_value b (digits_of b n) = n"
proof (induction b n rule: digits_of.induct)
  case (1 b n)
  then show ?case
    by (cases "b < 2 \<or> n < b") (auto simp: digits_of.simps [of b n] digits_value_def [of b "[n]"])
qed

lemma digits_of_less: "2 \<le> b \<Longrightarrow> d \<in> set (digits_of b n) \<Longrightarrow> d < b"
proof (induction b n rule: digits_of.induct)
  case (1 b n)
  then show ?case
    by (cases "n < b") (auto simp: digits_of.simps [of b n])
qed

lemma digits_of_nonempty [simp]: "digits_of b n \<noteq> []"
  by (subst digits_of.simps) simp

lemma digits_of_hd: "2 \<le> b \<Longrightarrow> 0 < n \<Longrightarrow> 0 < hd (digits_of b n)"
proof (induction b n rule: digits_of.induct)
  case (1 b n)
  then show ?case
    by (cases "n < b") (auto simp: digits_of.simps [of b n] div_greater_zero_iff)
qed

lemma digits_of_single: "n < b \<Longrightarrow> digits_of b n = [n]"
  by (simp add: digits_of.simps)

lemma unat_digit_cu: "d < 10 \<Longrightarrow> unat (digit_cu d) = 48 + d"
  by (simp only: digit_cu_def if_True unat_of_nat) (simp add: take_bit_nat_eq_self)

lemma unat_digit_cu_hex: "10 \<le> d \<Longrightarrow> d < 16 \<Longrightarrow> unat (digit_cu d) = 87 + d"
  by (simp only: digit_cu_def not_less [symmetric] if_False unat_of_nat) (simp add: take_bit_nat_eq_self)

section \<open>Sorting\<close>

text \<open>
  \<open>Array.prototype.sort\<close> and \<open>toSorted\<close> are stable; a comparator is a function to the
  integers. The interface below is what a comparator owes the sort. The default comparator (no
  argument given) compares code units; \<open>localeCompare\<close> is the collation of the host and a
  parameter of the model wherever the code calls it.
\<close>

fun sort_insert :: "('a \<Rightarrow> 'a \<Rightarrow> int) \<Rightarrow> 'a \<Rightarrow> 'a list \<Rightarrow> 'a list" where
  "sort_insert cmp x [] = [x]"
| "sort_insert cmp x (y # ys) = (if cmp x y \<le> 0 then x # y # ys else y # sort_insert cmp x ys)"

definition js_sort :: "('a \<Rightarrow> 'a \<Rightarrow> int) \<Rightarrow> 'a list \<Rightarrow> 'a list" where
  "js_sort cmp xs = foldr (sort_insert cmp) xs []"

lemma js_sort_simps [simp]:
  "js_sort cmp [] = []"
  "js_sort cmp (x # xs) = sort_insert cmp x (js_sort cmp xs)"
  by (simp_all add: js_sort_def)

lemma set_sort_insert [simp]: "set (sort_insert cmp x xs) = insert x (set xs)"
  by (induction xs) auto

lemma set_js_sort [simp]: "set (js_sort cmp xs) = set xs"
  by (induction xs) auto

lemma length_sort_insert [simp]: "length (sort_insert cmp x xs) = Suc (length xs)"
  by (induction xs) auto

lemma length_js_sort [simp]: "length (js_sort cmp xs) = length xs"
  by (induction xs) auto

lemma js_sort_eq_Nil [simp]: "js_sort cmp xs = [] \<longleftrightarrow> xs = []"
  by (metis length_0_conv length_js_sort)

lemma distinct_sort_insert [simp]: "distinct (sort_insert cmp x xs) \<longleftrightarrow> x \<notin> set xs \<and> distinct xs"
  by (induction xs) auto

lemma distinct_js_sort [simp]: "distinct (js_sort cmp xs) \<longleftrightarrow> distinct xs"
  by (induction xs) auto

lemma filter_sort_insert_other: "\<not> P x \<Longrightarrow> filter P (sort_insert cmp x xs) = filter P xs"
  by (induction xs) auto

locale comparator =
  fixes cmp :: "'a \<Rightarrow> 'a \<Rightarrow> int"
  assumes cmp_total: "cmp x y \<le> 0 \<or> cmp y x \<le> 0"
    and cmp_trans: "cmp x y \<le> 0 \<Longrightarrow> cmp y z \<le> 0 \<Longrightarrow> cmp x z \<le> 0"
begin

definition ordered :: "'a list \<Rightarrow> bool" where
  "ordered xs \<longleftrightarrow> sorted_wrt (\<lambda>x y. cmp x y \<le> 0) xs"

lemma ordered_insert: "ordered xs \<Longrightarrow> ordered (sort_insert cmp x xs)"
  by (induction xs) (auto simp: ordered_def dest: cmp_trans intro: cmp_total [THEN disjE])

lemma ordered_sort: "ordered (js_sort cmp xs)"
  by (induction xs) (auto simp: ordered_insert, simp add: ordered_def)

lemma sort_of_ordered: "ordered xs \<Longrightarrow> js_sort cmp xs = xs"
proof (induction xs)
  case (Cons x xs)
  then show ?case by (cases xs) (auto simp: ordered_def)
qed simp

lemma sort_idem: "js_sort cmp (js_sort cmp xs) = js_sort cmp xs"
  by (simp add: sort_of_ordered ordered_sort)

lemma comparator_key: "comparator (\<lambda>x y. cmp (f x) (f y))"
  by unfold_locales (use cmp_total in blast, use cmp_trans in blast)

lemma comparator_flip: "comparator (\<lambda>x y. cmp (f y) (f x))"
  by unfold_locales (use cmp_total in blast, use cmp_trans in blast)

end

definition default_compare :: "'a::linorder \<Rightarrow> 'a \<Rightarrow> int" where
  "default_compare x y = (if x < y then - 1 else if x = y then 0 else 1)"

lemma default_compare_le: "default_compare x y \<le> 0 \<longleftrightarrow> x \<le> y"
  by (auto simp: default_compare_def)

interpretation units: comparator "default_compare :: jstr \<Rightarrow> jstr \<Rightarrow> int"
  by unfold_locales (auto simp: default_compare_le)

lemma sorted_js_sort_units: "sorted (js_sort default_compare (xs :: jstr list))"
  using units.ordered_sort [of xs] by (simp add: units.ordered_def default_compare_le)

section \<open>Lists and options\<close>

fun find_index :: "('a \<Rightarrow> bool) \<Rightarrow> 'a list \<Rightarrow> nat option" where
  "find_index P [] = None"
| "find_index P (x # xs) = (if P x then Some 0 else map_option Suc (find_index P xs))"

lemma find_index_Some: "find_index P xs = Some i \<Longrightarrow> i < length xs \<and> P (xs ! i)"
  by (induction xs arbitrary: i) (auto split: if_splits)

lemma find_index_None: "find_index P xs = None \<longleftrightarrow> (\<forall>x \<in> set xs. \<not> P x)"
  by (induction xs) auto

lemma find_of_find_index: "find P xs = map_option (\<lambda>i. xs ! i) (find_index P xs)"
  by (induction xs) (auto simp: option.map_comp o_def)

definition nullish :: "'a option \<Rightarrow> 'a \<Rightarrow> 'a" where
  "nullish x d = (case x of Some v \<Rightarrow> v | None \<Rightarrow> d)"

lemma nullish_simps [simp]: "nullish None d = d" "nullish (Some v) d = v"
  by (simp_all add: nullish_def)

lemma map_list_update_same: "f y = f (xs ! i) \<Longrightarrow> map f (xs[i := y]) = map f xs"
  by (metis list_update_id map_update)

lemma find_append: "find P (xs @ ys) = (case find P xs of Some x \<Rightarrow> Some x | None \<Rightarrow> find P ys)"
  by (induction xs) auto

lemma find_Some_mem: "find P xs = Some x \<Longrightarrow> x \<in> set xs \<and> P x"
  by (induction xs) (auto split: if_splits)

lemma find_unique:
  assumes "distinct (map f xs)" "x \<in> set xs" shows "find (\<lambda>y. f y = f x) xs = Some x"
  using assms by (induction xs) (auto simp: image_iff)

end
