(* ===== verification/Js_Number.thy ===== *)
theory Js_Number
  imports Prelude "HOL-Library.Log_Nat"
begin

text \<open>
  The numbers of the language: IEEE 754 binary64 values. A finite value is kept as the rational
  it denotes, and every operation is the exact rational operation followed by rounding to nearest,
  ties to even (\<open>fl\<close>), with overflow to infinity. The two zeros are one value: no code under
  \<open>src/web\<close> tells them apart.
\<close>

section \<open>Values and rounding\<close>

datatype number = Fin rat | PInf | NInf | NaN

definition round_half_even :: "rat \<Rightarrow> int" where
  "round_half_even q =
     (let f = \<lfloor>q\<rfloor>; d = q - of_int f in
      if d < 1 / 2 then f else if 1 / 2 < d then f + 1 else if even f then f else f + 1)"

definition flog2 :: "rat \<Rightarrow> int" where
  "flog2 x = (case quotient_of x of (a, b) \<Rightarrow>
     let k = bitlen a - bitlen b in if 2 powi k \<le> x then k else k - 1)"

definition fl_limit :: rat where
  "fl_limit = 2 ^ 1024"

definition fl :: "rat \<Rightarrow> number" where
  "fl q =
     (if q = 0 then Fin 0
      else let u = 2 powi (max (flog2 \<bar>q\<bar> - 52) (- 1074));
               r = of_int (round_half_even (q / u)) * u
           in if fl_limit \<le> r then PInf else if r \<le> - fl_limit then NInf else Fin r)"

abbreviation num :: "int \<Rightarrow> number" where
  "num i \<equiv> Fin (of_int i)"

definition safe_int :: "int \<Rightarrow> bool" where
  "safe_int i \<longleftrightarrow> \<bar>i\<bar> < 2 ^ 53"

lemma round_half_even_of_int [simp, num_simps]: "round_half_even (of_int i) = i"
  by (simp add: round_half_even_def)

lemma flog2_le:
  assumes "0 < x" shows "2 powi (flog2 x) \<le> x"
proof -
  obtain a b where q: "quotient_of x = (a, b)" by fastforce
  define k where "k = bitlen a - bitlen b"
  have b: "0 < b" using q by (rule quotient_of_denom_pos)
  have x: "x = of_int a / of_int b" using q by (rule quotient_of_div)
  with assms b have a: "0 < a" by (simp add: zero_less_divide_iff)
  have ba: "2 ^ nat (bitlen a - 1) \<le> a" and bb: "b < 2 ^ nat (bitlen b)"
    using bitlen_bounds [OF a] bitlen_bounds [OF b] by auto
  have nn: "0 \<le> bitlen a - 1" "0 \<le> bitlen b"
    using a bitlen_eq_zero_iff [of a] bitlen_nonneg [of a] bitlen_nonneg [of b] by linarith+
  have "(2 :: rat) powi (bitlen a - 1) = of_int (2 ^ nat (bitlen a - 1))"
    using nn(1) by (simp add: power_int_def)
  then have 1: "(2 :: rat) powi (bitlen a - 1) \<le> of_int a"
    using ba by (simp only: of_int_le_iff)
  have "(2 :: rat) powi (bitlen b) = of_int (2 ^ nat (bitlen b))"
    using nn(2) by (simp add: power_int_def)
  then have 2: "of_int b < (2 :: rat) powi (bitlen b)"
    using bb by (simp only: of_int_less_iff)
  have "(2 :: rat) powi (k - 1) * of_int b \<le> 2 powi (k - 1) * 2 powi (bitlen b)"
    using 2 by (intro mult_left_mono) auto
  also have "\<dots> = 2 powi (bitlen a - 1)"
    by (simp add: k_def flip: power_int_add)
  also note 1
  finally have "2 powi (k - 1) \<le> x"
    using b by (simp add: x pos_le_divide_eq)
  then show ?thesis
    by (simp add: flog2_def q k_def Let_def)
qed

lemma round_scaled_int:
  assumes "\<bar>of_int i\<bar> = y" "flog2 y \<le> 52"
  shows "of_int (round_half_even (of_int i / 2 powi (max (flog2 y - 52) (- 1074))))
           * 2 powi (max (flog2 y - 52) (- 1074)) = (of_int i :: rat)"
proof -
  define e where "e = max (flog2 y - 52) (- 1074)"
  have "e \<le> 0" using assms(2) by (simp add: e_def)
  then have "(of_int i :: rat) / 2 powi e = of_int (i * 2 ^ nat (- e))"
    by (simp add: power_int_def field_simps)
  then have "of_int (round_half_even ((of_int i :: rat) / 2 powi e)) = (of_int i :: rat) / 2 powi e"
    by (simp only: round_half_even_of_int)
  then show ?thesis by (simp add: e_def)
qed

lemma fl_int [simp, num_simps]:
  assumes "safe_int i" shows "fl (of_int i) = num i"
proof (cases "i = 0")
  case False
  define y where "y = \<bar>of_int i :: rat\<bar>"
  have "2 powi (flog2 y) \<le> y" using False by (intro flog2_le) (simp add: y_def)
  also have "y < 2 ^ 53"
  proof -
    have "of_int \<bar>i\<bar> < (of_int (2 ^ 53) :: rat)" using assms by (simp only: of_int_less_iff safe_int_def)
    then show ?thesis by (simp add: y_def)
  qed
  finally have lt: "(2 :: rat) powi (flog2 y) < 2 powi 53" by simp
  have "flog2 y \<le> 52"
  proof (rule ccontr)
    assume "\<not> flog2 y \<le> 52"
    then have "(2 :: rat) powi 53 \<le> 2 powi (flog2 y)" by (intro power_int_increasing) auto
    with lt show False by simp
  qed
  note r = round_scaled_int [OF y_def [symmetric] this]
  have "(2 :: rat) ^ 53 \<le> fl_limit" unfolding fl_limit_def by (rule power_increasing) auto
  with \<open>y < 2 ^ 53\<close> have "\<not> fl_limit \<le> of_int i" "\<not> of_int i \<le> - fl_limit"
    by (auto simp: y_def)
  moreover have "of_int i \<noteq> (0 :: rat)" using False by simp
  ultimately show ?thesis
    by (simp only: fl_def Let_def y_def [symmetric] r if_False)
qed (simp add: fl_def)

section \<open>Operators\<close>

fun js_neg :: "number \<Rightarrow> number" where
  "js_neg (Fin x) = Fin (- x)"
| "js_neg PInf = NInf"
| "js_neg NInf = PInf"
| "js_neg NaN = NaN"

fun js_add :: "number \<Rightarrow> number \<Rightarrow> number" where
  "js_add (Fin x) (Fin y) = fl (x + y)"
| "js_add NaN _ = NaN"
| "js_add _ NaN = NaN"
| "js_add PInf NInf = NaN"
| "js_add NInf PInf = NaN"
| "js_add PInf _ = PInf"
| "js_add _ PInf = PInf"
| "js_add NInf _ = NInf"
| "js_add _ NInf = NInf"

definition js_sub :: "number \<Rightarrow> number \<Rightarrow> number" where
  "js_sub x y = js_add x (js_neg y)"

definition signed_inf :: "rat \<Rightarrow> number" where
  "signed_inf x = (if x = 0 then NaN else if 0 < x then PInf else NInf)"

fun js_mul :: "number \<Rightarrow> number \<Rightarrow> number" where
  "js_mul (Fin x) (Fin y) = fl (x * y)"
| "js_mul NaN _ = NaN"
| "js_mul _ NaN = NaN"
| "js_mul PInf (Fin y) = signed_inf y"
| "js_mul (Fin x) PInf = signed_inf x"
| "js_mul NInf (Fin y) = signed_inf (- y)"
| "js_mul (Fin x) NInf = signed_inf (- x)"
| "js_mul PInf PInf = PInf"
| "js_mul NInf NInf = PInf"
| "js_mul _ _ = NInf"

text \<open>Every divisor in the sources is a positive constant.\<close>

fun js_div_pos :: "number \<Rightarrow> rat \<Rightarrow> number" where
  "js_div_pos (Fin x) d = fl (x / d)"
| "js_div_pos y d = y"

fun js_lt :: "number \<Rightarrow> number \<Rightarrow> bool" where
  "js_lt (Fin x) (Fin y) \<longleftrightarrow> x < y"
| "js_lt NaN _ \<longleftrightarrow> False"
| "js_lt _ NaN \<longleftrightarrow> False"
| "js_lt NInf y \<longleftrightarrow> y \<noteq> NInf"
| "js_lt x PInf \<longleftrightarrow> x \<noteq> PInf"
| "js_lt _ _ \<longleftrightarrow> False"

definition js_num_eq :: "number \<Rightarrow> number \<Rightarrow> bool" where
  "js_num_eq x y \<longleftrightarrow> x = y \<and> x \<noteq> NaN"

definition js_le :: "number \<Rightarrow> number \<Rightarrow> bool" where
  "js_le x y \<longleftrightarrow> js_lt x y \<or> js_num_eq x y"

fun js_is_integer :: "number \<Rightarrow> bool" where
  "js_is_integer (Fin x) \<longleftrightarrow> of_int \<lfloor>x\<rfloor> = x"
| "js_is_integer _ \<longleftrightarrow> False"

text \<open>\<open>Number.isSafeInteger\<close>, and the truth value of a number.\<close>

fun js_is_safe :: "number \<Rightarrow> bool" where
  "js_is_safe (Fin x) \<longleftrightarrow> of_int \<lfloor>x\<rfloor> = x \<and> safe_int \<lfloor>x\<rfloor>"
| "js_is_safe _ \<longleftrightarrow> False"

definition num_truthy :: "number \<Rightarrow> bool" where
  "num_truthy x \<longleftrightarrow> x \<noteq> Fin 0 \<and> x \<noteq> NaN"

fun js_floor :: "number \<Rightarrow> number" where
  "js_floor (Fin x) = num \<lfloor>x\<rfloor>"
| "js_floor x = x"

text \<open>\<open>Math.round\<close>: the nearest integer, ties towards plus infinity.\<close>

fun js_round :: "number \<Rightarrow> number" where
  "js_round (Fin x) = num \<lfloor>x + 1 / 2\<rfloor>"
| "js_round x = x"

lemma js_le_Fin [simp, num_simps]: "js_le (Fin x) (Fin y) \<longleftrightarrow> x \<le> y"
  by (auto simp: js_le_def js_num_eq_def)

lemma js_num_eq_Fin [simp, num_simps]: "js_num_eq (Fin x) (Fin y) \<longleftrightarrow> x = y"
  by (simp add: js_num_eq_def)

lemma js_is_integer_num [simp, num_simps]: "js_is_integer (num i)"
  by simp

lemma js_add_num [simp, num_simps]: "safe_int (i + j) \<Longrightarrow> js_add (num i) (num j) = num (i + j)"
  by (metis fl_int js_add.simps(1) of_int_add)

lemma js_mul_num [simp, num_simps]: "safe_int (i * j) \<Longrightarrow> js_mul (num i) (num j) = num (i * j)"
  by (metis fl_int js_mul.simps(1) of_int_mult)

section \<open>Decimal text\<close>

text \<open>
  \<open>Number::toString\<close> prints the shortest decimal that reads back to the same value: the least
  digit count \<open>k \<le> 17\<close> for which some \<open>k\<close>-digit integer \<open>s\<close> and exponent round to it, the
  \<open>s\<close> nearest to the value when there are several.
\<close>

definition flog10 :: "rat \<Rightarrow> int" where
  "flog10 x = (case quotient_of x of (a, b) \<Rightarrow>
     let k = int (length (digits_of 10 (nat a))) - int (length (digits_of 10 (nat b)))
     in if 10 powi k \<le> x then k else k - 1)"

definition round_half_up :: "rat \<Rightarrow> int" where
  "round_half_up q = \<lfloor>q + 1 / 2\<rfloor>"

definition shortest_at :: "rat \<Rightarrow> nat \<Rightarrow> (int \<times> int) option" where
  "shortest_at x k =
     (let n = flog10 x + 1; t = 10 powi (int k - n); s = round_half_even (x * t)
      in if fl (of_int s / t) \<noteq> Fin x then None
         else if s = 10 ^ k then Some (10 ^ (k - 1), n + 1) else Some (s, n))"

definition shortest :: "rat \<Rightarrow> (nat \<times> int \<times> int) option" where
  "shortest x =
     (case find (\<lambda>k. shortest_at x k \<noteq> None) [1..<18] of
        Some k \<Rightarrow> map_option (\<lambda>(s, n). (k, s, n)) (shortest_at x k) | None \<Rightarrow> None)"

definition pos_text :: "rat \<Rightarrow> jstr" where
  "pos_text x =
     (case shortest x of
        None \<Rightarrow> []
      | Some (k, s, n) \<Rightarrow>
          let ds = nat_text (nat s); i = int k in
          if i \<le> n \<and> n \<le> 21 then ds @ replicate (nat (n - i)) 48
          else if 0 < n \<and> n \<le> 21 then take (nat n) ds @ [46] @ drop (nat n) ds
          else if - 6 < n \<and> n \<le> 0 then [48, 46] @ replicate (nat (- n)) 48 @ ds
          else (take 1 ds @ (if k = 1 then [] else 46 # drop 1 ds)) @ [101]
               @ (if n - 1 < 0 then [45] else [43]) @ nat_text (nat \<bar>n - 1\<bar>))"

text \<open>Integers below \<open>2 ^ 53\<close> print as their decimal digits.\<close>

definition rat_text :: "rat \<Rightarrow> jstr" where
  "rat_text x =
     (if of_int \<lfloor>x\<rfloor> = x \<and> safe_int \<lfloor>x\<rfloor> then int_text \<lfloor>x\<rfloor>
      else if x < 0 then 45 # pos_text (- x) else pos_text x)"

fun number_text :: "number \<Rightarrow> jstr" where
  "number_text (Fin x) = rat_text x"
| "number_text PInf = lit ''Infinity''"
| "number_text NInf = lit ''-Infinity''"
| "number_text NaN = lit ''NaN''"

text \<open>\<open>toFixed\<close> for values below \<open>10 ^ 21\<close>; larger ones print as \<open>toString\<close> does.\<close>

definition to_fixed_pos :: "nat \<Rightarrow> rat \<Rightarrow> jstr" where
  "to_fixed_pos f x =
     (let ds = str_pad_start (Suc f) 48 (nat_text (nat (round_half_up (x * 10 ^ f))));
          k = length ds - f
      in if f = 0 then ds else take k ds @ [46] @ drop k ds)"

fun to_fixed :: "nat \<Rightarrow> number \<Rightarrow> jstr" where
  "to_fixed f (Fin x) =
     (if 10 ^ 21 \<le> \<bar>x\<bar> then rat_text x
      else if x < 0 then 45 # to_fixed_pos f (- x) else to_fixed_pos f x)"
| "to_fixed f x = number_text x"

lemma rat_text_int [simp, num_simps]: "safe_int i \<Longrightarrow> rat_text (of_int i) = int_text i"
  by (simp add: rat_text_def)

end
