(* ===== verification/Js_Json.thy ===== *)
theory Js_Json
  imports Js_Number
begin

text \<open>
  Values that cross the wire: JSON trees with the language's objects (own properties in their
  enumeration order: array-index keys ascending, then the other keys in insertion order),
  \<open>JSON.stringify\<close> with and without indentation, and \<open>JSON.parse\<close>. The parser carries fuel;
  \<open>json_parse\<close> gives it \<open>2 * length + 2\<close>, which \<open>pval_fuel\<close> shows to be as good as any
  larger amount. The round trip \<open>json_roundtrip\<close> is what the form and token components rest on.
\<close>

section \<open>Objects\<close>

type_synonym 'v obj = "(jstr \<times> 'v) list"

definition is_digit :: "cu \<Rightarrow> bool" where
  "is_digit c \<longleftrightarrow> 48 \<le> c \<and> c \<le> 57"

definition digit_value :: "cu \<Rightarrow> nat" where
  "digit_value c = unat c - 48"

definition array_index :: "jstr \<Rightarrow> nat option" where
  "array_index k =
     (let n = digits_value 10 (map digit_value k) in
      if list_all is_digit k \<and> k \<noteq> [] \<and> (hd k \<noteq> 48 \<or> k = [48]) \<and> length k \<le> 10 \<and> n < 2 ^ 32 - 1
      then Some n else None)"

definition key_before :: "jstr \<Rightarrow> jstr \<Rightarrow> bool" where
  "key_before k k' \<longleftrightarrow>
     (case (array_index k, array_index k') of
        (Some i, Some j) \<Rightarrow> i < j | (None, Some j) \<Rightarrow> False | _ \<Rightarrow> True)"

definition obj_keys :: "'v obj \<Rightarrow> jstr list" where
  "obj_keys ob = map fst ob"

definition obj_get :: "'v obj \<Rightarrow> jstr \<Rightarrow> 'v option" where
  "obj_get ob k = map_of ob k"

definition obj_put :: "jstr \<Rightarrow> 'v \<Rightarrow> 'v obj \<Rightarrow> 'v obj" where
  "obj_put k v ob =
     (if k \<in> set (obj_keys ob) then map (\<lambda>(k', v'). if k' = k then (k', v) else (k', v')) ob
      else case array_index k of
        None \<Rightarrow> ob @ [(k, v)]
      | Some i \<Rightarrow> (let lower = (\<lambda>(k', v'). array_index k' \<noteq> None \<and> key_before k' k)
                  in takeWhile lower ob @ (k, v) # dropWhile lower ob))"

definition obj_of_list :: "(jstr \<times> 'v) list \<Rightarrow> 'v obj" where
  "obj_of_list kvs = foldl (\<lambda>ob (k, v). obj_put k v ob) [] kvs"

definition canon_keys :: "jstr list \<Rightarrow> bool" where
  "canon_keys ks \<longleftrightarrow> distinct ks \<and> sorted_wrt key_before ks"

lemma obj_put_append:
  assumes "canon_keys (obj_keys ob @ [k])" shows "obj_put k v ob = ob @ [(k, v)]"
proof (cases "array_index k")
  case (Some i)
  have "array_index k' \<noteq> None \<and> key_before k' k" if "(k', v') \<in> set ob" for k' v'
  proof -
    from that have "k' \<in> fst ` set ob" by force
    then have "key_before k' k" using assms
      by (auto simp: canon_keys_def sorted_wrt_append obj_keys_def)
    then show ?thesis using Some by (auto simp: key_before_def split: option.splits)
  qed
  then have all: "\<forall>p \<in> set ob. (\<lambda>(k', v'). array_index k' \<noteq> None \<and> key_before k' k) p" by auto
  have "k \<notin> set (obj_keys ob)" using assms by (auto simp: canon_keys_def)
  then show ?thesis
    using Some takeWhile_eq_all_conv [of _ ob, THEN iffD2, OF all]
      dropWhile_eq_Nil_conv [of _ ob, THEN iffD2, OF all]
    by (simp add: obj_put_def Let_def)
qed (use assms in \<open>auto simp: obj_put_def canon_keys_def\<close>)

lemma obj_of_list_snoc [simp]: "obj_of_list (kvs @ [(k, v)]) = obj_put k v (obj_of_list kvs)"
  by (simp add: obj_of_list_def)

lemma canon_keys_butlast: "canon_keys (ks @ ls) \<Longrightarrow> canon_keys ks"
  by (auto simp: canon_keys_def sorted_wrt_append)

text \<open>Literal keys that do not start with a digit need no reordering.\<close>

lemma array_index_lit: "s \<noteq> [] \<Longrightarrow> \<not> is_digit (of_char (hd s)) \<Longrightarrow> array_index (lit s) = None"
  by (cases s) (auto simp: array_index_def lit_def Let_def)

lemma canon_lits:
  assumes "distinct ss" "list_all (\<lambda>s. s \<noteq> [] \<and> \<not> is_digit (of_char (hd s))) ss"
  shows "canon_keys (map lit ss)"
proof -
  have "key_before x y" if "x \<in> set (map lit ss)" "y \<in> set (map lit ss)" for x y
    using that assms(2) by (force simp: key_before_def list_all_iff array_index_lit)
  then have "sorted_wrt key_before (map lit ss)" by (simp add: sorted_wrt_iff_nth_less)
  then show ?thesis using assms(1) by (simp add: canon_keys_def distinct_map inj_on_def)
qed

lemma obj_of_list_canon:
  assumes "canon_keys (map fst kvs)" shows "obj_of_list kvs = kvs"
  using assms
proof (induction kvs rule: rev_induct)
  case (snoc p kvs)
  obtain k v where p: "p = (k, v)" by fastforce
  have "obj_of_list kvs = kvs"
    by (rule snoc.IH) (use snoc.prems canon_keys_butlast in auto)
  then show ?case
    using snoc.prems by (simp add: p obj_put_append obj_keys_def)
qed (simp add: obj_of_list_def)

section \<open>JSON values\<close>

datatype json =
    JNull
  | JBool bool
  | JNum number
  | JStr jstr
  | JArr "json list"
  | JObj "json obj"

section \<open>JSON.stringify\<close>

definition is_high :: "cu \<Rightarrow> bool" where
  "is_high c \<longleftrightarrow> 0xD800 \<le> c \<and> c \<le> 0xDBFF"

definition is_low :: "cu \<Rightarrow> bool" where
  "is_low c \<longleftrightarrow> 0xDC00 \<le> c \<and> c \<le> 0xDFFF"

definition u_escape :: "cu \<Rightarrow> jstr" where
  "u_escape c =
     (let n = unat c in
      92 # 117 # map digit_cu [n div 4096, n div 256 mod 16, n div 16 mod 16, n mod 16])"

definition quote_unit :: "cu \<Rightarrow> jstr" where
  "quote_unit c =
     (if c = 34 then [92, 34] else if c = 92 then [92, 92]
      else if c = 8 then [92, 98] else if c = 9 then [92, 116] else if c = 10 then [92, 110]
      else if c = 12 then [92, 102] else if c = 13 then [92, 114]
      else if c < 32 then u_escape c else [c])"

fun quote_units :: "jstr \<Rightarrow> jstr" where
  "quote_units [] = []"
| "quote_units [c] = (if is_high c \<or> is_low c then u_escape c else quote_unit c)"
| "quote_units (c # d # s) =
     (if is_high c \<and> is_low d then c # d # quote_units s
      else (if is_high c \<or> is_low c then u_escape c else quote_unit c) @ quote_units (d # s))"

definition json_quote :: "jstr \<Rightarrow> jstr" where
  "json_quote s = 34 # quote_units s @ [34]"

text \<open>Items between brackets: on one line without a gap, one line each with a gap.\<close>

definition bracketed :: "cu \<Rightarrow> cu \<Rightarrow> jstr \<Rightarrow> jstr \<Rightarrow> jstr list \<Rightarrow> jstr" where
  "bracketed lb rb gap ind items =
     (if items = [] then [lb, rb]
      else if gap = [] then lb # str_join [44] items @ [rb]
      else lb # 10 # (ind @ gap) @ str_join (44 # 10 # ind @ gap) items @ 10 # ind @ [rb])"

definition json_number :: "number \<Rightarrow> jstr" where
  "json_number x = (case x of Fin q \<Rightarrow> rat_text q | _ \<Rightarrow> lit ''null'')"

fun json_text :: "jstr \<Rightarrow> jstr \<Rightarrow> json \<Rightarrow> jstr" where
  "json_text gap ind JNull = lit ''null''"
| "json_text gap ind (JBool b) = (if b then lit ''true'' else lit ''false'')"
| "json_text gap ind (JNum x) = json_number x"
| "json_text gap ind (JStr s) = json_quote s"
| "json_text gap ind (JArr xs) =
     bracketed 91 93 gap ind (map (json_text gap (ind @ gap)) xs)"
| "json_text gap ind (JObj ob) =
     bracketed 123 125 gap ind
       (map (\<lambda>(k, v). json_quote k @ (if gap = [] then [58] else [58, 32]) @ json_text gap (ind @ gap) v) ob)"

definition json_stringify :: "json \<Rightarrow> jstr" where
  "json_stringify v = json_text [] [] v"

definition json_pretty :: "json \<Rightarrow> jstr" where
  "json_pretty v = json_text [32, 32] [] v"

section \<open>JSON.parse\<close>

definition json_ws :: "cu \<Rightarrow> bool" where
  "json_ws c \<longleftrightarrow> c = 32 \<or> c = 10 \<or> c = 9 \<or> c = 13"

definition skip_ws :: "jstr \<Rightarrow> jstr" where
  "skip_ws s = dropWhile json_ws s"

definition hex_value :: "cu \<Rightarrow> nat option" where
  "hex_value c =
     (if is_digit c then Some (unat c - 48)
      else if 97 \<le> c \<and> c \<le> 102 then Some (unat c - 87)
      else if 65 \<le> c \<and> c \<le> 70 then Some (unat c - 55) else None)"

fun hex4 :: "jstr \<Rightarrow> (cu \<times> jstr) option" where
  "hex4 (a # b # c # d # r) =
     (case (hex_value a, hex_value b, hex_value c, hex_value d) of
        (Some i, Some j, Some k, Some l) \<Rightarrow> Some (of_nat (((i * 16 + j) * 16 + k) * 16 + l), r)
      | _ \<Rightarrow> None)"
| "hex4 _ = None"

definition simple_escape :: "cu \<Rightarrow> cu option" where
  "simple_escape c =
     (if c = 34 \<or> c = 92 \<or> c = 47 then Some c else if c = 98 then Some 8 else if c = 102 then Some 12
      else if c = 110 then Some 10 else if c = 114 then Some 13 else if c = 116 then Some 9 else None)"

text \<open>The rest of a string literal, after the opening quote.\<close>

function pstr :: "jstr \<Rightarrow> (jstr \<times> jstr) option" where
  "pstr [] = None"
| "pstr (c # s) =
     (if c = 34 then Some ([], s)
      else if c = 92 then
        (case s of
           [] \<Rightarrow> None
         | e # r \<Rightarrow>
             if e = 117 then (case hex4 r of None \<Rightarrow> None
               | Some (u, r') \<Rightarrow> (if length r' < length r then map_option (apfst ((#) u)) (pstr r') else None))
             else (case simple_escape e of None \<Rightarrow> None | Some u \<Rightarrow> map_option (apfst ((#) u)) (pstr r)))
      else if c < 32 then None
      else map_option (apfst ((#) c)) (pstr s))"
  by pat_completeness auto
termination by (relation "measure length") auto

declare pstr.simps(2) [simp del]

definition span :: "('a \<Rightarrow> bool) \<Rightarrow> 'a list \<Rightarrow> 'a list \<times> 'a list" where
  "span P s = (takeWhile P s, dropWhile P s)"

definition nat_of_units :: "jstr \<Rightarrow> nat" where
  "nat_of_units s = digits_value 10 (map digit_value s)"

definition pfrac :: "jstr \<Rightarrow> (jstr \<times> jstr) option" where
  "pfrac s =
     (case s of
        [] \<Rightarrow> Some ([], s)
      | c # r \<Rightarrow>
          if c = 46 then (case span is_digit r of (ds, r') \<Rightarrow> if ds = [] then None else Some (ds, r'))
          else Some ([], s))"

definition pexp :: "jstr \<Rightarrow> (int \<times> jstr) option" where
  "pexp s =
     (case s of
        [] \<Rightarrow> Some (0, s)
      | c # r \<Rightarrow>
          if c = 101 \<or> c = 69 then
            (let (sg, r1) = (case r of [] \<Rightarrow> (1, r) | d # r' \<Rightarrow> if d = 43 then (1, r') else if d = 45 then (- 1, r') else (1, r));
                 (ds, r2) = span is_digit r1
             in if ds = [] then None else Some (sg * int (nat_of_units ds), r2))
          else Some (0, s))"

definition pint :: "jstr \<Rightarrow> (jstr \<times> jstr) option" where
  "pint s = (case span is_digit s of (ds, r) \<Rightarrow>
     if ds = [] then None else if hd ds = 48 then Some ([48], tl s) else Some (ds, r))"

definition pnumber :: "jstr \<Rightarrow> (json \<times> jstr) option" where
  "pnumber s =
     (let (neg, s0) = (case s of [] \<Rightarrow> (False, s) | c # r \<Rightarrow> if c = 45 then (True, r) else (False, s)) in
      case pint s0 of None \<Rightarrow> None
      | Some (ds, s1) \<Rightarrow>
          (case pfrac s1 of None \<Rightarrow> None
           | Some (fs, s2) \<Rightarrow>
               (case pexp s2 of None \<Rightarrow> None
                | Some (e, s3) \<Rightarrow>
                    let m = of_nat (nat_of_units (ds @ fs)) * 10 powi (e - int (length fs))
                    in Some (JNum (fl (if neg then - m else m)), s3))))"

definition pword :: "jstr \<Rightarrow> (json \<times> jstr) option" where
  "pword s =
     (if str_starts_with (lit ''null'') s then Some (JNull, drop 4 s)
      else if str_starts_with (lit ''true'') s then Some (JBool True, drop 4 s)
      else if str_starts_with (lit ''false'') s then Some (JBool False, drop 5 s)
      else None)"

fun pval :: "nat \<Rightarrow> jstr \<Rightarrow> (json \<times> jstr) option"
  and parr :: "nat \<Rightarrow> json list \<Rightarrow> jstr \<Rightarrow> (json \<times> jstr) option"
  and pobj :: "nat \<Rightarrow> json obj \<Rightarrow> jstr \<Rightarrow> (json \<times> jstr) option" where
  "pval 0 s = None"
| "pval (Suc n) s =
     (case skip_ws s of
        [] \<Rightarrow> None
      | c # t \<Rightarrow>
          if c = 123 then (if take 1 (skip_ws t) = [125] then Some (JObj [], tl (skip_ws t)) else pobj n [] t)
          else if c = 91 then (if take 1 (skip_ws t) = [93] then Some (JArr [], tl (skip_ws t)) else parr n [] t)
          else if c = 34 then map_option (apfst JStr) (pstr t)
          else if c = 45 \<or> is_digit c then pnumber (c # t)
          else pword (c # t))"
| "parr 0 acc s = None"
| "parr (Suc n) acc s =
     (case pval n s of
        None \<Rightarrow> None
      | Some (v, r) \<Rightarrow>
          (case skip_ws r of
             [] \<Rightarrow> None
           | c # r' \<Rightarrow> if c = 44 then parr n (acc @ [v]) r'
                       else if c = 93 then Some (JArr (acc @ [v]), r') else None))"
| "pobj 0 acc s = None"
| "pobj (Suc n) acc s =
     (case skip_ws s of
        [] \<Rightarrow> None
      | q # t \<Rightarrow>
          if q \<noteq> 34 then None
          else (case pstr t of
             None \<Rightarrow> None
           | Some (k, r0) \<Rightarrow>
               (case skip_ws r0 of
                  [] \<Rightarrow> None
                | d # r1 \<Rightarrow>
                    if d \<noteq> 58 then None
                    else (case pval n r1 of
                       None \<Rightarrow> None
                     | Some (v, r) \<Rightarrow>
                         (case skip_ws r of
                            [] \<Rightarrow> None
                          | c # r' \<Rightarrow> if c = 44 then pobj n (obj_put k v acc) r'
                                      else if c = 125 then Some (JObj (obj_put k v acc), r') else None)))))"

definition json_parse :: "jstr \<Rightarrow> json option" where
  "json_parse s =
     (case pval (2 * length s + 2) s of
        Some (v, r) \<Rightarrow> if skip_ws r = [] then Some v else None
      | None \<Rightarrow> None)"

section \<open>Round trip\<close>

subsection \<open>Strings\<close>

lemma cu_cases_le:
  fixes c :: cu shows "a \<le> c \<longleftrightarrow> unat a \<le> unat c" "a < c \<longleftrightarrow> unat a < unat c"
  by (simp_all add: word_le_nat_alt word_less_nat_alt)

lemma digit_cu_less: "d < 10 \<Longrightarrow> is_digit (digit_cu d)"
  by (simp add: is_digit_def cu_cases_le unat_digit_cu)

lemma hex_value_digit_cu: "d < 16 \<Longrightarrow> hex_value (digit_cu d) = Some d"
  by (cases "d < 10") (auto simp: hex_value_def is_digit_def cu_cases_le unat_digit_cu unat_digit_cu_hex)

lemma nibbles: "(((n :: nat) div 4096 * 16 + n div 256 mod 16) * 16 + n div 16 mod 16) * 16 + n mod 16 = n"
proof -
  have "n div 4096 = n div 16 div 16 div 16" "n div 256 = n div 16 div 16"
    by (simp_all add: div_mult2_eq [symmetric])
  then show ?thesis by (simp only: div_mult_mod_eq)
qed

lemma hex4_digits:
  assumes "i < 16" "j < 16" "k < 16" "l < 16"
  shows "hex4 (map digit_cu [i, j, k, l] @ r) = Some (of_nat (((i * 16 + j) * 16 + k) * 16 + l), r)"
  by (simp only: list.map append.simps hex4.simps assms [THEN hex_value_digit_cu] prod.case option.case)

lemma pstr_u_escape: "pstr (u_escape c @ r) = map_option (apfst ((#) c)) (pstr r)"
proof -
  define n where "n = unat c"
  define ds where "ds = map digit_cu [n div 4096, n div 256 mod 16, n div 16 mod 16, n mod 16]"
  have "n < 65536" using unsigned_less [of c, where ?'a = nat] by (simp add: n_def)
  then have "n div 4096 < 16" by (simp add: div_less_iff_less_mult)
  then have "hex4 (ds @ r) = Some (of_nat n, r)"
    unfolding ds_def nibbles [of n, symmetric, THEN arg_cong [of _ _ of_nat]]
    by (intro hex4_digits) simp_all
  then have "hex4 (ds @ r) = Some (c, r)" by (simp add: n_def)
  moreover have "u_escape c = 92 # 117 # ds" "length r < length (ds @ r)"
    by (simp_all add: u_escape_def n_def ds_def Let_def)
  ultimately show ?thesis by (simp add: pstr.simps(2))
qed

lemma pstr_quote_unit: "pstr (quote_unit c @ r) = map_option (apfst ((#) c)) (pstr r)"
  by (simp add: quote_unit_def pstr_u_escape) (auto simp: pstr.simps(2) simple_escape_def)

lemma pstr_plain: "32 \<le> unat c \<Longrightarrow> c \<noteq> 34 \<Longrightarrow> c \<noteq> 92 \<Longrightarrow> pstr (c # r) = map_option (apfst ((#) c)) (pstr r)"
  by (simp add: pstr.simps(2) cu_cases_le)

lemma pstr_surrogate: "is_high c \<or> is_low c \<Longrightarrow> pstr (c # r) = map_option (apfst ((#) c)) (pstr r)"
  by (rule pstr_plain) (auto simp: is_high_def is_low_def cu_cases_le)

lemma pstr_quote_units: "pstr (quote_units s @ 34 # r) = Some (s, r)"
proof (induction s rule: quote_units.induct)
  case (3 c d s)
  then show ?case
    by (auto simp: pstr_surrogate pstr_quote_unit pstr_u_escape)
qed (auto simp: pstr_quote_unit pstr_u_escape pstr.simps(2))

subsection \<open>Numbers\<close>

definition delim :: "jstr \<Rightarrow> bool" where
  "delim r \<longleftrightarrow> r = [] \<or> hd r \<in> {44, 93, 125, 10}"

lemma delim_simps [simp]: "delim []" "delim (c # r) \<longleftrightarrow> c \<in> {44, 93, 125, 10}"
  by (auto simp: delim_def)

lemma digit_value_digit_cu: "d < 10 \<Longrightarrow> digit_value (digit_cu d) = d"
  by (simp add: digit_value_def unat_digit_cu)

lemma nat_text_digits: "c \<in> set (nat_text n) \<Longrightarrow> is_digit c"
  by (auto simp: nat_text_def dest!: digits_of_less [rotated] intro: digit_cu_less)

lemma nat_of_units_nat_text [simp]: "nat_of_units (nat_text n) = n"
proof -
  have "map digit_value (nat_text n) = digits_of 10 n"
    by (auto simp: nat_text_def intro!: map_idI digit_value_digit_cu dest: digits_of_less [rotated])
  then show ?thesis by (simp add: nat_of_units_def)
qed

lemma delim_not_digit: "delim r \<Longrightarrow> r = [] \<or> \<not> is_digit (hd r)"
  by (auto simp: delim_def is_digit_def)

lemma span_nat_text: "delim r \<Longrightarrow> span is_digit (nat_text n @ r) = (nat_text n, r)"
  using delim_not_digit [of r] nat_text_digits [of _ n]
  by (cases r) (simp_all add: span_def takeWhile_append2 dropWhile_append2)

lemma nat_text_nonempty [simp]: "nat_text n \<noteq> []"
  by (simp add: nat_text_def)

lemma hd_nat_text_zero: "hd (nat_text n) = 48 \<Longrightarrow> nat_text n = [48]"
proof (cases "n = 0")
  case False
  assume h: "hd (nat_text n) = 48"
  have lt: "hd (digits_of 10 n) < 10"
    by (rule digits_of_less [of _ _ n]) simp_all
  have "unat (digit_cu (hd (digits_of 10 n))) = 48"
    using h by (simp add: nat_text_def hd_map)
  with lt have "hd (digits_of 10 n) = 0" by (simp add: unat_digit_cu)
  with False digits_of_hd [of 10 n] show ?thesis by simp
qed (simp add: nat_text_def digits_of_single digit_cu_def)

lemma pint_nat_text: "delim r \<Longrightarrow> pint (nat_text n @ r) = Some (nat_text n, r)"
  using hd_nat_text_zero [of n] by (auto simp: pint_def span_nat_text)

lemma pnumber_nat_text:
  assumes "delim r" "safe_int (int n)"
  shows "pnumber (nat_text n @ r) = Some (JNum (num (int n)), r)"
    and "pnumber (45 # nat_text n @ r) = Some (JNum (num (- int n)), r)"
proof -
  obtain c t where ct: "nat_text n = c # t" by (cases "nat_text n") auto
  then have c: "c \<noteq> 45" using nat_text_digits [of c n] by (auto simp: is_digit_def)
  have fr: "pfrac r = Some ([], r)" "pexp r = Some (0, r)"
    using assms(1) by (auto simp: pfrac_def pexp_def split: list.splits)
  have m: "fl (of_nat n) = num (int n)" "fl (- of_nat n) = num (- int n)"
    using fl_int [OF assms(2)] fl_int [of "- int n"] assms(2) by (simp_all add: safe_int_def)
  show "pnumber (nat_text n @ r) = Some (JNum (num (int n)), r)"
    using c pint_nat_text [OF assms(1), of n] fr m nat_of_units_nat_text [of n]
    by (simp add: pnumber_def ct)
  show "pnumber (45 # nat_text n @ r) = Some (JNum (num (- int n)), r)"
    using pint_nat_text [OF assms(1), of n] fr m by (simp add: pnumber_def)
qed

subsection \<open>Values\<close>

text \<open>
  A value prints and parses back when its objects are canonical (they are: every object of the
  language enumerates its keys in that order) and its numbers are integers below \<open>2 ^ 53\<close>.
\<close>

fun json_ok :: "json \<Rightarrow> bool" where
  "json_ok JNull \<longleftrightarrow> True"
| "json_ok (JBool b) \<longleftrightarrow> True"
| "json_ok (JNum x) \<longleftrightarrow> js_is_safe x"
| "json_ok (JStr s) \<longleftrightarrow> True"
| "json_ok (JArr xs) \<longleftrightarrow> list_all json_ok xs"
| "json_ok (JObj ob) \<longleftrightarrow> canon_keys (map fst ob) \<and> list_all (\<lambda>(k, v). json_ok v) ob"

definition blank :: "jstr \<Rightarrow> bool" where
  "blank w \<longleftrightarrow> list_all json_ws w"

lemma blank_simps [simp]:
  "blank []" "blank (c # w) \<longleftrightarrow> json_ws c \<and> blank w" "blank (u @ w) \<longleftrightarrow> blank u \<and> blank w"
  by (auto simp: blank_def)

lemma skip_ws_blank [simp]: "blank w \<Longrightarrow> skip_ws (w @ s) = skip_ws s"
  by (auto simp: skip_ws_def blank_def list_all_iff)

lemma skip_ws_Cons [simp]: "skip_ws (c # s) = (if json_ws c then skip_ws s else c # s)"
  by (simp add: skip_ws_def)

lemma skip_ws_Nil [simp]: "skip_ws [] = []"
  by (simp add: skip_ws_def)

lemma pval_blank: "blank w \<Longrightarrow> pval n (w @ s) = pval n s"
  by (cases n) simp_all

lemma parr_blank: "blank w \<Longrightarrow> parr n acc (w @ s) = parr n acc s"
  by (cases n) (simp_all add: pval_blank)

lemma pobj_blank: "blank w \<Longrightarrow> pobj n acc (w @ s) = pobj n acc s"
  by (cases n) simp_all

definition gap_sep :: "jstr \<Rightarrow> jstr \<Rightarrow> jstr" where
  "gap_sep gap ind = (if gap = [] then [] else 10 # ind)"

lemma bracketed_eq:
  "items \<noteq> [] \<Longrightarrow> bracketed lb rb gap ind items
     = lb # gap_sep gap (ind @ gap) @ str_join (44 # gap_sep gap (ind @ gap)) items @ gap_sep gap ind @ [rb]"
  by (simp add: bracketed_def gap_sep_def)

lemma blank_gap_sep: "blank gap \<Longrightarrow> blank ind \<Longrightarrow> blank (gap_sep gap ind)"
  by (simp add: gap_sep_def json_ws_def)

lemma delim_gap_sep: "c \<in> {44, 93, 125} \<Longrightarrow> delim (gap_sep gap ind @ c # r)"
  by (auto simp: gap_sep_def)

text \<open>The first unit of a value's text is not white space and closes no bracket.\<close>

lemma json_text_first:
  assumes "json_ok v"
  shows "\<exists>c t. json_text gap ind v = c # t \<and> \<not> json_ws c \<and> c \<noteq> 93 \<and> c \<noteq> 125"
proof (cases v)
  case (JNum x)
  then obtain i where x: "x = num i" "safe_int i" using assms by (cases x) auto
  obtain c t where "nat_text (nat i) = c # t" "is_digit c"
    by (metis list.exhaust list.set_intros(1) nat_text_digits nat_text_nonempty)
  then show ?thesis
    using x JNum by (auto simp: json_number_def int_text_def json_ws_def is_digit_def)
qed (auto simp: lit_def json_quote_def bracketed_def json_ws_def)

definition parses :: "jstr \<Rightarrow> json \<Rightarrow> bool" where
  "parses s v \<longleftrightarrow> (\<forall>r. delim r \<longrightarrow> (\<exists>n. \<forall>m \<ge> n. pval m (s @ r) = Some (v, r)))"

lemma parses_step:
  assumes "\<And>r. delim r \<Longrightarrow> \<exists>n. \<forall>m \<ge> n. pval (Suc m) (s @ r) = Some (v, r)"
  shows "parses s v"
  unfolding parses_def
proof (intro allI impI)
  fix r :: jstr assume "delim r"
  then obtain n where n: "\<forall>m \<ge> n. pval (Suc m) (s @ r) = Some (v, r)" using assms by blast
  show "\<exists>n. \<forall>m \<ge> n. pval m (s @ r) = Some (v, r)"
  proof (intro exI allI impI)
    fix m assume "Suc n \<le> m"
    then show "pval m (s @ r) = Some (v, r)" using n by (cases m) auto
  qed
qed

lemma parr_items:
  assumes "list_all2 parses ts xs" "ts \<noteq> []" "blank w" "blank w'"
    and "\<And>c r. c \<in> {44, 93, 125} \<Longrightarrow> delim (w' @ c # r)"
  shows "\<exists>n. \<forall>m \<ge> n. parr m acc (str_join (44 # w) ts @ w' @ 93 # r) = Some (JArr (acc @ xs), r)"
  using assms(1,2)
proof (induction ts xs arbitrary: acc rule: list_all2_induct)
  case (Cons t ts x xs)
  show ?case
  proof (cases ts)
    case Nil
    obtain n where n: "\<And>m. n \<le> m \<Longrightarrow> pval m (t @ w' @ 93 # r) = Some (x, w' @ 93 # r)"
      using Cons.hyps(1) assms(5) [of 93 r] unfolding parses_def by blast
    show ?thesis
    proof (intro exI allI impI)
      fix m assume "Suc n \<le> m"
      then obtain m' where "m = Suc m'" "n \<le> m'" by (cases m) auto
      then show "parr m acc (str_join (44 # w) (t # ts) @ w' @ 93 # r) = Some (JArr (acc @ x # xs), r)"
        using n Nil Cons.hyps(2) assms(4) by (simp add: json_ws_def)
    qed
  next
    case (Cons t' ts')
    let ?rest = "str_join (44 # w) ts @ w' @ 93 # r"
    obtain n where n: "\<And>m. n \<le> m \<Longrightarrow> pval m (t @ 44 # w @ ?rest) = Some (x, 44 # w @ ?rest)"
      using Cons.hyps(1) unfolding parses_def by fastforce
    obtain n' where n': "\<And>m. n' \<le> m \<Longrightarrow> parr m (acc @ [x]) ?rest = Some (JArr ((acc @ [x]) @ xs), r)"
      using Cons.IH [of "acc @ [x]"] Cons by blast
    show ?thesis
    proof (intro exI allI impI)
      fix m assume "Suc (max n n') \<le> m"
      then obtain m' where "m = Suc m'" "n \<le> m'" "n' \<le> m'" by (cases m) auto
      then show "parr m acc (str_join (44 # w) (t # ts) @ w' @ 93 # r) = Some (JArr (acc @ x # xs), r)"
        using n n' Cons assms(3) by (simp add: json_ws_def parr_blank)
    qed
  qed
qed simp

definition member_parses :: "jstr \<Rightarrow> jstr \<times> json \<Rightarrow> bool" where
  "member_parses s p \<longleftrightarrow> (\<exists>u t. s = json_quote (fst p) @ 58 # u @ t \<and> blank u \<and> parses t (snd p))"

lemma pobj_member:
  assumes "member_parses s (k, v)" "blank w" "delim (w @ c # r)" "c = 44 \<or> c = 125"
  shows "\<exists>n. \<forall>m \<ge> n. pobj (Suc m) acc (s @ w @ c # r) =
    (if c = 44 then pobj m (obj_put k v acc) r else Some (JObj (obj_put k v acc), r))"
proof -
  obtain u t where s: "s = json_quote k @ 58 # u @ t" and u: "blank u" and t: "parses t v"
    using assms(1) unfolding member_parses_def by auto
  obtain n where n: "\<And>m. n \<le> m \<Longrightarrow> pval m (t @ w @ c # r) = Some (v, w @ c # r)"
    using t assms(3) unfolding parses_def by blast
  show ?thesis
  proof (intro exI allI impI)
    fix m assume "n \<le> m"
    then show "pobj (Suc m) acc (s @ w @ c # r) =
        (if c = 44 then pobj m (obj_put k v acc) r else Some (JObj (obj_put k v acc), r))"
      using n u assms(2,4)
      by (auto simp: s json_quote_def pstr_quote_units json_ws_def pval_blank)
  qed
qed

lemma pobj_items:
  assumes "list_all2 member_parses ts kvs" "ts \<noteq> []" "blank w" "blank w'"
    and "\<And>c r. c \<in> {44, 93, 125} \<Longrightarrow> delim (w' @ c # r)"
    and "canon_keys (map fst (acc @ kvs))"
  shows "\<exists>n. \<forall>m \<ge> n. pobj m acc (str_join (44 # w) ts @ w' @ 125 # r) = Some (JObj (acc @ kvs), r)"
  using assms(1,2,6)
proof (induction ts kvs arbitrary: acc rule: list_all2_induct)
  case (Cons t ts p kvs)
  obtain k v where p: "p = (k, v)" by fastforce
  have put: "obj_put k v acc = acc @ [(k, v)]"
    using Cons.prems(2) canon_keys_butlast [of "map fst acc @ [k]" "map fst kvs"]
    by (simp add: p obj_put_append obj_keys_def)
  show ?case
  proof (cases ts)
    case Nil
    obtain n where n: "\<And>m. n \<le> m \<Longrightarrow> pobj (Suc m) acc (t @ w' @ 125 # r) = Some (JObj (acc @ [(k, v)]), r)"
      using pobj_member [of t k v w' 125 r acc] Cons.hyps(1) assms(4) assms(5) [of 125 r] put by (auto simp: p)
    show ?thesis
    proof (intro exI allI impI)
      fix m assume "Suc n \<le> m"
      then obtain m' where "m = Suc m'" "n \<le> m'" by (cases m) auto
      then show "pobj m acc (str_join (44 # w) (t # ts) @ w' @ 125 # r) = Some (JObj (acc @ p # kvs), r)"
        using n Nil Cons.hyps(2) by (simp add: p)
    qed
  next
    case (Cons t' ts')
    let ?rest = "str_join (44 # w) ts @ w' @ 125 # r"
    obtain n where n: "\<And>m. n \<le> m \<Longrightarrow> pobj (Suc m) acc (t @ 44 # w @ ?rest) = pobj m (acc @ [(k, v)]) (w @ ?rest)"
      using pobj_member [of t k v "[]" 44 "w @ ?rest" acc] Cons.hyps(1) put by (auto simp: p)
    obtain n' where n': "\<And>m. n' \<le> m \<Longrightarrow> pobj m (acc @ [(k, v)]) ?rest = Some (JObj ((acc @ [(k, v)]) @ kvs), r)"
      using Cons.IH [of "acc @ [(k, v)]"] Cons Cons.prems(2) by (auto simp: p)
    show ?thesis
    proof (intro exI allI impI)
      fix m assume "Suc (max n n') \<le> m"
      then obtain m' where "m = Suc m'" "n \<le> m'" "n' \<le> m'" by (cases m) auto
      then show "pobj m acc (str_join (44 # w) (t # ts) @ w' @ 125 # r) = Some (JObj (acc @ p # kvs), r)"
        using n n' Cons assms(3) by (simp add: p pobj_blank)
    qed
  qed
qed simp

lemma parses_simple:
  "parses (lit ''null'') JNull" "parses (lit ''true'') (JBool True)" "parses (lit ''false'') (JBool False)"
  "parses (json_quote s) (JStr s)"
  by (rule parses_step, simp add: lit_def json_quote_def json_ws_def is_digit_def pword_def
        str_starts_with_def pstr_quote_units)+

lemma parses_number:
  assumes "safe_int i" shows "parses (int_text i) (JNum (num i))"
proof (rule parses_step)
  fix r :: jstr assume r: "delim r"
  obtain n where i: "i = int n \<or> i = - int n" and n: "n = nat \<bar>i\<bar>" by (metis abs_of_nonneg abs_of_nonpos int_nat_eq
      minus_minus nat_0_le nle_le neg_0_le_iff_le)
  have sf: "safe_int (int n)" using assms by (simp add: n safe_int_def)
  obtain c t where ct: "nat_text n = c # t" "is_digit c"
    by (metis list.exhaust list.set_intros(1) nat_text_digits nat_text_nonempty)
  then have c: "\<not> json_ws c" "c \<notin> {123, 91, 34}" by (auto simp: json_ws_def is_digit_def)
  have "pval (Suc m) (int_text i @ r) = Some (JNum (num i), r)" for m
    using pnumber_nat_text [OF r sf] c ct n
    by (cases "i < 0") (auto simp: int_text_def json_ws_def)
  then show "\<exists>n. \<forall>m \<ge> n. pval (Suc m) (int_text i @ r) = Some (JNum (num i), r)" by blast
qed

theorem parses_json_text:
  assumes "json_ok v" "blank gap" "blank ind"
  shows "parses (json_text gap ind v) v"
  using assms(1,3)
proof (induction v arbitrary: ind)
  case (JNum x)
  then obtain i where "x = num i" "safe_int i" by (cases x) auto
  then show ?case using parses_number by (simp add: json_number_def)
next
  case (JArr xs)
  let ?ts = "map (json_text gap (ind @ gap)) xs"
  have ts: "list_all2 parses ?ts xs"
    using JArr assms(2) by (auto simp: list_all2_map1 list_all2_same list_all_iff intro!: JArr.IH)
  show ?case
  proof (cases "xs = []")
    case False
    then obtain x xs' where xs: "xs = x # xs'" by (cases xs) auto
    then obtain c t where ct: "json_text gap (ind @ gap) x = c # t" "\<not> json_ws c" "c \<noteq> 93"
      using json_text_first [of x gap "ind @ gap"] JArr.prems by auto
    have hd: "\<exists>t'. str_join (44 # gap_sep gap (ind @ gap)) ?ts = c # t'"
      by (cases xs') (simp_all add: xs ct)
    show ?thesis
    proof (rule parses_step)
      fix r :: jstr assume "delim r"
      obtain n where "\<And>m. n \<le> m \<Longrightarrow> parr m [] (str_join (44 # gap_sep gap (ind @ gap)) ?ts
          @ gap_sep gap ind @ 93 # r) = Some (JArr xs, r)"
        using parr_items [OF ts, of "gap_sep gap (ind @ gap)" "gap_sep gap ind" "[]" r] False JArr.prems assms(2)
        by (auto simp: blank_gap_sep delim_gap_sep)
      moreover obtain t' where "str_join (44 # gap_sep gap (ind @ gap)) ?ts = c # t'" using hd by blast
      ultimately have "pval (Suc m) (json_text gap ind (JArr xs) @ r) = Some (JArr xs, r)" if "n \<le> m" for m
        using that ct False JArr.prems assms(2)
        by (simp add: bracketed_eq json_ws_def [of 91] parr_blank blank_gap_sep)
      then show "\<exists>n. \<forall>m \<ge> n. pval (Suc m) (json_text gap ind (JArr xs) @ r) = Some (JArr xs, r)" by blast
    qed
  qed (rule parses_step, simp add: bracketed_def json_ws_def)
next
  case (JObj ob)
  let ?ts = "map (\<lambda>(k, v). json_quote k @ (if gap = [] then [58] else [58, 32])
    @ json_text gap (ind @ gap) v) ob"
  have ts: "list_all2 member_parses ?ts ob"
  proof (unfold list_all2_map1 list_all2_same, intro ballI)
    fix p assume p: "p \<in> set ob"
    obtain k v where kv: "p = (k, v)" by fastforce
    have "parses (json_text gap (ind @ gap) v) v"
      using JObj p kv assms(2) by (intro JObj.IH [of p v]) (auto simp: list_all_iff)
    moreover have "blank (if gap = [] then [] else [32])" by (simp add: json_ws_def)
    ultimately show "member_parses ((\<lambda>(k, v). json_quote k @ (if gap = [] then [58] else [58, 32])
        @ json_text gap (ind @ gap) v) p) p"
      unfolding member_parses_def kv
      by (intro exI [of _ "if gap = [] then [] else [32]"] exI [of _ "json_text gap (ind @ gap) v"]) simp
  qed
  show ?case
  proof (cases "ob = []")
    case False
    then obtain k v ob' where ob: "ob = (k, v) # ob'" by (cases ob) auto
    have hd: "\<exists>t'. str_join (44 # gap_sep gap (ind @ gap)) ?ts = 34 # t'"
      by (cases ob') (simp_all add: ob json_quote_def)
    show ?thesis
    proof (rule parses_step)
      fix r :: jstr assume "delim r"
      obtain n where "\<And>m. n \<le> m \<Longrightarrow> pobj m [] (str_join (44 # gap_sep gap (ind @ gap)) ?ts
          @ gap_sep gap ind @ 125 # r) = Some (JObj ob, r)"
        using pobj_items [OF ts, of "gap_sep gap (ind @ gap)" "gap_sep gap ind" "[]" r] False JObj.prems assms(2)
        by (auto simp: blank_gap_sep delim_gap_sep)
      moreover obtain t' where "str_join (44 # gap_sep gap (ind @ gap)) ?ts = 34 # t'" using hd by blast
      ultimately have "pval (Suc m) (json_text gap ind (JObj ob) @ r) = Some (JObj ob, r)" if "n \<le> m" for m
        using that False JObj.prems assms(2)
        by (simp add: bracketed_eq json_ws_def [of 123] json_ws_def [of 34] pobj_blank blank_gap_sep)
      then show "\<exists>n. \<forall>m \<ge> n. pval (Suc m) (json_text gap ind (JObj ob) @ r) = Some (JObj ob, r)" by blast
    qed
  qed (rule parses_step, simp add: bracketed_def json_ws_def)
qed (auto simp: parses_simple)

subsection \<open>Enough fuel\<close>

lemma skip_ws_length: "length (skip_ws s) \<le> length s"
  by (simp add: skip_ws_def length_dropWhile_le)

lemma skip_ws_Cons_length: "skip_ws s = c # t \<Longrightarrow> length t < length s"
  using skip_ws_length [of s] by simp

lemma hex4_length: "hex4 s = Some (u, r) \<Longrightarrow> length r < length s"
  by (induction s rule: hex4.induct) (auto split: option.splits)

lemma pstr_length: "pstr s = Some (k, r) \<Longrightarrow> length r < length s"
proof (induction s arbitrary: k r rule: pstr.induct)
  case (2 c s)
  then show ?case
    by (fastforce simp: pstr.simps(2) split: if_splits list.splits option.splits dest: hex4_length)
qed simp

lemma span_length: "span P s = (u, r) \<Longrightarrow> length s = length u + length r"
  by (auto simp: span_def simp flip: length_append)

lemma pint_length: "pint s = Some (u, r) \<Longrightarrow> length r < length s"
  by (cases s) (auto simp: pint_def split: prod.splits if_splits dest!: span_length)

lemma pfrac_length: "pfrac s = Some (u, r) \<Longrightarrow> length r \<le> length s"
  by (auto simp: pfrac_def split: prod.splits if_splits list.splits dest!: span_length)

lemma pexp_length: "pexp s = Some (e, r) \<Longrightarrow> length r \<le> length s"
  by (auto simp: pexp_def Let_def split: prod.splits if_splits list.splits dest!: span_length)

lemma pnumber_length: "pnumber s = Some (v, r) \<Longrightarrow> length r < length s"
  by (fastforce simp: pnumber_def split: prod.splits if_splits list.splits option.splits
      dest!: pint_length pfrac_length pexp_length)

lemma pword_length: "pword s = Some (v, r) \<Longrightarrow> length r < length s"
  by (auto simp: pword_def split: if_splits elim!: str_starts_withE)

lemma pval_length:
  "pval n s = Some (v, r) \<Longrightarrow> length r < length s"
  "parr n acc s = Some (v, r) \<Longrightarrow> length r < length s"
  "pobj n acc' s = Some (v, r) \<Longrightarrow> length r < length s"
proof (induction n s and n acc s and n acc' s arbitrary: v r and v r and v r rule: pval_parr_pobj.induct)
  case (2 n s)
  then obtain c t where ct: "skip_ws s = c # t" by (auto split: list.splits)
  then have lt: "length t < length s" "length (c # t) \<le> length s" "length (skip_ws t) \<le> length t"
    using skip_ws_length [of s] skip_ws_length [of t] by auto
  show ?case
  proof (cases "c \<in> {123, 91}")
    case True
    then show ?thesis using 2 ct lt by (auto split: if_splits) (metis less_trans)+
  next
    case False
    then show ?thesis using 2 ct lt
      by (auto split: if_splits dest!: pstr_length pnumber_length pword_length)
  qed
next
  case (4 n acc s)
  then obtain x r' c t where x: "pval n s = Some (x, r')" "skip_ws r' = c # t"
    by (auto split: option.splits list.splits)
  then have "length r' < length s" "length t < length r'"
    using 4 by (auto dest: skip_ws_Cons_length)
  then show ?case using 4 x by (auto split: if_splits) (meson less_trans)
next
  case (6 n acc s)
  then obtain q t where q: "skip_ws s = q # t" "q = 34" by (auto split: list.splits if_splits)
  with 6 obtain k r0 where k: "pstr t = Some (k, r0)" by (auto split: option.splits)
  with 6 q obtain d r1 where d: "skip_ws r0 = d # r1" "d = 58" by (auto split: list.splits if_splits)
  with 6 q k obtain x r' where x: "pval n r1 = Some (x, r')" by (auto split: option.splits)
  with 6 q k d obtain c u where c: "skip_ws r' = c # u" by (auto split: list.splits)
  have "length r' < length r1" using 6(1) q k d x by blast
  then have "length u < length s"
    using skip_ws_Cons_length [OF q(1)] pstr_length [OF k] skip_ws_Cons_length [OF d(1)]
      skip_ws_Cons_length [OF c] by linarith
  then show ?case using 6 q k d x c by (auto split: if_splits) (meson less_trans)
qed simp_all

lemma pobj_stuck:
  assumes "\<And>t k r0 r1. skip_ws s = 34 # t \<Longrightarrow> pstr t = Some (k, r0) \<Longrightarrow> skip_ws r0 \<noteq> 58 # r1"
  shows "pobj m acc s = None"
proof (cases m)
  case (Suc n)
  show ?thesis
  proof (cases "\<exists>t k r0. skip_ws s = 34 # t \<and> pstr t = Some (k, r0)")
    case True
    then obtain t k r0 where "skip_ws s = 34 # t" "pstr t = Some (k, r0)" by blast
    with assms show ?thesis by (auto simp: Suc split: list.split)
  next
    case False
    then show ?thesis by (auto simp: Suc split: list.split option.split)
  qed
qed simp

lemma pval_fuel_Suc:
  "2 * length s < n \<Longrightarrow> pval (Suc n) s = pval n s"
  "2 * length s + 1 < n \<Longrightarrow> parr (Suc n) acc s = parr n acc s"
  "2 * length s + 1 < n \<Longrightarrow> pobj (Suc n) acc' s = pobj n acc' s"
proof (induction n s and n acc s and n acc' s rule: pval_parr_pobj.induct)
  case (2 n s)
  show ?case
  proof (cases "skip_ws s")
    case (Cons c t)
    then have "length t < length s" by (rule skip_ws_Cons_length)
    with 2 Cons show ?thesis
      by (simp del: pval.simps(2) add: pval.simps(2) [of "Suc n"] pval.simps(2) [of n])
  qed simp
next
  case (4 n acc s)
  have v: "pval (Suc n) s = pval n s" using 4 by simp
  show ?case
  proof (cases "pval n s")
    case (Some p)
    obtain x r where p: "p = (x, r)" by fastforce
    show ?thesis
    proof (cases "skip_ws r")
      case (Cons c t)
      have "length t < length s"
        using skip_ws_Cons_length [OF Cons] pval_length(1) [of n s x r] Some p by simp
      then have "parr (Suc n) (acc @ [x]) t = parr n (acc @ [x]) t" if "c = 44"
        using 4 Some p Cons that by simp
      then show ?thesis using v Some p Cons
        by (simp del: parr.simps(2) add: parr.simps(2) [of "Suc n"] parr.simps(2) [of n])
    qed (use v Some p in \<open>simp del: parr.simps(2) add: parr.simps(2) [of "Suc n"] parr.simps(2) [of n]\<close>)
  qed (use v in \<open>simp del: parr.simps(2) add: parr.simps(2) [of "Suc n"] parr.simps(2) [of n]\<close>)
next
  case (6 n acc s)
  note unfold = pobj.simps(2) [of "Suc n"] pobj.simps(2) [of n]
  show ?case
  proof (cases "\<exists>t k r0 r1. skip_ws s = 34 # t \<and> pstr t = Some (k, r0) \<and> skip_ws r0 = 58 # r1")
    case True
    then obtain t k r0 r1 where q: "skip_ws s = 34 # t" and k: "pstr t = Some (k, r0)"
      and d: "skip_ws r0 = 58 # r1" by blast
    have lt: "length r1 < length s"
      using skip_ws_Cons_length [OF q] pstr_length [OF k] skip_ws_Cons_length [OF d] by linarith
    have v: "pval (Suc n) r1 = pval n r1" using 6 q k d lt by simp
    have "pobj (Suc n) (obj_put k x acc) t' = pobj n (obj_put k x acc) t'"
      if "pval n r1 = Some (x, r)" "skip_ws r = 44 # t'" for x r t'
    proof -
      have "length t' < length s"
        using skip_ws_Cons_length [OF that(2)] pval_length(1) [OF that(1)] lt by linarith
      then show ?thesis using 6(2) q k d that 6(3) by simp
    qed
    then show ?thesis using q k d v
      by (simp del: pobj.simps(2) add: unfold split: option.split list.split)
  next
    case False
    then have "pobj m acc s = None" for m by (intro pobj_stuck) blast
    then show ?thesis by simp
  qed
qed (simp_all del: pval.simps parr.simps pobj.simps)

lemma pval_fuel:
  assumes "2 * length s < n" "n \<le> m" shows "pval m s = pval n s"
  using assms(2,1)
proof (induction m rule: dec_induct)
  case (step m)
  have "pval (Suc m) s = pval m s" by (rule pval_fuel_Suc) (use step in linarith)
  then show ?case using step by simp
qed simp

theorem json_parse_text:
  assumes "json_ok v" "blank gap" shows "json_parse (json_text gap [] v) = Some v"
proof -
  let ?t = "json_text gap [] v"
  obtain n where n: "\<And>m. n \<le> m \<Longrightarrow> pval m (?t @ []) = Some (v, [])"
    using parses_json_text [OF assms, of "[]"] unfolding parses_def by (metis blank_simps(1) delim_simps(1))
  have "pval (2 * length ?t + 2) ?t = pval (max n (2 * length ?t + 2)) ?t"
    by (rule pval_fuel [symmetric]) auto
  then show ?thesis using n [of "max n (2 * length ?t + 2)"] by (simp add: json_parse_def)
qed

lemma json_parse_stringify: "json_ok v \<Longrightarrow> json_parse (json_stringify v) = Some v"
  by (simp add: json_stringify_def json_parse_text)

lemma json_parse_pretty: "json_ok v \<Longrightarrow> json_parse (json_pretty v) = Some v"
  by (simp add: json_pretty_def json_parse_text json_ws_def)

lemma json_stringify_inject: "json_ok v \<Longrightarrow> json_ok w \<Longrightarrow> json_stringify v = json_stringify w \<longleftrightarrow> v = w"
  by (metis json_parse_stringify option.inject)

end
