(* ===== verification/Zod.thy ===== *)
theory Zod
  imports Js_Json
begin

text \<open>
  The schema library (zod 4) is third-party code. The schemas the sources declare are data of type
  \<open>zschema\<close>; the parser \<open>safeParse\<close> is a parameter \<open>zp\<close> of every definition that calls it. The
  locale \<open>zod\<close> lists the documented behaviour the sources rely on, and \<open>zeval\<close> is a concrete
  parser that has it (the interpretation at the end), so hypotheses \<open>zod zp\<close> can be met.

  A value is \<open>json option\<close>, with \<open>None\<close> for \<open>undefined\<close>. A parse returns \<open>None\<close> on failure.
\<close>

datatype zschema =
    ZUnknown
  | ZUndefined
  | ZString
  | ZBoolean
  | ZNumber
  | ZInt
  | ZNonNegative zschema
  | ZPositive zschema
  | ZDatetime
  | ZEnum "jstr list"
  | ZNullable zschema
  | ZOptional zschema
  | ZArray zschema
  | ZRecord zschema
  | ZObject "(jstr \<times> zschema) list"
  | ZTransform "json option \<Rightarrow> json option" zschema

definition ZNullish :: "zschema \<Rightarrow> zschema" where
  "ZNullish s = ZOptional (ZNullable s)"

type_synonym zparser = "zschema \<Rightarrow> json option \<Rightarrow> json option option"

definition finite_number :: "number \<Rightarrow> bool" where
  "finite_number x \<longleftrightarrow> (case x of Fin _ \<Rightarrow> True | _ \<Rightarrow> False)"

fun all_some :: "'a option list \<Rightarrow> 'a list option" where
  "all_some [] = Some []"
| "all_some (None # xs) = None"
| "all_some (Some x # xs) = map_option ((#) x) (all_some xs)"

text \<open>
  The members of an object schema, in the order of the shape: a key whose parsed value is
  \<open>undefined\<close> is left out of the result, unknown keys are stripped.
\<close>

definition shape_fields ::
  "zparser \<Rightarrow> (jstr \<times> zschema) list \<Rightarrow> json obj \<Rightarrow> (jstr \<times> json option) list option" where
  "shape_fields zp shape ob =
     all_some (map (\<lambda>(k, s). map_option (Pair k) (zp s (obj_get ob k))) shape)"

definition present_fields :: "(jstr \<times> json option) list \<Rightarrow> json obj" where
  "present_fields fs = obj_of_list (concat (map (\<lambda>(k, v). case v of None \<Rightarrow> [] | Some x \<Rightarrow> [(k, x)]) fs))"

locale zod =
  fixes zp :: zparser
  assumes zp_unknown: "zp ZUnknown v = Some v"
    and zp_undefined: "zp ZUndefined v = (if v = None then Some None else None)"
    and zp_string: "zp ZString v = (case v of Some (JStr s) \<Rightarrow> Some v | _ \<Rightarrow> None)"
    and zp_boolean: "zp ZBoolean v = (case v of Some (JBool b) \<Rightarrow> Some v | _ \<Rightarrow> None)"
    and zp_number: "zp ZNumber v =
      (case v of Some (JNum x) \<Rightarrow> if finite_number x then Some v else None | _ \<Rightarrow> None)"
    and zp_int: "zp ZInt v = (case v of Some (JNum x) \<Rightarrow> if js_is_safe x then Some v else None | _ \<Rightarrow> None)"
    and zp_nonnegative: "zp (ZNonNegative s) v =
      (case zp s v of Some (Some (JNum x)) \<Rightarrow> if js_le (Fin 0) x then Some (Some (JNum x)) else None | _ \<Rightarrow> None)"
    and zp_positive: "zp (ZPositive s) v =
      (case zp s v of Some (Some (JNum x)) \<Rightarrow> if js_lt (Fin 0) x then Some (Some (JNum x)) else None | _ \<Rightarrow> None)"
    and zp_datetime: "zp ZDatetime v = Some w \<Longrightarrow> w = v \<and> (\<exists>s. v = Some (JStr s))"
    and zp_enum: "zp (ZEnum ts) v =
      (case v of Some (JStr s) \<Rightarrow> if s \<in> set ts then Some v else None | _ \<Rightarrow> None)"
    and zp_nullable: "zp (ZNullable s) v = (if v = Some JNull then Some v else zp s v)"
    and zp_optional: "zp (ZOptional s) v = (if v = None then Some None else zp s v)"
    and zp_array: "zp (ZArray s) v =
      (case v of
         Some (JArr xs) \<Rightarrow>
           map_option (\<lambda>ys. Some (JArr (map (\<lambda>y. case y of None \<Rightarrow> JNull | Some j \<Rightarrow> j) ys)))
             (all_some (map (\<lambda>x. zp s (Some x)) xs))
       | _ \<Rightarrow> None)"
    and zp_record: "zp (ZRecord s) v =
      (case v of
         Some (JObj ob) \<Rightarrow> map_option (Some \<circ> JObj \<circ> present_fields) (shape_fields zp (map (\<lambda>(k, x). (k, s)) ob) ob)
       | _ \<Rightarrow> None)"
    and zp_object: "zp (ZObject shape) v =
      (case v of
         Some (JObj ob) \<Rightarrow> map_option (Some \<circ> JObj \<circ> present_fields) (shape_fields zp shape ob)
       | _ \<Rightarrow> None)"
    and zp_transform: "zp (ZTransform f s) v = map_option f (zp s v)"
begin

lemma zp_nullish: "zp (ZNullish s) v = (if v = None \<or> v = Some JNull then Some v else zp s v)"
  by (auto simp: ZNullish_def zp_optional zp_nullable)

lemma zp_nullish_string:
  "zp (ZNullish ZString) v =
     (case v of None \<Rightarrow> Some v | Some JNull \<Rightarrow> Some v | Some (JStr s) \<Rightarrow> Some v | _ \<Rightarrow> None)"
  by (auto simp: zp_nullish zp_string split: option.splits json.splits)

lemmas zp_laws = zp_unknown zp_undefined zp_string zp_boolean zp_number zp_int zp_nonnegative zp_positive
  zp_enum zp_nullable zp_optional zp_array zp_record zp_object zp_transform zp_nullish

lemma zp_object_only: "zp (ZObject shape) v \<noteq> None \<Longrightarrow> \<exists>ob. v = Some (JObj ob)"
  by (auto simp: zp_object split: option.splits json.splits)

end

text \<open>
  A concrete parser with these laws. Date-times are accepted when they have the shape
  \<open>YYYY-MM-DDTHH:MM\<close> at the start; the laws leave the exact grammar open.
\<close>

definition datetime_like :: "jstr \<Rightarrow> bool" where
  "datetime_like s \<longleftrightarrow>
     16 \<le> length s \<and> list_all (\<lambda>i. is_digit (s ! i)) [0, 1, 2, 3, 5, 6, 8, 9, 11, 12, 14, 15]
     \<and> s ! 4 = 45 \<and> s ! 7 = 45 \<and> s ! 10 = 84 \<and> s ! 13 = 58"

function zeval :: zparser where
  "zeval ZUnknown v = Some v"
| "zeval ZUndefined v = (if v = None then Some None else None)"
| "zeval ZString v = (case v of Some (JStr s) \<Rightarrow> Some v | _ \<Rightarrow> None)"
| "zeval ZBoolean v = (case v of Some (JBool b) \<Rightarrow> Some v | _ \<Rightarrow> None)"
| "zeval ZNumber v = (case v of Some (JNum x) \<Rightarrow> if finite_number x then Some v else None | _ \<Rightarrow> None)"
| "zeval ZInt v = (case v of Some (JNum x) \<Rightarrow> if js_is_safe x then Some v else None | _ \<Rightarrow> None)"
| "zeval (ZNonNegative s) v =
     (case zeval s v of Some (Some (JNum x)) \<Rightarrow> if js_le (Fin 0) x then Some (Some (JNum x)) else None | _ \<Rightarrow> None)"
| "zeval (ZPositive s) v =
     (case zeval s v of Some (Some (JNum x)) \<Rightarrow> if js_lt (Fin 0) x then Some (Some (JNum x)) else None | _ \<Rightarrow> None)"
| "zeval ZDatetime v = (case v of Some (JStr s) \<Rightarrow> if datetime_like s then Some v else None | _ \<Rightarrow> None)"
| "zeval (ZEnum ts) v = (case v of Some (JStr s) \<Rightarrow> if s \<in> set ts then Some v else None | _ \<Rightarrow> None)"
| "zeval (ZNullable s) v = (if v = Some JNull then Some v else zeval s v)"
| "zeval (ZOptional s) v = (if v = None then Some None else zeval s v)"
| "zeval (ZArray s) v =
     (case v of
        Some (JArr xs) \<Rightarrow>
          map_option (\<lambda>ys. Some (JArr (map (\<lambda>y. case y of None \<Rightarrow> JNull | Some j \<Rightarrow> j) ys)))
            (all_some (map (\<lambda>x. zeval s (Some x)) xs))
      | _ \<Rightarrow> None)"
| "zeval (ZRecord s) v =
     (case v of
        Some (JObj ob) \<Rightarrow>
          map_option (Some \<circ> JObj \<circ> present_fields)
            (all_some (map (\<lambda>(k, x). map_option (Pair k) (zeval s (obj_get ob k))) ob))
      | _ \<Rightarrow> None)"
| "zeval (ZObject shape) v =
     (case v of
        Some (JObj ob) \<Rightarrow>
          map_option (Some \<circ> JObj \<circ> present_fields)
            (all_some (map (\<lambda>(k, s). map_option (Pair k) (zeval s (obj_get ob k))) shape))
      | _ \<Rightarrow> None)"
| "zeval (ZTransform f s) v = map_option f (zeval s v)"
  by pat_completeness auto
termination
  by (relation "measure (\<lambda>(s, v). size s)") (auto simp: size_list_estimation' less_Suc_eq_le
      dest!: elem_le_sum_list intro: size_list_estimation' order_trans)

interpretation zm: zod zeval
  by unfold_locales
    (auto simp: shape_fields_def o_def case_prod_unfold split: option.splits json.splits if_splits)

end
