(* ===== verification/Session.thy ===== *)
theory Session
  imports Prelude
begin

text \<open>
  \<open>shared/api/session.ts\<close>: the token store of the two consoles over \<open>sessionStorage\<close>, its
  listeners, and the console a path belongs to. The locale \<open>token_store\<close> is what the HTTP client
  and the session gates rely on; it is interpreted on the store at the end.
\<close>

section \<open>The store\<close>

datatype console_kind = Operator | Tenant

definition storage_key :: "console_kind \<Rightarrow> jstr" where
  "storage_key k = (case k of Operator \<Rightarrow> lit ''wasmhooks.operator.key''
                            | Tenant \<Rightarrow> lit ''wasmhooks.tenant.token'')"

text \<open>
  \<open>storage\<close> is \<open>None\<close> outside a browser or where access to \<open>sessionStorage\<close> throws. Listeners are
  numbered; the set keeps insertion order.
\<close>

record browser =
  storage :: "(jstr \<rightharpoonup> jstr) option"
  listeners :: "nat list"

definition console_for_path :: "jstr \<Rightarrow> console_kind" where
  "console_for_path path =
     (if path = lit ''/tenant'' \<or> str_starts_with (lit ''/tenant/'') path then Tenant else Operator)"

definition get_token :: "browser \<Rightarrow> console_kind \<Rightarrow> jstr option" where
  "get_token b k =
     (case storage b of
        None \<Rightarrow> None
      | Some m \<Rightarrow> (case m (storage_key k) of Some t \<Rightarrow> if t = [] then None else Some t | None \<Rightarrow> None))"

text \<open>The listeners that a change notifies, in order.\<close>

definition notified :: "browser \<Rightarrow> nat list" where
  "notified b = listeners b"

definition set_token :: "console_kind \<Rightarrow> jstr \<Rightarrow> browser \<Rightarrow> browser" where
  "set_token k t b = b\<lparr>storage := map_option (\<lambda>m. m(storage_key k \<mapsto> t)) (storage b)\<rparr>"

definition clear_token :: "console_kind \<Rightarrow> browser \<Rightarrow> browser" where
  "clear_token k b = b\<lparr>storage := map_option (\<lambda>m. m(storage_key k := None)) (storage b)\<rparr>"

definition subscribe_tokens :: "nat \<Rightarrow> browser \<Rightarrow> browser" where
  "subscribe_tokens l b = (if l \<in> set (listeners b) then b else b\<lparr>listeners := listeners b @ [l]\<rparr>)"

definition unsubscribe_tokens :: "nat \<Rightarrow> browser \<Rightarrow> browser" where
  "unsubscribe_tokens l b = b\<lparr>listeners := filter (\<lambda>x. x \<noteq> l) (listeners b)\<rparr>"

text \<open>
  \<open>useSessionToken\<close> (\<open>shared/api/use-session-token.ts\<close>): \<open>None\<close> while rendering on the server
  (\<open>undefined\<close> in the source), afterwards the token or none.
\<close>

definition use_session_token :: "bool \<Rightarrow> browser \<Rightarrow> console_kind \<Rightarrow> jstr option option" where
  "use_session_token on_server b k = (if on_server then None else Some (get_token b k))"

definition has_storage :: "browser \<Rightarrow> bool" where
  "has_storage b \<longleftrightarrow> storage b \<noteq> None"

section \<open>The interface\<close>

locale token_store =
  fixes get :: "'s \<Rightarrow> console_kind \<Rightarrow> jstr option"
    and put :: "console_kind \<Rightarrow> jstr \<Rightarrow> 's \<Rightarrow> 's"
    and clear :: "console_kind \<Rightarrow> 's \<Rightarrow> 's"
    and usable :: "'s \<Rightarrow> bool"
  assumes get_put: "usable s \<Longrightarrow> get (put k t s) k' =
      (if k' = k then (if t = [] then None else Some t) else get s k')"
    and get_clear: "get (clear k s) k' = (if k' = k then None else get s k')"
    and usable_put: "usable (put k t s) = usable s"
    and usable_clear: "usable (clear k s) = usable s"
    and get_nonempty: "get s k \<noteq> Some []"
begin

lemma get_clear_same [simp]: "get (clear k s) k = None"
  by (simp add: get_clear)

lemma get_clear_other: "k' \<noteq> k \<Longrightarrow> get (clear k s) k' = get s k'"
  by (simp add: get_clear)

lemma get_put_clear: "usable s \<Longrightarrow> t \<noteq> [] \<Longrightarrow> get (put k t (clear k' s)) k = Some t"
  by (simp add: get_put usable_clear)

text \<open>After any run of writes, a token that is read was written by the last write of its console.\<close>

fun run :: "(console_kind \<times> jstr option) list \<Rightarrow> 's \<Rightarrow> 's" where
  "run [] s = s"
| "run ((k, None) # ops) s = run ops (clear k s)"
| "run ((k, Some t) # ops) s = run ops (put k t s)"

lemma run_other: "usable s \<Longrightarrow> k \<notin> fst ` set ops \<Longrightarrow> get (run ops s) k = get s k"
proof (induction ops s rule: run.induct)
  case (2 k' ops s)
  then show ?case by (simp add: usable_clear get_clear)
next
  case (3 k' t ops s)
  then show ?case by (simp add: usable_put get_put)
qed simp

lemma run_append: "run (ops @ ops') s = run ops' (run ops s)"
  by (induction ops s rule: run.induct) simp_all

lemma usable_run: "usable (run ops s) = usable s"
  by (induction ops s rule: run.induct) (simp_all add: usable_put usable_clear)

lemma run_last:
  assumes "usable s" "t \<noteq> []" "k \<notin> fst ` set later"
  shows "get (run (earlier @ (k, Some t) # later) s) k = Some t"
  using assms by (simp add: run_append run_other usable_put usable_run get_put)

end

lemma storage_key_inject [simp]: "storage_key k = storage_key k' \<longleftrightarrow> k = k'"
  by (cases k; cases k') (simp_all add: storage_key_def)

interpretation tokens: token_store get_token set_token clear_token has_storage
  by unfold_locales
    (auto simp: get_token_def set_token_def clear_token_def has_storage_def split: option.splits if_splits)

lemma console_for_path_simps [simp, str_simps]:
  "console_for_path (lit ''/tenant/'' @ rest) = Tenant"
  "console_for_path (lit ''/hooks'' @ rest) = Operator"
  "console_for_path (lit ''/tenants'' @ rest) = Operator"
  "console_for_path (lit ''/api-keys'' @ rest) = Operator"
  by (simp_all add: console_for_path_def str_starts_with_def lit_def)

end
