(* ===== verification/Js_Text.thy ===== *)
theory Js_Text
  imports Prelude
begin

text \<open>
  Text codecs of the platform that the front end relies on: UTF-8 (\<open>TextEncoder\<close>,
  \<open>TextDecoder\<close>), base64 (\<open>btoa\<close>, \<open>atob\<close>) and \<open>encodeURIComponent\<close> /
  \<open>decodeURIComponent\<close>. Bytes are handled as naturals below 256 inside the codecs. Each
  encoder has its round trip.
\<close>

section \<open>UTF-16 and UTF-8\<close>

definition high_surrogate :: "cu \<Rightarrow> bool" where
  "high_surrogate c \<longleftrightarrow> 0xD800 \<le> unat c \<and> unat c < 0xDC00"

definition low_surrogate :: "cu \<Rightarrow> bool" where
  "low_surrogate c \<longleftrightarrow> 0xDC00 \<le> unat c \<and> unat c < 0xE000"

definition pair_point :: "cu \<Rightarrow> cu \<Rightarrow> nat" where
  "pair_point c d = 0x10000 + (unat c - 0xD800) * 1024 + (unat d - 0xDC00)"

text \<open>Code points of a string; a lone surrogate becomes the replacement character.\<close>

fun code_points :: "jstr \<Rightarrow> nat list" where
  "code_points [] = []"
| "code_points [c] = [if high_surrogate c \<or> low_surrogate c then 0xFFFD else unat c]"
| "code_points (c # d # s) =
     (if high_surrogate c \<and> low_surrogate d then pair_point c d # code_points s
      else (if high_surrogate c \<or> low_surrogate c then 0xFFFD else unat c) # code_points (d # s))"

fun well_formed :: "jstr \<Rightarrow> bool" where
  "well_formed [] \<longleftrightarrow> True"
| "well_formed [c] \<longleftrightarrow> \<not> high_surrogate c \<and> \<not> low_surrogate c"
| "well_formed (c # d # s) \<longleftrightarrow>
     (if high_surrogate c \<and> low_surrogate d then well_formed s
      else \<not> high_surrogate c \<and> \<not> low_surrogate c \<and> well_formed (d # s))"

definition utf16_point :: "nat \<Rightarrow> jstr" where
  "utf16_point p =
     (if p < 0x10000 then [of_nat p]
      else [of_nat (0xD800 + (p - 0x10000) div 1024), of_nat (0xDC00 + (p - 0x10000) mod 1024)])"

definition utf8_point :: "nat \<Rightarrow> nat list" where
  "utf8_point p =
     (if p < 0x80 then [p]
      else if p < 0x800 then [0xC0 + p div 64, 0x80 + p mod 64]
      else if p < 0x10000 then [0xE0 + p div 4096, 0x80 + p div 64 mod 64, 0x80 + p mod 64]
      else [0xF0 + p div 262144, 0x80 + p div 4096 mod 64, 0x80 + p div 64 mod 64, 0x80 + p mod 64])"

definition utf8_encode :: "jstr \<Rightarrow> nat list" where
  "utf8_encode s = concat (map utf8_point (code_points s))"

text \<open>
  The decoder of the Encoding Standard: bytes still needed, the code point so far, the range
  allowed for the next byte. An unexpected byte yields the replacement character and is read again.
\<close>

fun utf8_run :: "nat \<Rightarrow> nat \<Rightarrow> nat \<Rightarrow> nat \<Rightarrow> nat list \<Rightarrow> nat list" where
  "utf8_run 0 p lo hi [] = []"
| "utf8_run (Suc n) p lo hi [] = [0xFFFD]"
| "utf8_run 0 p lo hi (b # bs) =
     (if b < 0x80 then b # utf8_run 0 0 0 0 bs
      else if 0xC2 \<le> b \<and> b \<le> 0xDF then utf8_run 1 (b - 0xC0) 0x80 0xBF bs
      else if 0xE0 \<le> b \<and> b \<le> 0xEF then
        utf8_run 2 (b - 0xE0) (if b = 0xE0 then 0xA0 else 0x80) (if b = 0xED then 0x9F else 0xBF) bs
      else if 0xF0 \<le> b \<and> b \<le> 0xF4 then
        utf8_run 3 (b - 0xF0) (if b = 0xF0 then 0x90 else 0x80) (if b = 0xF4 then 0x8F else 0xBF) bs
      else 0xFFFD # utf8_run 0 0 0 0 bs)"
| "utf8_run (Suc n) p lo hi (b # bs) =
     (if b < lo \<or> hi < b then 0xFFFD # utf8_run 0 0 0 0 (b # bs)
      else if n = 0 then (p * 64 + (b - 0x80)) # utf8_run 0 0 0 0 bs
      else utf8_run n (p * 64 + (b - 0x80)) 0x80 0xBF bs)"

definition utf8_points :: "nat list \<Rightarrow> nat list" where
  "utf8_points bs = utf8_run 0 0 0 0 bs"

text \<open>\<open>TextDecoder.decode\<close> drops a leading byte order mark.\<close>

definition utf8_decode :: "nat list \<Rightarrow> jstr" where
  "utf8_decode bs =
     concat (map utf16_point (utf8_points (if take 3 bs = [0xEF, 0xBB, 0xBF] then drop 3 bs else bs)))"

definition scalar :: "nat \<Rightarrow> bool" where
  "scalar p \<longleftrightarrow> p < 0xD800 \<or> 0xE000 \<le> p \<and> p < 0x110000"

lemma unat_cu_less: "unat (c :: cu) < 65536"
  using unsigned_less [of c, where ?'a = nat] by simp

lemma scalar_pair: "high_surrogate c \<Longrightarrow> low_surrogate d \<Longrightarrow> scalar (pair_point c d)"
  unfolding scalar_def pair_point_def high_surrogate_def low_surrogate_def by linarith

lemma code_points_scalar: "p \<in> set (code_points s) \<Longrightarrow> scalar p"
proof (induction s rule: code_points.induct)
  case (2 c)
  then show ?case using unat_cu_less [of c]
    by (auto simp: scalar_def high_surrogate_def low_surrogate_def split: if_splits)
next
  case (3 c d s)
  then show ?case using unat_cu_less [of c] scalar_pair [of c d]
    by (auto simp: scalar_def high_surrogate_def low_surrogate_def split: if_splits)
qed simp

lemma utf16_pair:
  assumes "high_surrogate c" "low_surrogate d" shows "utf16_point (pair_point c d) = [c, d]"
proof -
  define x y where "x = unat c - 0xD800" and "y = unat d - 0xDC00"
  have c: "unat c = 0xD800 + x" and d: "unat d = 0xDC00 + y" and y: "y < 1024"
    using assms by (auto simp: x_def y_def high_surrogate_def low_surrogate_def)
  have "pair_point c d - 0x10000 = x * 1024 + y" by (simp add: pair_point_def x_def y_def)
  moreover have "(x * 1024 + y) div 1024 = x" "(x * 1024 + y) mod 1024 = y"
    using y by auto
  ultimately have "utf16_point (pair_point c d) = [of_nat (unat c), of_nat (unat d)]"
    by (simp only: utf16_point_def c d) (simp add: pair_point_def)
  then show ?thesis by simp
qed

lemma utf16_code_points: "well_formed s \<Longrightarrow> concat (map utf16_point (code_points s)) = s"
proof (induction s rule: code_points.induct)
  case (2 c)
  then show ?case using unat_cu_less [of c] by (simp add: utf16_point_def)
next
  case (3 c d s)
  then show ?case using unat_cu_less [of c]
    by (auto simp: utf16_pair) (auto simp: utf16_point_def)
qed simp

lemma sextet_digits:
  fixes p :: nat
  obtains a b c d where "p = ((a * 64 + b) * 64 + c) * 64 + d" "b < 64" "c < 64" "d < 64"
    "p mod 64 = d" "p div 64 mod 64 = c" "p div 4096 mod 64 = b" "p div 262144 = a"
    "p div 4096 = a * 64 + b" "p div 64 = (a * 64 + b) * 64 + c"
proof -
  define x y where "x = p div 64" and "y = x div 64"
  have xy: "p div 4096 = y" "p div 262144 = y div 64"
    by (simp_all add: x_def y_def div_mult2_eq [symmetric])
  have "p = x * 64 + p mod 64" "x = y * 64 + x mod 64" "y = y div 64 * 64 + y mod 64"
    by (simp_all add: x_def y_def)
  then show thesis
    by (intro that [of "y div 64" "y mod 64" "x mod 64" "p mod 64"]) (simp_all add: xy flip: x_def)
qed

lemma utf8_point_cases:
  assumes "scalar p"
  obtains (one) "p < 0x80" "utf8_point p = [p]"
  | (two) a b where "p = a * 64 + b" "2 \<le> a" "a < 32" "b < 64" "utf8_point p = [0xC0 + a, 0x80 + b]"
  | (three) a b c where "p = (a * 64 + b) * 64 + c" "a < 16" "b < 64" "c < 64" "0x800 \<le> p"
      "a = 0 \<Longrightarrow> 32 \<le> b" "a = 13 \<Longrightarrow> b < 32" "utf8_point p = [0xE0 + a, 0x80 + b, 0x80 + c]"
  | (four) a b c d where "p = ((a * 64 + b) * 64 + c) * 64 + d" "a \<le> 4" "b < 64" "c < 64" "d < 64"
      "a = 0 \<Longrightarrow> 16 \<le> b" "a = 4 \<Longrightarrow> b < 16" "utf8_point p = [0xF0 + a, 0x80 + b, 0x80 + c, 0x80 + d]"
proof -
  obtain a b c d where p: "p = ((a * 64 + b) * 64 + c) * 64 + d" "b < 64" "c < 64" "d < 64"
    and eqs: "p mod 64 = d" "p div 64 mod 64 = c" "p div 4096 mod 64 = b" "p div 262144 = a"
      "p div 4096 = a * 64 + b" "p div 64 = (a * 64 + b) * 64 + c"
    by (rule sextet_digits [of p])
  have p': "p = a * 262144 + b * 4096 + c * 64 + d" using p(1) by simp
  have sc: "p < 0xD800 \<or> 0xE000 \<le> p \<and> p < 0x110000" using assms by (simp add: scalar_def)
  consider "p < 0x80" | "0x80 \<le> p" "p < 0x800" | "0x800 \<le> p" "p < 0x10000" | "0x10000 \<le> p"
    by linarith
  then show thesis
  proof cases
    case 1 then show thesis by (intro one) (simp_all add: utf8_point_def)
  next
    case 2
    have "a < 1" using 2 p' p(2-4) by linarith
    moreover have "b < 1" using 2 p' p(2-4) by linarith
    ultimately have ab: "a = 0" "b = 0" by simp_all
    have u: "utf8_point p = [0xC0 + c, 0x80 + d]"
      unfolding utf8_point_def eqs ab using 2 by simp
    have pq: "p = c * 64 + d" using p' ab by simp
    moreover have "2 \<le> c" "c < 32" using 2 p(4) pq by simp_all
    ultimately show thesis by (rule two [OF _ _ _ p(4) u])
  next
    case 3
    have "a < 1" using 3 p' p(2-4) by linarith
    then have a: "a = 0" by simp
    have b: "b < 16" using 3 p' p(2-4) by linarith
    have u: "utf8_point p = [0xE0 + b, 0x80 + c, 0x80 + d]"
      unfolding utf8_point_def eqs a using 3 p(2-4) by simp
    have pq: "p = (b * 64 + c) * 64 + d" using p(1) a by simp
    have "b = 0 \<Longrightarrow> 32 \<le> c" using 3(1) p' p(2-4) a by linarith
    moreover have "b = 13 \<Longrightarrow> c < 32" using sc p' p(2-4) a by linarith
    ultimately show thesis by (rule three [OF pq b p(3,4) 3(1) _ _ u])
  next
    case 4
    have a: "a \<le> 4" using p' p(2-4) sc by linarith
    have u: "utf8_point p = [0xF0 + a, 0x80 + b, 0x80 + c, 0x80 + d]"
      unfolding utf8_point_def eqs(1-4) using 4 by simp
    have "a = 0 \<Longrightarrow> 16 \<le> b" using 4 p' p(2-4) by linarith
    moreover have "a = 4 \<Longrightarrow> b < 16" using sc p' p(2-4) by linarith
    ultimately show thesis by (rule four [OF p(1) a p(2-4) _ _ u])
  qed
qed

lemma utf8_run_point:
  assumes "scalar p" shows "utf8_run 0 x y z (utf8_point p @ bs) = p # utf8_run 0 0 0 0 bs"
  using assms
proof (cases rule: utf8_point_cases)
  case (two a b) then show ?thesis by simp
next
  case (three a b c) then show ?thesis by (auto simp: numeral_2_eq_2 numeral_3_eq_3)
next
  case (four a b c d) then show ?thesis by (auto simp: numeral_2_eq_2 numeral_3_eq_3)
qed simp

lemma utf8_points_encode:
  assumes "list_all scalar ps" shows "utf8_points (concat (map utf8_point ps)) = ps"
  using assms by (induction ps) (simp_all add: utf8_points_def utf8_run_point)

theorem utf8_roundtrip:
  assumes "well_formed s" "s \<noteq> [] \<Longrightarrow> unat (hd s) < 0x80"
  shows "utf8_decode (utf8_encode s) = s"
proof -
  have "take 3 (utf8_encode s) \<noteq> [0xEF, 0xBB, 0xBF]"
  proof (cases s)
    case (Cons c t)
    then have c: "unat c < 0x80" using assms by simp
    then have "\<exists>ps. code_points s = unat c # ps"
      using Cons by (cases t) (auto simp: high_surrogate_def low_surrogate_def)
    then show ?thesis using c by (auto simp: utf8_encode_def utf8_point_def)
  qed (simp add: utf8_encode_def)
  moreover have "utf8_points (utf8_encode s) = code_points s"
    unfolding utf8_encode_def by (rule utf8_points_encode) (auto simp: list_all_iff dest: code_points_scalar)
  ultimately show ?thesis
    using utf16_code_points [OF assms(1)] by (simp add: utf8_decode_def)
qed

lemma utf8_encode_bytes: "b \<in> set (utf8_encode s) \<Longrightarrow> b < 256"
proof -
  have "b < 256" if "scalar p" "b \<in> set (utf8_point p)" for p
    using that(1) by (cases rule: utf8_point_cases) (use that(2) in auto)
  then show "b \<in> set (utf8_encode s) \<Longrightarrow> b < 256"
    by (auto simp: utf8_encode_def dest!: code_points_scalar)
qed

section \<open>Base64\<close>

definition b64_units :: jstr where
  "b64_units = lit ''ABCDEFGHIJKLMNOPQRSTUVWXYZabcdefghijklmnopqrstuvwxyz0123456789+/''"

definition b64_unit :: "nat \<Rightarrow> cu" where
  "b64_unit i = b64_units ! i"

definition b64_index :: "cu \<Rightarrow> nat option" where
  "b64_index c = find_index (\<lambda>u. u = c) b64_units"

fun b64_sextets :: "nat list \<Rightarrow> nat list" where
  "b64_sextets [] = []"
| "b64_sextets [a] = [a div 4, a mod 4 * 16]"
| "b64_sextets [a, b] = [a div 4, a mod 4 * 16 + b div 16, b mod 16 * 4]"
| "b64_sextets (a # b # c # bs) =
     a div 4 # (a mod 4 * 16 + b div 16) # (b mod 16 * 4 + c div 64) # c mod 64 # b64_sextets bs"

fun b64_bytes :: "nat list \<Rightarrow> nat list" where
  "b64_bytes (i # j # k # l # is) =
     (i * 4 + j div 16) # (j mod 16 * 16 + k div 4) # (k mod 4 * 64 + l) # b64_bytes is"
| "b64_bytes [i, j, k] = [i * 4 + j div 16, j mod 16 * 16 + k div 4]"
| "b64_bytes [i, j] = [i * 4 + j div 16]"
| "b64_bytes _ = []"

definition js_btoa :: "nat list \<Rightarrow> jstr" where
  "js_btoa bs = (let s = map b64_unit (b64_sextets bs)
                 in s @ replicate ((4 - length s mod 4) mod 4) 61)"

text \<open>The forgiving decoder: white space is dropped, at most two closing pads, no dangling unit.\<close>

definition ascii_space :: "cu \<Rightarrow> bool" where
  "ascii_space c \<longleftrightarrow> c = 9 \<or> c = 10 \<or> c = 12 \<or> c = 13 \<or> c = 32"

definition strip_pads :: "jstr \<Rightarrow> jstr" where
  "strip_pads s =
     (if length s mod 4 \<noteq> 0 then s
      else if drop (length s - 2) s = [61, 61] then take (length s - 2) s
      else if drop (length s - 1) s = [61] then take (length s - 1) s else s)"

definition js_atob :: "jstr \<Rightarrow> nat list option" where
  "js_atob s =
     (let t = strip_pads (filter (\<lambda>c. \<not> ascii_space c) s); is = map b64_index t in
      if length t mod 4 = 1 \<or> None \<in> set is then None else Some (b64_bytes (map the is)))"

lemma find_index_nth: "distinct xs \<Longrightarrow> i < length xs \<Longrightarrow> find_index (\<lambda>u. u = xs ! i) xs = Some i"
proof (induction xs arbitrary: i)
  case (Cons x xs)
  then show ?case by (cases i) (auto simp: nth_Cons split: nat.split)
qed simp

lemma b64_units_props:
  "distinct b64_units" "length b64_units = 64"
  "list_all (\<lambda>u. u \<noteq> 61 \<and> \<not> ascii_space u \<and> u \<noteq> 45 \<and> u \<noteq> 95 \<and> u \<noteq> 46) b64_units"
proof -
  show "distinct b64_units" unfolding b64_units_def distinct_lit by simp
  show "length b64_units = 64" by (simp add: b64_units_def)
  show "list_all (\<lambda>u. u \<noteq> 61 \<and> \<not> ascii_space u \<and> u \<noteq> 45 \<and> u \<noteq> 95 \<and> u \<noteq> 46) b64_units"
    by (simp add: b64_units_def lit_def ascii_space_def)
qed

lemma b64_unit_props:
  assumes "i < 64"
  shows "b64_index (b64_unit i) = Some i" "b64_unit i \<noteq> 61" "\<not> ascii_space (b64_unit i)"
    "b64_unit i \<noteq> 45" "b64_unit i \<noteq> 95" "b64_unit i \<noteq> 46"
proof -
  have "b64_unit i \<in> set b64_units" using assms b64_units_props(2) by (simp add: b64_unit_def)
  with b64_units_props(3) show "b64_unit i \<noteq> 61" "\<not> ascii_space (b64_unit i)"
    "b64_unit i \<noteq> 45" "b64_unit i \<noteq> 95" "b64_unit i \<noteq> 46"
    by (auto simp: list_all_iff)
  show "b64_index (b64_unit i) = Some i"
    using assms b64_units_props(1,2) by (simp add: b64_index_def b64_unit_def find_index_nth)
qed

lemma b64_sextets_less: "list_all (\<lambda>b. b < 256) bs \<Longrightarrow> i \<in> set (b64_sextets bs) \<Longrightarrow> i < 64"
proof (induction bs rule: b64_sextets.induct)
  case (2 a)
  then have "a div 4 < 64" by (auto simp: div_less_iff_less_mult)
  moreover have "a mod 4 < 4" by simp
  ultimately show ?case using 2 by auto
next
  case (3 a b)
  then have "a div 4 < 64" "b div 16 < 16" by (auto simp: div_less_iff_less_mult)
  moreover have "a mod 4 < 4" "b mod 16 < 16" by simp_all
  ultimately show ?case using 3 by auto
next
  case (4 a b c bs)
  then have "a div 4 < 64" "b div 16 < 16" "c div 64 < 4" by (auto simp: div_less_iff_less_mult)
  moreover have "a mod 4 < 4" "b mod 16 < 16" "c mod 64 < 64" by simp_all
  ultimately show ?case using 4 by auto
qed simp

lemma b64_bytes_sextets: "list_all (\<lambda>b. b < 256) bs \<Longrightarrow> b64_bytes (b64_sextets bs) = bs"
proof (induction bs rule: b64_sextets.induct)
  case (3 a b)
  then have "b div 16 < 16" by (auto simp: div_less_iff_less_mult)
  then show ?case by auto
next
  case (4 a b c bs)
  then have "b div 16 < 16" "c div 64 < 4" by (auto simp: div_less_iff_less_mult)
  then show ?case using 4 by auto
qed auto

lemma b64_sextets_length: "length (b64_sextets bs) mod 4 \<noteq> 1"
  by (induction bs rule: b64_sextets.induct) auto

text \<open>
  The URL-safe variant drops the padding and maps the two last units of the alphabet. Encoding and
  decoding are written as the sources write them, as replacements over the standard text.
\<close>

definition b64url_encode :: "nat list \<Rightarrow> jstr" where
  "b64url_encode bs =
     rev (dropWhile (\<lambda>c. c = 61) (rev (str_replace_all 47 95 (str_replace_all 43 45 (js_btoa bs)))))"

definition b64url_decode :: "jstr \<Rightarrow> nat list option" where
  "b64url_decode s =
     (let t = str_replace_all 95 47 (str_replace_all 45 43 s)
      in js_atob (str_pad_end ((length t + 3) div 4 * 4) 61 t))"

lemma strip_rev_pads: "(\<And>c. c \<in> set s \<Longrightarrow> c \<noteq> 61) \<Longrightarrow> rev (dropWhile (\<lambda>c. c = 61) (rev (s @ replicate n 61))) = s"
  by (cases s rule: rev_cases) (auto simp: dropWhile_append)

lemma mod4_cases:
  fixes n :: nat
  obtains "n mod 4 = 0" "(n + 3) div 4 * 4 = n" "(n + 1) mod 4 = 1" "(n + 2) mod 4 = 2"
    | "n mod 4 = 1" "(n + 3) div 4 * 4 = n + 3" "(n + 1) mod 4 = 2" "(n + 2) mod 4 = 3"
    | "n mod 4 = 2" "(n + 3) div 4 * 4 = n + 2" "(n + 1) mod 4 = 3" "(n + 2) mod 4 = 0"
    | "n mod 4 = 3" "(n + 3) div 4 * 4 = n + 1" "(n + 1) mod 4 = 0" "(n + 2) mod 4 = 1"
proof -
  define q where "q = n div 4"
  have "n = 4 * q + n mod 4" "n mod 4 < 4" by (simp_all add: q_def)
  then consider "n = 4 * q" | "n = 4 * q + 1" | "n = 4 * q + 2" | "n = 4 * q + 3" by linarith
  then show thesis
  proof cases
    case 1 show thesis by (rule that(1)) (use 1 in presburger)+
  next
    case 2 show thesis by (rule that(2)) (use 2 in presburger)+
  next
    case 3 show thesis by (rule that(3)) (use 3 in presburger)+
  next
    case 4 show thesis by (rule that(4)) (use 4 in presburger)+
  qed
qed

lemma pad4: "(n + 3) div 4 * 4 - n = (4 - n mod 4) mod (4 :: nat)"
  by (cases n rule: mod4_cases) simp_all

lemma pad4_cases:
  assumes "n mod 4 \<noteq> (1 :: nat)"
  shows "(4 - n mod 4) mod 4 = 0 \<or> (4 - n mod 4) mod 4 = 1 \<and> (n + 1) mod 4 = 0
    \<or> (4 - n mod 4) mod 4 = 2 \<and> (n + 2) mod 4 = 0"
  using assms by (cases n rule: mod4_cases) simp_all

lemma js_atob_padded:
  assumes "list_all (\<lambda>i. i < 64) ss" "length ss mod 4 \<noteq> 1"
  shows "js_atob (map b64_unit ss @ replicate ((4 - length ss mod 4) mod 4) 61) = Some (b64_bytes ss)"
proof -
  let ?s = "map b64_unit ss" and ?n = "(4 - length ss mod 4) mod 4"
  have u: "b64_unit i \<noteq> 61" "\<not> ascii_space (b64_unit i)" "b64_index (b64_unit i) = Some i" if "i \<in> set ss" for i
    using that assms(1) b64_unit_props [of i] by (auto simp: list_all_iff)
  have f: "filter (\<lambda>c. \<not> ascii_space c) (?s @ replicate ?n 61) = ?s @ replicate ?n 61"
    using u by (auto simp: filter_id_conv ascii_space_def)
  have "61 \<notin> set ?s" using u by auto
  then have last: "drop (length ss - 1) ?s \<noteq> [61]" "drop (length ss - 2) ?s \<noteq> [61, 61]"
    using in_set_dropD [of 61 _ ?s] by (metis list.set_intros(1), metis list.set_intros(1))
  have st: "strip_pads (?s @ replicate ?n 61) = ?s"
    using pad4_cases [OF assms(2)]
  proof (elim disjE conjE)
    assume n: "?n = 0"
    then show ?thesis using last by (simp add: strip_pads_def)
  next
    assume n: "?n = 1" "(length ss + 1) mod 4 = 0"
    have "drop (length ss - 1) ?s @ [61] \<noteq> [61, 61]"
      using last(1) by (cases "drop (length ss - 1) ?s") auto
    then show ?thesis using n by (simp add: strip_pads_def)
  next
    assume n: "?n = 2" "(length ss + 2) mod 4 = 0"
    then show ?thesis by (simp add: strip_pads_def numeral_2_eq_2)
  qed
  have idx: "map b64_index ?s = map Some ss" using u by auto
  show ?thesis unfolding js_atob_def f st Let_def idx
    using assms(2) by (simp add: o_def image_iff)
qed

theorem b64url_roundtrip:
  assumes "list_all (\<lambda>b. b < 256) bs" shows "b64url_decode (b64url_encode bs) = Some bs"
proof -
  define ss where "ss = b64_sextets bs"
  define swap where "swap = (\<lambda>c. (if (if c = 43 then 45 else c) = 47 then 95 else (if c = 43 then 45 else c)) :: cu)"
  have lt: "i < 64" if "i \<in> set ss" for i using b64_sextets_less [OF assms] that by (simp add: ss_def)
  have u: "b64_unit i \<noteq> 61" "b64_unit i \<noteq> 45" "b64_unit i \<noteq> 95" if "i \<in> set ss" for i
    using b64_unit_props [OF lt [OF that]] by auto
  have enc: "b64url_encode bs = map (swap \<circ> b64_unit) ss"
  proof -
    have "str_replace_all 47 95 (str_replace_all 43 45 (js_btoa bs)) =
        map (swap \<circ> b64_unit) ss @ replicate ((4 - length ss mod 4) mod 4) 61"
      by (simp add: js_btoa_def Let_def ss_def str_replace_all_def swap_def)
    moreover have "c \<noteq> 61" if "c \<in> set (map (swap \<circ> b64_unit) ss)" for c
      using that u by (auto simp: swap_def)
    ultimately show ?thesis unfolding b64url_encode_def by (simp only:) (rule strip_rev_pads)
  qed
  have restore: "str_replace_all 95 47 (str_replace_all 45 43 (map (swap \<circ> b64_unit) ss)) = map b64_unit ss"
    using u by (auto simp: str_replace_all_def swap_def)
  have len: "length ss mod 4 \<noteq> 1" unfolding ss_def by (rule b64_sextets_length)
  have "b64url_decode (b64url_encode bs) = js_atob (map b64_unit ss @ replicate ((4 - length ss mod 4) mod 4) 61)"
    by (simp add: b64url_decode_def enc restore str_pad_end_def Let_def pad4)
  also have "\<dots> = Some (b64_bytes ss)"
    by (rule js_atob_padded) (use lt len in \<open>auto simp: list_all_iff\<close>)
  finally show ?thesis by (simp add: ss_def b64_bytes_sextets [OF assms])
qed

section \<open>URI components\<close>

definition uri_unreserved :: "cu \<Rightarrow> bool" where
  "uri_unreserved c \<longleftrightarrow>
     65 \<le> c \<and> c \<le> 90 \<or> 97 \<le> c \<and> c \<le> 122 \<or> 48 \<le> c \<and> c \<le> 57 \<or>
     c \<in> set (lit ''-_.!~*'' @ [39, 40, 41])"

definition hex_upper :: "nat \<Rightarrow> cu" where
  "hex_upper d = of_nat (if d < 10 then 48 + d else 55 + d)"

definition percent :: "nat \<Rightarrow> jstr" where
  "percent b = [37, hex_upper (b div 16), hex_upper (b mod 16)]"

text \<open>\<open>None\<close> is the \<open>URIError\<close> of a lone surrogate.\<close>

definition encode_uri_component :: "jstr \<Rightarrow> jstr option" where
  "encode_uri_component s =
     (if \<not> well_formed s then None
      else Some (concat (map (\<lambda>p. if p < 128 \<and> uri_unreserved (of_nat p) then [of_nat p]
                               else concat (map percent (utf8_point p))) (code_points s))))"

definition hex_digit :: "cu \<Rightarrow> nat option" where
  "hex_digit c =
     (let n = unat c in
      if 48 \<le> n \<and> n \<le> 57 then Some (n - 48) else if 65 \<le> n \<and> n \<le> 70 then Some (n - 55)
      else if 97 \<le> n \<and> n \<le> 102 then Some (n - 87) else None)"

definition percent_byte :: "jstr \<Rightarrow> (nat \<times> jstr) option" where
  "percent_byte s =
     (case s of
        c # a # b # r \<Rightarrow>
          (case (hex_digit a, hex_digit b) of
             (Some i, Some j) \<Rightarrow> if c = 37 then Some (16 * i + j, r) else None
           | _ \<Rightarrow> None)
      | _ \<Rightarrow> None)"

fun percent_bytes :: "nat \<Rightarrow> jstr \<Rightarrow> (nat list \<times> jstr) option" where
  "percent_bytes 0 s = Some ([], s)"
| "percent_bytes (Suc n) s =
     (case percent_byte s of
        None \<Rightarrow> None
      | Some (b, r) \<Rightarrow> map_option (apfst ((#) b)) (percent_bytes n r))"

definition utf8_extra :: "nat \<Rightarrow> nat option" where
  "utf8_extra b =
     (if b < 0x80 then Some 0 else if 0xC0 \<le> b \<and> b < 0xE0 then Some 1
      else if 0xE0 \<le> b \<and> b < 0xF0 then Some 2 else if 0xF0 \<le> b \<and> b < 0xF8 then Some 3 else None)"

text \<open>The octets of one escape sequence must be the UTF-8 encoding of one scalar value.\<close>

definition utf8_single :: "nat list \<Rightarrow> nat option" where
  "utf8_single bs =
     (case utf8_points bs of [p] \<Rightarrow> (if utf8_point p = bs \<and> scalar p then Some p else None) | _ \<Rightarrow> None)"

function decode_uri_component :: "jstr \<Rightarrow> jstr option" where
  "decode_uri_component [] = Some []"
| "decode_uri_component (c # s) =
     (if c \<noteq> 37 then map_option ((#) c) (decode_uri_component s)
      else (case percent_byte (c # s) of
         None \<Rightarrow> None
       | Some (b, r) \<Rightarrow>
           (case utf8_extra b of
              None \<Rightarrow> None
            | Some n \<Rightarrow>
                (case percent_bytes n r of
                   None \<Rightarrow> None
                 | Some (bs, r') \<Rightarrow>
                     (case utf8_single (b # bs) of
                        None \<Rightarrow> None
                      | Some p \<Rightarrow>
                          if length r' < length (c # s)
                          then map_option ((@) (utf16_point p)) (decode_uri_component r') else None)))))"
  by pat_completeness auto
termination by (relation "measure length") auto

declare decode_uri_component.simps(2) [simp del]

lemma hex_digit_upper: "d < 16 \<Longrightarrow> hex_digit (hex_upper d) = Some d"
  by (cases "d < 10") (simp_all only: hex_digit_def hex_upper_def if_True if_False unat_of_nat Let_def,
      simp_all add: take_bit_nat_eq_self)

lemma percent_byte_percent: "b < 256 \<Longrightarrow> percent_byte (percent b @ r) = Some (b, r)"
  by (simp add: percent_byte_def percent_def hex_digit_upper div_less_iff_less_mult)

lemma percent_bytes_percent:
  "list_all (\<lambda>b. b < 256) bs \<Longrightarrow> percent_bytes (length bs) (concat (map percent bs) @ r) = Some (bs, r)"
  by (induction bs) (simp_all add: percent_byte_percent)

lemma utf8_single_point: "scalar p \<Longrightarrow> utf8_single (utf8_point p) = Some p"
  using utf8_run_point [of p 0 0 0 "[]"] by (simp add: utf8_single_def utf8_points_def)

lemma utf8_point_shape:
  assumes "scalar p"
  shows "\<exists>b bs. utf8_point p = b # bs \<and> utf8_extra b = Some (length bs) \<and> list_all (\<lambda>b. b < 256) (b # bs)"
  using assms by (cases rule: utf8_point_cases) (auto simp: utf8_extra_def)

lemma decode_escaped:
  assumes "scalar p"
  shows "decode_uri_component (concat (map percent (utf8_point p)) @ r)
    = map_option ((@) (utf16_point p)) (decode_uri_component r)"
proof -
  obtain b bs where u: "utf8_point p = b # bs" "utf8_extra b = Some (length bs)" "list_all (\<lambda>b. b < 256) (b # bs)"
    using utf8_point_shape [OF assms] by blast
  let ?t = "concat (map percent bs) @ r"
  have "percent_byte (percent b @ ?t) = Some (b, ?t)" using u(3) by (simp add: percent_byte_percent)
  moreover have "percent_bytes (length bs) ?t = Some (bs, r)" using u(3) by (simp add: percent_bytes_percent)
  moreover have "utf8_single (b # bs) = Some p" using utf8_single_point [OF assms] u(1) by simp
  moreover have "percent b @ ?t = 37 # tl (percent b @ ?t)" "length r < length (percent b @ ?t)"
    by (simp_all add: percent_def)
  ultimately have "decode_uri_component (percent b @ ?t) = map_option ((@) (utf16_point p)) (decode_uri_component r)"
    using u(2) decode_uri_component.simps(2) [of 37 "tl (percent b @ ?t)"] by simp
  then show ?thesis by (simp add: u(1))
qed

theorem uri_roundtrip:
  assumes "encode_uri_component s = Some t" shows "decode_uri_component t = Some s"
proof -
  define enc where "enc = (\<lambda>p. if p < 128 \<and> uri_unreserved (of_nat p) then [of_nat p]
                               else concat (map percent (utf8_point p)))"
  have t: "t = concat (map enc (code_points s))" and wf: "well_formed s"
    using assms by (auto simp: encode_uri_component_def enc_def split: if_splits)
  have one: "decode_uri_component (enc p @ r) = map_option ((@) (utf16_point p)) (decode_uri_component r)"
    if "scalar p" for p r
  proof (cases "p < 128 \<and> uri_unreserved (of_nat p)")
    case True
    then have "of_nat p \<noteq> (37 :: cu)"
      by (auto simp: uri_unreserved_def lit_def)
    with True show ?thesis
      by (simp add: enc_def decode_uri_component.simps(2) utf16_point_def fun_eq_iff option.map_comp
          cong: option.map_cong)
  next
    case False
    then have "enc p = concat (map percent (utf8_point p))" unfolding enc_def by (rule if_not_P)
    then show ?thesis by (simp add: decode_escaped [OF that])
  qed
  have "decode_uri_component (concat (map enc ps)) = Some (concat (map utf16_point ps))"
    if "list_all scalar ps" for ps
    using that by (induction ps) (simp_all add: one)
  then show ?thesis
    using t utf16_code_points [OF wf] code_points_scalar by (simp add: list_all_iff)
qed

end
