(* ===== verification/Http_Client.thy ===== *)
theory Http_Client
  imports Zod Session Js_Text
begin

text \<open>
  \<open>shared/api/http.ts\<close> and \<open>describe-error.ts\<close>: request building, the token of the console a
  path belongs to, problem details as \<open>ApiError\<close>, contract checks of the answer. The network is a
  parameter: a function from a request and a world to an answer (or a thrown error) and a world, so
  that the mock server of the later theories can be put in its place.
\<close>

section \<open>Errors\<close>

text \<open>
  A thrown value: \<open>ApiError\<close> (status, message, detail), another \<open>Error\<close> (name, message), or
  something that is no \<open>Error\<close>.
\<close>

datatype js_error = ApiError nat jstr "jstr option" | JsError jstr jstr | NotError

definition truthy :: "jstr option \<Rightarrow> bool" where
  "truthy s \<longleftrightarrow> (case s of None \<Rightarrow> False | Some t \<Rightarrow> t \<noteq> [])"

lemma truthy_simps [simp]: "\<not> truthy None" "truthy (Some t) \<longleftrightarrow> t \<noteq> []"
  by (simp_all add: truthy_def)

definition not_implemented_text :: jstr where
  "not_implemented_text = ru ''E]# ne realizovano na b|kende''"

definition describe_error :: "js_error \<Rightarrow> jstr" where
  "describe_error e =
     (case e of
        ApiError s m d \<Rightarrow>
          if s = 501 then
            (if truthy d then not_implemented_text @ lit '': '' @ the d else not_implemented_text)
          else if truthy d then m @ lit '': '' @ the d
          else m
      | JsError n m \<Rightarrow> m
      | NotError \<Rightarrow> ru ''Neizvestnaq o[ibka'')"

definition is_status :: "nat \<Rightarrow> js_error \<Rightarrow> bool" where
  "is_status s e \<longleftrightarrow> (case e of ApiError t _ _ \<Rightarrow> t = s | _ \<Rightarrow> False)"

section \<open>URLs\<close>

definition api_base_url :: jstr where
  "api_base_url = lit ''/api/v1''"

text \<open>
  The URL parser splits the path at slashes and resolves dot segments (\<open>.\<close>, \<open>..\<close> and their
  percent-encoded spellings). The paths built here contain no unit it would escape.
\<close>

definition ascii_lower :: "cu \<Rightarrow> cu" where
  "ascii_lower c = (if 65 \<le> c \<and> c \<le> 90 then c + 32 else c)"

definition single_dot :: "jstr \<Rightarrow> bool" where
  "single_dot s \<longleftrightarrow> map ascii_lower s \<in> {lit ''.'', lit ''%2e''}"

definition double_dot :: "jstr \<Rightarrow> bool" where
  "double_dot s \<longleftrightarrow> map ascii_lower s \<in> {lit ''..'', lit ''.%2e'', lit ''%2e.'', lit ''%2e%2e''}"

fun resolve_dots :: "jstr list \<Rightarrow> jstr list \<Rightarrow> jstr list" where
  "resolve_dots acc [] = rev acc"
| "resolve_dots acc [s] =
     rev (if double_dot s then [] # drop 1 acc else if single_dot s then [] # acc else s # acc)"
| "resolve_dots acc (s # t # ss) =
     resolve_dots (if double_dot s then drop 1 acc else if single_dot s then acc else s # acc) (t # ss)"

definition url_segments :: "jstr \<Rightarrow> jstr list" where
  "url_segments path = resolve_dots [] (drop 1 (str_split 47 path))"

datatype query_value = QStr jstr | QNum number | QUndefined

definition query_text :: "query_value \<Rightarrow> jstr" where
  "query_text q = (case q of QStr s \<Rightarrow> s | QNum x \<Rightarrow> number_text x | QUndefined \<Rightarrow> lit ''undefined'')"

record url =
  url_path :: "jstr list"
  url_query :: "(jstr \<times> jstr) list"

definition api_url :: "jstr \<Rightarrow> query_value obj \<Rightarrow> url" where
  "api_url path query =
     \<lparr>url_path = url_segments (api_base_url @ path),
      url_query = map (\<lambda>(k, v). (k, query_text v)) (filter (\<lambda>(k, v). v \<noteq> QUndefined \<and> v \<noteq> QStr []) query)\<rparr>"

section \<open>Requests and answers\<close>

datatype http_method = GET | POST | PUT | PATCH | DELETE

record upload_file =
  file_name :: jstr
  file_bytes :: "byte list"

datatype body_value = NoBody | JsonValue json | FormData upload_file

datatype wire_body = WireNone | WireText jstr | WireForm upload_file

record request =
  req_method :: http_method
  req_url :: url
  req_auth :: "jstr option"
  req_content_type :: "jstr option"
  req_body :: wire_body

record response =
  resp_status :: nat
  resp_text :: jstr

record options =
  opt_schema :: zschema
  opt_method :: http_method
  opt_body :: body_value
  opt_query :: "query_value obj"
  opt_token :: "jstr option"

text \<open>
  What the host supplies: the schema library's parser and error text, and the texts of the errors
  the platform throws (a header value that is no byte string, a body that is not JSON).
\<close>

record host =
  zod_parse :: zparser
  zod_prettify :: "zschema \<Rightarrow> json option \<Rightarrow> jstr"
  header_message :: "jstr \<Rightarrow> jstr"
  syntax_message :: "jstr \<Rightarrow> jstr"

type_synonym 'w network = "request \<Rightarrow> 'w \<Rightarrow> (js_error + response) \<times> 'w"

text \<open>\<open>Headers.set\<close>: outer white space is dropped; a unit above \<open>0xFF\<close> or a NUL, CR or LF throws.\<close>

definition http_space :: "cu \<Rightarrow> bool" where
  "http_space c \<longleftrightarrow> c = 9 \<or> c = 10 \<or> c = 13 \<or> c = 32"

definition header_value :: "jstr \<Rightarrow> jstr option" where
  "header_value s =
     (let t = rev (dropWhile http_space (rev (dropWhile http_space s))) in
      if list_all (\<lambda>c. c \<le> 0xFF \<and> c \<noteq> 0 \<and> c \<noteq> 10 \<and> c \<noteq> 13) t then Some t else None)"

definition problem_schema :: zschema where
  "problem_schema = ZObject
     [(lit ''type'', ZNullish ZString), (lit ''title'', ZNullish ZString),
      (lit ''status'', ZNullish ZNumber), (lit ''detail'', ZNullish ZString)]"

text \<open>\<open>data.field ?? undefined\<close> for a field that is a string, null or absent.\<close>

definition string_field :: "json option \<Rightarrow> jstr \<Rightarrow> jstr option" where
  "string_field v k =
     (case v of Some (JObj ob) \<Rightarrow> (case obj_get ob k of Some (JStr s) \<Rightarrow> Some s | _ \<Rightarrow> None) | _ \<Rightarrow> None)"

definition api_token :: "jstr \<Rightarrow> options \<Rightarrow> browser \<Rightarrow> jstr option" where
  "api_token path opts b =
     (case opt_token opts of Some t \<Rightarrow> Some t | None \<Rightarrow> get_token b (console_for_path path))"

definition build_request :: "host \<Rightarrow> jstr \<Rightarrow> options \<Rightarrow> browser \<Rightarrow> js_error + request" where
  "build_request h path opts b =
     (let token = api_token path opts b;
          auth = (if truthy token then map_option Some (header_value (lit ''Bearer '' @ the token)) else Some None)
      in case auth of
           None \<Rightarrow> Inl (JsError (lit ''TypeError'') (header_message h (lit ''Bearer '' @ the token)))
         | Some a \<Rightarrow> Inr
             \<lparr>req_method = opt_method opts, req_url = api_url path (opt_query opts), req_auth = a,
              req_content_type = (case opt_body opts of JsonValue _ \<Rightarrow> Some (lit ''application/json'') | _ \<Rightarrow> None),
              req_body = (case opt_body opts of NoBody \<Rightarrow> WireNone | FormData f \<Rightarrow> WireForm f
                                              | JsonValue v \<Rightarrow> WireText (json_stringify v))\<rparr>)"

definition method_text :: "http_method \<Rightarrow> jstr" where
  "method_text m = lit (case m of GET \<Rightarrow> ''GET'' | POST \<Rightarrow> ''POST'' | PUT \<Rightarrow> ''PUT'' | PATCH \<Rightarrow> ''PATCH'' | DELETE \<Rightarrow> ''DELETE'')"

definition response_ok :: "response \<Rightarrow> bool" where
  "response_ok r \<longleftrightarrow> 200 \<le> resp_status r \<and> resp_status r < 300"

definition api_error :: "host \<Rightarrow> response \<Rightarrow> js_error" where
  "api_error h r =
     (let body = (case json_parse (resp_text r) of Some v \<Rightarrow> v | None \<Rightarrow> JNull);
          problem = zod_parse h problem_schema (Some body);
          title = (case problem of Some v \<Rightarrow> string_field v (lit ''title'') | None \<Rightarrow> None);
          detail = (case problem of Some v \<Rightarrow> string_field v (lit ''detail'') | None \<Rightarrow> None)
      in ApiError (resp_status r) (nullish title (lit ''HTTP '' @ nat_text (resp_status r))) detail)"

text \<open>The answer of a successful request: no body with 204, otherwise JSON that fits the schema.\<close>

definition api_payload :: "host \<Rightarrow> jstr \<Rightarrow> options \<Rightarrow> response \<Rightarrow> js_error + json option" where
  "api_payload h path opts r =
     (case (if resp_status r = 204 then Some None else map_option Some (json_parse (resp_text r))) of
        None \<Rightarrow> Inl (JsError (lit ''SyntaxError'') (syntax_message h (resp_text r)))
      | Some payload \<Rightarrow>
          (case zod_parse h (opt_schema opts) payload of
             Some v \<Rightarrow> Inr v
           | None \<Rightarrow> Inl (ApiError (resp_status r)
               (ru ''Otvet '' @ method_text (opt_method opts) @ [32] @ path @ ru '' ne sootvetstvuet kontraktu'')
               (Some (zod_prettify h (opt_schema opts) payload)))))"

definition api_request ::
  "host \<Rightarrow> 'w network \<Rightarrow> jstr \<Rightarrow> options \<Rightarrow> browser \<Rightarrow> 'w \<Rightarrow> (js_error + json option) \<times> browser \<times> 'w" where
  "api_request h net path opts b w =
     (case build_request h path opts b of
        Inl e \<Rightarrow> (Inl e, b, w)
      | Inr req \<Rightarrow>
          (case net req w of
             (Inl e, w') \<Rightarrow> (Inl e, b, w')
           | (Inr r, w') \<Rightarrow>
               if response_ok r then (api_payload h path opts r, b, w')
               else (Inl (api_error h r),
                     if resp_status r = 401 \<and> opt_token opts = None
                     then clear_token (console_for_path path) b else b, w')))"

section \<open>Lemmas\<close>

lemma api_error_status [simp]: "is_status s (api_error h r) \<longleftrightarrow> resp_status r = s"
  by (simp add: api_error_def is_status_def Let_def)

lemma build_request_frame:
  assumes "build_request h path opts b = Inr req"
  shows "req_method req = opt_method opts" "req_url req = api_url path (opt_query opts)"
  using assms by (auto simp: build_request_def Let_def split: option.splits if_splits)

text \<open>The header of a request names the token of the console its path belongs to, or none.\<close>

lemma build_request_auth:
  assumes "build_request h path opts b = Inr req" "opt_token opts = None"
  shows "req_auth req =
    (case get_token b (console_for_path path) of None \<Rightarrow> None | Some t \<Rightarrow> header_value (lit ''Bearer '' @ t))"
  using assms tokens.get_nonempty [of b "console_for_path path"]
  by (auto simp: build_request_def api_token_def Let_def split: option.splits if_splits)

lemma api_request_cases:
  obtains (thrown) e where "api_request h net path opts b w = (Inl e, b, w)" "build_request h path opts b = Inl e"
  | (offline) req e w' where "build_request h path opts b = Inr req" "net req w = (Inl e, w')"
      "api_request h net path opts b w = (Inl e, b, w')"
  | (answered) req r w' where "build_request h path opts b = Inr req" "net req w = (Inr r, w')" "response_ok r"
      "api_request h net path opts b w = (api_payload h path opts r, b, w')"
  | (refused) req r w' where "build_request h path opts b = Inr req" "net req w = (Inr r, w')" "\<not> response_ok r"
      "api_request h net path opts b w = (Inl (api_error h r),
         if resp_status r = 401 \<and> opt_token opts = None then clear_token (console_for_path path) b else b, w')"
proof (cases "build_request h path opts b")
  case (Inl e)
  then show ?thesis by (intro thrown) (simp_all add: api_request_def)
next
  case (Inr req)
  obtain a w' where net: "net req w = (a, w')" by fastforce
  show ?thesis
  proof (cases a)
    case (Inl e)
    then show ?thesis using Inr net by (intro offline) (simp_all add: api_request_def)
  next
    case (Inr r)
    then show ?thesis
      using \<open>build_request h path opts b = Inr req\<close> net answered [of req r w'] refused [of req r w']
      by (cases "response_ok r") (simp_all add: api_request_def)
  qed
qed

lemma api_payload_Inr:
  assumes "api_payload h path opts r = Inr v"
  shows "zod_parse h (opt_schema opts)
    (if resp_status r = 204 then None else json_parse (resp_text r)) = Some v"
  using assms by (auto simp: api_payload_def split: option.splits if_splits)

lemma resolve_dots_plain:
  assumes "\<And>s. s \<in> set ss \<Longrightarrow> \<not> double_dot s \<and> \<not> single_dot s"
  shows "resolve_dots acc ss = rev acc @ ss"
  using assms by (induction acc ss rule: resolve_dots.induct) auto

end
