(* ===== verification/Js_Date.thy ===== *)
theory Js_Date
  imports Js_Json
begin

text \<open>
  \<open>Date.prototype.toISOString\<close> and \<open>Date.parse\<close> on the two ISO forms that occur in the sources
  (with and without milliseconds, in UTC). A time value is an integer count of milliseconds since
  the epoch. Other date strings parse to \<open>NaN\<close> here; none occur.
\<close>

section \<open>Days and years\<close>

definition day_from_year :: "int \<Rightarrow> int" where
  "day_from_year y = 365 * (y - 1970) + (y - 1969) div 4 - (y - 1901) div 100 + (y - 1601) div 400"

definition leap_year :: "int \<Rightarrow> bool" where
  "leap_year y \<longleftrightarrow> y mod 4 = 0 \<and> (y mod 100 \<noteq> 0 \<or> y mod 400 = 0)"

text \<open>The largest year whose first day is not after the day: an estimate, corrected by at most one.\<close>

definition year_from_day :: "int \<Rightarrow> int" where
  "year_from_day z =
     (let e = 1970 + (z * 400) div 146097 in
      if day_from_year (e + 1) \<le> z then e + 1 else if day_from_year e \<le> z then e else e - 1)"

definition month_starts :: "bool \<Rightarrow> int list" where
  "month_starts leap =
     (let f = (if leap then 1 else 0) in
      [0, 31, 59 + f, 90 + f, 120 + f, 151 + f, 181 + f, 212 + f, 243 + f, 273 + f, 304 + f, 334 + f])"

definition month_from_doy :: "bool \<Rightarrow> int \<Rightarrow> nat" where
  "month_from_doy leap d = length (filter (\<lambda>s. s \<le> d) (month_starts leap)) - 1"

definition civil_day :: "int \<Rightarrow> nat \<Rightarrow> int \<Rightarrow> int" where
  "civil_day y m d = day_from_year y + month_starts (leap_year y) ! m + d - 1"

section \<open>Text\<close>

definition pad_nat :: "nat \<Rightarrow> nat \<Rightarrow> jstr" where
  "pad_nat w n = str_pad_start w 48 (nat_text n)"

definition year_text :: "int \<Rightarrow> jstr" where
  "year_text y =
     (if 0 \<le> y \<and> y \<le> 9999 then pad_nat 4 (nat y)
      else (if y < 0 then 45 else 43) # pad_nat 6 (nat \<bar>y\<bar>))"

definition iso_of_ms :: "int \<Rightarrow> jstr" where
  "iso_of_ms t =
     (let z = t div 86400000; ms = t mod 86400000; y = year_from_day z;
          doy = z - day_from_year y; m = month_from_doy (leap_year y) doy;
          d = doy - month_starts (leap_year y) ! m + 1
      in year_text y @ [45] @ pad_nat 2 (m + 1) @ [45] @ pad_nat 2 (nat d) @ [84]
         @ pad_nat 2 (nat (ms div 3600000)) @ [58] @ pad_nat 2 (nat (ms div 60000 mod 60)) @ [58]
         @ pad_nat 2 (nat (ms div 1000 mod 60)) @ [46] @ pad_nat 3 (nat (ms mod 1000)) @ [90])"

definition units_at :: "jstr \<Rightarrow> nat \<Rightarrow> nat \<Rightarrow> nat" where
  "units_at s i n = nat_of_units (take n (drop i s))"

definition digits_at :: "jstr \<Rightarrow> nat \<Rightarrow> nat \<Rightarrow> bool" where
  "digits_at s i n \<longleftrightarrow> list_all is_digit (take n (drop i s))"

definition iso_shape :: "jstr \<Rightarrow> bool" where
  "iso_shape s \<longleftrightarrow> digits_at s 0 4 \<and> s ! 4 = 45 \<and> digits_at s 5 2 \<and> s ! 7 = 45 \<and> digits_at s 8 2 \<and> s ! 10 = 84
     \<and> digits_at s 11 2 \<and> s ! 13 = 58 \<and> digits_at s 14 2 \<and> s ! 16 = 58 \<and> digits_at s 17 2"

definition date_parse :: "jstr \<Rightarrow> int option" where
  "date_parse s =
     (let y = int (units_at s 0 4); mo = units_at s 5 2; d = int (units_at s 8 2);
          h = int (units_at s 11 2); mi = int (units_at s 14 2); sec = int (units_at s 17 2);
          base = \<lambda>ms. ((civil_day y (mo - 1) d * 24 + h) * 60 + mi) * 60000 + sec * 1000 + ms
      in if \<not> (20 \<le> length s \<and> iso_shape s \<and> 1 \<le> mo \<and> mo \<le> 12 \<and> 1 \<le> d \<and> d \<le> 31 \<and> h \<le> 23 \<and> mi \<le> 59 \<and> sec \<le> 59)
         then None
         else if length s = 20 \<and> s ! 19 = 90 then Some (base 0)
         else if length s = 24 \<and> s ! 19 = 46 \<and> digits_at s 20 3 \<and> s ! 23 = 90 then Some (base (int (units_at s 20 3)))
         else None)"

section \<open>The round trip\<close>

lemma year_from_day_bounds:
  "day_from_year (year_from_day z) \<le> z" "z < day_from_year (year_from_day z + 1)"
proof -
  define e where "e = 1970 + (z * 400) div 146097"
  have div: "d * (x div d) \<le> x \<and> x < d * (x div d) + d" if "0 < d" for d x :: int
    using that pos_mod_bound [of d x] pos_mod_sign [of d x] mult_div_mod_eq [of d x] by linarith
  have est: "146097 * (e - 1970) \<le> z * 400" "z * 400 < 146097 * (e - 1970) + 146097"
    using div [of 146097 "z * 400"] by (simp_all add: e_def)
  have lo: "day_from_year (e - 1) \<le> z"
    using est div [of 4 "e - 1970"] div [of 100 "e - 1902"] div [of 400 "e - 1602"]
    unfolding day_from_year_def by (simp add: algebra_simps, linarith?)
  have hi: "z < day_from_year (e + 2)"
    using est div [of 4 "e - 1967"] div [of 100 "e - 1899"] div [of 400 "e - 1599"]
    unfolding day_from_year_def by (simp add: algebra_simps, linarith?)
  have e: "year_from_day z = (if day_from_year (e + 1) \<le> z then e + 1 else if day_from_year e \<le> z then e else e - 1)"
    by (simp add: year_from_day_def e_def Let_def)
  show "day_from_year (year_from_day z) \<le> z" "z < day_from_year (year_from_day z + 1)"
    using lo hi by (auto simp: e not_le add.commute)
qed

lemma div_step: "0 < d \<Longrightarrow> (x + 1) div d - x div d = (if (x + 1) mod d = 0 then 1 else 0)" for x d :: int
proof -
  assume d: "0 < d"
  define q r where "q = x div d" and "r = x mod d"
  have x: "x = r + q * d" by (simp add: q_def r_def)
  have r: "0 \<le> r" "r < d" using d by (simp_all add: r_def)
  have div: "(x + 1) div d = q + (r + 1) div d" and md: "(x + 1) mod d = (r + 1) mod d"
    using d div_mult_self1 [of d "r + 1" q] mod_mult_self1 [of "r + 1" q d] by (simp_all add: x algebra_simps)
  show ?thesis
  proof (cases "r + 1 = d")
    case True
    then show ?thesis using d by (simp add: div md q_def [symmetric])
  next
    case False
    then have "(r + 1) div d = 0" "(r + 1) mod d = r + 1" using r by (simp_all add: div_pos_pos_trivial mod_pos_pos_trivial)
    then show ?thesis using r by (simp add: div md q_def [symmetric])
  qed
qed

lemma mod_shift: "(y - k * d) mod d = y mod d" for y k d :: int
  using mod_mult_self1 [of y "- k" d] by simp

lemma year_length: "day_from_year (y + 1) - day_from_year y = (if leap_year y then 366 else 365)"
proof -
  have 4: "(y - 1968) div 4 - (y - 1969) div 4 = (if y mod 4 = 0 then 1 else 0)"
    using div_step [of 4 "y - 1969"] mod_shift [of y 492 4] by simp
  have 100: "(y - 1900) div 100 - (y - 1901) div 100 = (if y mod 100 = 0 then 1 else 0)"
    using div_step [of 100 "y - 1901"] mod_shift [of y 19 100] by simp
  have 400: "(y - 1600) div 400 - (y - 1601) div 400 = (if y mod 400 = 0 then 1 else 0)"
    using div_step [of 400 "y - 1601"] mod_shift [of y 4 400] by simp
  have m: "y mod 100 = 0 \<Longrightarrow> y mod 4 = 0" "y mod 400 = 0 \<Longrightarrow> y mod 100 = 0"
    using mod_mod_cancel [of 4 100 y] mod_mod_cancel [of 100 400 y] by simp_all
  have "day_from_year (y + 1) - day_from_year y = 365 + ((y - 1968) div 4 - (y - 1969) div 4)
      - ((y - 1900) div 100 - (y - 1901) div 100) + ((y - 1600) div 400 - (y - 1601) div 400)"
    by (simp add: day_from_year_def)
  then have "day_from_year (y + 1) - day_from_year y = 365 + (if y mod 4 = 0 then 1 else 0)
      - (if y mod 100 = 0 then 1 else 0) + (if y mod 400 = 0 then 1 else 0)"
    unfolding 4 100 400 .
  then show ?thesis using m unfolding leap_year_def
    by (cases "y mod 4 = 0"; cases "y mod 100 = 0"; cases "y mod 400 = 0") simp_all
qed

lemma month_bounds:
  assumes "0 \<le> d" "d < (if leap then 366 else 365)"
  shows "month_from_doy leap d < 12 \<and> month_starts leap ! month_from_doy leap d \<le> d
    \<and> d < month_starts leap ! month_from_doy leap d + 31"
proof -
  define f :: int where "f = (if leap then 1 else 0)"
  have f: "0 \<le> f" "f \<le> 1" "d < 365 + f" using assms by (simp_all add: f_def split: if_splits)
  have starts: "month_starts leap = [0, 31, 59 + f, 90 + f, 120 + f, 151 + f, 181 + f, 212 + f, 243 + f, 273 + f, 304 + f, 334 + f]"
    by (simp add: month_starts_def f_def)
  have "d < 31 \<or> \<not> d < 31 \<and> d < 59 + f \<or> \<not> d < 59 + f \<and> d < 90 + f \<or> \<not> d < 90 + f \<and> d < 120 + f
    \<or> \<not> d < 120 + f \<and> d < 151 + f \<or> \<not> d < 151 + f \<and> d < 181 + f \<or> \<not> d < 181 + f \<and> d < 212 + f
    \<or> \<not> d < 212 + f \<and> d < 243 + f \<or> \<not> d < 243 + f \<and> d < 273 + f \<or> \<not> d < 273 + f \<and> d < 304 + f
    \<or> \<not> d < 304 + f \<and> d < 334 + f \<or> \<not> d < 334 + f"
    by blast
  then show ?thesis
    using assms(1) f by (elim disjE conjE) (simp_all add: month_from_doy_def starts)
qed

lemma length_digits_of: "n < 10 ^ w \<Longrightarrow> 0 < w \<Longrightarrow> length (digits_of 10 n) \<le> w"
proof (induction w arbitrary: n)
  case (Suc w)
  show ?case
  proof (cases "n < 10")
    case True
    then show ?thesis by (simp add: digits_of_single)
  next
    case False
    have lt: "n div 10 < 10 ^ w" using Suc.prems by (simp add: div_less_iff_less_mult mult.commute)
    moreover have "0 < w" using False lt by (cases w) (simp_all add: div_eq_0_iff)
    ultimately have "length (digits_of 10 (n div 10)) \<le> w" by (rule Suc.IH)
    then show ?thesis using False by (simp add: digits_of.simps [of 10 n])
  qed
qed simp

lemma digits_value_zeros: "digits_value 10 (replicate k 0 @ ds) = digits_value 10 ds"
  by (induction k) (simp_all add: digits_value_def)

lemma nat_of_units_pad [simp]: "nat_of_units (str_pad_start w 48 (nat_text n)) = n"
proof -
  have "digit_value 48 = 0" by (simp add: digit_value_def)
  then show ?thesis
    using nat_of_units_nat_text [of n] by (simp add: str_pad_start_def nat_of_units_def digits_value_zeros)
qed

lemma pad_nat_props:
  assumes "n < 10 ^ w" "0 < w"
  shows "length (pad_nat w n) = w" "list_all is_digit (pad_nat w n)" "nat_of_units (pad_nat w n) = n"
proof -
  have len: "length (nat_text n) \<le> w" using length_digits_of [OF assms] by (simp add: nat_text_def)
  have pad: "pad_nat w n = replicate (w - length (nat_text n)) 48 @ nat_text n"
    by (simp add: pad_nat_def str_pad_start_def)
  show "length (pad_nat w n) = w" using len by (simp add: pad)
  show "list_all is_digit (pad_nat w n)" 
    using nat_text_digits [of _ n] by (auto simp: pad list_all_iff is_digit_def)
  show "nat_of_units (pad_nat w n) = n" by (simp add: pad_nat_def)
qed

theorem date_parse_iso:
  assumes "0 \<le> year_from_day (t div 86400000)" "year_from_day (t div 86400000) \<le> 9999"
  shows "date_parse (iso_of_ms t) = Some t"
proof -
  define z ms where "z = t div 86400000" and "ms = t mod 86400000"
  define y where "y = year_from_day z"
  define m where "m = month_from_doy (leap_year y) (z - day_from_year y)"
  define d where "d = z - day_from_year y - month_starts (leap_year y) ! m + 1"
  have ms: "0 \<le> ms" "ms < 86400000" and t: "t = z * 86400000 + ms"
    by (simp_all add: z_def ms_def)
  have "0 \<le> z - day_from_year y" "z - day_from_year y < (if leap_year y then 366 else 365)"
    using year_from_day_bounds [of z] year_length [of y] by (simp_all add: y_def)
  from month_bounds [OF this] have m: "m < 12" and d: "1 \<le> d" "d \<le> 31" by (simp_all add: m_def d_def)
  have civil: "civil_day y m d = z" by (simp add: civil_day_def d_def)
  define h mi se mm where "h = ms div 3600000" and "mi = ms div 60000 mod 60" and "se = ms div 1000 mod 60" and "mm = ms mod 1000"
  have r: "0 \<le> h" "h < 24" "0 \<le> mi" "mi < 60" "0 \<le> se" "se < 60" "0 \<le> mm" "mm < 1000"
    using ms by (simp_all add: h_def mi_def se_def mm_def pos_imp_zdiv_nonneg_iff div_less_iff_less_mult)
  have ms_eq: "ms = (h * 60 + mi) * 60000 + se * 1000 + mm"
  proof -
    define a b where "a = ms div 1000" and "b = a div 60"
    have div: "ms div 60000 = b" "ms div 3600000 = b div 60"
      by (simp_all add: a_def b_def zdiv_zmult2_eq [symmetric])
    have "ms = a * 1000 + mm" by (simp add: a_def mm_def)
    moreover have "a = b * 60 + se" by (simp add: b_def se_def a_def [symmetric])
    moreover have "b = h * 60 + mi" by (simp add: h_def mi_def div)
    ultimately show ?thesis by (simp add: algebra_simps)
  qed
  define Y M D H Mi S Mm where "Y = pad_nat 4 (nat y)" and "M = pad_nat 2 (m + 1)" and "D = pad_nat 2 (nat d)"
    and "H = pad_nat 2 (nat h)" and "Mi = pad_nat 2 (nat mi)" and "S = pad_nat 2 (nat se)" and "Mm = pad_nat 3 (nat mm)"
  have y: "0 \<le> y" "y \<le> 9999" using assms by (simp_all add: y_def z_def)
  have iso: "iso_of_ms t = Y @ [45] @ M @ [45] @ D @ [84] @ H @ [58] @ Mi @ [58] @ S @ [46] @ Mm @ [90]"
    using y unfolding iso_of_ms_def Let_def z_def [symmetric] ms_def [symmetric] y_def [symmetric]
    by (simp add: year_text_def m_def [symmetric] d_def [symmetric] h_def mi_def se_def mm_def
        Y_def M_def D_def H_def Mi_def S_def Mm_def)
  have small: "nat y < 10 ^ 4" "m + 1 < 10 ^ 2" "nat d < 10 ^ 2" "nat h < 10 ^ 2" "nat mi < 10 ^ 2" "nat se < 10 ^ 2" "nat mm < 10 ^ 3"
    using y m d r by (simp_all add: nat_less_iff)
  note pads = small [THEN pad_nat_props(1)] small [THEN pad_nat_props(2)] small [THEN pad_nat_props(3)]
  have lens: "length Y = 4" "length M = 2" "length D = 2" "length H = 2" "length Mi = 2" "length S = 2" "length Mm = 3"
    unfolding Y_def M_def D_def H_def Mi_def S_def Mm_def by (rule pads, simp)+
  have digs: "list_all is_digit Y" "list_all is_digit M" "list_all is_digit D" "list_all is_digit H"
      "list_all is_digit Mi" "list_all is_digit S" "list_all is_digit Mm"
    unfolding Y_def M_def D_def H_def Mi_def S_def Mm_def by (rule pads, simp)+
  have vals: "nat_of_units Y = nat y" "nat_of_units M = m + 1" "nat_of_units D = nat d" "nat_of_units H = nat h"
      "nat_of_units Mi = nat mi" "nat_of_units S = nat se" "nat_of_units Mm = nat mm"
    unfolding Y_def M_def D_def H_def Mi_def S_def Mm_def by (rule pads, simp)+
  define s where "s = Y @ [45] @ M @ [45] @ D @ [84] @ H @ [58] @ Mi @ [58] @ S @ [46] @ Mm @ [90]"
  have parts: "take 4 s = Y" "take 2 (drop 5 s) = M" "take 2 (drop 8 s) = D" "take 2 (drop 11 s) = H"
    "take 2 (drop 14 s) = Mi" "take 2 (drop 17 s) = S" "take 3 (drop 20 s) = Mm"
    by (simp_all add: s_def lens)
  have seps: "s ! 4 = 45" "s ! 7 = 45" "s ! 10 = 84" "s ! 13 = 58" "s ! 16 = 58" "s ! 19 = 46" "s ! 23 = 90" "length s = 24"
    by (simp_all add: s_def lens nth_append)
  have shape: "iso_shape s" "digits_at s 20 3" by (simp_all add: iso_shape_def digits_at_def parts seps digs)
  have units: "int (units_at s 0 4) = y" "units_at s 5 2 = m + 1" "int (units_at s 8 2) = d" "int (units_at s 11 2) = h"
    "int (units_at s 14 2) = mi" "int (units_at s 17 2) = se" "int (units_at s 20 3) = mm"
    using y d r by (simp_all add: units_at_def parts vals)
  have "date_parse s = Some (((civil_day y m d * 24 + h) * 60 + mi) * 60000 + se * 1000 + mm)"
    using m d r by (simp add: date_parse_def Let_def units shape seps)
  also have "((civil_day y m d * 24 + h) * 60 + mi) * 60000 + se * 1000 + mm = t"
    unfolding civil t ms_eq by (simp add: algebra_simps)
  finally show ?thesis by (simp add: iso s_def)
qed

end
