(* ===== verification/Entities.thy ===== *)
theory Entities
  imports Http_Client Js_Date
begin

text \<open>
  \<open>entities/*\<close> and \<open>shared/lib/format.ts\<close>, \<open>shared/config\<close>: the records the API exchanges with
  their zod schemas and JSON texts, the limits, the labels, the query descriptions (key, request,
  polling) and the text of sizes, hashes, quotas and routes. Numeric fields are the language's
  numbers; a field that may be \<open>null\<close> or absent is an option.
\<close>

section \<open>Limits (\<open>schema.ts\<close>, \<open>operator-schema.ts\<close>)\<close>

definition KEY_NAME_MAX :: nat where "KEY_NAME_MAX = 64"
definition EXTERNAL_ID_MAX :: nat where "EXTERNAL_ID_MAX = 128"
definition QUOTA_MAX :: int where "QUOTA_MAX = 2147483647"
definition MAX_MODULE_BYTES :: nat where "MAX_MODULE_BYTES = 10 * 1024 * 1024"
definition HOOK_NAME_MAX :: nat where "HOOK_NAME_MAX = 128"
definition TIMEOUT_MS :: "int \<times> int" where "TIMEOUT_MS = (1, 30000)"
definition MEMORY_PAGES :: "int \<times> int" where "MEMORY_PAGES = (16, 16384)"

lemmas limit_defs = KEY_NAME_MAX_def EXTERNAL_ID_MAX_def QUOTA_MAX_def MAX_MODULE_BYTES_def HOOK_NAME_MAX_def
  TIMEOUT_MS_def MEMORY_PAGES_def

text \<open>
  \<open>HOOK_NAME_PATTERN\<close>, \<open>/^[a-z][a-z0-9_]*(\.[a-z][a-z0-9_]*)*$/\<close>: parts separated by dots, each a
  lower-case letter followed by lower-case letters, digits and underscores.
\<close>

definition lower_unit :: "cu \<Rightarrow> bool" where
  "lower_unit c \<longleftrightarrow> 97 \<le> c \<and> c \<le> 122"

definition name_part :: "jstr \<Rightarrow> bool" where
  "name_part s \<longleftrightarrow> (case s of [] \<Rightarrow> False | c # t \<Rightarrow>
     lower_unit c \<and> list_all (\<lambda>d. lower_unit d \<or> is_digit d \<or> d = 95) t)"

definition HOOK_NAME_PATTERN :: "jstr \<Rightarrow> bool" where
  "HOOK_NAME_PATTERN s \<longleftrightarrow> list_all name_part (str_split 46 s)"

definition hook_pattern_source :: jstr where
  "hook_pattern_source = lit ''^[a-z][a-z0-9_]*('' @ [92] @ lit ''.[a-z][a-z0-9_]*)*$''"

section \<open>Records\<close>

record tenant_quotas =
  rate_limit_rps :: number
  concurrency_limit :: number

record tenant = tenant_quotas +
  external_id :: jstr
  tenant_name :: jstr
  tenant_created :: jstr
  tenant_updated :: jstr

record api_key =
  key_id :: jstr
  key_name :: jstr
  key_created :: jstr
  revoked_at :: "jstr option"

record hook_spec =
  input_schema :: "json obj"
  output_schema :: "json obj"
  timeout_ms :: number
  memory_max_pages :: number
  allowed_host_functions :: "jstr list"
  allowed_effect_types :: "jstr list"
  sample_input :: "json obj"

record operator_hook =
  hook_name :: jstr
  def_version :: number
  hook_created :: jstr
  hook_updated :: jstr
  hook_spec_of :: hook_spec

record binding =
  active_module_id :: "jstr option"
  active_module_hash :: "jstr option"
  binding_config :: json
  config_version :: number
  binding_updated :: jstr

datatype module_status = Uploaded | Validating | Validated | Rejected | Archived

datatype check_name = CheckFetch | CheckCompile | CheckExports | CheckImports | CheckSampleCall

record validation_check =
  check_name_of :: check_name
  check_ok :: bool
  check_detail :: "jstr option"

record validation_report =
  report_ok :: bool
  report_checks :: "validation_check list"

record module =
  mod_id :: jstr
  mod_hook :: jstr
  content_hash :: jstr
  size_bytes :: number
  mod_status :: module_status
  mod_report :: "validation_report option"
  uploaded_at :: jstr

datatype outcome = OutOk | OutNoHandler | OutTimeout | OutHandlerError | OutQuotaExceeded | OutUnavailable

record invocation =
  inv_seq :: number
  inv_ts :: jstr
  inv_hook :: jstr
  inv_module_hash :: "jstr option"
  inv_outcome :: outcome
  inv_reason :: "jstr option"
  inv_error :: "jstr option"
  inv_duration :: number
  inv_cold_start :: bool
  inv_key :: "jstr option"
  inv_logs :: "jstr list"

section \<open>Enumerations as strings\<close>

definition outcomes :: "outcome list" where
  "outcomes = [OutOk, OutNoHandler, OutTimeout, OutHandlerError, OutQuotaExceeded, OutUnavailable]"

definition outcome_text :: "outcome \<Rightarrow> jstr" where
  "outcome_text t = lit (case t of OutOk \<Rightarrow> ''ok'' | OutNoHandler \<Rightarrow> ''no_handler'' | OutTimeout \<Rightarrow> ''timeout''
     | OutHandlerError \<Rightarrow> ''handler_error'' | OutQuotaExceeded \<Rightarrow> ''quota_exceeded'' | OutUnavailable \<Rightarrow> ''unavailable'')"

definition module_statuses :: "module_status list" where
  "module_statuses = [Uploaded, Validating, Validated, Rejected, Archived]"

definition status_text :: "module_status \<Rightarrow> jstr" where
  "status_text s = lit (case s of Uploaded \<Rightarrow> ''uploaded'' | Validating \<Rightarrow> ''validating'' | Validated \<Rightarrow> ''validated''
     | Rejected \<Rightarrow> ''rejected'' | Archived \<Rightarrow> ''archived'')"

definition check_names :: "check_name list" where
  "check_names = [CheckFetch, CheckCompile, CheckExports, CheckImports, CheckSampleCall]"

definition check_text :: "check_name \<Rightarrow> jstr" where
  "check_text c = lit (case c of CheckFetch \<Rightarrow> ''fetch'' | CheckCompile \<Rightarrow> ''compile'' | CheckExports \<Rightarrow> ''exports''
     | CheckImports \<Rightarrow> ''imports'' | CheckSampleCall \<Rightarrow> ''sample_call'')"

lemma outcome_text_inject [simp]: "outcome_text a = outcome_text b \<longleftrightarrow> a = b"
  by (cases a; cases b) (simp_all add: outcome_text_def)

lemma status_text_inject [simp]: "status_text a = status_text b \<longleftrightarrow> a = b"
  by (cases a; cases b) (simp_all add: status_text_def)

lemma check_text_inject [simp]: "check_text a = check_text b \<longleftrightarrow> a = b"
  by (cases a; cases b) (simp_all add: check_text_def)

text \<open>The value an enumeration's text stands for, found in its list of values.\<close>

definition enum_of :: "('a \<Rightarrow> jstr) \<Rightarrow> 'a list \<Rightarrow> jstr \<Rightarrow> 'a option" where
  "enum_of text vals s = find (\<lambda>v. text v = s) vals"

lemma outcome_of_text [simp]: "enum_of outcome_text outcomes (outcome_text t) = Some t"
  by (cases t) (simp_all add: enum_of_def outcomes_def)

section \<open>Schemas\<close>

definition obj_schema :: zschema where "obj_schema = ZRecord ZUnknown"

definition apiKeySchema_fields :: "(jstr \<times> zschema) list" where
  "apiKeySchema_fields =
     [(lit ''id'', ZString), (lit ''name'', ZString), (lit ''created_at'', ZDatetime), (lit ''revoked_at'', ZNullish ZDatetime)]"

definition apiKeySchema :: zschema where "apiKeySchema = ZObject apiKeySchema_fields"
definition apiKeyListSchema :: zschema where "apiKeyListSchema = ZObject [(lit ''items'', ZArray apiKeySchema)]"
definition apiKeyCreatedSchema :: zschema where
  "apiKeyCreatedSchema = ZObject (apiKeySchema_fields @ [(lit ''token'', ZString)])"

definition hookSchema :: zschema where
  "hookSchema = ZObject
     [(lit ''name'', ZString), (lit ''def_version'', ZInt), (lit ''input_schema'', obj_schema),
      (lit ''output_schema'', obj_schema), (lit ''timeout_ms'', ZPositive ZInt), (lit ''memory_max_pages'', ZPositive ZInt),
      (lit ''allowed_host_functions'', ZArray ZString), (lit ''allowed_effect_types'', ZArray ZString),
      (lit ''sample_input'', ZOptional ZUnknown)]"

definition bindingSchema :: zschema where
  "bindingSchema = ZObject
     [(lit ''active_module_id'', ZNullish ZString), (lit ''active_module_hash'', ZNullish ZString),
      (lit ''config'', ZRecord ZString), (lit ''config_version'', ZInt), (lit ''updated_at'', ZDatetime)]"

definition tenantHookSchema :: zschema where
  "tenantHookSchema = ZObject [(lit ''hook'', hookSchema), (lit ''binding'', ZNullish bindingSchema)]"
definition tenantHookListSchema :: zschema where
  "tenantHookListSchema = ZObject [(lit ''items'', ZArray tenantHookSchema)]"

definition stringList_schema :: zschema where
  "stringList_schema = ZTransform (\<lambda>v. case v of None \<Rightarrow> Some (JArr []) | Some JNull \<Rightarrow> Some (JArr []) | _ \<Rightarrow> v)
     (ZNullish (ZArray ZString))"

definition operatorHookSchema :: zschema where
  "operatorHookSchema = ZObject
     [(lit ''name'', ZString), (lit ''def_version'', ZInt), (lit ''input_schema'', obj_schema),
      (lit ''output_schema'', obj_schema), (lit ''timeout_ms'', ZInt), (lit ''memory_max_pages'', ZInt),
      (lit ''allowed_host_functions'', stringList_schema), (lit ''allowed_effect_types'', stringList_schema),
      (lit ''sample_input'', obj_schema), (lit ''created_at'', ZDatetime), (lit ''updated_at'', ZDatetime)]"
definition operatorHookListSchema :: zschema where
  "operatorHookListSchema = ZObject [(lit ''items'', ZArray operatorHookSchema)]"

definition outcomeSchema :: zschema where "outcomeSchema = ZEnum (map outcome_text outcomes)"

definition invocationSchema :: zschema where
  "invocationSchema = ZObject
     [(lit ''seq'', ZInt), (lit ''ts'', ZDatetime), (lit ''hook'', ZString), (lit ''module_hash'', ZNullable ZString),
      (lit ''outcome'', outcomeSchema), (lit ''reason'', ZNullable ZString), (lit ''error'', ZNullable ZString),
      (lit ''duration_ms'', ZNonNegative ZNumber), (lit ''cold_start'', ZBoolean),
      (lit ''idempotency_key'', ZNullable ZString), (lit ''logs'', ZArray ZString)]"
definition invocationListSchema :: zschema where
  "invocationListSchema = ZObject [(lit ''items'', ZArray invocationSchema)]"

definition moduleStatusSchema :: zschema where "moduleStatusSchema = ZEnum (map status_text module_statuses)"

definition validationCheckSchema :: zschema where
  "validationCheckSchema = ZObject
     [(lit ''name'', ZEnum (map check_text check_names)), (lit ''ok'', ZBoolean), (lit ''detail'', ZNullish ZString)]"
definition validationReportSchema :: zschema where
  "validationReportSchema = ZObject [(lit ''ok'', ZBoolean), (lit ''checks'', ZArray validationCheckSchema)]"

definition moduleSchema :: zschema where
  "moduleSchema = ZObject
     [(lit ''id'', ZString), (lit ''hook'', ZString), (lit ''content_hash'', ZString),
      (lit ''size_bytes'', ZNonNegative ZInt), (lit ''status'', moduleStatusSchema),
      (lit ''validation_report'', ZNullish validationReportSchema), (lit ''uploaded_at'', ZDatetime)]"
definition moduleListSchema :: zschema where "moduleListSchema = ZObject [(lit ''items'', ZArray moduleSchema)]"

definition quota_schema :: zschema where
  "quota_schema = ZTransform (\<lambda>v. case v of None \<Rightarrow> Some (JNum (num 0)) | Some JNull \<Rightarrow> Some (JNum (num 0)) | _ \<Rightarrow> v)
     (ZNullish ZInt)"

definition tenantSchema :: zschema where
  "tenantSchema = ZObject
     [(lit ''external_id'', ZString), (lit ''name'', ZString), (lit ''rate_limit_rps'', quota_schema),
      (lit ''concurrency_limit'', quota_schema), (lit ''created_at'', ZDatetime), (lit ''updated_at'', ZDatetime)]"
definition tenantListSchema :: zschema where "tenantListSchema = ZObject [(lit ''items'', ZArray tenantSchema)]"
definition consoleSessionSchema :: zschema where
  "consoleSessionSchema = ZObject [(lit ''token'', ZString), (lit ''expires_at'', ZDatetime)]"

section \<open>JSON texts of the records\<close>

text \<open>
  The members of the objects the API answers with. A nullable member is written as \<open>null\<close>, an
  absent one (\<open>undefined\<close>) is left out.
\<close>

definition json_int :: "int \<Rightarrow> json" where "json_int i = JNum (num i)"
definition json_strs :: "jstr list \<Rightarrow> json" where "json_strs ss = JArr (map JStr ss)"
definition json_nullable :: "jstr option \<Rightarrow> json" where
  "json_nullable s = (case s of None \<Rightarrow> JNull | Some t \<Rightarrow> JStr t)"

definition tenant_json :: "tenant \<Rightarrow> json" where
  "tenant_json t = JObj
     [(lit ''external_id'', JStr (external_id t)), (lit ''name'', JStr (tenant_name t)),
      (lit ''rate_limit_rps'', JNum (rate_limit_rps t)), (lit ''concurrency_limit'', JNum (concurrency_limit t)),
      (lit ''created_at'', JStr (tenant_created t)), (lit ''updated_at'', JStr (tenant_updated t))]"

definition api_key_fields :: "api_key \<Rightarrow> json obj" where
  "api_key_fields k =
     [(lit ''id'', JStr (key_id k)), (lit ''name'', JStr (key_name k)), (lit ''created_at'', JStr (key_created k)),
      (lit ''revoked_at'', json_nullable (revoked_at k))]"

definition spec_fields :: "hook_spec \<Rightarrow> json obj" where
  "spec_fields s =
     [(lit ''input_schema'', JObj (input_schema s)), (lit ''output_schema'', JObj (output_schema s)),
      (lit ''timeout_ms'', JNum (timeout_ms s)), (lit ''memory_max_pages'', JNum (memory_max_pages s)),
      (lit ''allowed_host_functions'', json_strs (allowed_host_functions s)),
      (lit ''allowed_effect_types'', json_strs (allowed_effect_types s)), (lit ''sample_input'', JObj (sample_input s))]"

definition hook_json :: "operator_hook \<Rightarrow> json" where
  "hook_json h = JObj
     ([(lit ''name'', JStr (hook_name h)), (lit ''def_version'', JNum (def_version h)),
       (lit ''created_at'', JStr (hook_created h)), (lit ''updated_at'', JStr (hook_updated h))] @ spec_fields (hook_spec_of h))"

definition binding_json :: "binding \<Rightarrow> json" where
  "binding_json b = JObj
     [(lit ''active_module_id'', json_nullable (active_module_id b)),
      (lit ''active_module_hash'', json_nullable (active_module_hash b)), (lit ''config'', binding_config b),
      (lit ''config_version'', JNum (config_version b)), (lit ''updated_at'', JStr (binding_updated b))]"

definition check_json :: "validation_check \<Rightarrow> json" where
  "check_json c = JObj
     ([(lit ''name'', JStr (check_text (check_name_of c))), (lit ''ok'', JBool (check_ok c))]
      @ (case check_detail c of None \<Rightarrow> [] | Some d \<Rightarrow> [(lit ''detail'', JStr d)]))"

definition report_json :: "validation_report option \<Rightarrow> json" where
  "report_json r = (case r of None \<Rightarrow> JNull
     | Some v \<Rightarrow> JObj [(lit ''ok'', JBool (report_ok v)), (lit ''checks'', JArr (map check_json (report_checks v)))])"

definition module_json :: "module \<Rightarrow> json" where
  "module_json m = JObj
     [(lit ''id'', JStr (mod_id m)), (lit ''hook'', JStr (mod_hook m)), (lit ''content_hash'', JStr (content_hash m)),
      (lit ''size_bytes'', JNum (size_bytes m)), (lit ''status'', JStr (status_text (mod_status m))),
      (lit ''validation_report'', report_json (mod_report m)), (lit ''uploaded_at'', JStr (uploaded_at m))]"

definition invocation_json :: "invocation \<Rightarrow> json" where
  "invocation_json i = JObj
     [(lit ''seq'', JNum (inv_seq i)), (lit ''ts'', JStr (inv_ts i)), (lit ''hook'', JStr (inv_hook i)),
      (lit ''module_hash'', json_nullable (inv_module_hash i)), (lit ''outcome'', JStr (outcome_text (inv_outcome i))),
      (lit ''reason'', json_nullable (inv_reason i)), (lit ''error'', json_nullable (inv_error i)),
      (lit ''duration_ms'', JNum (inv_duration i)), (lit ''cold_start'', JBool (inv_cold_start i)),
      (lit ''idempotency_key'', json_nullable (inv_key i)), (lit ''logs'', json_strs (inv_logs i))]"

lemmas entity_json_defs = tenant_json_def api_key_fields_def spec_fields_def hook_json_def binding_json_def
  check_json_def report_json_def module_json_def invocation_json_def

section \<open>Modules and their checks\<close>

definition isPending :: "module_status \<Rightarrow> bool" where
  "isPending s \<longleftrightarrow> s = Uploaded \<or> s = Validating"

definition firstFailedCheck :: "module \<Rightarrow> validation_check option" where
  "firstFailedCheck m =
     (case mod_report m of None \<Rightarrow> None | Some r \<Rightarrow> find (\<lambda>c. \<not> check_ok c) (report_checks r))"

definition moduleStatusLabels :: "module_status \<Rightarrow> jstr" where
  "moduleStatusLabels s = (case s of Uploaded \<Rightarrow> (ru ''Zagruven'') | Validating \<Rightarrow> (ru ''Prowerqetsq'')
     | Validated \<Rightarrow> (ru ''Prowerka projdena'') | Rejected \<Rightarrow> (ru ''Otklon#n'') | Archived \<Rightarrow> (ru ''W arhiwe''))"

record check_failure =
  failure_title :: jstr
  failure_hint :: jstr

definition describeCheckFailure :: "validation_check \<Rightarrow> check_failure" where
  "describeCheckFailure c =
     (case check_name_of c of
        CheckFetch \<Rightarrow> \<lparr>failure_title = (ru ''fajl ne udalosx polu~itx''),
          failure_hint = (ru ''Platforma ne smogla pro~itatx zagruvennyj fajl. Zagruzite ego e]# raz.'')\<rparr>
      | CheckCompile \<Rightarrow> \<lparr>failure_title = (ru ''modulx ne kompiliruetsq''),
          failure_hint = (ru ''Prowerxte, ~to |to skompilirowannyj '' @ lit ''WebAssembly-'' @ ru ''modulx, peresoberite .'' @ lit ''wasm '' @ ru ''i zagruzite snowa.'')\<rparr>
      | CheckExports \<Rightarrow> \<lparr>failure_title = (ru ''net funkcii obrabot~ika''),
          failure_hint = (ru ''Modulx dolven |ksportirowatx funkci@ obrabot~ika huka. Peresoberite .'' @ lit ''wasm '' @ ru ''i zagruzite snowa.'')\<rparr>
      | CheckImports \<Rightarrow> \<lparr>failure_title = (ru ''zapre]#nnaq wozmovnostx''),
          failure_hint = (ru ''Uberite wyzow, kotoryj huk ne razre[aet, peresoberite .'' @ lit ''wasm '' @ ru ''i zagruzite snowa.'')\<rparr>
      | CheckSampleCall \<Rightarrow> \<lparr>failure_title = (ru ''probnyj wyzow ne pro[#l''),
          failure_hint = (ru ''Na primere whoda obrabot~ik upal ili wernul otwet ne po sheme wyhoda. Isprawxte i zagruzite snowa.'')\<rparr>)"

datatype badge_variant = BadgeDefault | BadgeSecondary | BadgeDestructive | BadgeOutline

definition outcome_variant :: "outcome \<Rightarrow> badge_variant" where
  "outcome_variant t = (case t of OutOk \<Rightarrow> BadgeSecondary | OutNoHandler \<Rightarrow> BadgeOutline | OutTimeout \<Rightarrow> BadgeDestructive
     | OutHandlerError \<Rightarrow> BadgeDestructive | OutQuotaExceeded \<Rightarrow> BadgeOutline | OutUnavailable \<Rightarrow> BadgeOutline)"

section \<open>Texts (\<open>shared/lib/format.ts\<close>, \<open>entities/tenant/lib\<close>)\<close>

definition formatBytes :: "number \<Rightarrow> jstr" where
  "formatBytes b =
     (if js_lt b (num 1024) then number_text b @ [32] @ (ru ''B'')
      else if js_lt b (num (1024 * 1024)) then to_fixed 1 (js_div_pos b 1024) @ [32] @ (ru ''KiB'')
      else to_fixed 1 (js_div_pos (js_div_pos b 1024) 1024) @ [32] @ (ru ''MiB''))"

definition formatWasmPages :: "number \<Rightarrow> jstr" where
  "formatWasmPages pages = formatBytes (js_mul (js_mul pages (num 64)) (num 1024))"

definition shortHash :: "jstr \<Rightarrow> jstr" where
  "shortHash h = str_slice 0 12 (if str_starts_with (lit ''sha256:'') h then drop 7 h else h)"

definition formatQuota :: "number \<Rightarrow> jstr \<Rightarrow> jstr" where
  "formatQuota v unit = (if js_num_eq v (num 0) then (ru ''po umol~ani@'') else number_text v @ [32] @ unit)"

section \<open>Configuration and routes (\<open>shared/config\<close>)\<close>

datatype mocking_mode = MockAll | MockPartial | MockDisabled

definition mockingMode :: "jstr option \<Rightarrow> jstr option \<Rightarrow> mocking_mode" where
  "mockingMode node_env api_mocking =
     (if node_env \<noteq> Some (lit ''development'') then MockDisabled
      else if api_mocking = Some (lit ''all'') then MockAll
      else if api_mocking = Some (lit ''partial'') then MockPartial else MockDisabled)"

datatype route = StorefrontCatalog | StorefrontCart | TenantRoot | TenantHooks | TenantHook jstr | TenantInvocations
  | OperatorRoot | OperatorHooks | OperatorNewHook | OperatorHook jstr | OperatorTenants | OperatorApiKeys

text \<open>The path of a route; \<open>encodeURIComponent\<close> throws on a name with a lone surrogate.\<close>

definition route_path :: "route \<Rightarrow> jstr option" where
  "route_path r =
     (case r of
        StorefrontCatalog \<Rightarrow> Some (lit ''/'')
      | StorefrontCart \<Rightarrow> Some (lit ''/cart'')
      | TenantRoot \<Rightarrow> Some (lit ''/tenant'')
      | TenantHooks \<Rightarrow> Some (lit ''/tenant/hooks'')
      | TenantHook name \<Rightarrow> map_option ((@) (lit ''/tenant/hooks/'')) (encode_uri_component name)
      | TenantInvocations \<Rightarrow> Some (lit ''/tenant/invocations'')
      | OperatorRoot \<Rightarrow> Some (lit ''/operator'')
      | OperatorHooks \<Rightarrow> Some (lit ''/operator/hooks'')
      | OperatorNewHook \<Rightarrow> Some (lit ''/operator/hooks/new-hook'')
      | OperatorHook name \<Rightarrow> map_option ((@) (lit ''/operator/hooks/'')) (encode_uri_component name)
      | OperatorTenants \<Rightarrow> Some (lit ''/operator/tenants'')
      | OperatorApiKeys \<Rightarrow> Some (lit ''/operator/api-keys''))"

section \<open>Queries\<close>

text \<open>
  A query: its cache key, the request it sends (no path when building it throws), whether the
  answer's \<open>items\<close> are taken, and the polling interval in milliseconds for the data held.
\<close>

record query =
  query_key :: "json list"
  query_path :: "jstr option"
  query_opts :: options
  query_items :: bool

definition get_options :: "zschema \<Rightarrow> options" where
  "get_options s = \<lparr>opt_schema = s, opt_method = GET, opt_body = NoBody, opt_query = [], opt_token = None\<rparr>"

definition key_strs :: "jstr list \<Rightarrow> json list" where "key_strs = map JStr"

definition apiKeyKeys_all :: "json list" where "apiKeyKeys_all = key_strs [lit ''operator'', lit ''api-keys'']"
definition apiKeyQueries_list :: query where
  "apiKeyQueries_list = \<lparr>query_key = apiKeyKeys_all @ key_strs [lit ''list''], query_path = Some (lit ''/api-keys''),
     query_opts = get_options apiKeyListSchema, query_items = True\<rparr>"

definition operatorHookKeys_all :: "json list" where "operatorHookKeys_all = key_strs [lit ''operator'', lit ''hooks'']"
definition operatorHookKeys_detail :: "jstr \<Rightarrow> json list" where
  "operatorHookKeys_detail name = operatorHookKeys_all @ key_strs [lit ''detail'', name]"
definition operatorHookQueries_list :: query where
  "operatorHookQueries_list = \<lparr>query_key = operatorHookKeys_all @ key_strs [lit ''list''], query_path = Some (lit ''/hooks''),
     query_opts = get_options operatorHookListSchema, query_items = True\<rparr>"
definition operatorHookQueries_detail :: "jstr \<Rightarrow> query" where
  "operatorHookQueries_detail name = \<lparr>query_key = operatorHookKeys_detail name,
     query_path = map_option ((@) (lit ''/hooks/'')) (encode_uri_component name),
     query_opts = get_options operatorHookSchema, query_items = False\<rparr>"

definition hookKeys_all :: "json list" where "hookKeys_all = key_strs [lit ''tenant'', lit ''hooks'']"
definition hookKeys_detail :: "jstr \<Rightarrow> json list" where
  "hookKeys_detail name = hookKeys_all @ key_strs [lit ''detail'', name]"
definition hookQueries_list :: query where
  "hookQueries_list = \<lparr>query_key = hookKeys_all @ key_strs [lit ''list''], query_path = Some (lit ''/tenant/hooks''),
     query_opts = get_options tenantHookListSchema, query_items = True\<rparr>"
definition hookQueries_detail :: "jstr \<Rightarrow> query" where
  "hookQueries_detail name = \<lparr>query_key = hookKeys_detail name,
     query_path = map_option ((@) (lit ''/tenant/hooks/'')) (encode_uri_component name),
     query_opts = get_options tenantHookSchema, query_items = False\<rparr>"

definition tenantKeys_all :: "json list" where "tenantKeys_all = key_strs [lit ''operator'', lit ''tenants'']"
definition tenantQueries_list :: query where
  "tenantQueries_list = \<lparr>query_key = tenantKeys_all @ key_strs [lit ''list''], query_path = Some (lit ''/tenants''),
     query_opts = get_options tenantListSchema, query_items = True\<rparr>"

definition moduleKeys_all :: "json list" where "moduleKeys_all = key_strs [lit ''tenant'', lit ''modules'']"
definition moduleKeys_byHook :: "jstr \<Rightarrow> json list" where
  "moduleKeys_byHook hook = moduleKeys_all @ key_strs [hook]"
definition moduleQueries_byHook :: "jstr \<Rightarrow> query" where
  "moduleQueries_byHook hook = \<lparr>query_key = moduleKeys_byHook hook,
     query_path = map_option (\<lambda>s. lit ''/tenant/hooks/'' @ s @ lit ''/modules'') (encode_uri_component hook),
     query_opts = get_options moduleListSchema, query_items = True\<rparr>"

text \<open>Polling goes on while some module of the data held is still being validated.\<close>

definition PENDING_POLL_MS :: nat where "PENDING_POLL_MS = 2000"
definition module_refetch :: "module list option \<Rightarrow> nat option" where
  "module_refetch data =
     (case data of None \<Rightarrow> None
      | Some ms \<Rightarrow> if list_ex (\<lambda>m. isPending (mod_status m)) ms then Some PENDING_POLL_MS else None)"

record invocation_filter =
  filter_outcome :: "outcome option"
  filter_hook :: "jstr option"

definition invocationKeys_all :: "json list" where "invocationKeys_all = key_strs [lit ''tenant'', lit ''invocations'']"
definition invocationKeys_list :: "invocation_filter \<Rightarrow> json list" where
  "invocationKeys_list f = invocationKeys_all @
     [JObj ((case filter_outcome f of None \<Rightarrow> [] | Some t \<Rightarrow> [(lit ''outcome'', JStr (outcome_text t))])
          @ (case filter_hook f of None \<Rightarrow> [] | Some h \<Rightarrow> [(lit ''hook'', JStr h)]))]"
definition INVOCATIONS_POLL_MS :: nat where "INVOCATIONS_POLL_MS = 5000"
definition query_opt :: "jstr option \<Rightarrow> query_value" where
  "query_opt s = (case s of None \<Rightarrow> QUndefined | Some t \<Rightarrow> QStr t)"
definition invocationQueries_list :: "invocation_filter \<Rightarrow> query" where
  "invocationQueries_list f = \<lparr>query_key = invocationKeys_list f, query_path = Some (lit ''/tenant/invocations''),
     query_opts = (get_options invocationListSchema)\<lparr>opt_query :=
       [(lit ''outcome'', query_opt (map_option outcome_text (filter_outcome f))),
        (lit ''hook'', query_opt (filter_hook f)), (lit ''limit'', QNum (num 100))]\<rparr>,
     query_items = True\<rparr>"

text \<open>Running a query: the request, and the \<open>items\<close> of the answer where they are taken.\<close>

definition items_of :: "json option \<Rightarrow> json option" where
  "items_of v = (case v of Some (JObj ob) \<Rightarrow> obj_get ob (lit ''items'') | _ \<Rightarrow> None)"

definition run_query :: "host \<Rightarrow> 'w network \<Rightarrow> query \<Rightarrow> browser \<Rightarrow> 'w \<Rightarrow> (js_error + json option) \<times> browser \<times> 'w" where
  "run_query h net q b w =
     (case query_path q of
        None \<Rightarrow> (Inl (JsError (lit ''URIError'') (lit ''URI malformed'')), b, w)
      | Some path \<Rightarrow>
          (case api_request h net path (query_opts q) b w of
             (Inl e, b', w') \<Rightarrow> (Inl e, b', w')
           | (Inr v, b', w') \<Rightarrow> (Inr (if query_items q then items_of v else v), b', w')))"

section \<open>Lemmas\<close>

lemma isPending_simps [simp]:
  "isPending Uploaded" "isPending Validating" "\<not> isPending Validated" "\<not> isPending Rejected" "\<not> isPending Archived"
  by (simp_all add: isPending_def)

lemma firstFailedCheck_Some:
  assumes "firstFailedCheck m = Some c"
  shows "\<not> check_ok c" "\<exists>r. mod_report m = Some r \<and> c \<in> set (report_checks r)"
  using assms by (auto simp: firstFailedCheck_def dest: find_Some_mem split: option.splits)

lemma shortHash_length: "length (shortHash h) \<le> 12"
  by (simp add: shortHash_def str_slice_def)

lemma shortHash_prefix: "shortHash (lit ''sha256:'' @ h) = take 12 h"
  by (simp add: shortHash_def str_slice_def)

lemma module_refetch_stops:
  "module_refetch (Some ms) = None \<longleftrightarrow> (\<forall>m \<in> set ms. \<not> isPending (mod_status m))"
  by (auto simp: module_refetch_def list_ex_iff)

end
