(* ===== verification/Ui.thy ===== *)
theory Ui
  imports Entities
begin

text \<open>
  What the components share: the tree a component renders (\<open>'e\<close> is the type of its events), the
  states of queries and mutations as components see them, the panels of \<open>shared/ui/query-state.tsx\<close>,
  \<open>breadcrumbs.tsx\<close>, \<open>info-panel.tsx\<close>, \<open>page-stub.tsx\<close>, and the list editor
  \<open>shared/ui/string-list-input.tsx\<close>. Class names, icons and layout wrappers without content are left
  out of the trees; a child component stands in its parent's tree as an element with its props.
\<close>

section \<open>Trees\<close>

datatype 'e attr = PStr jstr | PBool bool | PNum number | PVal json | PAct 'e

datatype 'e ui = Txt jstr | El string "(string \<times> 'e attr) list" "'e ui list"

definition whenever :: "bool \<Rightarrow> 'a list \<Rightarrow> 'a list" where
  "whenever b us = (if b then us else [])"

lemma whenever_simps [simp]: "whenever True us = us" "whenever False us = []"
  by (simp_all add: whenever_def)

definition text_el :: "string \<Rightarrow> jstr \<Rightarrow> 'e ui" where
  "text_el tag t = El tag [] [Txt t]"

text \<open>A button with its events, disabled or not.\<close>

definition button :: "bool \<Rightarrow> (string \<times> 'e attr) list \<Rightarrow> jstr \<Rightarrow> 'e ui" where
  "button disabled ps t = El ''Button'' ((''disabled'', PBool disabled) # ps) [Txt t]"

definition alert_p :: "jstr \<Rightarrow> 'e ui" where
  "alert_p t = El ''p'' [(''role'', PStr (lit ''alert''))] [Txt t]"

text \<open>The events a user can raise: those of elements that are not disabled.\<close>

fun prop_actions :: "(string \<times> 'e attr) list \<Rightarrow> 'e list" where
  "prop_actions [] = []"
| "prop_actions ((k, PAct a) # ps) = a # prop_actions ps"
| "prop_actions (p # ps) = prop_actions ps"

fun ui_actions :: "'e ui \<Rightarrow> 'e list" where
  "ui_actions (Txt t) = []"
| "ui_actions (El tag ps cs) =
     (if (''disabled'', PBool True) \<in> set ps then [] else prop_actions ps) @ concat (map ui_actions cs)"

fun ui_texts :: "'e ui \<Rightarrow> jstr list" where
  "ui_texts (Txt t) = [t]"
| "ui_texts (El tag ps cs) = concat (map ui_texts cs)"

fun ui_tags :: "'e ui \<Rightarrow> string list" where
  "ui_tags (Txt t) = []"
| "ui_tags (El tag ps cs) = tag # concat (map ui_tags cs)"

definition actions_of :: "'e ui list \<Rightarrow> 'e list" where
  "actions_of us = concat (map ui_actions us)"

definition texts_of :: "'e ui list \<Rightarrow> jstr list" where
  "texts_of us = concat (map ui_texts us)"

definition tags_of :: "'e ui list \<Rightarrow> string list" where
  "tags_of us = concat (map ui_tags us)"

lemma ui_list_simps [simp]:
  "actions_of [] = []" "actions_of (u # us) = ui_actions u @ actions_of us" "actions_of (us @ vs) = actions_of us @ actions_of vs"
  "texts_of [] = []" "texts_of (u # us) = ui_texts u @ texts_of us" "texts_of (us @ vs) = texts_of us @ texts_of vs"
  "tags_of [] = []" "tags_of (u # us) = ui_tags u @ tags_of us" "tags_of (us @ vs) = tags_of us @ tags_of vs"
  by (simp_all add: actions_of_def texts_of_def tags_of_def)

lemma ui_part_simps [simp]:
  "ui_actions (text_el tag t) = []" "ui_texts (text_el tag t) = [t]" "ui_tags (text_el tag t) = [tag]"
  "ui_actions (alert_p t) = []" "ui_texts (alert_p t) = [t]" "ui_tags (alert_p t) = [''p'']"
  "ui_actions (button b ps t) = (if b \<or> (''disabled'', PBool True) \<in> set ps then [] else prop_actions ps)"
  "ui_texts (button b ps t) = [t]" "ui_tags (button b ps t) = [''Button'']"
  by (simp_all add: text_el_def alert_p_def button_def)

section \<open>Queries and mutations as a component sees them\<close>

text \<open>A query without data, one whose last fetch failed (data of an earlier fetch may remain), one with data.\<close>

datatype 'a query_state = QPending | QFailed js_error "'a option" | QReady 'a

definition query_data :: "'a query_state \<Rightarrow> 'a option" where
  "query_data q = (case q of QPending \<Rightarrow> None | QFailed e d \<Rightarrow> d | QReady d \<Rightarrow> Some d)"

datatype 'a mutation = MIdle | MPending | MFailed js_error | MDone 'a

definition is_pending :: "'a mutation \<Rightarrow> bool" where
  "is_pending m \<longleftrightarrow> (case m of MPending \<Rightarrow> True | _ \<Rightarrow> False)"

definition mutation_error :: "'a mutation \<Rightarrow> js_error option" where
  "mutation_error m = (case m of MFailed e \<Rightarrow> Some e | _ \<Rightarrow> None)"

lemma mutation_simps [simp]:
  "is_pending MPending" "\<not> is_pending MIdle" "\<not> is_pending (MFailed e)" "\<not> is_pending (MDone v)"
  "mutation_error MPending = None" "mutation_error MIdle = None" "mutation_error (MFailed e) = Some e"
  "mutation_error (MDone v) = None"
  by (simp_all add: is_pending_def mutation_error_def)

text \<open>What a mutation's \<open>onSuccess\<close> does to the query cache.\<close>

datatype cache_effect = SetQueryData "json list" json | Invalidate "json list" | RemoveQueries "json list"

section \<open>Loading, errors, empty lists (\<open>query-state.tsx\<close>)\<close>

definition error_message :: "js_error \<Rightarrow> jstr" where
  "error_message e = (case e of ApiError s m d \<Rightarrow> m | JsError n m \<Rightarrow> m | NotError \<Rightarrow> (ru ''Neizwestnaq o[ibka''))"

definition error_detail :: "js_error \<Rightarrow> jstr option" where
  "error_detail e = (case e of ApiError s m d \<Rightarrow> d | _ \<Rightarrow> None)"

definition loading_rows :: "nat \<Rightarrow> 'e ui" where
  "loading_rows n = El ''div'' [(''aria-busy'', PBool True), (''aria-label'', PStr (ru ''Zagruzka''))] (replicate n (El ''Skeleton'' [] []))"

definition not_implemented_state :: "js_error \<Rightarrow> 'e ui" where
  "not_implemented_state e = El ''div'' [(''role'', PStr (lit ''status''))]
     [text_el ''p'' (describe_error e @ (ru ''. ^kran zarabotaet, kogda b|kend realizuet |tu zada~u.''))]"

definition error_state :: "js_error \<Rightarrow> 'e ui" where
  "error_state e =
     (if is_status 501 e then not_implemented_state e
      else El ''div'' [(''role'', PStr (lit ''alert''))]
        (text_el ''p'' ((ru ''Ne udalosx zagruzitx dannye: '') @ error_message e)
         # whenever (truthy (error_detail e)) [text_el ''pre'' (the (error_detail e))]))"

definition empty_state :: "jstr \<Rightarrow> 'e ui" where
  "empty_state t = text_el ''div'' t"

text \<open>The body of a page that shows a query: its rows, or what stands in for them.\<close>

definition query_body :: "nat \<Rightarrow> 'a query_state \<Rightarrow> ('a \<Rightarrow> 'e ui list) \<Rightarrow> 'e ui list" where
  "query_body n q f =
     (case q of QPending \<Rightarrow> [loading_rows n] | QFailed e d \<Rightarrow> [error_state e] | QReady d \<Rightarrow> f d)"

section \<open>Panels\<close>

definition info_panel :: "jstr option \<Rightarrow> jstr \<Rightarrow> 'e ui list \<Rightarrow> 'e ui list \<Rightarrow> 'e ui" where
  "info_panel role title children action =
     El ''section'' (case role of None \<Rightarrow> [] | Some r \<Rightarrow> [(''role'', PStr r)])
       (text_el ''h2'' title # whenever (children \<noteq> []) [El ''div'' [] children] @ whenever (action \<noteq> []) [El ''div'' [] action])"

definition page_stub :: "jstr \<Rightarrow> jstr \<Rightarrow> jstr \<Rightarrow> 'e ui list \<Rightarrow> 'e ui" where
  "page_stub title description milestone children = El ''div'' []
     [text_el ''h1'' title, text_el ''Badge'' milestone,
      El ''Card'' [] ([text_el ''CardTitle'' (ru ''^kran w razrabotke''), text_el ''CardDescription'' description]
        @ whenever (children \<noteq> []) [El ''CardContent'' [] children])]"

definition link_to :: "jstr \<Rightarrow> 'e ui list \<Rightarrow> 'e ui" where
  "link_to href kids = El ''Link'' [(''href'', PStr href)] kids"

definition crumb :: "nat \<times> jstr \<times> jstr option \<Rightarrow> 'e ui list" where
  "crumb c = (case c of (i, label, href) \<Rightarrow>
     whenever (0 < i) [text_el ''li'' (lit ''/'')]
     @ [El ''li'' [] [if truthy href then link_to (the href) [Txt label] else Txt label]])"

definition breadcrumbs :: "(jstr \<times> jstr option) list \<Rightarrow> 'e ui" where
  "breadcrumbs items = El ''nav'' [(''aria-label'', PStr (ru ''Nawigaciq po razdelam''))]
     [El ''ol'' [] (concat (map crumb (zip [0..<length items] items)))]"

section \<open>The list editor (\<open>string-list-input.tsx\<close>)\<close>

datatype list_event = Draft jstr | KeyDown jstr | AddDraft | RemoveItem jstr

text \<open>The state is the draft; the value lives with the parent, which the step asks to take a new one.\<close>

definition add_draft :: "jstr list \<Rightarrow> jstr \<Rightarrow> jstr \<times> jstr list option" where
  "add_draft items draft =
     (let candidate = js_trim draft in
      if candidate = [] \<or> candidate \<in> set items then (draft, None) else ([], Some (items @ [candidate])))"

definition list_step :: "jstr list \<Rightarrow> jstr \<Rightarrow> list_event \<Rightarrow> jstr \<times> jstr list option" where
  "list_step items draft e =
     (case e of
        Draft s \<Rightarrow> (s, None)
      | KeyDown key \<Rightarrow> if key \<noteq> lit ''Enter'' then (draft, None) else add_draft items draft
      | AddDraft \<Rightarrow> add_draft items draft
      | RemoveItem x \<Rightarrow> (draft, Some (filter (\<lambda>v. v \<noteq> x) items)))"

definition list_item :: "jstr list \<Rightarrow> jstr option \<Rightarrow> jstr \<Rightarrow> list_event ui" where
  "list_item locked hint x = El ''li'' [] [El ''Badge'' []
     [Txt x,
      if x \<in> set locked
      then El ''span'' ((case hint of None \<Rightarrow> [] | Some h \<Rightarrow> [(''title'', PStr h)])
             @ [(''aria-label'', PStr (nullish hint (ru ''Udalitx nelxzq'')))]) []
      else El ''button'' [(''aria-label'', PStr ((ru ''Ubratx '') @ x)), (''onClick'', PAct (RemoveItem x))] []]]"

definition string_list_input :: "jstr list \<Rightarrow> jstr list \<Rightarrow> jstr option \<Rightarrow> jstr \<Rightarrow> list_event ui list" where
  "string_list_input items locked hint draft =
     whenever (0 < length items) [El ''ul'' [(''aria-label'', PStr (ru ''Dobawlennye zna~eniq''))] (map (list_item locked hint) items)]
     @ [El ''Input'' [(''value'', PStr draft)] [],
        button (js_trim draft = [] \<or> js_trim draft \<in> set items) [(''onClick'', PAct AddDraft)] (ru ''Dobawitx'')]"

section \<open>Lemmas\<close>

lemma query_body_simps [simp]:
  "query_body n QPending f = [loading_rows n]" "query_body n (QFailed e old) f = [error_state e]" "query_body n (QReady d) f = f d"
  by (simp_all add: query_body_def)

lemma loading_rows_actions [simp]: "ui_actions (loading_rows n) = []"
  by (simp add: loading_rows_def)

lemma error_state_actions [simp]: "ui_actions (error_state e) = []"
  by (simp add: error_state_def not_implemented_state_def whenever_def)

text \<open>A step of the list editor keeps the items free of duplicates and of blank or padded entries.\<close>

definition list_value_ok :: "jstr list \<Rightarrow> bool" where
  "list_value_ok items \<longleftrightarrow> distinct items \<and> list_all (\<lambda>x. x \<noteq> [] \<and> js_trim x = x) items"

lemma add_draft_ok: "list_value_ok items \<Longrightarrow> add_draft items draft = (d, Some v) \<Longrightarrow> list_value_ok v"
  by (auto simp: add_draft_def list_value_ok_def Let_def split: if_splits)

lemma list_step_ok: "list_value_ok items \<Longrightarrow> list_step items draft e = (d, Some v) \<Longrightarrow> list_value_ok v"
  by (auto simp: list_step_def list_all_iff list_value_ok_def split: list_event.splits if_splits
      dest!: add_draft_ok [unfolded list_value_ok_def, rotated])

lemma list_item_actions: "ui_actions (list_item locked hint x) = (if x \<in> set locked then [] else [RemoveItem x])"
  by (simp add: list_item_def split: option.split)

lemma string_list_actions:
  "set (actions_of (string_list_input items locked hint draft)) \<subseteq> insert AddDraft (RemoveItem ` (set items - set locked))"
  by (auto simp: string_list_input_def whenever_def list_item_actions split: if_splits)

text \<open>So what the rendered controls and the keyboard do to a items keeps every locked entry.\<close>

lemma list_step_locked:
  assumes "e \<in> set (actions_of (string_list_input items locked hint draft)) \<or> e = KeyDown key \<or> e = Draft s"
    "list_step items draft e = (d, Some v)" "set locked \<subseteq> set items"
  shows "set locked \<subseteq> set v"
  using assms string_list_actions [of items locked hint draft]
  by (fastforce simp: list_step_def add_draft_def Let_def split: list_event.splits if_splits)

end
