(* ===== verification/Mock_Db.thy ===== *)
theory Mock_Db
  imports Entities
begin

text \<open>
  \<open>mocks/db.ts\<close>: the in-memory control plane behind the mock API. The module's mutable variables
  are a \<open>world\<close>: the database and the state of the pseudo-random generator, which lives outside the
  database and survives \<open>resetDb\<close>. The clock is an argument (\<open>now\<close>, milliseconds since the epoch).
\<close>

unbundle bit_operations_syntax

section \<open>State\<close>

record pending_module = module +
  validates_at :: int
  reject_reason :: "jstr option"

record stored_key = api_key +
  key_token :: jstr

record db =
  db_hooks :: "operator_hook list"
  db_modules :: "pending_module list"
  db_bindings :: "jstr \<rightharpoonup> binding"
  db_invocations :: "invocation list"
  db_tenants :: "tenant list"
  db_keys :: "stored_key list"

record world =
  wdb :: db
  rng :: "32 word"

section \<open>Seeds\<close>

definition TENANTS :: "tenant list" where
  "TENANTS =
     [\<lparr>rate_limit_rps = num 0, concurrency_limit = num 0, external_id = lit ''merchant-a'', tenant_name = (ru ''Magazin '' @ lit ''A''),
       tenant_created = lit ''2026-09-05T09:00:00Z'', tenant_updated = lit ''2026-09-05T09:00:00Z''\<rparr>,
      \<lparr>rate_limit_rps = num 50, concurrency_limit = num 4, external_id = lit ''merchant-b'', tenant_name = (ru ''Magazin '' @ lit ''B''),
       tenant_created = lit ''2026-09-12T12:30:00Z'', tenant_updated = lit ''2026-09-19T08:15:00Z''\<rparr>]"

definition API_KEYS :: "stored_key list" where
  "API_KEYS =
     [\<lparr>key_id = lit ''key_5f2c9a1e0b7d4c3a'', key_name = lit ''bootstrap'', key_created = lit ''2026-09-05T08:55:00Z'',
       revoked_at = None, key_token = lit ''whk_mockBootstrapKey000000000000000''\<rparr>,
      \<lparr>key_id = lit ''key_a1b2c3d4e5f60718'', key_name = lit ''old-shop-backend'', key_created = lit ''2026-09-08T10:00:00Z'',
       revoked_at = Some (lit ''2026-09-15T17:20:00Z''), key_token = lit ''whk_mockRevokedKey00000000000000000''\<rparr>]"

definition js_type :: "string \<Rightarrow> json" where
  "js_type t = JObj [(lit ''type'', JStr (lit t))]"

definition checkout_discount :: jstr where
  "checkout_discount = lit ''checkout.discount''"

definition HOOKS :: "operator_hook list" where
  "HOOKS =
     [\<lparr>hook_name = checkout_discount, def_version = num 3, hook_created = lit ''2026-09-05T10:00:00Z'',
       hook_updated = lit ''2026-09-17T16:20:00Z'',
       hook_spec_of =
         \<lparr>input_schema =
            [(lit ''type'', JStr (lit ''object'')), (lit ''required'', json_strs [lit ''cart_total'', lit ''customer'']),
             (lit ''properties'', JObj
                [(lit ''cart_total'', JObj [(lit ''type'', JStr (lit ''number'')), (lit ''minimum'', json_int 0)]),
                 (lit ''customer'', JObj
                    [(lit ''type'', JStr (lit ''object'')), (lit ''required'', json_strs [lit ''id'', lit ''lifetime_spend'']),
                     (lit ''properties'', JObj [(lit ''id'', js_type ''string''), (lit ''lifetime_spend'', js_type ''number'')])])])],
          output_schema =
            [(lit ''type'', JStr (lit ''object'')), (lit ''required'', json_strs [lit ''discount_percent'']),
             (lit ''properties'', JObj
                [(lit ''discount_percent'', JObj [(lit ''type'', JStr (lit ''integer'')), (lit ''minimum'', json_int 0),
                    (lit ''maximum'', json_int 100)]),
                 (lit ''reason'', js_type ''string'')])],
          timeout_ms = num 50, memory_max_pages = num 64, allowed_host_functions = [], allowed_effect_types = [],
          sample_input =
            [(lit ''cart_total'', json_int 1500),
             (lit ''customer'', JObj [(lit ''id'', JStr (lit ''c-42'')), (lit ''lifetime_spend'', json_int 2400)])]\<rparr>\<rparr>,
      \<lparr>hook_name = lit ''order.validate'', def_version = num 1, hook_created = lit ''2026-09-20T09:30:00Z'',
       hook_updated = lit ''2026-09-20T09:30:00Z'',
       hook_spec_of =
         \<lparr>input_schema =
            [(lit ''type'', JStr (lit ''object'')), (lit ''required'', json_strs [lit ''order'']),
             (lit ''properties'', JObj [(lit ''order'', js_type ''object'')])],
          output_schema =
            [(lit ''type'', JStr (lit ''object'')), (lit ''required'', json_strs [lit ''valid'']),
             (lit ''properties'', JObj [(lit ''valid'', js_type ''boolean''), (lit ''message'', js_type ''string'')])],
          timeout_ms = num 100, memory_max_pages = num 64, allowed_host_functions = [],
          allowed_effect_types = [lit ''order.flag''],
          sample_input = [(lit ''order'', JObj [(lit ''id'', JStr (lit ''o-1'')), (lit ''items'', JArr [])])]\<rparr>\<rparr>]"

text \<open>\<open>`sha256:${seed.repeat(8).slice(0, 64)}`\<close>\<close>

definition seed_hash :: "jstr \<Rightarrow> jstr" where
  "seed_hash seed = lit ''sha256:'' @ str_slice 0 64 (str_repeat 8 seed)"

definition HTTP_IMPORT_DETAIL :: jstr where
  "HTTP_IMPORT_DETAIL = lit (''import extism:host/env.http_request is not allowed; ''
     @ ''import extism:host/env.http_status_code is not allowed; import extism:host/env.http_headers is not allowed'')"

definition check_passed :: "check_name \<Rightarrow> validation_check" where
  "check_passed n = \<lparr>check_name_of = n, check_ok = True, check_detail = None\<rparr>"

definition check_failed :: "check_name \<Rightarrow> jstr \<Rightarrow> validation_check" where
  "check_failed n detail = \<lparr>check_name_of = n, check_ok = False, check_detail = Some detail\<rparr>"

definition checksOk :: "validation_check list" where
  "checksOk = map check_passed [CheckFetch, CheckCompile, CheckExports, CheckImports, CheckSampleCall]"

definition checksRejected :: "jstr \<Rightarrow> validation_check list" where
  "checksRejected detail = map check_passed [CheckFetch, CheckCompile, CheckExports]
     @ [check_failed CheckImports detail, check_failed CheckSampleCall (lit ''skipped'')]"

definition report_passed :: validation_report where
  "report_passed = \<lparr>report_ok = True, report_checks = checksOk\<rparr>"

definition report_rejected :: "jstr \<Rightarrow> validation_report" where
  "report_rejected detail = \<lparr>report_ok = False, report_checks = checksRejected detail\<rparr>"

definition seed_module :: "string \<Rightarrow> string \<Rightarrow> int \<Rightarrow> module_status \<Rightarrow> validation_report \<Rightarrow> string \<Rightarrow> pending_module" where
  "seed_module i h sz st rep up =
     \<lparr>mod_id = lit i, mod_hook = checkout_discount, content_hash = seed_hash (lit h), size_bytes = num sz,
      mod_status = st, mod_report = Some rep, uploaded_at = lit up, validates_at = 0, reject_reason = None\<rparr>"

definition initialModules :: "pending_module list" where
  "initialModules =
     [seed_module ''mod_01'' ''3f1a9c2e'' 131204 Validated report_passed ''2026-09-10T09:12:00Z'',
      seed_module ''mod_02'' ''9b7d04f1'' 139560 Validated report_passed ''2026-09-18T14:40:00Z'',
      seed_module ''mod_03'' ''c2e88a10'' 152977 Rejected (report_rejected HTTP_IMPORT_DETAIL) ''2026-09-22T11:05:00Z'']"

section \<open>The generator\<close>

text \<open>
  \<open>mulberry32\<close>: 32-bit arithmetic (\<open>Math.imul\<close> and \<open>| 0\<close> keep the low 32 bits, \<open>>>>\<close> shifts
  unsigned), and the quotient by \<open>2 ^ 32\<close>, which a double holds exactly.
\<close>

definition mulberry32 :: "32 word \<Rightarrow> number \<times> 32 word" where
  "mulberry32 seed =
     (let s = seed + 0x6d2b79f5;
          t = (s XOR drop_bit 15 s) * (1 OR s);
          u = (t + (t XOR drop_bit 7 t) * (61 OR t)) XOR t
      in (Fin (of_nat (unat (u XOR drop_bit 14 u)) / 4294967296), s))"

definition dec :: "int \<Rightarrow> int \<Rightarrow> number" where
  "dec a b = fl (of_int a / of_int b)"

record weight =
  w_outcome :: outcome
  w_share :: number
  w_reason :: "jstr option"
  w_error :: "jstr option"

definition OUTCOME_WEIGHTS :: "weight list" where
  "OUTCOME_WEIGHTS =
     [\<lparr>w_outcome = OutOk, w_share = dec 86 100, w_reason = None, w_error = None\<rparr>,
      \<lparr>w_outcome = OutTimeout, w_share = dec 5 100, w_reason = None, w_error = None\<rparr>,
      \<lparr>w_outcome = OutHandlerError, w_share = dec 4 100, w_reason = Some (lit ''trap''),
       w_error = Some (lit ''wasm error: unreachable'')\<rparr>,
      \<lparr>w_outcome = OutHandlerError, w_share = dec 2 100, w_reason = Some (lit ''invalid_output''),
       w_error = Some (lit ''result does not match output schema'')\<rparr>,
      \<lparr>w_outcome = OutUnavailable, w_share = dec 2 100, w_reason = Some (lit ''pool_saturated''),
       w_error = Some (lit ''no free instance for this tenant'')\<rparr>,
      \<lparr>w_outcome = OutNoHandler, w_share = dec 1 100, w_reason = None, w_error = None\<rparr>]"

text \<open>The first entry whose share is above what is left of the roll; the first of all when none is.\<close>

fun pick_weight :: "number \<Rightarrow> weight list \<Rightarrow> weight" where
  "pick_weight roll [] = hd OUTCOME_WEIGHTS"
| "pick_weight roll (e # es) = (if js_lt roll (w_share e) then e else pick_weight (js_sub roll (w_share e)) es)"

definition makeInvocation :: "number \<Rightarrow> int \<Rightarrow> jstr option \<Rightarrow> 32 word \<Rightarrow> invocation \<times> 32 word" where
  "makeInvocation seq ts moduleHash g0 =
     (let (roll, g1) = mulberry32 g0;
          e = pick_weight roll OUTCOME_WEIGHTS;
          ran = (w_outcome e \<noteq> OutNoHandler \<and> w_outcome e \<noteq> OutUnavailable);
          (r, g2) = mulberry32 g1;
          duration = (if w_outcome e = OutTimeout then js_add (num 50) (js_mul r (num 2))
                      else js_add (dec 3 10) (js_mul r (dec 5 2)));
          (c, g3) = (if ran then mulberry32 g2 else (NaN, g2));
          (l, g4) = (if w_outcome e = OutOk then mulberry32 g3 else (NaN, g3))
      in (\<lparr>inv_seq = seq, inv_ts = iso_of_ms ts, inv_hook = checkout_discount,
           inv_module_hash = (if ran then moduleHash else None), inv_outcome = w_outcome e,
           inv_reason = w_reason e, inv_error = w_error e,
           inv_duration = js_div_pos (js_round (js_mul duration (num 100))) 100,
           inv_cold_start = (ran \<and> js_lt c (dec 5 100)),
           inv_key = Some (lit ''order-'' @ number_text (js_add (num 1000) seq) @ lit '':checkout.discount''),
           inv_logs = (if w_outcome e = OutOk
             then [lit ''info: discount computed: '' @ (if js_lt l (dec 1 2) then lit ''0'' else lit ''10'')] else [])\<rparr>, g4))"

fun invocation_run :: "int \<Rightarrow> jstr \<Rightarrow> nat list \<Rightarrow> 32 word \<Rightarrow> invocation list \<times> 32 word" where
  "invocation_run now h [] g = ([], g)"
| "invocation_run now h (i # is') g =
     (let (inv, g1) = makeInvocation (num (int i + 1)) (now - (60 - int i) * 30000) (Some h) g;
          (invs, g2) = invocation_run now h is' g1
      in (inv # invs, g2))"

definition initialInvocations :: "int \<Rightarrow> jstr \<Rightarrow> 32 word \<Rightarrow> invocation list \<times> 32 word" where
  "initialInvocations now h g = invocation_run now h [0..<60] g"

section \<open>The database\<close>

definition initialDb :: "int \<Rightarrow> 32 word \<Rightarrow> db \<times> 32 word" where
  "initialDb now g =
     (let active = initialModules ! 1;
          (invs, g') = initialInvocations now (content_hash active) g
      in (\<lparr>db_hooks = HOOKS, db_modules = initialModules,
           db_bindings = [checkout_discount \<mapsto>
             \<lparr>active_module_id = Some (mod_id active), active_module_hash = Some (content_hash active),
              binding_config = JObj [(lit ''threshold'', JStr (lit ''1000'')), (lit ''percent'', JStr (lit ''10''))],
              config_version = num 7, binding_updated = lit ''2026-09-18T14:45:00Z''\<rparr>],
           db_invocations = invs, db_tenants = TENANTS, db_keys = API_KEYS\<rparr>, g'))"

definition fresh_world :: "int \<Rightarrow> world" where
  "fresh_world now = (let (d, g) = initialDb now 42 in \<lparr>wdb = d, rng = g\<rparr>)"

definition resetDb :: "int \<Rightarrow> world \<Rightarrow> world" where
  "resetDb now w = (let (d, g) = initialDb now (rng w) in \<lparr>wdb = d, rng = g\<rparr>)"

definition VALIDATION_MS :: int where "VALIDATION_MS = 3000"

definition settle_module :: "int \<Rightarrow> pending_module \<Rightarrow> pending_module" where
  "settle_module now m =
     (if mod_status m \<noteq> Validating \<or> now < validates_at m then m
      else if truthy (reject_reason m)
        then m\<lparr>mod_status := Rejected, mod_report := Some (report_rejected (the (reject_reason m)))\<rparr>
      else m\<lparr>mod_status := Validated, mod_report := Some report_passed\<rparr>)"

definition settleModules :: "int \<Rightarrow> db \<Rightarrow> db" where
  "settleModules now d = d\<lparr>db_modules := map (settle_module now) (db_modules d)\<rparr>"

definition new_module_id :: "db \<Rightarrow> jstr" where
  "new_module_id d = lit ''mod_'' @ str_pad_start 2 48 (nat_text (length (db_modules d) + 1))"

definition addUploadedModule :: "int \<Rightarrow> jstr \<Rightarrow> jstr \<Rightarrow> nat \<Rightarrow> jstr \<Rightarrow> db \<Rightarrow> pending_module \<times> db" where
  "addUploadedModule now hook hash sz fileName d =
     (let m = \<lparr>mod_id = new_module_id d, mod_hook = hook, content_hash = hash, size_bytes = num (int sz),
               mod_status = Validating, mod_report = None, uploaded_at = iso_of_ms now,
               validates_at = now + VALIDATION_MS,
               reject_reason = (if str_includes (lit ''http'') fileName then Some HTTP_IMPORT_DETAIL else None)\<rparr>
      in (m, d\<lparr>db_modules := db_modules d @ [m]\<rparr>))"

text \<open>No invocation is added within four seconds of the last; an unreadable time (\<open>NaN\<close>) does not hold it back.\<close>

definition tickInvocations :: "int \<Rightarrow> world \<Rightarrow> world" where
  "tickInvocations now w =
     (case db_bindings (wdb w) checkout_discount of
        None \<Rightarrow> w
      | Some b \<Rightarrow>
          if db_invocations (wdb w) = [] then w
          else (let last = List.last (db_invocations (wdb w)) in
                if (case date_parse (inv_ts last) of None \<Rightarrow> False | Some t \<Rightarrow> now - t < 4000) then w
                else (let (inv, g) = makeInvocation (js_add (inv_seq last) (num 1)) now (active_module_hash b) (rng w)
                      in \<lparr>wdb = (wdb w)\<lparr>db_invocations := db_invocations (wdb w) @ [inv]\<rparr>, rng = g\<rparr>)))"

definition publicModule :: "pending_module \<Rightarrow> module" where
  "publicModule m =
     \<lparr>mod_id = mod_id m, mod_hook = mod_hook m, content_hash = content_hash m, size_bytes = size_bytes m,
      mod_status = mod_status m, mod_report = mod_report m, uploaded_at = uploaded_at m\<rparr>"

end
