(* ===== verification/Mock_Http.thy ===== *)
theory Mock_Http
  imports Mock_Db
begin

text \<open>
  \<open>mocks/http.ts\<close> and what every mock handler shares: problem documents, the bearer check, reading
  a JSON body, and the language operations the handlers apply to an unchecked body (property access,
  \<open>in\<close>, \<open>Object.keys\<close>, \<open>String\<close>), with the \<open>TypeError\<close> they throw on \<open>null\<close> and on values that are
  no objects.
\<close>

section \<open>Results\<close>

text \<open>
  What the environment supplies to a handler: the clock, the host's collation and SHA-256, the bytes
  of \<open>crypto.getRandomValues\<close> (for an identifier and for a secret), the texts of platform errors, and the
  schema library's parser.
\<close>

record env =
  env_now :: int
  locale_compare :: "jstr \<Rightarrow> jstr \<Rightarrow> int"
  sha256_digest :: "byte list \<Rightarrow> byte list"
  id_bytes :: "byte list"
  secret_bytes :: "byte list"
  error_text :: "jstr \<Rightarrow> jstr"
  env_zod :: zparser

type_synonym result = "js_error + response"
type_synonym resolver = "env \<Rightarrow> request \<Rightarrow> world \<Rightarrow> result \<times> world"

definition http_json :: "nat \<Rightarrow> json \<Rightarrow> response" where
  "http_json status v = \<lparr>resp_status = status, resp_text = json_stringify v\<rparr>"

definition problem :: "nat \<Rightarrow> jstr \<Rightarrow> json option \<Rightarrow> response" where
  "problem status title detail = http_json status (JObj
     ([(lit ''type'', JStr (lit ''about:blank'')), (lit ''title'', JStr title), (lit ''status'', json_int (int status))]
      @ (case detail of None \<Rightarrow> [] | Some d \<Rightarrow> [(lit ''detail'', d)])))"

definition type_error :: "env \<Rightarrow> js_error" where
  "type_error e = JsError (lit ''TypeError'') (error_text e (lit ''TypeError''))"

definition syntax_error :: "env \<Rightarrow> js_error" where
  "syntax_error e = JsError (lit ''SyntaxError'') (error_text e (lit ''SyntaxError''))"

definition items_json :: "json list \<Rightarrow> json" where
  "items_json xs = JObj [(lit ''items'', JArr xs)]"

section \<open>Authorisation\<close>

text \<open>\<open>/^Bearer\s+(\S+)/\<close>: the group, when the header has the form.\<close>

definition bearer_token :: "jstr \<Rightarrow> jstr option" where
  "bearer_token h =
     (let r = drop 6 h; t = takeWhile (\<lambda>c. \<not> is_space c) (dropWhile is_space r) in
      if str_starts_with (lit ''Bearer'') h \<and> r \<noteq> [] \<and> is_space (hd r) \<and> t \<noteq> [] then Some t else None)"

definition key_refused :: "jstr \<Rightarrow> stored_key \<Rightarrow> bool" where
  "key_refused t k \<longleftrightarrow> truthy (revoked_at k) \<and> key_token k = t"

definition hasBearer :: "db \<Rightarrow> request \<Rightarrow> bool" where
  "hasBearer d req =
     (case bearer_token (nullish (req_auth req) []) of
        None \<Rightarrow> False
      | Some t \<Rightarrow> \<not> list_ex (key_refused t) (db_keys d))"

definition unauthorized :: response where
  "unauthorized = problem 401 (ru ''Ne awtorizowan'') None"

definition authed :: "resolver \<Rightarrow> resolver" where
  "authed r e req w = (if hasBearer (wdb w) req then r e req w else (Inr unauthorized, w))"

section \<open>Bodies\<close>

definition json_body :: "request \<Rightarrow> json option" where
  "json_body req = (case req_body req of WireText t \<Rightarrow> json_parse t | _ \<Rightarrow> None)"

text \<open>Names every object inherits from \<open>Object.prototype\<close>; \<open>in\<close> finds them.\<close>

definition object_proto :: "jstr list" where
  "object_proto = map lit [''constructor'', ''__defineGetter__'', ''__defineSetter__'', ''hasOwnProperty'',
     ''__lookupGetter__'', ''__lookupSetter__'', ''isPrototypeOf'', ''propertyIsEnumerable'', ''toString'',
     ''valueOf'', ''__proto__'', ''toLocaleString'']"

definition in_object :: "jstr \<Rightarrow> json obj \<Rightarrow> bool" where
  "in_object k ob \<longleftrightarrow> k \<in> set (obj_keys ob) \<or> k \<in> set object_proto"

text \<open>
  Access to a field of a body, for the field names of the API (no array, string or prototype has
  them): \<open>None\<close> is the \<open>TypeError\<close> on \<open>null\<close>.
\<close>

definition body_get :: "json \<Rightarrow> jstr \<Rightarrow> json option option" where
  "body_get b k = (case b of JNull \<Rightarrow> None | JObj ob \<Rightarrow> Some (obj_get ob k) | _ \<Rightarrow> Some None)"

definition index_texts :: "nat \<Rightarrow> jstr list" where
  "index_texts n = map nat_text [0..<n]"

definition body_keys :: "json \<Rightarrow> jstr list option" where
  "body_keys b = (case b of JNull \<Rightarrow> None | JObj ob \<Rightarrow> Some (obj_keys ob) | JArr xs \<Rightarrow> Some (index_texts (length xs))
     | JStr s \<Rightarrow> Some (index_texts (length s)) | _ \<Rightarrow> Some [])"

definition body_has :: "json \<Rightarrow> jstr \<Rightarrow> bool option" where
  "body_has b k = (case b of JObj ob \<Rightarrow> Some (in_object k ob) | JArr xs \<Rightarrow> Some False | _ \<Rightarrow> None)"

text \<open>
  \<open>String(v)\<close>. An object whose own \<open>toString\<close> hides the inherited one has no callable conversion
  left and throws (\<open>None\<close>).
\<close>

fun js_string :: "json \<Rightarrow> jstr option" where
  "js_string JNull = Some (lit ''null'')"
| "js_string (JBool b) = Some (if b then lit ''true'' else lit ''false'')"
| "js_string (JNum x) = Some (number_text x)"
| "js_string (JStr s) = Some s"
| "js_string (JArr xs) =
     map_option (str_join [44]) (all_some (map (\<lambda>x. case x of JNull \<Rightarrow> Some [] | _ \<Rightarrow> js_string x) xs))"
| "js_string (JObj ob) = (if lit ''toString'' \<in> set (obj_keys ob) then None else Some (lit ''[object Object]''))"

definition body_string :: "json option \<Rightarrow> jstr option" where
  "body_string v = (case v of None \<Rightarrow> Some (lit ''undefined'') | Some x \<Rightarrow> js_string x)"

definition nullish_field :: "json option \<Rightarrow> bool" where
  "nullish_field v \<longleftrightarrow> v = None \<or> v = Some JNull"

text \<open>
  A check either throws, or answers with a problem, or lets the request pass. A list of checks stops
  at the first that does not let it pass.
\<close>

type_synonym check = "js_error + response option"

fun first_error :: "check list \<Rightarrow> check" where
  "first_error [] = Inr None"
| "first_error (Inr None # cs) = first_error cs"
| "first_error (c # cs) = c"

definition bad_request_text :: jstr where
  "bad_request_text = (ru ''Nekorrektnyj zapros'')"

definition invalid_body :: "jstr \<Rightarrow> check" where
  "invalid_body detail = Inr (Some (problem 422 bad_request_text (Some (JStr detail))))"

definition pass :: check where
  "pass = Inr None"

text \<open>The rest of a handler after its checks: an error or a problem ends it without a change.\<close>

definition guarded :: "check \<Rightarrow> world \<Rightarrow> (unit \<Rightarrow> result \<times> world) \<Rightarrow> result \<times> world" where
  "guarded c w k = (case c of Inl e \<Rightarrow> (Inl e, w) | Inr (Some r) \<Rightarrow> (Inr r, w) | Inr None \<Rightarrow> k ())"

definition with_body :: "env \<Rightarrow> request \<Rightarrow> world \<Rightarrow> (json \<Rightarrow> result \<times> world) \<Rightarrow> result \<times> world" where
  "with_body e req w k = (case json_body req of None \<Rightarrow> (Inl (syntax_error e), w) | Some b \<Rightarrow> k b)"

section \<open>Lemmas\<close>

lemma first_error_pass: "first_error cs = Inr None \<longleftrightarrow> (\<forall>c \<in> set cs. c = Inr None)"
  by (induction cs rule: first_error.induct) auto

lemma first_error_append: "first_error (cs @ ds) = (if first_error cs = Inr None then first_error ds else first_error cs)"
  by (induction cs rule: first_error.induct) auto

lemma first_error_mem: "first_error cs = c \<Longrightarrow> c \<noteq> Inr None \<Longrightarrow> c \<in> set cs"
  by (induction cs rule: first_error.induct) auto

lemma pass_simps [simp]: "pass = Inr None" "invalid_body d \<noteq> Inr None"
  by (simp_all add: pass_def invalid_body_def)

lemma guarded_simps [simp]:
  "guarded (Inl e) w k = (Inl e, w)" "guarded (Inr (Some r)) w k = (Inr r, w)" "guarded (Inr None) w k = k ()"
  by (simp_all add: guarded_def)

lemma resp_status_simps [simp]: "resp_status (http_json s v) = s" "resp_status (problem s t d) = s"
  by (simp_all add: http_json_def problem_def)

text \<open>A handler leaves the world alone unless the part after its checks changes it.\<close>

lemma guarded_rule: "P w \<Longrightarrow> (c = Inr None \<Longrightarrow> P (snd (k ()))) \<Longrightarrow> P (snd (guarded c w k))"
  by (auto simp: guarded_def split: sum.splits option.splits)

lemma with_body_rule: "P w \<Longrightarrow> (\<And>b. json_body req = Some b \<Longrightarrow> P (snd (k b))) \<Longrightarrow> P (snd (with_body e req w k))"
  by (auto simp: with_body_def split: option.splits)

lemma bearer_token_header:
  assumes "t \<noteq> []" "\<And>c. c \<in> set t \<Longrightarrow> \<not> is_space c"
  shows "bearer_token (lit ''Bearer '' @ t) = Some t"
proof -
  have split: "lit ''Bearer '' @ t = lit ''Bearer'' @ 32 # t" by (simp add: lit_def)
  have sp: "is_space 32" by (simp add: is_space_def ws_units_def)
  have "\<not> is_space (hd t)" using assms by (cases t) simp_all
  then have dw: "dropWhile is_space t = t" using assms sp by (cases t) simp_all
  have tw: "takeWhile (\<lambda>c. \<not> is_space c) t = t" using assms by (simp add: takeWhile_eq_all_conv)
  show ?thesis using assms(1) sp unfolding split bearer_token_def by (simp add: dw tw Let_def)
qed

lemma revoked_refused:
  assumes "k \<in> set (db_keys d)" "truthy (revoked_at k)" "bearer_token (nullish (req_auth req) []) = Some (key_token k)"
  shows "\<not> hasBearer d req"
  using assms by (auto simp: hasBearer_def list_ex_iff key_refused_def)

lemma no_header_refused: "req_auth req = None \<Longrightarrow> \<not> hasBearer d req"
  by (simp add: hasBearer_def bearer_token_def str_starts_with_def)

end
