(* ===== verification/Mock_Hooks.thy ===== *)
theory Mock_Hooks
  imports Mock_Http
begin

text \<open>
  \<open>mocks/operator-hooks.ts\<close>: the hook definitions of the operator API. Each resolver is the code
  after the bearer check; it answers, or throws, and returns the world it leaves behind.
\<close>

section \<open>Checks of a body\<close>

definition SPEC_FIELDS :: "jstr list" where
  "SPEC_FIELDS = map lit [''input_schema'', ''output_schema'', ''timeout_ms'', ''memory_max_pages'',
     ''allowed_host_functions'', ''allowed_effect_types'', ''sample_input'']"

definition REQUIRED :: "jstr list" where
  "REQUIRED = map lit [''input_schema'', ''output_schema'', ''timeout_ms'', ''memory_max_pages'', ''sample_input'']"

definition DRAFT_2020_12 :: jstr where
  "DRAFT_2020_12 = lit ''https://json-schema.org/draft/2020-12/schema''"

definition field_text :: "jstr \<Rightarrow> string \<Rightarrow> jstr" where
  "field_text field msg = lit ''body.'' @ field @ lit '': '' @ lit msg"

definition extra_check :: "jstr list \<Rightarrow> jstr \<Rightarrow> check" where
  "extra_check allowed k = (if k \<in> set allowed then pass else invalid_body (field_text k ''Extra inputs are not permitted''))"

definition required_check :: "env \<Rightarrow> json \<Rightarrow> jstr \<Rightarrow> check" where
  "required_check e b k =
     (case body_has b k of
        None \<Rightarrow> Inl (type_error e)
      | Some h \<Rightarrow> if h then pass else invalid_body (field_text k ''Field required''))"

definition name_check :: "env \<Rightarrow> json \<Rightarrow> check" where
  "name_check e b =
     (case body_has b (lit ''name'') of
        None \<Rightarrow> Inl (type_error e)
      | Some False \<Rightarrow> pass
      | Some True \<Rightarrow>
          (case Option.bind (body_get b (lit ''name'')) body_string of
             None \<Rightarrow> Inl (type_error e)
           | Some name \<Rightarrow>
               if HOOK_NAME_MAX < length name then
                 invalid_body (lit ''body.name: String should have at most '' @ nat_text HOOK_NAME_MAX @ lit '' characters'')
               else if \<not> HOOK_NAME_PATTERN name then
                 invalid_body (lit ''body.name: String should match pattern '' @ [39] @ hook_pattern_source @ [39])
               else pass))"

definition range_check :: "env \<Rightarrow> json \<Rightarrow> jstr \<times> (int \<times> int) \<Rightarrow> check" where
  "range_check e b fr =
     (case fr of (field, (lo, hi)) \<Rightarrow>
        (case body_get b field of
           None \<Rightarrow> Inl (type_error e)
         | Some (Some (JNum x)) \<Rightarrow>
             if \<not> js_is_integer x then invalid_body (field_text field ''Input should be a valid integer'')
             else if js_lt x (num lo) then
               invalid_body (field_text field ''Input should be greater than or equal to '' @ int_text lo)
             else if js_lt (num hi) x then
               invalid_body (field_text field ''Input should be less than or equal to '' @ int_text hi)
             else pass
         | _ \<Rightarrow> invalid_body (field_text field ''Input should be a valid integer'')))"

definition dict_check :: "env \<Rightarrow> json \<Rightarrow> jstr \<Rightarrow> check" where
  "dict_check e b field =
     (case body_get b field of
        None \<Rightarrow> Inl (type_error e)
      | Some (Some (JObj _)) \<Rightarrow> pass
      | _ \<Rightarrow> invalid_body (field_text field ''Input should be a valid dictionary''))"

definition bodyError :: "env \<Rightarrow> json \<Rightarrow> jstr list \<Rightarrow> jstr list \<Rightarrow> check" where
  "bodyError e b allowed required =
     (case body_keys b of
        None \<Rightarrow> Inl (type_error e)
      | Some ks \<Rightarrow> first_error
          (map (extra_check allowed) ks @ map (required_check e b) required @ [name_check e b]
           @ map (range_check e b) [(lit ''timeout_ms'', TIMEOUT_MS), (lit ''memory_max_pages'', MEMORY_PAGES)]
           @ map (dict_check e b) [lit ''input_schema'', lit ''output_schema'', lit ''sample_input'']))"

text \<open>
  The dialect of a schema, and the first required member of the input schema that the sample lacks.
  A sample inherits the members of \<open>Object.prototype\<close>, and a missing name that is empty counts as none.
\<close>

definition invalid_hook :: "jstr \<Rightarrow> check" where
  "invalid_hook detail = Inr (Some (problem 422 (ru ''Newalidnoe opredelenie huka'') (Some (JStr detail))))"

definition dialect_check :: "jstr \<times> json obj \<Rightarrow> check" where
  "dialect_check fs =
     (case fs of (field, schema) \<Rightarrow>
        (case obj_get schema (lit ''$schema'') of
           None \<Rightarrow> pass
         | Some d \<Rightarrow> if d = JStr DRAFT_2020_12 then pass
             else invalid_hook (field @ lit '': only draft 2020-12 is supported, $schema must be '' @ [39] @ DRAFT_2020_12 @ [39])))"

definition missing_required :: "hook_spec \<Rightarrow> json list \<Rightarrow> jstr option" where
  "missing_required s required =
     (case find (\<lambda>k. case k of JStr t \<Rightarrow> \<not> in_object t (sample_input s) | _ \<Rightarrow> False) required of
        Some (JStr t) \<Rightarrow> Some t | _ \<Rightarrow> None)"

definition sample_check :: "hook_spec \<Rightarrow> check" where
  "sample_check s =
     (case obj_get (input_schema s) (lit ''required'') of
        Some (JArr required) \<Rightarrow>
          (if truthy (missing_required s required)
           then invalid_hook (lit ''sample_input: /: '' @ [39] @ the (missing_required s required) @ [39] @ lit '' is a required property'')
           else pass)
      | _ \<Rightarrow> pass)"

definition hookError :: "hook_spec \<Rightarrow> check" where
  "hookError s = first_error
     [dialect_check (lit ''input_schema'', input_schema s), dialect_check (lit ''output_schema'', output_schema s), sample_check s]"

section \<open>The definition a body describes\<close>

text \<open>\<open>[...new Set(xs)]\<close>: first occurrences, in order.\<close>

definition js_set :: "'a list \<Rightarrow> 'a list" where
  "js_set xs = rev (remdups (rev xs))"

definition sorted_strings :: "json option \<Rightarrow> jstr list option" where
  "sorted_strings v =
     map_option (\<lambda>ss. js_sort default_compare (js_set ss))
       (case v of Some (JArr xs) \<Rightarrow> all_some (map js_string xs) | _ \<Rightarrow> Some [])"

text \<open>
  \<open>specOf\<close> runs after \<open>bodyError\<close> has let the body pass, so the casts meet objects and numbers.
\<close>

definition cast_object :: "json option \<Rightarrow> json obj" where
  "cast_object v = (case v of Some (JObj ob) \<Rightarrow> ob | _ \<Rightarrow> [])"

definition cast_number :: "json option \<Rightarrow> number" where
  "cast_number v = (case v of Some (JNum x) \<Rightarrow> x | _ \<Rightarrow> NaN)"

definition specOf :: "env \<Rightarrow> json \<Rightarrow> js_error + hook_spec" where
  "specOf e b =
     (let f = (\<lambda>k. case body_get b (lit k) of Some v \<Rightarrow> v | None \<Rightarrow> None) in
      case (sorted_strings (f ''allowed_host_functions''), sorted_strings (f ''allowed_effect_types'')) of
        (Some hs, Some es) \<Rightarrow> Inr
          \<lparr>input_schema = cast_object (f ''input_schema''), output_schema = cast_object (f ''output_schema''),
           timeout_ms = cast_number (f ''timeout_ms''), memory_max_pages = cast_number (f ''memory_max_pages''),
           allowed_host_functions = hs, allowed_effect_types = es, sample_input = cast_object (f ''sample_input'')\<rparr>
      | _ \<Rightarrow> Inl (type_error e))"

definition sameSpec :: "operator_hook \<Rightarrow> hook_spec \<Rightarrow> bool" where
  "sameSpec h s \<longleftrightarrow>
     list_all (\<lambda>(a, b). json_stringify a = json_stringify b)
       (zip (map snd (spec_fields (hook_spec_of h))) (map snd (spec_fields s)))"

section \<open>Resolvers\<close>

definition hook_not_found :: "jstr \<Rightarrow> response" where
  "hook_not_found name = problem 404 (ru ''Huk ne najden'') (Some (JStr name))"

definition find_hook :: "jstr \<Rightarrow> db \<Rightarrow> operator_hook option" where
  "find_hook name d = find (\<lambda>h. hook_name h = name) (db_hooks d)"

definition get_hooks :: resolver where
  "get_hooks e req w = (Inr (http_json 200 (items_json (map hook_json
     (js_sort (\<lambda>a b. locale_compare e (hook_name a) (hook_name b)) (db_hooks (wdb w)))))), w)"

definition get_hook :: "jstr \<Rightarrow> resolver" where
  "get_hook name e req w =
     (Inr (case find_hook name (wdb w) of Some h \<Rightarrow> http_json 200 (hook_json h) | None \<Rightarrow> hook_not_found name), w)"

definition new_hook :: "jstr \<Rightarrow> int \<Rightarrow> hook_spec \<Rightarrow> operator_hook" where
  "new_hook name now s = \<lparr>hook_name = name, def_version = num 1, hook_created = iso_of_ms now,
     hook_updated = iso_of_ms now, hook_spec_of = s\<rparr>"

definition insert_hook :: "env \<Rightarrow> jstr \<Rightarrow> hook_spec \<Rightarrow> world \<Rightarrow> result \<times> world" where
  "insert_hook e name s w =
     (if list_ex (\<lambda>h. hook_name h = name) (db_hooks (wdb w))
      then (Inr (problem 409 (ru ''Huk s takim imenem uve estx'') (Some (JStr name))), w)
      else (let h = new_hook name (env_now e) s
            in (Inr (http_json 201 (hook_json h)), w\<lparr>wdb := (wdb w)\<lparr>db_hooks := db_hooks (wdb w) @ [h]\<rparr>\<rparr>)))"

definition post_hook :: resolver where
  "post_hook e req w = with_body e req w (\<lambda>b.
     guarded (bodyError e b (lit ''name'' # SPEC_FIELDS) (lit ''name'' # REQUIRED)) w (\<lambda>_.
       case specOf e b of
         Inl x \<Rightarrow> (Inl x, w)
       | Inr s \<Rightarrow> guarded (hookError s) w (\<lambda>_.
           case Option.bind (body_get b (lit ''name'')) body_string of
             None \<Rightarrow> (Inl (type_error e), w)
           | Some name \<Rightarrow> insert_hook e name s w)))"

definition narrowed_by :: "hook_spec \<Rightarrow> hook_spec \<Rightarrow> jstr list" where
  "narrowed_by c s = js_sort default_compare
     (filter (\<lambda>f. f \<notin> set (allowed_host_functions s)) (allowed_host_functions c)
      @ filter (\<lambda>t. t \<notin> set (allowed_effect_types s)) (allowed_effect_types c))"

definition updated_hook :: "int \<Rightarrow> hook_spec \<Rightarrow> operator_hook \<Rightarrow> operator_hook" where
  "updated_hook now s h = h\<lparr>hook_spec_of := s, def_version := js_add (def_version h) (num 1), hook_updated := iso_of_ms now\<rparr>"

definition replace_hook :: "env \<Rightarrow> jstr \<Rightarrow> hook_spec \<Rightarrow> world \<Rightarrow> result \<times> world" where
  "replace_hook e name s w =
     (case find_index (\<lambda>h. hook_name h = name) (db_hooks (wdb w)) of
        None \<Rightarrow> (Inr (hook_not_found name), w)
      | Some i \<Rightarrow>
          let h = db_hooks (wdb w) ! i; narrowed = narrowed_by (hook_spec_of h) s in
          if 0 < length narrowed
          then (Inr (problem 409 (ru ''Nelxzq suzitx spisok razre[#nnyh wozmovnostej'')
                      (Some (JStr (str_join (lit '', '') narrowed)))), w)
          else if sameSpec h s then (Inr (http_json 200 (hook_json h)), w)
          else (let h' = updated_hook (env_now e) s h
                in (Inr (http_json 200 (hook_json h')), w\<lparr>wdb := (wdb w)\<lparr>db_hooks := (db_hooks (wdb w))[i := h']\<rparr>\<rparr>)))"

definition put_hook :: "jstr \<Rightarrow> resolver" where
  "put_hook name e req w = with_body e req w (\<lambda>b.
     guarded (bodyError e b SPEC_FIELDS REQUIRED) w (\<lambda>_.
       case specOf e b of
         Inl x \<Rightarrow> (Inl x, w)
       | Inr s \<Rightarrow> guarded (hookError s) w (\<lambda>_. replace_hook e name s w)))"

end
