(* ===== verification/Jwt.thy ===== *)
theory Jwt
  imports Zod Js_Text
begin

text \<open>
  \<open>shared/lib/jwt.ts\<close>: reading the claims of a token without checking its signature, and whether
  it has expired. Decoding failures of any kind read as no claims.
\<close>

definition claims_schema :: zschema where
  "claims_schema = ZObject [(lit ''sub'', ZNullish ZString), (lit ''exp'', ZNullish ZNumber)]"

record jwt_claims =
  claim_sub :: "jstr option"
  claim_exp :: "number option"

definition decode_base64url :: "jstr \<Rightarrow> jstr option" where
  "decode_base64url segment = map_option utf8_decode (b64url_decode segment)"

definition claim_fields :: "json option \<Rightarrow> jwt_claims" where
  "claim_fields v =
     (case v of
        Some (JObj ob) \<Rightarrow>
          \<lparr>claim_sub = (case obj_get ob (lit ''sub'') of Some (JStr s) \<Rightarrow> Some s | _ \<Rightarrow> None),
           claim_exp = (case obj_get ob (lit ''exp'') of Some (JNum x) \<Rightarrow> Some x | _ \<Rightarrow> None)\<rparr>
      | _ \<Rightarrow> \<lparr>claim_sub = None, claim_exp = None\<rparr>)"

definition read_jwt_claims :: "zparser \<Rightarrow> jstr \<Rightarrow> jwt_claims option" where
  "read_jwt_claims zp token =
     (case str_split 46 token of
        _ # payload # _ \<Rightarrow>
          if payload = [] then None
          else (case Option.bind (decode_base64url payload) json_parse of
                  None \<Rightarrow> None
                | Some v \<Rightarrow> map_option claim_fields (zp claims_schema (Some v)))
      | _ \<Rightarrow> None)"

definition is_jwt_expired :: "zparser \<Rightarrow> jstr \<Rightarrow> number \<Rightarrow> bool" where
  "is_jwt_expired zp token now =
     (case Option.bind (read_jwt_claims zp token) claim_exp of
        None \<Rightarrow> False
      | Some e \<Rightarrow> js_le (js_mul e (num 1000)) now)"

section \<open>Tokens built from a payload\<close>

text \<open>A token whose middle part is the URL-safe base64 of the UTF-8 of a JSON text.\<close>

definition b64url_json :: "json \<Rightarrow> jstr" where
  "b64url_json v = b64url_encode (utf8_encode (json_stringify v))"

lemma well_formed_append: "well_formed s \<Longrightarrow> well_formed t \<Longrightarrow> well_formed (s @ t)"
proof (induction s rule: well_formed.induct)
  case (2 c)
  then show ?case by (cases t) auto
next
  case (3 c d s)
  then show ?case by (auto split: if_splits)
qed simp

lemma well_formed_Cons:
  "unat c < 0xD800 \<Longrightarrow> well_formed s \<Longrightarrow> well_formed (c # s)"
  using well_formed_append [of "[c]" s] by (simp add: high_surrogate_def low_surrogate_def)

lemma well_formed_low: "(\<And>c. c \<in> set s \<Longrightarrow> unat c < 0xD800) \<Longrightarrow> well_formed s"
  by (induction s) (auto intro: well_formed_Cons)

lemma well_formed_lit [simp]: "well_formed (lit s)"
proof (rule well_formed_low)
  fix c :: cu assume "c \<in> set (lit s)"
  then obtain d where "c = of_char d" by (auto simp: lit_def)
  moreover have "of_char d < (256 :: nat)" by simp
  then have "of_char d < (0xD800 :: nat)" by (rule order_less_trans) simp
  ultimately show "unat c < 0xD800" by simp
qed

lemma well_formed_concat: "(\<And>s. s \<in> set ss \<Longrightarrow> well_formed s) \<Longrightarrow> well_formed (concat ss)"
  by (induction ss) (auto intro: well_formed_append)

lemma well_formed_join: "well_formed sep \<Longrightarrow> (\<And>s. s \<in> set ss \<Longrightarrow> well_formed s) \<Longrightarrow> well_formed (str_join sep ss)"
  by (induction sep ss rule: str_join.induct) (auto intro!: well_formed_append)

lemma surrogate_high: "is_high c \<longleftrightarrow> high_surrogate c" and surrogate_low: "is_low c \<longleftrightarrow> low_surrogate c"
  by (auto simp: is_high_def is_low_def high_surrogate_def low_surrogate_def word_le_nat_alt)

lemma well_formed_escape: "well_formed (u_escape c)"
proof (rule well_formed_low)
  fix d assume "d \<in> set (u_escape c)"
  moreover have "unat (digit_cu n) < 0xD800" if "n < 16" for n
    using that by (cases "n < 10") (auto simp: unat_digit_cu unat_digit_cu_hex)
  moreover have "unat c div 4096 < 16" using unat_cu_less [of c] by (simp add: div_less_iff_less_mult)
  ultimately show "unat d < 0xD800" by (auto simp: u_escape_def Let_def)
qed

lemma well_formed_unit: "\<not> high_surrogate c \<Longrightarrow> \<not> low_surrogate c \<Longrightarrow> well_formed (quote_unit c)"
  by (simp add: quote_unit_def well_formed_escape) (simp add: high_surrogate_def low_surrogate_def)

lemma well_formed_quote_units: "well_formed (quote_units s)"
proof (induction s rule: quote_units.induct)
  case (3 c d s)
  then show ?case
    by (auto simp: surrogate_high surrogate_low intro!: well_formed_append well_formed_escape well_formed_unit)
qed (auto simp: surrogate_high surrogate_low intro!: well_formed_escape well_formed_unit)

lemma well_formed_quote: "well_formed (json_quote s)"
  by (auto simp: json_quote_def high_surrogate_def low_surrogate_def
      intro!: well_formed_Cons well_formed_append well_formed_quote_units)

lemma well_formed_int_text: "well_formed (int_text i)"
proof -
  have "well_formed (nat_text n)" for n
    by (rule well_formed_low) (auto simp: is_digit_def word_le_nat_alt dest!: nat_text_digits)
  then show ?thesis by (auto simp: int_text_def intro!: well_formed_Cons)
qed

lemma well_formed_json: "json_ok v \<Longrightarrow> well_formed (json_text [] ind v)"
proof (induction v arbitrary: ind)
  case (JNum x)
  then obtain i where "x = num i" "safe_int i" by (cases x) auto
  then show ?case by (simp add: json_number_def well_formed_int_text)
next
  case (JArr xs)
  then show ?case
    by (auto simp: bracketed_def list_all_iff high_surrogate_def low_surrogate_def
        intro!: well_formed_Cons well_formed_append well_formed_join)
next
  case (JObj ob)
  have "well_formed (json_text [] ind (snd p))" if "p \<in> set ob" for p
    using JObj.IH [of p "snd p"] JObj.prems that by (cases p) (auto simp: list_all_iff)
  then show ?case
    by (fastforce simp: bracketed_def high_surrogate_def low_surrogate_def
        intro!: well_formed_Cons well_formed_append well_formed_join well_formed_quote)
qed (auto intro: well_formed_quote)

lemma json_text_ascii_start:
  assumes "json_ok v" shows "unat (hd (json_text [] [] v)) < 0x80"
proof (cases v)
  case (JNum x)
  then obtain i where x: "x = num i" "safe_int i" using assms by (cases x) auto
  obtain c t where "nat_text (nat i) = c # t" "is_digit c"
    by (metis list.exhaust list.set_intros(1) nat_text_digits nat_text_nonempty)
  then show ?thesis
    using x JNum by (auto simp: json_number_def int_text_def is_digit_def word_le_nat_alt)
qed (auto simp: lit_def json_quote_def bracketed_def)

theorem decode_b64url_json:
  assumes "json_ok v" shows "Option.bind (decode_base64url (b64url_json v)) json_parse = Some v"
proof -
  have "list_all (\<lambda>b. b < 256) (utf8_encode (json_stringify v))"
    by (auto simp: list_all_iff dest: utf8_encode_bytes)
  moreover have "utf8_decode (utf8_encode (json_stringify v)) = json_stringify v"
    by (rule utf8_roundtrip)
      (auto simp: json_stringify_def well_formed_json [OF assms] json_text_ascii_start [OF assms])
  ultimately show ?thesis
    by (simp add: decode_base64url_def b64url_json_def b64url_roundtrip json_parse_stringify [OF assms])
qed

lemma b64url_no_dot:
  assumes "list_all (\<lambda>b. b < 256) bs" shows "46 \<notin> set (b64url_encode bs)"
proof
  assume "46 \<in> set (b64url_encode bs)"
  then have "46 \<in> set (str_replace_all 47 95 (str_replace_all 43 45 (js_btoa bs)))"
    unfolding b64url_encode_def by (metis set_dropWhileD set_rev)
  then have "46 \<in> set (js_btoa bs)" by (auto simp: str_replace_all_def split: if_splits)
  then show False
    using b64_sextets_less [OF assms] b64_unit_props(6) by (auto simp: js_btoa_def Let_def)
qed

lemma b64url_json_token:
  assumes "json_ok v"
  shows "46 \<notin> set (b64url_json v)" "b64url_json v \<noteq> []"
proof -
  have bytes: "list_all (\<lambda>b. b < 256) (utf8_encode (json_stringify v))"
    by (auto simp: list_all_iff dest: utf8_encode_bytes)
  show "46 \<notin> set (b64url_json v)" unfolding b64url_json_def by (rule b64url_no_dot [OF bytes])
  show "b64url_json v \<noteq> []"
  proof
    assume "b64url_json v = []"
    with decode_b64url_json [OF assms] have "Option.bind (decode_base64url []) json_parse = Some v" by simp
    moreover have "Option.bind (decode_base64url []) json_parse = None" by code_simp
    ultimately show False by simp
  qed
qed

lemma read_claims_of_payload:
  assumes "json_ok v" "46 \<notin> set header"
  shows "read_jwt_claims zp (header @ 46 # b64url_json v @ 46 # signature)
    = map_option claim_fields (zp claims_schema (Some v))"
  using b64url_json_token [OF assms(1)] decode_b64url_json [OF assms(1)] assms(2)
  by (simp add: read_jwt_claims_def str_split_append)

end
