(* ===== verification/Mock_Tenants.thy ===== *)
theory Mock_Tenants
  imports Mock_Http Jwt
begin

text \<open>
  \<open>mocks/operator-tenants.ts\<close>: tenants, console sessions and API keys of the operator API.
\<close>

section \<open>Checks of a body\<close>

definition TENANT_NOT_FOUND :: jstr where "TENANT_NOT_FOUND = (ru ''Tenant ne najden'')"
definition SESSION_TTL_MS :: int where "SESSION_TTL_MS = 60 * 60 * 1000"
definition BASE62 :: jstr where
  "BASE62 = lit ''0123456789ABCDEFGHIJKLMNOPQRSTUVWXYZabcdefghijklmnopqrstuvwxyz''"
definition HEX_DIGITS :: jstr where "HEX_DIGITS = lit ''0123456789abcdef''"

text \<open>A check that reads a field of the body: \<open>TypeError\<close> when the body is \<open>null\<close>.\<close>

definition field_check :: "env \<Rightarrow> json \<Rightarrow> string \<Rightarrow> (json option \<Rightarrow> check) \<Rightarrow> check" where
  "field_check e b field p = (case body_get b (lit field) of None \<Rightarrow> Inl (type_error e) | Some v \<Rightarrow> p v)"

definition quotaError :: "env \<Rightarrow> json \<Rightarrow> string \<Rightarrow> check" where
  "quotaError e b field = field_check e b field (\<lambda>v.
     if nullish_field v then pass
     else (case v of
         Some (JNum x) \<Rightarrow>
           if \<not> js_is_integer x then invalid_body (lit ''body.'' @ lit field @ lit '': Input should be a valid integer'')
           else if js_lt x (num 0) then
             invalid_body (lit ''body.'' @ lit field @ lit '': Input should be greater than or equal to 0'')
           else pass
       | _ \<Rightarrow> invalid_body (lit ''body.'' @ lit field @ lit '': Input should be a valid integer'')))"

definition required_text :: "string \<Rightarrow> nat \<Rightarrow> json option \<Rightarrow> check" where
  "required_text field limit v =
     (case v of
        None \<Rightarrow> invalid_body (lit ''body.'' @ lit field @ lit '': Field required'')
      | Some (JStr s) \<Rightarrow>
          if length s < 1 then invalid_body (lit ''body.'' @ lit field @ lit '': String should have at least 1 character'')
          else if limit < length s then
            invalid_body (lit ''body.'' @ lit field @ lit '': String should have at most '' @ nat_text limit @ lit '' characters'')
          else pass
      | _ \<Rightarrow> invalid_body (lit ''body.'' @ lit field @ lit '': Input should be a valid string''))"

definition createError :: "env \<Rightarrow> json \<Rightarrow> check" where
  "createError e b = first_error
     [field_check e b ''external_id'' (required_text ''external_id'' EXTERNAL_ID_MAX),
      field_check e b ''name'' (\<lambda>v. case v of
          None \<Rightarrow> invalid_body (lit ''body.name: Field required'')
        | Some (JStr _) \<Rightarrow> pass
        | _ \<Rightarrow> invalid_body (lit ''body.name: Input should be a valid string'')),
      quotaError e b ''rate_limit_rps'', quotaError e b ''concurrency_limit'']"

definition patchError :: "env \<Rightarrow> json \<Rightarrow> check" where
  "patchError e b = first_error
     [field_check e b ''name'' (\<lambda>v. case v of
          None \<Rightarrow> pass | Some JNull \<Rightarrow> pass | Some (JStr _) \<Rightarrow> pass
        | _ \<Rightarrow> invalid_body (lit ''body.name: Input should be a valid string'')),
      quotaError e b ''rate_limit_rps'', quotaError e b ''concurrency_limit'']"

section \<open>Tokens and random texts\<close>

definition token_claims :: "jstr \<Rightarrow> int \<Rightarrow> int \<Rightarrow> json" where
  "token_claims externalId now expiresAt = JObj
     [(lit ''sub'', JStr externalId), (lit ''aud'', JStr (lit ''tenant-console'')),
      (lit ''iss'', JStr (lit ''wasmhooks-control-plane'')), (lit ''iat'', json_int (now div 1000)),
      (lit ''exp'', json_int (expiresAt div 1000))]"

definition token_header :: json where
  "token_header = JObj [(lit ''alg'', JStr (lit ''HS256'')), (lit ''typ'', JStr (lit ''JWT''))]"

definition consoleToken :: "int \<Rightarrow> jstr \<Rightarrow> int \<Rightarrow> jstr" where
  "consoleToken now externalId expiresAt =
     b64url_json token_header @ [46] @ b64url_json (token_claims externalId now expiresAt) @ lit ''.mock-signature''"

definition randomText :: "jstr \<Rightarrow> byte list \<Rightarrow> jstr" where
  "randomText alphabet bytes = map (\<lambda>b. alphabet ! (unat b mod length alphabet)) bytes"

definition publicKey :: "stored_key \<Rightarrow> api_key" where
  "publicKey k = \<lparr>key_id = key_id k, key_name = key_name k, key_created = key_created k, revoked_at = revoked_at k\<rparr>"

section \<open>Tenants\<close>

definition tenant_not_found :: "jstr \<Rightarrow> response" where
  "tenant_not_found i = problem 404 TENANT_NOT_FOUND (Some (JStr i))"

definition find_tenant :: "jstr \<Rightarrow> db \<Rightarrow> tenant option" where
  "find_tenant i d = find (\<lambda>t. external_id t = i) (db_tenants d)"

definition get_tenants :: resolver where
  "get_tenants e req w = (Inr (http_json 200 (items_json (map tenant_json
     (js_sort (\<lambda>a b. locale_compare e (external_id a) (external_id b)) (db_tenants (wdb w)))))), w)"

definition get_tenant :: "jstr \<Rightarrow> resolver" where
  "get_tenant i e req w =
     (Inr (case find_tenant i (wdb w) of Some t \<Rightarrow> http_json 200 (tenant_json t) | None \<Rightarrow> tenant_not_found i), w)"

text \<open>\<open>(body.field as number | undefined) ?? 0\<close>, after the checks.\<close>

definition quota_or_zero :: "json option \<Rightarrow> number" where
  "quota_or_zero v = (case v of Some (JNum x) \<Rightarrow> x | _ \<Rightarrow> num 0)"

definition field_of :: "json \<Rightarrow> string \<Rightarrow> json option" where
  "field_of b k = (case body_get b (lit k) of Some v \<Rightarrow> v | None \<Rightarrow> None)"

definition text_of :: "json option \<Rightarrow> jstr" where
  "text_of v = (case v of Some (JStr s) \<Rightarrow> s | _ \<Rightarrow> [])"

definition post_tenant :: resolver where
  "post_tenant e req w = with_body e req w (\<lambda>b. guarded (createError e b) w (\<lambda>_.
     let i = text_of (field_of b ''external_id'') in
     if list_ex (\<lambda>t. external_id t = i) (db_tenants (wdb w))
     then (Inr (problem 409 (ru ''Tenant s takim '' @ lit ''external_id '' @ ru ''uve estx'') (Some (JStr i))), w)
     else (let now = iso_of_ms (env_now e);
               t = \<lparr>rate_limit_rps = quota_or_zero (field_of b ''rate_limit_rps''),
                    concurrency_limit = quota_or_zero (field_of b ''concurrency_limit''), external_id = i,
                    tenant_name = text_of (field_of b ''name''), tenant_created = now, tenant_updated = now\<rparr>
           in (Inr (http_json 201 (tenant_json t)), w\<lparr>wdb := (wdb w)\<lparr>db_tenants := db_tenants (wdb w) @ [t]\<rparr>\<rparr>))))"

text \<open>The fields a patch changes: given, not \<open>null\<close>, and different from the current value.\<close>

datatype tenant_field = FieldName | FieldRate | FieldConcurrency

definition tenant_field_text :: "tenant_field \<Rightarrow> string" where
  "tenant_field_text f = (case f of FieldName \<Rightarrow> ''name'' | FieldRate \<Rightarrow> ''rate_limit_rps'' | FieldConcurrency \<Rightarrow> ''concurrency_limit'')"

definition tenant_field_same :: "tenant_field \<Rightarrow> json \<Rightarrow> tenant \<Rightarrow> bool" where
  "tenant_field_same f v t =
     (case (f, v) of
        (FieldName, JStr s) \<Rightarrow> s = tenant_name t
      | (FieldRate, JNum x) \<Rightarrow> js_num_eq x (rate_limit_rps t)
      | (FieldConcurrency, JNum x) \<Rightarrow> js_num_eq x (concurrency_limit t)
      | _ \<Rightarrow> False)"

definition patch_changes :: "json \<Rightarrow> tenant \<Rightarrow> tenant_field list" where
  "patch_changes b t = filter
     (\<lambda>f. let v = field_of b (tenant_field_text f) in \<not> nullish_field v \<and> \<not> tenant_field_same f (the v) t)
     [FieldName, FieldRate, FieldConcurrency]"

definition assign_field :: "json \<Rightarrow> tenant \<Rightarrow> tenant_field \<Rightarrow> tenant" where
  "assign_field b t f =
     (case f of
        FieldName \<Rightarrow> t\<lparr>tenant_name := text_of (field_of b ''name'')\<rparr>
      | FieldRate \<Rightarrow> t\<lparr>rate_limit_rps := quota_or_zero (field_of b ''rate_limit_rps'')\<rparr>
      | FieldConcurrency \<Rightarrow> t\<lparr>concurrency_limit := quota_or_zero (field_of b ''concurrency_limit'')\<rparr>)"

definition patch_tenant :: "jstr \<Rightarrow> resolver" where
  "patch_tenant i e req w = with_body e req w (\<lambda>b. guarded (patchError e b) w (\<lambda>_.
     case find_index (\<lambda>t. external_id t = i) (db_tenants (wdb w)) of
       None \<Rightarrow> (Inr (tenant_not_found i), w)
     | Some n \<Rightarrow>
         let t = db_tenants (wdb w) ! n; changes = patch_changes b t in
         if changes = [] then (Inr (http_json 200 (tenant_json t)), w)
         else (let t' = foldl (assign_field b) (t\<lparr>tenant_updated := iso_of_ms (env_now e)\<rparr>) changes
               in (Inr (http_json 200 (tenant_json t')), w\<lparr>wdb := (wdb w)\<lparr>db_tenants := (db_tenants (wdb w))[n := t']\<rparr>\<rparr>))))"

section \<open>Console sessions\<close>

definition session_json :: "jstr \<Rightarrow> jstr \<Rightarrow> json" where
  "session_json token expires = JObj [(lit ''token'', JStr token), (lit ''expires_at'', JStr expires)]"

definition post_console_session :: "jstr \<Rightarrow> resolver" where
  "post_console_session i e req w =
     (Inr (if \<not> list_ex (\<lambda>t. external_id t = i) (db_tenants (wdb w)) then tenant_not_found i
           else (let expiresAt = env_now e + SESSION_TTL_MS
                 in http_json 201 (session_json (consoleToken (env_now e) i expiresAt) (iso_of_ms expiresAt)))), w)"

section \<open>API keys\<close>

definition get_keys :: resolver where
  "get_keys e req w = (Inr (http_json 200 (items_json (map (\<lambda>k. JObj (api_key_fields (publicKey k)))
     (js_sort (\<lambda>a b. locale_compare e (key_created a) (key_created b)) (db_keys (wdb w)))))), w)"

definition keyError :: "env \<Rightarrow> json \<Rightarrow> check" where
  "keyError e b = field_check e b ''name'' (required_text ''name'' KEY_NAME_MAX)"

definition new_key :: "env \<Rightarrow> jstr \<Rightarrow> stored_key" where
  "new_key e name =
     \<lparr>key_id = lit ''key_'' @ randomText HEX_DIGITS (id_bytes e), key_name = name, key_created = iso_of_ms (env_now e),
      revoked_at = None, key_token = lit ''whk_'' @ randomText BASE62 (secret_bytes e)\<rparr>"

definition post_key :: resolver where
  "post_key e req w = with_body e req w (\<lambda>b. guarded (keyError e b) w (\<lambda>_.
     let name = text_of (field_of b ''name'') in
     if list_ex (\<lambda>k. key_name k = name) (db_keys (wdb w))
     then (Inr (problem 409 (ru ''Kl@~ s takim imenem uve estx'') (Some (JStr name))), w)
     else (let k = new_key e name
           in (Inr (http_json 201 (JObj (api_key_fields (publicKey k) @ [(lit ''token'', JStr (key_token k))]))),
               w\<lparr>wdb := (wdb w)\<lparr>db_keys := db_keys (wdb w) @ [k]\<rparr>\<rparr>))))"

definition revoke :: "int \<Rightarrow> stored_key \<Rightarrow> stored_key" where
  "revoke now k = (case revoked_at k of Some _ \<Rightarrow> k | None \<Rightarrow> k\<lparr>revoked_at := Some (iso_of_ms now)\<rparr>)"

definition delete_key :: "jstr \<Rightarrow> resolver" where
  "delete_key i e req w =
     (case find_index (\<lambda>k. key_id k = i) (db_keys (wdb w)) of
        None \<Rightarrow> (Inr (problem 404 (ru ''Kl@~ ne najden'') (Some (JStr i))), w)
      | Some n \<Rightarrow> (Inr \<lparr>resp_status = 204, resp_text = []\<rparr>,
          w\<lparr>wdb := (wdb w)\<lparr>db_keys := (db_keys (wdb w))[n := revoke (env_now e) (db_keys (wdb w) ! n)]\<rparr>\<rparr>))"

end
