(* ===== verification/Mock_Tenant_Api.thy ===== *)
theory Mock_Tenant_Api
  imports Mock_Hooks Mock_Tenants
begin

text \<open>
  \<open>mocks/handlers.ts\<close>: the tenant's side of the mock API (hooks with their bindings, module
  versions, activation and settings, the invocation log).
\<close>

section \<open>Hooks\<close>

definition tenant_hook_json :: "operator_hook \<Rightarrow> db \<Rightarrow> json" where
  "tenant_hook_json h d = JObj
     [(lit ''hook'', hook_json h),
      (lit ''binding'', case db_bindings d (hook_name h) of None \<Rightarrow> JNull | Some b \<Rightarrow> binding_json b)]"

definition tenantHook :: "jstr \<Rightarrow> db \<Rightarrow> json option" where
  "tenantHook name d = map_option (\<lambda>h. tenant_hook_json h d) (find_hook name d)"

text \<open>The list looks every hook up again by its name.\<close>

definition get_tenant_hooks :: resolver where
  "get_tenant_hooks e req w =
     (Inr (http_json 200 (items_json
        (map (\<lambda>h. nullish (tenantHook (hook_name h) (wdb w)) JNull) (db_hooks (wdb w))))), w)"

definition get_tenant_hook :: "jstr \<Rightarrow> resolver" where
  "get_tenant_hook name e req w =
     (Inr (case tenantHook name (wdb w) of Some v \<Rightarrow> http_json 200 v | None \<Rightarrow> hook_not_found name), w)"

section \<open>Modules\<close>

definition hook_modules :: "env \<Rightarrow> jstr \<Rightarrow> db \<Rightarrow> pending_module list" where
  "hook_modules e name d =
     js_sort (\<lambda>a b. locale_compare e (uploaded_at b) (uploaded_at a)) (filter (\<lambda>m. mod_hook m = name) (db_modules d))"

definition get_modules :: "jstr \<Rightarrow> resolver" where
  "get_modules name e req w =
     (if tenantHook name (wdb w) = None then (Inr (hook_not_found name), w)
      else (let d = settleModules (env_now e) (wdb w)
            in (Inr (http_json 200 (items_json (map (module_json \<circ> publicModule) (hook_modules e name d)))), w\<lparr>wdb := d\<rparr>)))"

definition sha256 :: "env \<Rightarrow> byte list \<Rightarrow> jstr" where
  "sha256 e bytes = lit ''sha256:'' @ concat (map (\<lambda>b. str_pad_start 2 48 (hex_text (unat b))) (sha256_digest e bytes))"

text \<open>\<open>formData()\<close> throws on a body that is no form; the client's form has the one field \<open>file\<close>.\<close>

definition form_file :: "request \<Rightarrow> upload_file option" where
  "form_file req = (case req_body req of WireForm f \<Rightarrow> Some f | _ \<Rightarrow> None)"

definition upload_file_to :: "jstr \<Rightarrow> env \<Rightarrow> upload_file \<Rightarrow> world \<Rightarrow> result \<times> world" where
  "upload_file_to name e f w =
     (if MAX_MODULE_BYTES < length (file_bytes f) then (Inr (problem 413 (ru ''Modulx sli[kom bolx[oj'') None), w)
      else if length (file_bytes f) = 0 then (Inr (problem 422 (ru ''Pustoj modulx'') None), w)
      else (let h = sha256 e (file_bytes f) in
            if list_ex (\<lambda>m. mod_hook m = name \<and> content_hash m = h) (db_modules (wdb w))
            then (Inr (problem 409 (ru ''Takaq wersiq uve zagruvena'') (Some (JStr h))), w)
            else (let (m, d) = addUploadedModule (env_now e) name h (length (file_bytes f)) (file_name f) (wdb w)
                  in (Inr (http_json 201 (module_json (publicModule m))), w\<lparr>wdb := d\<rparr>))))"

definition post_module :: "jstr \<Rightarrow> resolver" where
  "post_module name e req w =
     (if tenantHook name (wdb w) = None then (Inr (hook_not_found name), w)
      else (case form_file req of None \<Rightarrow> (Inl (type_error e), w) | Some f \<Rightarrow> upload_file_to name e f w))"

section \<open>Bindings\<close>

text \<open>
  The module a body asks for: none when the field is absent or \<open>null\<close>, a problem when there is no
  such version of the hook or it has not passed its checks.
\<close>

definition requested_module :: "jstr \<Rightarrow> json option \<Rightarrow> db \<Rightarrow> response + pending_module option" where
  "requested_module name v d =
     (if nullish_field v then Inr None
      else (case find (\<lambda>m. v = Some (JStr (mod_id m)) \<and> mod_hook m = name) (db_modules d) of
          None \<Rightarrow> Inl (problem 404 (ru ''Wersiq ne najdena'') v)
        | Some m \<Rightarrow>
            if mod_status m \<noteq> Validated
            then Inl (problem 409 (ru ''Aktiwirowatx movno tolxko prowerennu@ wersi@'')
                        (Some (JStr ((ru ''Status: '') @ status_text (mod_status m)))))
            else Inr (Some m)))"

definition config_changed :: "json option \<Rightarrow> binding option \<Rightarrow> bool" where
  "config_changed v previous \<longleftrightarrow>
     (case previous of None \<Rightarrow> False
      | Some p \<Rightarrow> \<not> nullish_field v \<and> json_stringify (the v) \<noteq> json_stringify (binding_config p))"

definition module_changed :: "pending_module option \<Rightarrow> binding option \<Rightarrow> bool" where
  "module_changed m previous \<longleftrightarrow>
     (case m of None \<Rightarrow> False | Some x \<Rightarrow> Some (mod_id x) \<noteq> Option.bind previous active_module_id)"

definition next_binding :: "int \<Rightarrow> json option \<Rightarrow> pending_module option \<Rightarrow> binding option \<Rightarrow> binding" where
  "next_binding now v m previous =
     \<lparr>active_module_id = (case m of Some x \<Rightarrow> Some (mod_id x) | None \<Rightarrow> Option.bind previous active_module_id),
      active_module_hash = (case m of Some x \<Rightarrow> Some (content_hash x) | None \<Rightarrow> Option.bind previous active_module_hash),
      binding_config = (if \<not> nullish_field v then the v
                        else (case previous of Some p \<Rightarrow> binding_config p | None \<Rightarrow> JObj [])),
      config_version = (case previous of
          Some p \<Rightarrow> js_add (config_version p) (if config_changed v previous then num 1 else num 0)
        | None \<Rightarrow> num 1),
      binding_updated = iso_of_ms now\<rparr>"

definition put_binding :: "jstr \<Rightarrow> resolver" where
  "put_binding name e req w =
     (if tenantHook name (wdb w) = None then (Inr (hook_not_found name), w)
      else with_body e req w (\<lambda>b.
        if b = JNull then (Inl (type_error e), w)
        else (let v = field_of b ''active_module_id''; c = field_of b ''config''; previous = db_bindings (wdb w) name in
              if nullish_field v \<and> nullish_field c then (Inr (problem 400 (ru ''Ne~ego menqtx'') None), w)
              else (case requested_module name v (wdb w) of
                  Inl r \<Rightarrow> (Inr r, w)
                | Inr m \<Rightarrow>
                    if previous \<noteq> None \<and> \<not> config_changed c previous \<and> \<not> module_changed m previous
                    then (Inr (http_json 200 (binding_json (the previous))), w)
                    else (let nb = next_binding (env_now e) c m previous
                          in (Inr (http_json 200 (binding_json nb)),
                              w\<lparr>wdb := (wdb w)\<lparr>db_bindings := (db_bindings (wdb w))(name \<mapsto> nb)\<rparr>\<rparr>))))))"

section \<open>The invocation log\<close>

text \<open>
  \<open>Number(s)\<close> of a query parameter: decimal literals with an optional sign, fraction and exponent,
  \<open>Infinity\<close>, the \<open>0x\<close>, \<open>0o\<close>, \<open>0b\<close> forms, and \<open>0\<close> for blank text.
\<close>

definition digit_in :: "nat \<Rightarrow> cu \<Rightarrow> nat option" where
  "digit_in base c =
     (let d = (if is_digit c then unat c - 48 else if 97 \<le> c \<and> c \<le> 122 then unat c - 87
               else if 65 \<le> c \<and> c \<le> 90 then unat c - 55 else 36)
      in if d < base then Some d else None)"

definition radix_number :: "nat \<Rightarrow> jstr \<Rightarrow> number" where
  "radix_number base s =
     (case all_some (map (digit_in base) s) of
        Some ds \<Rightarrow> if ds = [] then NaN else fl (of_nat (digits_value base ds)) | None \<Rightarrow> NaN)"

definition exponent_of :: "jstr \<Rightarrow> int option" where
  "exponent_of s =
     (case s of
        [] \<Rightarrow> Some 0
      | c # r \<Rightarrow>
          if c = 101 \<or> c = 69 then
            (let (neg, ds) = (case r of [] \<Rightarrow> (False, []) | d # t \<Rightarrow> if d = 45 then (True, t) else if d = 43 then (False, t) else (False, r))
             in if ds \<noteq> [] \<and> list_all is_digit ds
                then Some ((if neg then - 1 else 1) * int (nat_of_units ds)) else None)
          else None)"

definition decimal_number :: "jstr \<Rightarrow> number" where
  "decimal_number s =
     (if s = lit ''Infinity'' then PInf
      else (case span is_digit s of (ds, r) \<Rightarrow>
        (case (case r of c # t \<Rightarrow> (if c = 46 then span is_digit t else ([], r)) | [] \<Rightarrow> ([], [])) of (fs, r') \<Rightarrow>
           (case exponent_of r' of
              None \<Rightarrow> NaN
            | Some x \<Rightarrow> if ds @ fs = [] then NaN
                else fl (of_nat (nat_of_units (ds @ fs)) * 10 powi (x - int (length fs)))))))"

definition string_number :: "jstr \<Rightarrow> number" where
  "string_number s =
     (let t = js_trim s in
      if t = [] then num 0
      else if take 2 t \<in> {lit ''0x'', lit ''0X''} then radix_number 16 (drop 2 t)
      else if take 2 t \<in> {lit ''0o'', lit ''0O''} then radix_number 8 (drop 2 t)
      else if take 2 t \<in> {lit ''0b'', lit ''0B''} then radix_number 2 (drop 2 t)
      else if hd t = 45 then js_neg (decimal_number (tl t))
      else if hd t = 43 then decimal_number (tl t)
      else decimal_number t)"

text \<open>\<open>slice(0, end)\<close> with a number.\<close>

definition slice_to :: "number \<Rightarrow> 'a list \<Rightarrow> 'a list" where
  "slice_to x xs =
     (case x of
        NaN \<Rightarrow> [] | NInf \<Rightarrow> [] | PInf \<Rightarrow> xs
      | Fin q \<Rightarrow> if 0 \<le> q then take (nat \<lfloor>q\<rfloor>) xs else take (length xs - nat \<lfloor>- q\<rfloor>) xs)"

definition search_param :: "request \<Rightarrow> string \<Rightarrow> jstr option" where
  "search_param req k = map_of (url_query (req_url req)) (lit k)"

definition outcome_filter :: "env \<Rightarrow> request \<Rightarrow> invocation \<Rightarrow> bool" where
  "outcome_filter e req i \<longleftrightarrow>
     (case env_zod e outcomeSchema (Some (json_nullable (search_param req ''outcome''))) of
        None \<Rightarrow> True
      | Some v \<Rightarrow> v = Some (JStr (outcome_text (inv_outcome i))))"

definition hook_filter :: "request \<Rightarrow> invocation \<Rightarrow> bool" where
  "hook_filter req i \<longleftrightarrow>
     (case search_param req ''hook'' of None \<Rightarrow> True | Some h \<Rightarrow> h = [] \<or> inv_hook i = h)"

definition listed_invocations :: "env \<Rightarrow> request \<Rightarrow> db \<Rightarrow> invocation list" where
  "listed_invocations e req d =
     slice_to (case search_param req ''limit'' of None \<Rightarrow> num 100 | Some s \<Rightarrow> string_number s)
       (rev (filter (hook_filter req) (filter (outcome_filter e req) (db_invocations d))))"

definition get_invocations :: resolver where
  "get_invocations e req w =
     (let w' = tickInvocations (env_now e) w
      in (Inr (http_json 200 (items_json (map invocation_json (listed_invocations e req (wdb w'))))), w'))"

end
