(* ===== verification/Mock_Server.thy ===== *)
theory Mock_Server
  imports Mock_Tenant_Api
begin

text \<open>
  The mock API as a whole (\<open>handlerGroups\<close> of \<open>mocks/handlers.ts\<close>): its endpoints, the abstract
  steps of the control plane they implement, and the server with requests in flight, where the bearer
  check happens on arrival and the rest of a handler after the simulated delay, in any order.
\<close>

section \<open>Endpoints\<close>

datatype endpoint =
    GetHooks | GetHook jstr | PostHook | PutHook jstr
  | GetTenants | GetTenant jstr | PostTenant | PatchTenant jstr
  | PostConsoleSession jstr
  | GetKeys | PostKey | DeleteKey jstr
  | GetTenantHooks | GetTenantHook jstr
  | GetModules jstr | PostModule jstr | PutBinding jstr
  | GetInvocations

fun resolve :: "endpoint \<Rightarrow> resolver" where
  "resolve GetHooks = get_hooks"
| "resolve (GetHook n) = get_hook n"
| "resolve PostHook = post_hook"
| "resolve (PutHook n) = put_hook n"
| "resolve GetTenants = get_tenants"
| "resolve (GetTenant i) = get_tenant i"
| "resolve PostTenant = post_tenant"
| "resolve (PatchTenant i) = patch_tenant i"
| "resolve (PostConsoleSession i) = post_console_session i"
| "resolve GetKeys = get_keys"
| "resolve PostKey = post_key"
| "resolve (DeleteKey i) = delete_key i"
| "resolve GetTenantHooks = get_tenant_hooks"
| "resolve (GetTenantHook n) = get_tenant_hook n"
| "resolve (GetModules n) = get_modules n"
| "resolve (PostModule n) = post_module n"
| "resolve (PutBinding n) = put_binding n"
| "resolve GetInvocations = get_invocations"

section \<open>Abstract steps\<close>

definition int_between :: "int \<times> int \<Rightarrow> number \<Rightarrow> bool" where
  "int_between r x \<longleftrightarrow> js_is_integer x \<and> \<not> js_lt x (num (fst r)) \<and> \<not> js_lt (num (snd r)) x"

definition dialect_ok :: "json obj \<Rightarrow> bool" where
  "dialect_ok schema \<longleftrightarrow> obj_get schema (lit ''$schema'') \<in> {None, Some (JStr DRAFT_2020_12)}"

definition spec_ok :: "hook_spec \<Rightarrow> bool" where
  "spec_ok s \<longleftrightarrow> int_between TIMEOUT_MS (timeout_ms s) \<and> int_between MEMORY_PAGES (memory_max_pages s)
     \<and> sorted (allowed_host_functions s) \<and> distinct (allowed_host_functions s)
     \<and> sorted (allowed_effect_types s) \<and> distinct (allowed_effect_types s)
     \<and> dialect_ok (input_schema s) \<and> dialect_ok (output_schema s)"

definition hook_name_ok :: "jstr \<Rightarrow> bool" where
  "hook_name_ok n \<longleftrightarrow> HOOK_NAME_PATTERN n \<and> length n \<le> HOOK_NAME_MAX"

definition quota_ok :: "number \<Rightarrow> bool" where
  "quota_ok x \<longleftrightarrow> js_is_integer x \<and> \<not> js_lt x (num 0)"

definition tenant_ok :: "tenant \<Rightarrow> bool" where
  "tenant_ok t \<longleftrightarrow> 1 \<le> length (external_id t) \<and> length (external_id t) \<le> EXTERNAL_ID_MAX
     \<and> quota_ok (rate_limit_rps t) \<and> quota_ok (concurrency_limit t)"

definition key_name_ok :: "jstr \<Rightarrow> bool" where
  "key_name_ok n \<longleftrightarrow> 1 \<le> length n \<and> length n \<le> KEY_NAME_MAX"

definition hook_names :: "db \<Rightarrow> jstr list" where
  "hook_names d = map hook_name (db_hooks d)"

inductive control_step :: "int \<Rightarrow> db \<Rightarrow> db \<Rightarrow> bool" for now :: int where
  stay: "control_step now d d"
| add_hook: "hook_name_ok n \<Longrightarrow> n \<notin> set (hook_names d) \<Longrightarrow> spec_ok s
    \<Longrightarrow> control_step now d (d\<lparr>db_hooks := db_hooks d @ [new_hook n now s]\<rparr>)"
| change_hook: "i < length (db_hooks d) \<Longrightarrow> spec_ok s
    \<Longrightarrow> set (allowed_host_functions (hook_spec_of (db_hooks d ! i))) \<subseteq> set (allowed_host_functions s)
    \<Longrightarrow> set (allowed_effect_types (hook_spec_of (db_hooks d ! i))) \<subseteq> set (allowed_effect_types s)
    \<Longrightarrow> \<not> sameSpec (db_hooks d ! i) s
    \<Longrightarrow> control_step now d (d\<lparr>db_hooks := (db_hooks d)[i := updated_hook now s (db_hooks d ! i)]\<rparr>)"
| add_tenant: "tenant_ok t \<Longrightarrow> external_id t \<notin> external_id ` set (db_tenants d)
    \<Longrightarrow> control_step now d (d\<lparr>db_tenants := db_tenants d @ [t]\<rparr>)"
| change_tenant: "i < length (db_tenants d) \<Longrightarrow> external_id t = external_id (db_tenants d ! i)
    \<Longrightarrow> tenant_created t = tenant_created (db_tenants d ! i) \<Longrightarrow> tenant_updated t = iso_of_ms now
    \<Longrightarrow> (tenant_ok (db_tenants d ! i) \<Longrightarrow> tenant_ok t)
    \<Longrightarrow> control_step now d (d\<lparr>db_tenants := (db_tenants d)[i := t]\<rparr>)"
| add_key: "key_name_ok (key_name k) \<Longrightarrow> key_name k \<notin> key_name ` set (db_keys d) \<Longrightarrow> revoked_at k = None
    \<Longrightarrow> control_step now d (d\<lparr>db_keys := db_keys d @ [k]\<rparr>)"
| revoke_key: "i < length (db_keys d)
    \<Longrightarrow> control_step now d (d\<lparr>db_keys := (db_keys d)[i := revoke now (db_keys d ! i)]\<rparr>)"
| settle: "control_step now d (settleModules now d)"
| add_module: "n \<in> set (hook_names d) \<Longrightarrow> 0 < sz \<Longrightarrow> sz \<le> MAX_MODULE_BYTES
    \<Longrightarrow> (n, h) \<notin> (\<lambda>m. (mod_hook m, content_hash m)) ` set (db_modules d)
    \<Longrightarrow> control_step now d (snd (addUploadedModule now n h sz f d))"
| bind: "n \<in> set (hook_names d)
    \<Longrightarrow> (\<And>m. mo = Some m \<Longrightarrow> m \<in> set (db_modules d) \<and> mod_hook m = n \<and> mod_status m = Validated)
    \<Longrightarrow> control_step now d (d\<lparr>db_bindings := (db_bindings d)(n \<mapsto> next_binding now c mo (db_bindings d n))\<rparr>)"
| log: "control_step now d (wdb (tickInvocations now \<lparr>wdb = d, rng = g\<rparr>))"

section \<open>The handlers implement the steps\<close>

lemma list_ex_map_mem: "list_ex (\<lambda>x. f x = v) xs \<longleftrightarrow> v \<in> f ` set xs"
  by (auto simp: list_ex_iff)

lemma find_hook_mem: "find_hook n d = Some h \<Longrightarrow> h \<in> set (db_hooks d) \<and> hook_name h = n"
  by (auto simp: find_hook_def dest: find_Some_mem)

lemma tenantHook_None: "tenantHook n d = None \<longleftrightarrow> n \<notin> set (hook_names d)"
  by (auto simp: tenantHook_def find_hook_def hook_names_def find_None_iff)

lemma in_set_js_set [simp]: "set (js_set xs) = set xs" "distinct (js_set xs)"
  by (simp_all add: js_set_def)

lemma sorted_strings_ok: "sorted_strings v = Some ss \<Longrightarrow> sorted ss \<and> distinct ss"
  by (auto simp: sorted_strings_def sorted_js_sort_units split: option.splits json.splits)

lemma find_index_less: "find_index P xs = Some i \<Longrightarrow> i < length xs"
  by (simp add: find_index_Some)

lemma bodyError_parts:
  assumes "bodyError e b allowed required = Inr None"
  shows "\<forall>k \<in> set required. required_check e b k = Inr None" "name_check e b = Inr None"
    "range_check e b (lit ''timeout_ms'', TIMEOUT_MS) = Inr None"
    "range_check e b (lit ''memory_max_pages'', MEMORY_PAGES) = Inr None"
proof -
  obtain ks where ks: "body_keys b = Some ks" using assms by (cases "body_keys b") (simp_all add: bodyError_def)
  note all = assms [unfolded bodyError_def ks option.case first_error_pass]
  show "\<forall>k \<in> set required. required_check e b k = Inr None" using all by simp
  show "name_check e b = Inr None" using all by simp
  show "range_check e b (lit ''timeout_ms'', TIMEOUT_MS) = Inr None" using all by simp
  show "range_check e b (lit ''memory_max_pages'', MEMORY_PAGES) = Inr None" using all by simp
qed

lemma bodyError_object:
  assumes "bodyError e b allowed required = Inr None" "k \<in> set required"
  obtains ob where "b = JObj ob"
proof -
  have "required_check e b k = Inr None" using bodyError_parts(1) [OF assms(1)] assms(2) by blast
  then show ?thesis using that by (cases b) (auto simp: required_check_def body_has_def)
qed

lemma range_check_pass:
  assumes "range_check e (JObj ob) (f, r) = Inr None"
  shows "int_between r (cast_number (obj_get ob f))"
proof -
  obtain lo hi where r: "r = (lo, hi)" by fastforce
  show ?thesis
  proof (cases "obj_get ob f")
    case None
    then show ?thesis using assms by (simp add: range_check_def body_get_def r)
  next
    case (Some v)
    then show ?thesis using assms
      by (cases v) (simp_all add: range_check_def body_get_def r int_between_def cast_number_def split: if_splits)
  qed
qed

lemma bodyError_name:
  assumes "bodyError e (JObj ob) allowed required = Inr None" "lit ''name'' \<in> set required"
    "Option.bind (body_get (JObj ob) (lit ''name'')) body_string = Some n"
  shows "hook_name_ok n"
proof -
  have "required_check e (JObj ob) (lit ''name'') = Inr None" using bodyError_parts(1) [OF assms(1)] assms(2) by blast
  then have "in_object (lit ''name'') ob" by (simp add: required_check_def body_has_def split: if_splits)
  then show ?thesis
    using bodyError_parts(2) [OF assms(1)] assms(3)
    by (simp add: name_check_def body_has_def hook_name_ok_def not_less split: if_splits)
qed

lemma dialect_check_pass: "dialect_check (f, schema) = Inr None \<Longrightarrow> dialect_ok schema"
  by (auto simp: dialect_check_def dialect_ok_def invalid_hook_def split: option.splits if_splits)

lemma hookError_pass: "hookError s = Inr None \<Longrightarrow> dialect_ok (input_schema s) \<and> dialect_ok (output_schema s)"
  unfolding hookError_def first_error_pass by (auto intro: dialect_check_pass)

lemma specOf_ok:
  assumes "bodyError e b allowed required = Inr None" "k \<in> set required" "specOf e b = Inr s" "hookError s = Inr None"
  shows "spec_ok s"
proof -
  obtain ob where b: "b = JObj ob" using bodyError_object [OF assms(1,2)] by blast
  obtain hs es where lists: "sorted_strings (obj_get ob (lit ''allowed_host_functions'')) = Some hs"
      "sorted_strings (obj_get ob (lit ''allowed_effect_types'')) = Some es"
    and s: "allowed_host_functions s = hs" "allowed_effect_types s = es"
      "timeout_ms s = cast_number (obj_get ob (lit ''timeout_ms''))"
      "memory_max_pages s = cast_number (obj_get ob (lit ''memory_max_pages''))"
    using assms(3) by (auto simp: specOf_def Let_def b body_get_def split: option.splits)
  show ?thesis
    using hookError_pass [OF assms(4)] lists [THEN sorted_strings_ok] assms(1) [unfolded b, THEN bodyError_parts(3)]
      assms(1) [unfolded b, THEN bodyError_parts(4)]
    by (simp add: spec_ok_def s range_check_pass)
qed

abbreviation steps_from :: "env \<Rightarrow> world \<Rightarrow> world \<Rightarrow> bool" where
  "steps_from e w w' \<equiv> control_step (env_now e) (wdb w) (wdb w')"

lemma post_hook_step: "steps_from e w (snd (post_hook e req w))"
  unfolding post_hook_def
proof (rule with_body_rule [of "steps_from e w"], rule stay,
    rule guarded_rule [of "steps_from e w"], rule stay)
  fix b
  assume c: "bodyError e b (lit ''name'' # SPEC_FIELDS) (lit ''name'' # REQUIRED) = Inr None"
  obtain ob where ob: "b = JObj ob" using bodyError_object [OF c, of "lit ''name''"] by auto
  show "steps_from e w (snd (case specOf e b of Inl x \<Rightarrow> (Inl x, w) | Inr s \<Rightarrow> guarded (hookError s) w (\<lambda>_.
      case Option.bind (body_get b (lit ''name'')) body_string of None \<Rightarrow> (Inl (type_error e), w)
      | Some name \<Rightarrow> insert_hook e name s w)))"
  proof (cases "specOf e b")
    case (Inr s)
    show ?thesis
      unfolding Inr sum.case
    proof (rule guarded_rule [of "steps_from e w"], rule stay)
      assume h: "hookError s = Inr None"
      then have s: "spec_ok s" using specOf_ok [OF c _ Inr h, of "lit ''name''"] by simp
      show "steps_from e w (snd (case Option.bind (body_get b (lit ''name'')) body_string of
          None \<Rightarrow> (Inl (type_error e), w) | Some name \<Rightarrow> insert_hook e name s w))"
        using s bodyError_name [OF c [unfolded ob]]
        by (auto simp: ob insert_hook_def hook_names_def list_ex_map_mem Let_def
            split: option.split intro: control_step.stay control_step.add_hook)
    qed
  qed (simp add: control_step.stay)
qed

lemma narrowed_by_Nil:
  "narrowed_by c s = [] \<longleftrightarrow> set (allowed_host_functions c) \<subseteq> set (allowed_host_functions s)
     \<and> set (allowed_effect_types c) \<subseteq> set (allowed_effect_types s)"
  by (auto simp: narrowed_by_def filter_empty_conv)

lemma replace_hook_step: "spec_ok s \<Longrightarrow> steps_from e w (snd (replace_hook e n s w))"
  by (auto simp: replace_hook_def narrowed_by_Nil Let_def split: option.split
      intro: stay intro!: change_hook find_index_less)

lemma put_hook_step: "steps_from e w (snd (put_hook n e req w))"
  unfolding put_hook_def
proof (rule with_body_rule [of "steps_from e w"], rule stay, rule guarded_rule [of "steps_from e w"], rule stay)
  fix b
  assume c: "bodyError e b SPEC_FIELDS REQUIRED = Inr None"
  have "lit ''timeout_ms'' \<in> set REQUIRED" by (simp add: REQUIRED_def)
  note ok = specOf_ok [OF c this]
  show "steps_from e w (snd (case specOf e b of Inl x \<Rightarrow> (Inl x, w)
      | Inr s \<Rightarrow> guarded (hookError s) w (\<lambda>_. replace_hook e n s w)))"
  proof (cases "specOf e b")
    case (Inr s)
    show ?thesis
      unfolding Inr sum.case
      by (rule guarded_rule [of "steps_from e w"], rule stay) (intro replace_hook_step ok [OF Inr])
  qed (simp add: stay)
qed

lemma quotaError_ok:
  assumes "quotaError e (JObj ob) f = Inr None" shows "quota_ok (quota_or_zero (obj_get ob (lit f)))"
proof (cases "obj_get ob (lit f)")
  case None
  then show ?thesis by (simp add: quota_or_zero_def quota_ok_def)
next
  case (Some v)
  then show ?thesis using assms
    by (cases v) (simp_all add: quotaError_def field_check_def body_get_def quota_or_zero_def quota_ok_def
        nullish_field_def split: if_splits)
qed

lemma quotaError_cases:
  assumes "quotaError e b f = Inr None" shows "quota_ok (quota_or_zero (field_of b f))"
proof (cases b)
  case (JObj ob)
  then show ?thesis using quotaError_ok [of e ob f] assms by (simp add: field_of_def body_get_def)
qed (simp_all add: field_of_def body_get_def quota_or_zero_def quota_ok_def)

lemma required_text_ok: "required_text f n v = Inr None \<Longrightarrow> 1 \<le> length (text_of v) \<and> length (text_of v) \<le> n"
  by (auto simp: required_text_def text_of_def not_less Suc_le_eq split: option.splits json.splits if_splits)

lemma field_check_field: "field_check e b f p = Inr None \<Longrightarrow> p (field_of b f) = Inr None"
  by (auto simp: field_check_def field_of_def split: option.splits)

lemma post_tenant_step: "steps_from e w (snd (post_tenant e req w))"
  unfolding post_tenant_def
proof (rule with_body_rule [of "steps_from e w"], rule stay, rule guarded_rule [of "steps_from e w"], rule stay)
  fix b
  assume "createError e b = Inr None"
  then have i: "field_check e b ''external_id'' (required_text ''external_id'' EXTERNAL_ID_MAX) = Inr None"
    and q: "quotaError e b ''rate_limit_rps'' = Inr None" "quotaError e b ''concurrency_limit'' = Inr None"
    unfolding createError_def first_error_pass by simp_all
  show "steps_from e w (snd (let i = text_of (field_of b ''external_id'') in
     if list_ex (\<lambda>t. external_id t = i) (db_tenants (wdb w))
     then (Inr (problem 409 (ru ''Tenant s takim '' @ lit ''external_id '' @ ru ''uve estx'') (Some (JStr i))), w)
     else (let now = iso_of_ms (env_now e);
               t = \<lparr>rate_limit_rps = quota_or_zero (field_of b ''rate_limit_rps''),
                    concurrency_limit = quota_or_zero (field_of b ''concurrency_limit''), external_id = i,
                    tenant_name = text_of (field_of b ''name''), tenant_created = now, tenant_updated = now\<rparr>
           in (Inr (http_json 201 (tenant_json t)), w\<lparr>wdb := (wdb w)\<lparr>db_tenants := db_tenants (wdb w) @ [t]\<rparr>\<rparr>))))"
    using required_text_ok [OF field_check_field [OF i]] q [THEN quotaError_cases]
    by (auto simp: Let_def list_ex_map_mem tenant_ok_def intro: stay intro!: add_tenant)
qed

lemma assign_field_frame:
  "external_id (assign_field b t f) = external_id t" "tenant_created (assign_field b t f) = tenant_created t"
  "tenant_updated (assign_field b t f) = tenant_updated t"
  by (cases f; simp add: assign_field_def)+

lemma assign_fields_frame:
  "external_id (foldl (assign_field b) t fs) = external_id t \<and> tenant_created (foldl (assign_field b) t fs) = tenant_created t
   \<and> tenant_updated (foldl (assign_field b) t fs) = tenant_updated t"
  by (induction fs arbitrary: t) (simp_all add: assign_field_frame)

lemma assign_fields_ok:
  assumes "quotaError e b ''rate_limit_rps'' = Inr None" "quotaError e b ''concurrency_limit'' = Inr None"
  shows "tenant_ok t \<Longrightarrow> tenant_ok (foldl (assign_field b) t fs)"
proof (induction fs arbitrary: t)
  case (Cons f fs)
  then show ?case
    using assms [THEN quotaError_cases] by (cases f) (simp_all add: assign_field_def tenant_ok_def)
qed simp

lemma patch_tenant_step: "steps_from e w (snd (patch_tenant i e req w))"
  unfolding patch_tenant_def
proof (rule with_body_rule [of "steps_from e w"], rule stay, rule guarded_rule [of "steps_from e w"], rule stay)
  fix b
  assume "patchError e b = Inr None"
  then have q: "quotaError e b ''rate_limit_rps'' = Inr None" "quotaError e b ''concurrency_limit'' = Inr None"
    unfolding patchError_def first_error_pass by simp_all
  let ?t = "\<lambda>n. foldl (assign_field b) ((db_tenants (wdb w) ! n)\<lparr>tenant_updated := iso_of_ms (env_now e)\<rparr>)"
  have "tenant_ok (db_tenants (wdb w) ! n) \<Longrightarrow> tenant_ok (?t n fs)" for n fs
    using assign_fields_ok [OF q, of "(db_tenants (wdb w) ! n)\<lparr>tenant_updated := iso_of_ms (env_now e)\<rparr>" fs]
    by (simp add: tenant_ok_def)
  then show "steps_from e w (snd (case find_index (\<lambda>t. external_id t = i) (db_tenants (wdb w)) of
       None \<Rightarrow> (Inr (tenant_not_found i), w)
     | Some n \<Rightarrow>
         let t = db_tenants (wdb w) ! n; changes = patch_changes b t in
         if changes = [] then (Inr (http_json 200 (tenant_json t)), w)
         else (let t' = foldl (assign_field b) (t\<lparr>tenant_updated := iso_of_ms (env_now e)\<rparr>) changes
               in (Inr (http_json 200 (tenant_json t')), w\<lparr>wdb := (wdb w)\<lparr>db_tenants := (db_tenants (wdb w))[n := t']\<rparr>\<rparr>))))"
    by (auto simp: Let_def assign_fields_frame split: option.split intro: stay intro!: change_tenant find_index_less)
qed

lemma post_key_step: "steps_from e w (snd (post_key e req w))"
  unfolding post_key_def
proof (rule with_body_rule [of "steps_from e w"], rule stay, rule guarded_rule [of "steps_from e w"], rule stay)
  fix b
  assume "keyError e b = Inr None"
  then have "required_text ''name'' KEY_NAME_MAX (field_of b ''name'') = Inr None"
    unfolding keyError_def by (rule field_check_field)
  from required_text_ok [OF this] have "key_name_ok (text_of (field_of b ''name''))" by (simp add: key_name_ok_def)
  then show "steps_from e w (snd (let name = text_of (field_of b ''name'') in
     if list_ex (\<lambda>k. key_name k = name) (db_keys (wdb w))
     then (Inr (problem 409 (ru ''Kl@~ s takim imenem uve estx'') (Some (JStr name))), w)
     else (let k = new_key e name
           in (Inr (http_json 201 (JObj (api_key_fields (publicKey k) @ [(lit ''token'', JStr (key_token k))]))),
               w\<lparr>wdb := (wdb w)\<lparr>db_keys := db_keys (wdb w) @ [k]\<rparr>\<rparr>))))"
    by (auto simp: Let_def list_ex_map_mem new_key_def intro: stay intro!: add_key)
qed

lemma delete_key_step: "steps_from e w (snd (delete_key i e req w))"
  by (auto simp: delete_key_def split: option.split intro: stay intro!: revoke_key find_index_less)

lemma get_modules_step: "steps_from e w (snd (get_modules n e req w))"
  by (auto simp: get_modules_def Let_def intro: stay settle)

lemma post_module_step: "steps_from e w (snd (post_module n e req w))"
proof (cases "form_file req")
  case (Some f)
  show ?thesis
  proof (cases "tenantHook n (wdb w) = None")
    case False
    then have n: "n \<in> set (hook_names (wdb w))" by (simp add: tenantHook_None)
    obtain m d where add: "addUploadedModule (env_now e) n (sha256 e (file_bytes f)) (length (file_bytes f)) (file_name f) (wdb w) = (m, d)"
      by fastforce
    have "control_step (env_now e) (wdb w) d"
      if "file_bytes f \<noteq> []" "length (file_bytes f) \<le> MAX_MODULE_BYTES"
        "\<not> list_ex (\<lambda>m. mod_hook m = n \<and> content_hash m = sha256 e (file_bytes f)) (db_modules (wdb w))"
    proof -
      have "(n, sha256 e (file_bytes f)) \<notin> (\<lambda>m. (mod_hook m, content_hash m)) ` set (db_modules (wdb w))"
        using that(3) by (auto simp: list_ex_iff)
      from add_module [OF n _ that(2) this, of "env_now e" "file_name f"] that(1) show ?thesis by (simp add: add)
    qed
    then show ?thesis using False Some
      by (auto simp: post_module_def upload_file_to_def Let_def add not_less intro: stay)
  qed (simp add: post_module_def stay)
qed (simp add: post_module_def stay)

lemma requested_module_ok:
  "requested_module n v d = Inr (Some m) \<Longrightarrow> m \<in> set (db_modules d) \<and> mod_hook m = n \<and> mod_status m = Validated"
  by (auto simp: requested_module_def dest: find_Some_mem split: if_splits option.splits)

lemma put_binding_step: "steps_from e w (snd (put_binding n e req w))"
proof (cases "tenantHook n (wdb w) = None")
  case False
  then have n: "n \<in> set (hook_names (wdb w))" by (simp add: tenantHook_None)
  have "control_step (env_now e) (wdb w)
      ((wdb w)\<lparr>db_bindings := (db_bindings (wdb w))(n \<mapsto> next_binding (env_now e) c mo (db_bindings (wdb w) n))\<rparr>)"
    if "requested_module n v (wdb w) = Inr mo" for v c mo
    by (rule bind [OF n]) (use that requested_module_ok in blast)
  then show ?thesis
    unfolding put_binding_def if_not_P [OF False]
    by (intro with_body_rule [of "steps_from e w"] stay)
      (simp add: Let_def stay split: sum.split)
qed (simp add: put_binding_def stay)

lemma world_eta [simp]: "\<lparr>wdb = wdb w, rng = rng w\<rparr> = w"
  by (cases w) simp

lemma get_invocations_step: "steps_from e w (snd (get_invocations e req w))"
  using log [of "env_now e" "wdb w" "rng w"] by (simp add: get_invocations_def Let_def)

theorem resolve_step: "steps_from e w (snd (resolve p e req w))"
  by (cases p)
    (simp_all add: post_hook_step put_hook_step post_tenant_step patch_tenant_step post_key_step delete_key_step
      get_modules_step post_module_step put_binding_step get_invocations_step
      get_hooks_def get_hook_def get_tenants_def get_tenant_def post_console_session_def get_keys_def
      get_tenant_hooks_def get_tenant_hook_def stay)

end
