(* ===== verification/Mock_Invariant.thy ===== *)
theory Mock_Invariant
  imports Mock_Server
begin

text \<open>
  What the mock control plane keeps: the invariant \<open>db_ok\<close> of every state its steps reach, and the
  relation \<open>evolves\<close> between a state and any later one (nothing registered disappears, permissions
  only grow, a verdict on a module and a revocation are final).
\<close>

section \<open>The invariant\<close>

definition hooks_ok :: "db \<Rightarrow> bool" where
  "hooks_ok d \<longleftrightarrow> distinct (hook_names d) \<and> list_all hook_name_ok (hook_names d)
     \<and> list_all (\<lambda>h. spec_ok (hook_spec_of h)) (db_hooks d)"

definition tenants_ok :: "db \<Rightarrow> bool" where
  "tenants_ok d \<longleftrightarrow> distinct (map external_id (db_tenants d)) \<and> list_all tenant_ok (db_tenants d)"

definition keys_ok :: "db \<Rightarrow> bool" where
  "keys_ok d \<longleftrightarrow> distinct (map key_name (db_keys d)) \<and> list_all (\<lambda>k. key_name_ok (key_name k)) (db_keys d)"

definition module_id_text :: "nat \<Rightarrow> jstr" where
  "module_id_text n = lit ''mod_'' @ str_pad_start 2 48 (nat_text n)"

definition module_ok :: "pending_module \<Rightarrow> bool" where
  "module_ok m \<longleftrightarrow>
     (case mod_report m of
        None \<Rightarrow> mod_status m = Validating
      | Some r \<Rightarrow> mod_status m = Validated \<and> r = report_passed
               \<or> mod_status m = Rejected \<and> \<not> report_ok r)"

definition modules_ok :: "db \<Rightarrow> bool" where
  "modules_ok d \<longleftrightarrow> map mod_id (db_modules d) = map module_id_text [1..<Suc (length (db_modules d))]
     \<and> distinct (map (\<lambda>m. (mod_hook m, content_hash m)) (db_modules d))
     \<and> list_all module_ok (db_modules d)
     \<and> list_all (\<lambda>m. mod_hook m \<in> set (hook_names d)) (db_modules d)"

definition active_ok :: "pending_module list \<Rightarrow> jstr \<Rightarrow> binding \<Rightarrow> bool" where
  "active_ok ms n b \<longleftrightarrow>
     (case active_module_id b of
        None \<Rightarrow> active_module_hash b = None
      | Some i \<Rightarrow> list_ex (\<lambda>m. mod_id m = i \<and> mod_hook m = n \<and> mod_status m = Validated
          \<and> active_module_hash b = Some (content_hash m)) ms)"

definition bindings_ok :: "db \<Rightarrow> bool" where
  "bindings_ok d \<longleftrightarrow> (\<forall>n b. db_bindings d n = Some b \<longrightarrow> n \<in> set (hook_names d) \<and> active_ok (db_modules d) n b)"

definition log_ok :: "db \<Rightarrow> bool" where
  "log_ok d \<longleftrightarrow> (let n = length (db_invocations d) in
     n < 2 ^ 53 \<longrightarrow> map inv_seq (db_invocations d) = map (\<lambda>i. num (int i)) [1..<Suc n])"

definition db_ok :: "db \<Rightarrow> bool" where
  "db_ok d \<longleftrightarrow> hooks_ok d \<and> tenants_ok d \<and> keys_ok d \<and> modules_ok d \<and> bindings_ok d \<and> log_ok d"

inductive control_reach :: "db \<Rightarrow> bool" where
  init: "control_reach (fst (initialDb now g))"
| step: "control_reach d \<Longrightarrow> control_step now d d' \<Longrightarrow> control_reach d'"

section \<open>Steps preserve it\<close>

lemma settle_frame [frame_simps]:
  "mod_id (settle_module now m) = mod_id m" "mod_hook (settle_module now m) = mod_hook m"
  "content_hash (settle_module now m) = content_hash m"
  by (simp_all add: settle_module_def)

lemma settle_validated: "mod_status m = Validated \<Longrightarrow> settle_module now m = m"
  by (simp add: settle_module_def)

lemma settle_module_ok: "module_ok m \<Longrightarrow> module_ok (settle_module now m)"
  by (auto simp: settle_module_def module_ok_def report_rejected_def split: option.splits)

lemma db_frame [frame_simps]:
  "hook_names (d\<lparr>db_tenants := ts\<rparr>) = hook_names d" "hook_names (d\<lparr>db_keys := ks\<rparr>) = hook_names d"
  "hook_names (d\<lparr>db_modules := ms\<rparr>) = hook_names d" "hook_names (d\<lparr>db_bindings := bs\<rparr>) = hook_names d"
  "hook_names (d\<lparr>db_invocations := is'\<rparr>) = hook_names d"
  by (simp_all add: hook_names_def)

lemma tick_cases:
  obtains "tickInvocations now \<lparr>wdb = d, rng = g\<rparr> = \<lparr>wdb = d, rng = g\<rparr>"
  | inv g' where "db_invocations d \<noteq> []" "inv_seq inv = js_add (inv_seq (last (db_invocations d))) (num 1)"
      "tickInvocations now \<lparr>wdb = d, rng = g\<rparr> = \<lparr>wdb = d\<lparr>db_invocations := db_invocations d @ [inv]\<rparr>, rng = g'\<rparr>"
proof (cases "tickInvocations now \<lparr>wdb = d, rng = g\<rparr> = \<lparr>wdb = d, rng = g\<rparr>")
  case False
  then obtain b where b: "db_bindings d checkout_discount = Some b" and ne: "db_invocations d \<noteq> []"
    by (auto simp: tickInvocations_def split: option.splits if_splits)
  obtain inv g' where mk: "makeInvocation (js_add (inv_seq (last (db_invocations d))) (num 1)) now (active_module_hash b) g = (inv, g')"
    by fastforce
  have "inv_seq inv = js_add (inv_seq (last (db_invocations d))) (num 1)"
    using mk by (auto simp: makeInvocation_def Let_def split: prod.splits)
  moreover have "tickInvocations now \<lparr>wdb = d, rng = g\<rparr> = \<lparr>wdb = d\<lparr>db_invocations := db_invocations d @ [inv]\<rparr>, rng = g'\<rparr>"
    using False b ne mk by (auto simp: tickInvocations_def Let_def)
  ultimately show ?thesis using that ne by blast
qed

lemma hook_names_update: "i < length (db_hooks d) \<Longrightarrow>
    hook_names (d\<lparr>db_hooks := (db_hooks d)[i := updated_hook now s (db_hooks d ! i)]\<rparr>) = hook_names d"
  by (simp add: hook_names_def map_list_update_same updated_hook_def)

lemma list_all_update: "list_all P xs \<Longrightarrow> P y \<Longrightarrow> list_all P (xs[i := y])"
  by (auto simp: list_all_iff dest: set_update_subset_insert [THEN subsetD])

lemma snd_addUploadedModule:
  "\<exists>m. snd (addUploadedModule now n h sz f d) = d\<lparr>db_modules := db_modules d @ [m]\<rparr>
     \<and> mod_id m = new_module_id d \<and> mod_hook m = n \<and> content_hash m = h \<and> mod_status m = Validating \<and> mod_report m = None"
  by (intro exI [of _ "fst (addUploadedModule now n h sz f d)"]) (simp add: addUploadedModule_def Let_def)

lemma tick_frame:
  "\<exists>is'. wdb (tickInvocations now \<lparr>wdb = d, rng = g\<rparr>) = d\<lparr>db_invocations := is'\<rparr>"
proof (cases rule: tick_cases [of now d g])
  case 1
  have "d\<lparr>db_invocations := db_invocations d\<rparr> = d" by (cases d) simp
  then show ?thesis unfolding 1 by (intro exI [of _ "db_invocations d"]) simp
qed auto

lemma hooks_ok_step:
  assumes "control_step now d d'" "hooks_ok d" shows "hooks_ok d'"
  using assms(1)
proof cases
  case (change_hook i s)
  then show ?thesis using assms(2)
    by (simp add: hooks_ok_def hook_names_update) (auto intro!: list_all_update simp: updated_hook_def)
next
  case (log g)
  obtain is' where "d' = d\<lparr>db_invocations := is'\<rparr>" using tick_frame log by blast
  then show ?thesis using assms(2) by (simp add: hooks_ok_def frame_simps)
qed (use assms(2) in \<open>auto simp: hooks_ok_def hook_names_def new_hook_def settleModules_def addUploadedModule_def Let_def\<close>)

lemma tenants_ok_step:
  assumes "control_step now d d'" "tenants_ok d" shows "tenants_ok d'"
  using assms(1)
proof cases
  case (change_tenant i t)
  then have "tenant_ok t" using assms(2) by (simp add: tenants_ok_def list_all_length)
  then show ?thesis using assms(2) change_tenant
    by (simp add: tenants_ok_def map_list_update_same list_all_update)
next
  case (log g)
  obtain is' where "d' = d\<lparr>db_invocations := is'\<rparr>" using tick_frame log by blast
  then show ?thesis using assms(2) by (simp add: tenants_ok_def)
qed (use assms(2) in \<open>auto simp: tenants_ok_def settleModules_def addUploadedModule_def Let_def\<close>)

lemma revoke_frame [frame_simps]:
  "key_name (revoke now k) = key_name k" "key_token (revoke now k) = key_token k" "key_id (revoke now k) = key_id k"
  by (simp_all add: revoke_def split: option.splits)

lemma keys_ok_step:
  assumes "control_step now d d'" "keys_ok d" shows "keys_ok d'"
  using assms(1)
proof cases
  case (revoke_key i)
  then have "key_name_ok (key_name (db_keys d ! i))" using assms(2) by (simp add: keys_ok_def list_all_length)
  then show ?thesis using assms(2) revoke_key
    by (simp add: keys_ok_def map_list_update_same frame_simps list_all_update)
next
  case (log g)
  obtain is' where "d' = d\<lparr>db_invocations := is'\<rparr>" using tick_frame log by blast
  then show ?thesis using assms(2) by (simp add: keys_ok_def)
qed (use assms(2) in \<open>auto simp: keys_ok_def settleModules_def addUploadedModule_def Let_def\<close>)

lemma names_grow:
  assumes "control_step now d d'" shows "set (hook_names d) \<subseteq> set (hook_names d')"
  using assms
proof cases
  case (log g)
  obtain is' where "d' = d\<lparr>db_invocations := is'\<rparr>" using tick_frame log by blast
  then show ?thesis by (simp add: frame_simps)
next
  case (change_hook i s)
  then show ?thesis by (simp add: hook_names_update)
qed (auto simp: hook_names_def settleModules_def addUploadedModule_def Let_def)

text \<open>What a step does to the modules: nothing, settling, or one new version.\<close>

lemma modules_step:
  assumes "control_step now d d'"
  obtains "db_modules d' = db_modules d"
  | "db_modules d' = map (settle_module now) (db_modules d)"
  | m where "db_modules d' = db_modules d @ [m]" "mod_id m = module_id_text (Suc (length (db_modules d)))"
      "(mod_hook m, content_hash m) \<notin> (\<lambda>m. (mod_hook m, content_hash m)) ` set (db_modules d)"
      "mod_status m = Validating" "mod_report m = None" "mod_hook m \<in> set (hook_names d)"
  using assms
proof cases
  case (add_module n sz h f)
  then show ?thesis using snd_addUploadedModule [of now n h sz f d] that(3)
    by (auto simp: new_module_id_def module_id_text_def)
next
  case (log g)
  obtain is' where "d' = d\<lparr>db_invocations := is'\<rparr>" using tick_frame log by blast
  then show ?thesis using that(1) by simp
qed (use that in \<open>auto simp: settleModules_def\<close>)

lemma modules_ok_step:
  assumes "control_step now d d'" "modules_ok d" shows "modules_ok d'"
proof -
  have names: "set (hook_names d) \<subseteq> set (hook_names d')" by (rule names_grow [OF assms(1)])
  from assms(1) show ?thesis
  proof (cases rule: modules_step)
    case 1
    then show ?thesis using assms(2) names by (auto simp: modules_ok_def list_all_iff)
  next
    case 2
    then show ?thesis using assms(2) names
      by (auto simp: modules_ok_def list_all_iff frame_simps o_def settle_module_ok)
  next
    case (3 m)
    then show ?thesis using assms(2) names
      by (auto simp: modules_ok_def list_all_iff module_ok_def)
  qed
qed

text \<open>A validated version stays in the list as it is.\<close>

lemma validated_stays:
  assumes "control_step now d d'" "m \<in> set (db_modules d)" "mod_status m = Validated"
  shows "m \<in> set (db_modules d')"
  using assms(1)
proof (cases rule: modules_step)
  case 2
  then show ?thesis using assms(2) settle_validated [OF assms(3), of now] by force
qed (use assms(2) in auto)

lemma active_ok_step:
  assumes "control_step now d d'" "active_ok (db_modules d) n b" shows "active_ok (db_modules d') n b"
  using assms(2) validated_stays [OF assms(1)]
  by (auto simp: active_ok_def list_ex_iff split: option.splits)

lemma next_binding_active:
  "active_module_id (next_binding now c None previous) = Option.bind previous active_module_id"
  "active_module_hash (next_binding now c None previous) = Option.bind previous active_module_hash"
  "active_module_id (next_binding now c (Some m) previous) = Some (mod_id m)"
  "active_module_hash (next_binding now c (Some m) previous) = Some (content_hash m)"
  by (simp_all add: next_binding_def)

lemma bindings_ok_step:
  assumes "control_step now d d'" "bindings_ok d" shows "bindings_ok d'"
proof -
  have keep: "n \<in> set (hook_names d') \<and> active_ok (db_modules d') n b" if "db_bindings d n = Some b" for n b
    using that assms(2) active_ok_step [OF assms(1)] names_grow [OF assms(1)] by (auto simp: bindings_ok_def)
  have bd: "db_bindings d' = db_bindings d \<Longrightarrow> ?thesis" using keep by (simp add: bindings_ok_def)
  from assms(1) show ?thesis
  proof cases
    case (bind n mo c)
    have "active_ok (db_modules d) n (next_binding now c mo (db_bindings d n))"
    proof (cases mo)
      case None
      have "active_ok (db_modules d) n p" if "db_bindings d n = Some p" for p
        using that assms(2) by (simp add: bindings_ok_def)
      with None show ?thesis 
        by (cases "db_bindings d n") (auto simp: active_ok_def next_binding_active split: option.splits)
    next
      case (Some m)
      then show ?thesis using bind(3) [of m] by (auto simp: active_ok_def next_binding_active list_ex_iff)
    qed
    then show ?thesis using assms(2) bind by (auto simp: bindings_ok_def frame_simps)
  next
    case (log g)
    obtain is' where "d' = d\<lparr>db_invocations := is'\<rparr>" using tick_frame log by blast
    then show ?thesis by (intro bd) simp
  qed (use bd in \<open>auto simp: settleModules_def addUploadedModule_def Let_def\<close>)
qed

lemma safe_small: "int n < 2 ^ 53 \<Longrightarrow> safe_int (int n)"
  by (simp add: safe_int_def)

lemma log_ok_step:
  assumes "control_step now d d'" "log_ok d" shows "log_ok d'"
  using assms(1)
proof cases
  case (log g)
  from tick_cases [of now d g] show ?thesis
  proof cases
    case 1
    then show ?thesis using assms(2) log by simp
  next
    case (2 inv g')
    let ?xs = "db_invocations d"
    have d': "db_invocations d' = ?xs @ [inv]" using 2 log by simp
    have "map inv_seq (?xs @ [inv]) = map (\<lambda>i. num (int i)) [1..<Suc (Suc (length ?xs))]" if n: "Suc (length ?xs) < 2 ^ 53"
    proof -
      have ih: "map inv_seq ?xs = map (\<lambda>i. num (int i)) [1..<Suc (length ?xs)]"
        using assms(2) n by (simp add: log_ok_def Let_def)
      have "inv_seq (last ?xs) = last (map inv_seq ?xs)" using 2(1) by (simp add: last_map)
      also have "\<dots> = num (int (length ?xs))" using 2(1) unfolding ih by (cases ?xs) simp_all
      finally have last: "inv_seq (last ?xs) = num (int (length ?xs))" .
      have "safe_int (int (length ?xs) + 1)" using n by (simp add: safe_int_def)
      then have "inv_seq inv = num (int (length ?xs) + 1)" unfolding 2(2) last by (rule js_add_num)
      then show ?thesis using ih by (simp add: add.commute)
    qed
    then show ?thesis by (simp add: log_ok_def d' Let_def)
  qed
qed (use assms(2) in \<open>auto simp: log_ok_def settleModules_def addUploadedModule_def Let_def\<close>)

theorem db_ok_step: "control_step now d d' \<Longrightarrow> db_ok d \<Longrightarrow> db_ok d'"
  by (simp add: db_ok_def hooks_ok_step tenants_ok_step keys_ok_step modules_ok_step bindings_ok_step log_ok_step)

section \<open>The seeds satisfy it\<close>

lemma invocation_run_seq: "map inv_seq (fst (invocation_run now h ns g)) = map (\<lambda>i. num (int i + 1)) ns"
proof (induction ns arbitrary: g)
  case (Cons n ns)
  obtain inv g1 where 1: "makeInvocation (num (int n + 1)) (now - (60 - int n) * 30000) (Some h) g = (inv, g1)" by fastforce
  then have "inv_seq inv = num (int n + 1)" by (auto simp: makeInvocation_def Let_def split: prod.splits)
  then show ?case using Cons [of g1] by (simp add: 1 [simplified] case_prod_unfold Let_def)
qed simp

lemma initial_fields:
  "db_hooks (fst (initialDb now g)) = HOOKS" "db_tenants (fst (initialDb now g)) = TENANTS"
  "db_keys (fst (initialDb now g)) = API_KEYS" "db_modules (fst (initialDb now g)) = initialModules"
  "db_invocations (fst (initialDb now g)) = fst (initialInvocations now (content_hash (initialModules ! 1)) g)"
  "db_bindings (fst (initialDb now g)) n \<noteq> None \<longleftrightarrow> n = checkout_discount"
  by (simp_all add: initialDb_def case_prod_unfold Let_def)

lemma initial_binding:
  "db_bindings (fst (initialDb now g)) n = Some b \<Longrightarrow> n = checkout_discount
     \<and> active_module_id b = Some (mod_id (initialModules ! 1)) \<and> active_module_hash b = Some (content_hash (initialModules ! 1))"
  by (auto simp: initialDb_def case_prod_unfold Let_def split: if_splits)

lemma initial_hooks_ok: "hooks_ok (fst (initialDb now g))"
  unfolding hooks_ok_def hook_names_def initial_fields(1) by code_simp

lemma initial_tenants_ok: "tenants_ok (fst (initialDb now g))"
  unfolding tenants_ok_def initial_fields(2) by code_simp

lemma initial_keys_ok: "keys_ok (fst (initialDb now g))"
  unfolding keys_ok_def initial_fields(3) by code_simp

lemma initial_modules_ok: "modules_ok (fst (initialDb now g))"
  unfolding modules_ok_def hook_names_def initial_fields(1,4) by code_simp

lemma initial_bindings_ok: "bindings_ok (fst (initialDb now g))"
proof -
  have "checkout_discount \<in> set (map hook_name HOOKS)" by code_simp
  moreover have "list_ex (\<lambda>m. mod_id m = mod_id (initialModules ! 1) \<and> mod_hook m = checkout_discount
      \<and> mod_status m = Validated \<and> content_hash (initialModules ! 1) = content_hash m) initialModules"
    by code_simp
  ultimately show ?thesis
    by (auto simp: bindings_ok_def active_ok_def hook_names_def initial_fields dest!: initial_binding)
qed

lemma initial_log_ok: "log_ok (fst (initialDb now g))"
proof -
  let ?h = "content_hash (initialModules ! 1)"
  have seqs: "map inv_seq (fst (initialInvocations now ?h g)) = map (\<lambda>i. num (int i + 1)) [0..<60]"
    by (simp only: initialInvocations_def invocation_run_seq)
  from arg_cong [OF this, of length] have len: "length (fst (initialInvocations now ?h g)) = 60" by simp
  have "[1..<Suc 60] = map Suc [0..<60]" by (simp only: map_Suc_upt One_nat_def)
  then have "map (\<lambda>i. num (int i)) [1..<Suc 60] = map (\<lambda>i. num (int i + 1)) [0..<60]"
    by (simp only: map_map o_def of_nat_Suc add.commute)
  then show ?thesis by (simp only: log_ok_def initial_fields(5) seqs len Let_def simp_thms)
qed

theorem control_reach_ok: "control_reach d \<Longrightarrow> db_ok d"
proof (induction rule: control_reach.induct)
  case (init now g)
  show ?case
    by (simp only: db_ok_def initial_hooks_ok initial_tenants_ok initial_keys_ok initial_modules_ok initial_bindings_ok
        initial_log_ok simp_thms)
qed (rule db_ok_step)

section \<open>What never goes back\<close>

text \<open>
  Between a state and any later one: names and identifiers stay registered, the permissions of a hook
  only grow, its definition version only moves forward by ones, a key keeps its token and stays
  revoked, a validated or rejected version keeps its verdict.
\<close>

definition hook_grows :: "operator_hook \<Rightarrow> operator_hook \<Rightarrow> bool" where
  "hook_grows h h' \<longleftrightarrow> hook_name h' = hook_name h \<and> hook_created h' = hook_created h
     \<and> set (allowed_host_functions (hook_spec_of h)) \<subseteq> set (allowed_host_functions (hook_spec_of h'))
     \<and> set (allowed_effect_types (hook_spec_of h)) \<subseteq> set (allowed_effect_types (hook_spec_of h'))"

definition key_persists :: "stored_key \<Rightarrow> stored_key \<Rightarrow> bool" where
  "key_persists k k' \<longleftrightarrow> key_id k' = key_id k \<and> key_token k' = key_token k \<and> key_name k' = key_name k
     \<and> (revoked_at k \<noteq> None \<longrightarrow> revoked_at k' = revoked_at k)"

definition verdict_persists :: "pending_module \<Rightarrow> pending_module \<Rightarrow> bool" where
  "verdict_persists m m' \<longleftrightarrow> mod_id m' = mod_id m \<and> mod_hook m' = mod_hook m \<and> content_hash m' = content_hash m
     \<and> (mod_status m \<noteq> Validating \<longrightarrow> m' = m) \<and> mod_status m' \<in> {mod_status m, Validated, Rejected}"

definition tenant_kept :: "tenant \<Rightarrow> tenant \<Rightarrow> bool" where
  "tenant_kept t t' \<longleftrightarrow> external_id t' = external_id t \<and> tenant_created t' = tenant_created t"

text \<open>A list that keeps its items in place, each changed within the relation, and grows at the end.\<close>

definition grows :: "('a \<Rightarrow> 'a \<Rightarrow> bool) \<Rightarrow> 'a list \<Rightarrow> 'a list \<Rightarrow> bool" where
  "grows R xs ys \<longleftrightarrow> length xs \<le> length ys \<and> (\<forall>i < length xs. R (xs ! i) (ys ! i))"

definition evolves :: "db \<Rightarrow> db \<Rightarrow> bool" where
  "evolves d d' \<longleftrightarrow> grows hook_grows (db_hooks d) (db_hooks d')
     \<and> grows tenant_kept (db_tenants d) (db_tenants d')
     \<and> grows key_persists (db_keys d) (db_keys d')
     \<and> grows verdict_persists (db_modules d) (db_modules d')
     \<and> dom (db_bindings d) \<subseteq> dom (db_bindings d')"

locale evolution =
  fixes R :: "'a \<Rightarrow> 'a \<Rightarrow> bool"
  assumes keeps: "R x x"
    and follows: "R x y \<Longrightarrow> R y z \<Longrightarrow> R x z"
begin

lemma grows_refl [simp]: "grows R xs xs"
  by (simp add: grows_def keeps)

lemma grows_trans: "grows R xs ys \<Longrightarrow> grows R ys zs \<Longrightarrow> grows R xs zs"
  unfolding grows_def by (meson follows order_less_le_trans order_trans)

lemma grows_append [simp]: "grows R xs (xs @ ys)"
  by (simp add: grows_def keeps nth_append)

lemma grows_update: "R (xs ! i) y \<Longrightarrow> grows R xs (xs[i := y])"
  by (cases "i < length xs") (auto simp: grows_def keeps nth_list_update list_update_beyond)

lemma grows_map: "(\<And>x. R x (f x)) \<Longrightarrow> grows R xs (map f xs)"
  by (simp add: grows_def)

lemma grows_mem: "grows R xs ys \<Longrightarrow> x \<in> set xs \<Longrightarrow> \<exists>y \<in> set ys. R x y"
  by (metis grows_def in_set_conv_nth order_less_le_trans)

end

interpretation hook_evolution: evolution hook_grows
  by unfold_locales (auto simp: hook_grows_def)

interpretation key_evolution: evolution key_persists
  by unfold_locales (auto simp: key_persists_def)

interpretation module_evolution: evolution verdict_persists
  by unfold_locales (auto simp: verdict_persists_def)

interpretation tenant_evolution: evolution tenant_kept
  by unfold_locales (auto simp: tenant_kept_def)

lemma evolves_refl: "evolves d d"
  by (simp add: evolves_def)

lemma evolves_trans: "evolves d d' \<Longrightarrow> evolves d' d'' \<Longrightarrow> evolves d d''"
  unfolding evolves_def
  by (meson hook_evolution.grows_trans key_evolution.grows_trans module_evolution.grows_trans tenant_evolution.grows_trans subset_trans)

lemma revoke_persists: "key_persists k (revoke now k)"
  by (auto simp: key_persists_def revoke_def split: option.splits)

lemma settle_persists: "verdict_persists m (settle_module now m)"
  by (auto simp: verdict_persists_def settle_module_def)

lemma updated_hook_grows:
  "set (allowed_host_functions (hook_spec_of h)) \<subseteq> set (allowed_host_functions s) \<Longrightarrow>
   set (allowed_effect_types (hook_spec_of h)) \<subseteq> set (allowed_effect_types s) \<Longrightarrow> hook_grows h (updated_hook now s h)"
  by (simp add: hook_grows_def updated_hook_def)

lemma evolves_step:
  assumes "control_step now d d'" shows "evolves d d'"
  using assms
proof cases
  case (change_hook i s)
  then show ?thesis by (simp add: evolves_def hook_evolution.grows_update updated_hook_grows)
next
  case (change_tenant i t)
  then show ?thesis by (simp add: evolves_def tenant_evolution.grows_update tenant_kept_def)
next
  case (revoke_key i)
  then show ?thesis by (simp add: evolves_def key_evolution.grows_update revoke_persists)
next
  case settle
  then show ?thesis by (simp add: evolves_def settleModules_def module_evolution.grows_map settle_persists)
next
  case (add_module n sz h f)
  then show ?thesis using snd_addUploadedModule [of now n h sz f d] by (auto simp: evolves_def)
next
  case (log g)
  obtain is' where "d' = d\<lparr>db_invocations := is'\<rparr>" using tick_frame log by blast
  then show ?thesis by (simp add: evolves_def)
qed (auto simp: evolves_def)

section \<open>Requests in flight\<close>

text \<open>
  The server with its requests in flight: a request is admitted or refused when it arrives, and an
  admitted one is carried out later, in any order, each with the environment of that moment.
\<close>

record server =
  srv_world :: world
  in_flight :: "(endpoint \<times> request) list"

inductive serve :: "server \<Rightarrow> server \<Rightarrow> bool" where
  admit: "hasBearer (wdb (srv_world s)) req \<Longrightarrow> serve s (s\<lparr>in_flight := in_flight s @ [(p, req)]\<rparr>)"
| refuse: "\<not> hasBearer (wdb (srv_world s)) req \<Longrightarrow> serve s s"
| finish: "in_flight s = before' @ (p, req) # after' \<Longrightarrow>
    serve s \<lparr>srv_world = snd (resolve p e req (srv_world s)), in_flight = before' @ after'\<rparr>"

inductive served :: "server \<Rightarrow> server \<Rightarrow> bool" where
  none: "served s s"
| more: "served s s' \<Longrightarrow> serve s' s'' \<Longrightarrow> served s s''"

lemma serve_step:
  assumes "serve s s'"
  shows "\<exists>now. control_step now (wdb (srv_world s)) (wdb (srv_world s'))"
  using assms by cases (auto intro: control_step.stay resolve_step)

theorem served_ok: "served s s' \<Longrightarrow> db_ok (wdb (srv_world s)) \<Longrightarrow> db_ok (wdb (srv_world s'))"
  by (induction rule: served.induct) (auto dest!: serve_step intro: db_ok_step)

theorem served_evolves: "served s s' \<Longrightarrow> evolves (wdb (srv_world s)) (wdb (srv_world s'))"
  by (induction rule: served.induct) (auto dest!: serve_step intro: evolves_refl evolves_trans evolves_step)

lemma refused_persists:
  assumes "evolves d d'" "k \<in> set (db_keys d)" "truthy (revoked_at k)"
    "bearer_token (nullish (req_auth req) []) = Some (key_token k)"
  shows "\<not> hasBearer d' req"
proof -
  obtain k' where k': "k' \<in> set (db_keys d')" "key_persists k k'"
    using key_evolution.grows_mem assms(1,2) unfolding evolves_def by blast
  then have "truthy (revoked_at k')" "key_token k' = key_token k"
    using assms(3) by (cases "revoked_at k"; simp add: key_persists_def)+
  then show ?thesis using revoked_refused [OF k'(1), of req] assms(4) by simp
qed

text \<open>With requests carried out one by one, a refused request leaves no trace at all.\<close>

lemma refused_no_trace: "\<not> hasBearer (wdb w) req \<Longrightarrow> authed r e req w = (Inr unauthorized, w)"
  by (simp add: authed_def)

end
