(* ===== verification/Forms.thy ===== *)
theory Forms
  imports Ui Mock_Invariant
begin

text \<open>
  The form models: \<open>features/hook-editor/model/form.ts\<close>, \<open>features/tenant-editor/model/form.ts\<close> and
  \<open>features/edit-binding-config/model/form.ts\<close>. A field's schema is data of type \<open>field_schema\<close>, with
  the checks and messages of the source; the library's parser, which reports the first failed check of a
  field, is the parameter \<open>zf\<close> with the laws of the locale \<open>field_parser\<close>.
\<close>

section \<open>Field schemas\<close>

datatype string_check =
    MinLength nat jstr
  | MaxLength nat jstr
  | Regex "jstr \<Rightarrow> bool" jstr
  | Refine "jstr \<Rightarrow> bool" jstr
  | SuperRefine "jstr \<Rightarrow> jstr option"
  | Trim

datatype number_check = IntCheck jstr | MinValue int jstr | MaxValue int jstr

datatype field_schema = StringField "string_check list" | NumberField jstr "number_check list"

datatype field_value = FStr jstr | FNum number

type_synonym field_zod = "field_schema \<Rightarrow> field_value \<Rightarrow> jstr + field_value"

fun string_result :: "string_check list \<Rightarrow> jstr \<Rightarrow> jstr + jstr" where
  "string_result [] s = Inr s"
| "string_result (MinLength n m # cs) s = (if length s < n then Inl m else string_result cs s)"
| "string_result (MaxLength n m # cs) s = (if n < length s then Inl m else string_result cs s)"
| "string_result (Regex p m # cs) s = (if p s then string_result cs s else Inl m)"
| "string_result (Refine p m # cs) s = (if p s then string_result cs s else Inl m)"
| "string_result (SuperRefine f # cs) s = (case f s of Some m \<Rightarrow> Inl m | None \<Rightarrow> string_result cs s)"
| "string_result (Trim # cs) s = string_result cs (js_trim s)"

fun number_result :: "number_check list \<Rightarrow> number \<Rightarrow> jstr + number" where
  "number_result [] x = Inr x"
| "number_result (IntCheck m # cs) x = (if js_is_safe x then number_result cs x else Inl m)"
| "number_result (MinValue i m # cs) x = (if js_lt x (num i) then Inl m else number_result cs x)"
| "number_result (MaxValue i m # cs) x = (if js_lt (num i) x then Inl m else number_result cs x)"

locale field_parser =
  fixes zf :: field_zod
  assumes zf_string: "zf (StringField cs) (FStr s) = map_sum id FStr (string_result cs s)"
    and zf_number: "zf (NumberField m ds) (FNum x) = (if finite_number x then map_sum id FNum (number_result ds x) else Inl m)"
begin

lemma zf_string_value: "zf (StringField cs) (FStr s) = Inr v \<longleftrightarrow> (\<exists>t. string_result cs s = Inr t \<and> v = FStr t)"
  by (auto simp: zf_string map_sum_def split: sum.splits)

lemma zf_number_value:
  "zf (NumberField m cs) (FNum x) = Inr v \<longleftrightarrow> finite_number x \<and> (\<exists>y. number_result cs x = Inr y \<and> v = FNum y)"
  by (auto simp: zf_number map_sum_def split: sum.splits)

end

fun field_eval :: field_zod where
  "field_eval (StringField cs) (FStr s) = map_sum id FStr (string_result cs s)"
| "field_eval (NumberField m cs) (FNum x) = (if finite_number x then map_sum id FNum (number_result cs x) else Inl m)"
| "field_eval (StringField cs) (FNum x) = Inl []"
| "field_eval (NumberField m cs) (FStr s) = Inl m"

interpretation field_zod: field_parser field_eval
  by unfold_locales simp_all

text \<open>The message of a field, and its parsed value.\<close>

definition field_message :: "jstr + field_value \<Rightarrow> jstr option" where
  "field_message r = (case r of Inl m \<Rightarrow> Some m | Inr _ \<Rightarrow> None)"

definition field_str :: "jstr + field_value \<Rightarrow> jstr" where
  "field_str r = (case r of Inr (FStr s) \<Rightarrow> s | _ \<Rightarrow> [])"

definition field_num :: "jstr + field_value \<Rightarrow> number" where
  "field_num r = (case r of Inr (FNum x) \<Rightarrow> x | _ \<Rightarrow> NaN)"

definition put_message :: "'f \<Rightarrow> jstr option \<Rightarrow> ('f \<times> jstr) list \<Rightarrow> ('f \<times> jstr) list" where
  "put_message f m es = (case m of None \<Rightarrow> es | Some t \<Rightarrow> (f, t) # es)"

section \<open>The hook form\<close>

definition parseObject :: "jstr \<Rightarrow> json obj option" where
  "parseObject text = (case json_parse text of Some (JObj ob) \<Rightarrow> Some ob | _ \<Rightarrow> None)"

definition json_object_issue :: "jstr \<Rightarrow> jstr option" where
  "json_object_issue text =
     (if json_parse text = None then Some (ru ''Nekorrektnyj '' @ lit ''JSON'')
      else if parseObject text = None then Some ((ru ''Nuven '' @ lit ''JSON-'' @ ru ''ob_ekt: { '' @ [0x2026] @ lit '' '') @ lit ''}'') else None)"

definition jsonObjectText :: field_schema where
  "jsonObjectText = StringField [SuperRefine json_object_issue]"

definition at_least_text :: "int \<Rightarrow> jstr" where
  "at_least_text i = (ru ''Ne menx[e '') @ int_text i"

definition at_most_text :: "int \<Rightarrow> jstr" where
  "at_most_text i = (ru ''Ne bolx[e '') @ int_text i"

definition no_longer_text :: "nat \<Rightarrow> jstr" where
  "no_longer_text n = (ru ''Ne dlinnee '') @ nat_text n @ (ru '' simwolow'')"

definition whole_number_text :: jstr where
  "whole_number_text = (ru ''Ukavite celoe ~islo'')"

definition integerIn :: "int \<times> int \<Rightarrow> field_schema" where
  "integerIn r = NumberField whole_number_text
     [IntCheck whole_number_text, MinValue (fst r) (at_least_text (fst r)), MaxValue (snd r) (at_most_text (snd r))]"

definition hook_name_field :: field_schema where
  "hook_name_field = StringField
     [MinLength 1 (ru ''Ukavite imq huka''), MaxLength HOOK_NAME_MAX (no_longer_text HOOK_NAME_MAX),
      Regex HOOK_NAME_PATTERN
        (ru ''Stro~nye latinskie bukwy, cifry i '' @ lit ''_, '' @ ru ''~asti ~erez to~ku, naprimer '' @ lit ''checkout.discount'')]"

record hook_form =
  hf_name :: jstr
  hf_timeout :: number
  hf_pages :: number
  hf_input :: jstr
  hf_output :: jstr
  hf_sample :: jstr
  hf_hosts :: "jstr list"
  hf_effects :: "jstr list"

datatype hook_field = HfName | HfTimeout | HfPages | HfInput | HfOutput | HfSample

definition hook_field_parse :: "field_zod \<Rightarrow> hook_form \<Rightarrow> hook_field \<Rightarrow> jstr + field_value" where
  "hook_field_parse zf v f =
     (case f of
        HfName \<Rightarrow> zf hook_name_field (FStr (hf_name v))
      | HfTimeout \<Rightarrow> zf (integerIn TIMEOUT_MS) (FNum (hf_timeout v))
      | HfPages \<Rightarrow> zf (integerIn MEMORY_PAGES) (FNum (hf_pages v))
      | HfInput \<Rightarrow> zf jsonObjectText (FStr (hf_input v))
      | HfOutput \<Rightarrow> zf jsonObjectText (FStr (hf_output v))
      | HfSample \<Rightarrow> zf jsonObjectText (FStr (hf_sample v)))"

definition hook_fields :: "hook_field list" where
  "hook_fields = [HfName, HfTimeout, HfPages, HfInput, HfOutput, HfSample]"

text \<open>\<open>hookFormSchema\<close>: the messages of the fields that fail.\<close>

definition hookFormSchema :: "field_zod \<Rightarrow> hook_form \<Rightarrow> (hook_field \<times> jstr) list" where
  "hookFormSchema zf v = foldr (\<lambda>f. put_message f (field_message (hook_field_parse zf v f))) hook_fields []"

definition empty_schema :: json where
  "empty_schema = JObj [(lit ''$schema'', JStr DRAFT_2020_12), (lit ''type'', JStr (lit ''object'')), (lit ''properties'', JObj [])]"

definition emptyHookForm :: hook_form where
  "emptyHookForm = \<lparr>hf_name = [], hf_timeout = num 50, hf_pages = num 64, hf_input = json_pretty empty_schema,
     hf_output = json_pretty empty_schema, hf_sample = json_pretty (JObj []), hf_hosts = [], hf_effects = []\<rparr>"

definition formFromHook :: "operator_hook \<Rightarrow> hook_form" where
  "formFromHook h = (let s = hook_spec_of h in
     \<lparr>hf_name = hook_name h, hf_timeout = timeout_ms s, hf_pages = memory_max_pages s,
      hf_input = json_pretty (JObj (input_schema s)), hf_output = json_pretty (JObj (output_schema s)),
      hf_sample = json_pretty (JObj (sample_input s)), hf_hosts = allowed_host_functions s,
      hf_effects = allowed_effect_types s\<rparr>)"

definition specFromForm :: "hook_form \<Rightarrow> hook_spec" where
  "specFromForm v =
     \<lparr>input_schema = nullish (parseObject (hf_input v)) [], output_schema = nullish (parseObject (hf_output v)) [],
      timeout_ms = hf_timeout v, memory_max_pages = hf_pages v, allowed_host_functions = hf_hosts v,
      allowed_effect_types = hf_effects v, sample_input = nullish (parseObject (hf_sample v)) []\<rparr>"

definition formatJson :: "jstr \<Rightarrow> jstr" where
  "formatJson text = (case json_parse text of Some v \<Rightarrow> json_pretty v | None \<Rightarrow> text)"

section \<open>The tenant form\<close>

definition quota_field :: field_schema where
  "quota_field = NumberField whole_number_text
     [IntCheck whole_number_text, MinValue 0 (at_least_text 0), MaxValue QUOTA_MAX (at_most_text QUOTA_MAX)]"

definition external_id_field :: field_schema where
  "external_id_field = StringField
     [MinLength 1 (ru ''Ukavite '' @ lit ''external_id''), MaxLength EXTERNAL_ID_MAX (no_longer_text EXTERNAL_ID_MAX),
      Refine (\<lambda>s. js_trim s = s) (ru ''Bez probelow w na~ale i w konce'')]"

definition tenant_name_field :: field_schema where
  "tenant_name_field = StringField [Trim, MinLength 1 (ru ''Ukavite nazwanie'')]"

record tenant_form =
  tf_external_id :: jstr
  tf_name :: jstr
  tf_rate :: number
  tf_concurrency :: number

datatype tenant_form_field = TfExternalId | TfName | TfRate | TfConcurrency

definition tenant_field_parse :: "field_zod \<Rightarrow> tenant_form \<Rightarrow> tenant_form_field \<Rightarrow> jstr + field_value" where
  "tenant_field_parse zf v f =
     (case f of
        TfExternalId \<Rightarrow> zf external_id_field (FStr (tf_external_id v))
      | TfName \<Rightarrow> zf tenant_name_field (FStr (tf_name v))
      | TfRate \<Rightarrow> zf quota_field (FNum (tf_rate v))
      | TfConcurrency \<Rightarrow> zf quota_field (FNum (tf_concurrency v)))"

text \<open>\<open>tenantFormSchema\<close>: the messages, or the parsed values (the name is trimmed).\<close>

definition tenantFormSchema :: "field_zod \<Rightarrow> tenant_form \<Rightarrow> (tenant_form_field \<times> jstr) list + tenant_form" where
  "tenantFormSchema zf v =
     (let es = foldr (\<lambda>f. put_message f (field_message (tenant_field_parse zf v f))) [TfExternalId, TfName, TfRate, TfConcurrency] [] in
      if es \<noteq> [] then Inl es
      else Inr \<lparr>tf_external_id = field_str (tenant_field_parse zf v TfExternalId), tf_name = field_str (tenant_field_parse zf v TfName),
                tf_rate = field_num (tenant_field_parse zf v TfRate), tf_concurrency = field_num (tenant_field_parse zf v TfConcurrency)\<rparr>)"

definition emptyTenantForm :: tenant_form where
  "emptyTenantForm = \<lparr>tf_external_id = [], tf_name = [], tf_rate = num 0, tf_concurrency = num 0\<rparr>"

definition formFromTenant :: "tenant \<Rightarrow> tenant_form" where
  "formFromTenant t = \<lparr>tf_external_id = external_id t, tf_name = tenant_name t, tf_rate = rate_limit_rps t,
     tf_concurrency = concurrency_limit t\<rparr>"

text \<open>The members of the patch, in the order they are assigned.\<close>

definition tenantChanges :: "tenant \<Rightarrow> tenant_form \<Rightarrow> json obj" where
  "tenantChanges t v =
     (if tf_name v \<noteq> tenant_name t then [(lit ''name'', JStr (tf_name v))] else [])
     @ (if \<not> js_num_eq (tf_rate v) (rate_limit_rps t) then [(lit ''rate_limit_rps'', JNum (tf_rate v))] else [])
     @ (if \<not> js_num_eq (tf_concurrency v) (concurrency_limit t) then [(lit ''concurrency_limit'', JNum (tf_concurrency v))] else [])"

section \<open>The form of a binding's config\<close>

record config_row =
  row_key :: jstr
  row_value :: jstr

definition isBlank :: "config_row \<Rightarrow> bool" where
  "isBlank r \<longleftrightarrow> js_trim (row_key r) = [] \<and> row_value r = []"

definition key_missing_text :: jstr where "key_missing_text = (ru ''Ukavite kl@~'')"
definition key_taken_text :: jstr where "key_taken_text = (ru ''Takoj kl@~ uve estx'')"

text \<open>The refinement of the rows: the issues it adds, with the index of the row, given the keys seen so far.\<close>

fun row_issues :: "jstr list \<Rightarrow> nat \<Rightarrow> config_row list \<Rightarrow> (nat \<times> jstr) list" where
  "row_issues seen i [] = []"
| "row_issues seen i (r # rs) =
     (if isBlank r then row_issues seen (Suc i) rs
      else let key = js_trim (row_key r) in
        if key = [] then (i, key_missing_text) # row_issues seen (Suc i) rs
        else if key \<in> set seen then (i, key_taken_text) # row_issues seen (Suc i) rs
        else row_issues (key # seen) (Suc i) rs)"

definition configFormSchema :: "config_row list \<Rightarrow> (nat \<times> jstr) list" where
  "configFormSchema rs = row_issues [] 0 rs"

definition formFromConfig :: "(jstr \<Rightarrow> jstr \<Rightarrow> int) \<Rightarrow> jstr obj option \<Rightarrow> config_row list" where
  "formFromConfig compare config =
     (let rows = map (\<lambda>(k, v). \<lparr>row_key = k, row_value = v\<rparr>) (js_sort (\<lambda>a b. compare (fst a) (fst b)) (nullish config []))
      in if rows \<noteq> [] then rows else [\<lparr>row_key = [], row_value = []\<rparr>])"

definition configFromForm :: "config_row list \<Rightarrow> jstr obj" where
  "configFromForm rs = obj_of_list (map (\<lambda>r. (js_trim (row_key r), row_value r)) (filter (\<lambda>r. \<not> isBlank r) rs))"

definition sameConfig :: "jstr obj \<Rightarrow> jstr obj \<Rightarrow> bool" where
  "sameConfig a b \<longleftrightarrow> length (obj_keys a) = length (obj_keys b) \<and> list_all (\<lambda>k. obj_get b k = obj_get a k) (obj_keys a)"

section \<open>Lemmas\<close>

lemma field_message_simps [simp]: "field_message (Inl m) = Some m" "field_message (Inr v) = None"
  "field_str (Inr (FStr s)) = s" "field_num (Inr (FNum x)) = x"
  by (simp_all add: field_message_def field_str_def field_num_def)

lemma field_message_None: "field_message r = None \<longleftrightarrow> (\<exists>v. r = Inr v)"
  by (cases r) simp_all

lemma messages_Nil: "foldr (\<lambda>f. put_message f (m f)) fs [] = [] \<longleftrightarrow> (\<forall>f \<in> set fs. m f = None)"
  by (induction fs) (auto simp: put_message_def split: option.splits)

lemma hookFormSchema_Nil: "hookFormSchema zf v = [] \<longleftrightarrow> (\<forall>f. \<exists>x. hook_field_parse zf v f = Inr x)"
proof -
  have "f \<in> set hook_fields" for f by (cases f) (simp_all add: hook_fields_def)
  then show ?thesis unfolding hookFormSchema_def messages_Nil field_message_None by blast
qed

text \<open>Parsing what the form printed gives the definition back, so opening and saving a hook changes nothing.\<close>

definition spec_json_ok :: "hook_spec \<Rightarrow> bool" where
  "spec_json_ok s \<longleftrightarrow> json_ok (JObj (input_schema s)) \<and> json_ok (JObj (output_schema s)) \<and> json_ok (JObj (sample_input s))"

lemma parseObject_pretty: "json_ok (JObj ob) \<Longrightarrow> parseObject (json_pretty (JObj ob)) = Some ob"
  by (simp add: parseObject_def json_parse_pretty del: json_ok.simps)

lemma specFromForm_formFromHook:
  "spec_json_ok (hook_spec_of h) \<Longrightarrow> specFromForm (formFromHook h) = hook_spec_of h"
  by (simp add: spec_json_ok_def specFromForm_def formFromHook_def Let_def parseObject_pretty nullish_def del: json_ok.simps)

lemma formatJson_idem: "json_parse text = Some v \<Longrightarrow> json_ok v \<Longrightarrow> formatJson (formatJson text) = formatJson text"
  by (simp add: formatJson_def json_parse_pretty)

lemma formatJson_same: "json_parse text = Some v \<Longrightarrow> json_ok v \<Longrightarrow> json_parse (formatJson text) = Some v"
  by (simp add: formatJson_def json_parse_pretty)

context field_parser
begin

lemma json_field_ok: "zf jsonObjectText (FStr s) = Inr x \<longleftrightarrow> (\<exists>ob. parseObject s = Some ob) \<and> x = FStr s"
  by (auto simp: jsonObjectText_def zf_string_value json_object_issue_def parseObject_def split: if_splits option.splits)

lemma integerIn_ok:
  "zf (integerIn r) (FNum x) = Inr y \<longleftrightarrow> js_is_safe x \<and> \<not> js_lt x (num (fst r)) \<and> \<not> js_lt (num (snd r)) x \<and> y = FNum x"
  by (cases x) (auto simp: integerIn_def zf_number_value finite_number_def)

lemma hook_name_field_ok: "zf hook_name_field (FStr s) = Inr x \<longleftrightarrow> hook_name_ok s \<and> s \<noteq> [] \<and> x = FStr s"
  by (cases s) (auto simp: hook_name_field_def zf_string_value hook_name_ok_def)

lemma external_id_ok:
  "zf external_id_field (FStr s) = Inr x \<longleftrightarrow> s \<noteq> [] \<and> length s \<le> EXTERNAL_ID_MAX \<and> js_trim s = s \<and> x = FStr s"
  by (cases s) (auto simp: external_id_field_def zf_string_value)

lemma tenant_name_ok: "zf tenant_name_field (FStr s) = Inr x \<longleftrightarrow> js_trim s \<noteq> [] \<and> x = FStr (js_trim s)"
  by (cases "js_trim s") (auto simp: tenant_name_field_def zf_string_value)

lemma quota_field_ok:
  "zf quota_field (FNum x) = Inr y \<longleftrightarrow> js_is_safe x \<and> \<not> js_lt x (num 0) \<and> \<not> js_lt (num QUOTA_MAX) x \<and> y = FNum x"
  by (cases x) (auto simp: quota_field_def zf_number_value finite_number_def)

lemma hook_form_ok:
  assumes "hookFormSchema zf v = []"
  shows "hook_name_ok (hf_name v)" "hf_name v \<noteq> []" "int_between TIMEOUT_MS (hf_timeout v)" "int_between MEMORY_PAGES (hf_pages v)"
    "\<exists>ob. parseObject (hf_input v) = Some ob" "\<exists>ob. parseObject (hf_output v) = Some ob" "\<exists>ob. parseObject (hf_sample v) = Some ob"
proof -
  have all: "\<exists>x. hook_field_parse zf v f = Inr x" for f using assms by (simp add: hookFormSchema_Nil)
  have safe: "js_is_safe x \<Longrightarrow> js_is_integer x" for x by (cases x) simp_all
  show "hook_name_ok (hf_name v)" "hf_name v \<noteq> []"
    using all [of HfName] by (simp_all add: hook_field_parse_def hook_name_field_ok)
  show "int_between TIMEOUT_MS (hf_timeout v)" "int_between MEMORY_PAGES (hf_pages v)"
    using all [of HfTimeout] all [of HfPages] by (simp_all add: hook_field_parse_def integerIn_ok int_between_def safe)
  show "\<exists>ob. parseObject (hf_input v) = Some ob" "\<exists>ob. parseObject (hf_output v) = Some ob" "\<exists>ob. parseObject (hf_sample v) = Some ob"
    using all [of HfInput] all [of HfOutput] all [of HfSample] by (simp_all add: hook_field_parse_def json_field_ok)
qed

end

section \<open>The forms and the API\<close>

text \<open>The body of a created hook and of a replaced one.\<close>

definition create_body :: "hook_form \<Rightarrow> json" where
  "create_body v = JObj ((lit ''name'', JStr (hf_name v)) # spec_fields (specFromForm v))"

definition replace_body :: "hook_form \<Rightarrow> json" where
  "replace_body v = JObj (spec_fields (specFromForm v))"

lemma range_check_ok:
  "obj_get ob f = Some (JNum x) \<Longrightarrow> int_between r x \<Longrightarrow> range_check e (JObj ob) (f, r) = Inr None"
  by (cases r) (simp add: range_check_def body_get_def int_between_def)

lemma bodyError_complete:
  assumes "set (obj_keys ob) \<subseteq> set allowed" "set required \<subseteq> set (obj_keys ob)"
    "lit ''name'' \<in> set (obj_keys ob) \<Longrightarrow> \<exists>n. obj_get ob (lit ''name'') = Some (JStr n) \<and> hook_name_ok n"
    "obj_get ob (lit ''timeout_ms'') = Some (JNum x)" "int_between TIMEOUT_MS x"
    "obj_get ob (lit ''memory_max_pages'') = Some (JNum y)" "int_between MEMORY_PAGES y"
    "\<forall>f \<in> {''input_schema'', ''output_schema'', ''sample_input''}. \<exists>d. obj_get ob (lit f) = Some (JObj d)"
    "lit ''name'' \<notin> set object_proto"
  shows "bodyError e (JObj ob) allowed required = Inr None"
proof -
  have "name_check e (JObj ob) = Inr None"
    using assms(3,9)
    by (cases "lit ''name'' \<in> set (obj_keys ob)")
      (auto simp: name_check_def body_has_def in_object_def body_get_def body_string_def hook_name_ok_def)
  moreover have "\<forall>k \<in> set required. required_check e (JObj ob) k = Inr None"
    using assms(2) by (auto simp: required_check_def body_has_def in_object_def)
  moreover have "\<forall>k \<in> set (obj_keys ob). extra_check allowed k = Inr None"
    using assms(1) by (auto simp: extra_check_def)
  moreover have "dict_check e (JObj ob) (lit f) = Inr None" if "f \<in> {''input_schema'', ''output_schema'', ''sample_input''}" for f
    using assms(8) that by (fastforce simp: dict_check_def body_get_def)
  ultimately show ?thesis
    using range_check_ok [OF assms(4,5)] range_check_ok [OF assms(6,7)]
    by (auto simp: bodyError_def body_keys_def first_error_pass)
qed

lemma name_not_inherited: "lit ''name'' \<notin> set object_proto"
  by (simp add: object_proto_def)

lemma spec_body_gets:
  fixes s :: hook_spec
  defines "ob \<equiv> spec_fields s"
  shows "obj_keys ob = SPEC_FIELDS" "obj_get ob (lit ''timeout_ms'') = Some (JNum (timeout_ms s))"
    "obj_get ob (lit ''memory_max_pages'') = Some (JNum (memory_max_pages s))"
    "obj_get ob (lit ''input_schema'') = Some (JObj (input_schema s))" "obj_get ob (lit ''output_schema'') = Some (JObj (output_schema s))"
    "obj_get ob (lit ''sample_input'') = Some (JObj (sample_input s))"
  by (simp_all add: ob_def spec_fields_def obj_keys_def obj_get_def SPEC_FIELDS_def)

context field_parser
begin

text \<open>What the form lets through passes the shape checks of the control plane, in both requests.\<close>

lemma form_bodies_pass:
  assumes "hookFormSchema zf v = []"
  shows "bodyError e (create_body v) (lit ''name'' # SPEC_FIELDS) (lit ''name'' # REQUIRED) = Inr None"
    "bodyError e (replace_body v) SPEC_FIELDS REQUIRED = Inr None"
proof -
  note ok = hook_form_ok [OF assms]
  have req: "set REQUIRED \<subseteq> set SPEC_FIELDS" by (simp add: REQUIRED_def SPEC_FIELDS_def)
  have nn: "lit ''name'' \<notin> set SPEC_FIELDS" by (simp add: SPEC_FIELDS_def)
  have gets: "obj_get ((lit ''name'', n) # ob) (lit f) = obj_get ob (lit f)" if "f \<noteq> ''name''" for n f and ob :: "json obj"
    using that by (simp add: obj_get_def)
  show "bodyError e (replace_body v) SPEC_FIELDS REQUIRED = Inr None"
    unfolding replace_body_def
    by (rule bodyError_complete) (use ok req nn in \<open>simp_all add: spec_body_gets name_not_inherited specFromForm_def\<close>)
  show "bodyError e (create_body v) (lit ''name'' # SPEC_FIELDS) (lit ''name'' # REQUIRED) = Inr None"
    unfolding create_body_def
    by (rule bodyError_complete)
      (use ok req in \<open>auto simp: spec_body_gets name_not_inherited specFromForm_def gets obj_keys_def obj_get_def SPEC_FIELDS_def REQUIRED_def spec_fields_def\<close>)
qed

end

text \<open>The patch of the tenant form carries the changed fields only, and the control plane makes exactly these.\<close>

lemma tenantChanges_Nil:
  "tenantChanges t v = [] \<longleftrightarrow> tf_name v = tenant_name t \<and> js_num_eq (tf_rate v) (rate_limit_rps t)
     \<and> js_num_eq (tf_concurrency v) (concurrency_limit t)"
  by (simp add: tenantChanges_def)

lemma tenantChanges_gets:
  "field_of (JObj (tenantChanges t v)) ''name'' = (if tf_name v \<noteq> tenant_name t then Some (JStr (tf_name v)) else None)"
  "field_of (JObj (tenantChanges t v)) ''rate_limit_rps'' =
     (if js_num_eq (tf_rate v) (rate_limit_rps t) then None else Some (JNum (tf_rate v)))"
  "field_of (JObj (tenantChanges t v)) ''concurrency_limit'' =
     (if js_num_eq (tf_concurrency v) (concurrency_limit t) then None else Some (JNum (tf_concurrency v)))"
  by (simp_all add: tenantChanges_def field_of_def body_get_def obj_get_def)

lemma patch_of_changes:
  defines "b v t \<equiv> JObj (tenantChanges t v)"
  shows "patch_changes (b v t) t =
      (if tf_name v \<noteq> tenant_name t then [FieldName] else [])
      @ (if js_num_eq (tf_rate v) (rate_limit_rps t) then [] else [FieldRate])
      @ (if js_num_eq (tf_concurrency v) (concurrency_limit t) then [] else [FieldConcurrency])"
  by (simp add: b_def patch_changes_def tenant_field_text_def tenantChanges_gets nullish_field_def tenant_field_same_def Let_def)

lemma patched_fields:
  assumes "tf_rate v \<noteq> NaN" "tf_concurrency v \<noteq> NaN"
  shows "foldl (assign_field (JObj (tenantChanges t v))) (t\<lparr>tenant_updated := now\<rparr>) (patch_changes (JObj (tenantChanges t v)) t) =
    t\<lparr>tenant_updated := now, tenant_name := tf_name v, rate_limit_rps := tf_rate v, concurrency_limit := tf_concurrency v\<rparr>"
  by (cases t) (auto simp: patch_of_changes assign_field_def tenantChanges_gets text_of_def quota_or_zero_def js_num_eq_def)

section \<open>The config of a binding\<close>

lemma obj_put_new:
  assumes "k \<notin> set (obj_keys ob)" "distinct (obj_keys ob)"
  shows "set (obj_put k v ob) = insert (k, v) (set ob)" "distinct (obj_keys (obj_put k v ob))"
    "length (obj_put k v ob) = Suc (length ob)"
proof -
  have split: "set ob = set (takeWhile P ob) \<union> set (dropWhile P ob)"
    "length ob = length (takeWhile P ob) + length (dropWhile P ob)"
    "obj_keys ob = obj_keys (takeWhile P ob) @ obj_keys (dropWhile P ob)" for P
    by (metis set_append takeWhile_dropWhile_id, metis length_append takeWhile_dropWhile_id,
        metis map_append obj_keys_def takeWhile_dropWhile_id)
  show "set (obj_put k v ob) = insert (k, v) (set ob)"
    using assms(1) split(1) by (auto simp: obj_put_def Let_def split: option.splits)
  show "length (obj_put k v ob) = Suc (length ob)"
    using assms(1) split(2) by (auto simp: obj_put_def Let_def split: option.splits)
  have "distinct (obj_keys (takeWhile P ob @ (k, v) # dropWhile P ob))" for P
    using assms unfolding split(3) [of P] by (auto simp: obj_keys_def)
  then show "distinct (obj_keys (obj_put k v ob))"
    using assms by (auto simp: obj_put_def Let_def obj_keys_def split: option.splits)
qed

lemma obj_of_list_distinct:
  "distinct (map fst kvs) \<Longrightarrow> set (obj_of_list kvs) = set kvs \<and> distinct (obj_keys (obj_of_list kvs)) \<and> length (obj_of_list kvs) = length kvs"
proof (induction kvs rule: rev_induct)
  case (snoc p kvs)
  obtain k v where p: "p = (k, v)" by fastforce
  have "k \<notin> set (obj_keys (obj_of_list kvs))" using snoc by (simp add: p obj_keys_def)
  then show ?case using snoc obj_put_new [of k "obj_of_list kvs" v] by (simp add: p insert_commute)
qed (simp add: obj_of_list_def obj_keys_def)

lemma obj_get_of_list: "distinct (map fst kvs) \<Longrightarrow> obj_get (obj_of_list kvs) k = Some v \<longleftrightarrow> (k, v) \<in> set kvs"
  using obj_of_list_distinct [of kvs] by (simp add: obj_get_def obj_keys_def)

text \<open>Rows without issues: their trimmed keys are not empty and differ, blank rows apart.\<close>

definition kept_rows :: "config_row list \<Rightarrow> (jstr \<times> jstr) list" where
  "kept_rows rs = map (\<lambda>r. (js_trim (row_key r), row_value r)) (filter (\<lambda>r. \<not> isBlank r) rs)"

lemma kept_rows_simps [simp]:
  "kept_rows [] = []"
  "kept_rows (r # rs) = (if isBlank r then kept_rows rs else (js_trim (row_key r), row_value r) # kept_rows rs)"
  by (simp_all add: kept_rows_def)

lemma configFromForm_kept: "configFromForm rs = obj_of_list (kept_rows rs)"
  by (simp add: configFromForm_def kept_rows_def)

lemma row_issues_Nil:
  "row_issues seen i rs = [] \<longleftrightarrow> [] \<notin> set (map fst (kept_rows rs)) \<and> distinct (map fst (kept_rows rs))
     \<and> set (map fst (kept_rows rs)) \<inter> set seen = {}"
  by (induction seen i rs rule: row_issues.induct) (auto simp: Let_def)

lemma configFormSchema_Nil:
  "configFormSchema rs = [] \<longleftrightarrow> [] \<notin> set (map fst (kept_rows rs)) \<and> distinct (map fst (kept_rows rs))"
  by (simp add: configFormSchema_def row_issues_Nil)

text \<open>Without issues nothing the user typed is lost: every kept row is a member of the config, and there are no others.\<close>

lemma config_of_valid_form:
  assumes "configFormSchema rs = []"
  shows "obj_get (configFromForm rs) k = Some v \<longleftrightarrow> (k, v) \<in> set (kept_rows rs)"
    "length (configFromForm rs) = length (kept_rows rs)" "distinct (obj_keys (configFromForm rs))"
  using assms obj_get_of_list [of "kept_rows rs"] obj_of_list_distinct [of "kept_rows rs"]
  by (simp_all add: configFormSchema_Nil configFromForm_kept)

lemma map_fst_sort_insert: "set (map fst (sort_insert cmp x xs)) = insert (fst x) (fst ` set xs)"
  by simp

lemma distinct_fst_sort: "distinct (map fst xs) \<Longrightarrow> distinct (map fst (js_sort cmp xs))"
proof -
  have "distinct (map fst (sort_insert cmp x xs)) \<longleftrightarrow> fst x \<notin> fst ` set xs \<and> distinct (map fst xs)" for x and xs :: "('a \<times> 'b) list"
    by (induction xs) auto
  then show "distinct (map fst xs) \<Longrightarrow> distinct (map fst (js_sort cmp xs))"
    by (induction xs) auto
qed

definition config_ok :: "jstr obj \<Rightarrow> bool" where
  "config_ok c \<longleftrightarrow> distinct (obj_keys c) \<and> list_all (\<lambda>k. k \<noteq> [] \<and> js_trim k = k) (obj_keys c)"

lemma kept_of_config:
  assumes "config_ok c" shows "kept_rows (formFromConfig compare (Some c)) = js_sort (\<lambda>a b. compare (fst a) (fst b)) c"
proof -
  let ?s = "js_sort (\<lambda>a b. compare (fst a) (fst b)) c"
  have "kept_rows (map (\<lambda>(k, v). \<lparr>row_key = k, row_value = v\<rparr>) ps) = ps" if "set ps \<subseteq> set c" for ps
    using that assms by (induction ps) (auto simp: isBlank_def config_ok_def list_all_iff obj_keys_def)
  moreover have "kept_rows [\<lparr>row_key = [], row_value = []\<rparr>] = []" by (simp add: isBlank_def js_trim_def)
  ultimately show ?thesis by (cases "c = []") (simp_all add: formFromConfig_def nullish_def Let_def)
qed

text \<open>A config opens as a form without issues, and reads back as the same config.\<close>

text \<open>What a valid form saves has trimmed keys that are not empty.\<close>

lemma saved_config_ok:
  assumes "configFormSchema rs = []" shows "config_ok (configFromForm rs)"
proof -
  have keys: "set (obj_keys (configFromForm rs)) = set (map fst (kept_rows rs))"
    using assms obj_of_list_distinct [of "kept_rows rs"] by (simp add: configFormSchema_Nil configFromForm_kept obj_keys_def)
  have "js_trim k = k" if "k \<in> set (map fst (kept_rows rs))" for k using that by (auto simp: kept_rows_def)
  moreover have "[] \<notin> set (map fst (kept_rows rs))" using assms unfolding configFormSchema_Nil by (rule conjunct1)
  ultimately show ?thesis
    using config_of_valid_form(3) [OF assms] unfolding config_ok_def list_all_iff keys by metis
qed

lemma config_roundtrip:
  assumes "config_ok c"
  shows "configFormSchema (formFromConfig compare (Some c)) = []" "sameConfig c (configFromForm (formFromConfig compare (Some c)))"
proof -
  let ?s = "js_sort (\<lambda>a b. compare (fst a) (fst b)) c"
  have d: "distinct (map fst ?s)" using assms by (simp add: distinct_fst_sort config_ok_def obj_keys_def)
  have "[] \<notin> set (map fst ?s)" using assms by (auto simp: config_ok_def obj_keys_def list_all_iff)
  then show ok: "configFormSchema (formFromConfig compare (Some c)) = []"
    using d by (simp add: configFormSchema_Nil kept_of_config [OF assms])
  have "obj_get (obj_of_list ?s) k = obj_get c k" if "k \<in> set (obj_keys c)" for k
  proof -
    from that obtain v where "(k, v) \<in> set c" by (auto simp: obj_keys_def)
    then show ?thesis using assms obj_get_of_list [OF d] by (simp add: config_ok_def obj_get_def obj_keys_def)
  qed
  then show "sameConfig c (configFromForm (formFromConfig compare (Some c)))"
    using obj_of_list_distinct [OF d]
    by (simp add: sameConfig_def configFromForm_kept kept_of_config [OF assms] obj_keys_def list_all_iff)
qed

text \<open>\<open>sameConfig\<close> is equality up to the order of the keys.\<close>

lemma sameConfig_iff:
  assumes "distinct (obj_keys a)" "distinct (obj_keys b)"
  shows "sameConfig a b \<longleftrightarrow> (\<forall>k. obj_get a k = obj_get b k)"
proof
  assume s: "sameConfig a b"
  have sub: "set (obj_keys a) \<subseteq> set (obj_keys b)"
  proof
    fix k assume k: "k \<in> set (obj_keys a)"
    then have "obj_get a k \<noteq> None" by (auto simp: obj_get_def obj_keys_def map_of_eq_None_iff)
    then have "obj_get b k \<noteq> None" using s k by (simp add: sameConfig_def list_all_iff)
    then show "k \<in> set (obj_keys b)" by (auto simp: obj_get_def obj_keys_def map_of_eq_None_iff)
  qed
  have "card (set (obj_keys a)) = card (set (obj_keys b))"
    using s assms by (simp add: sameConfig_def distinct_card)
  then have "set (obj_keys a) = set (obj_keys b)" using sub by (simp add: card_subset_eq)
  then have "obj_get a k = None \<and> obj_get b k = None" if "k \<notin> set (obj_keys a)" for k
    using that by (simp add: obj_get_def obj_keys_def map_of_eq_None_iff)
  moreover have "obj_get b k = obj_get a k" if "k \<in> set (obj_keys a)" for k
    using s that unfolding sameConfig_def list_all_iff by blast
  ultimately show "\<forall>k. obj_get a k = obj_get b k" by (metis (no_types))
next
  assume e: "\<forall>k. obj_get a k = obj_get b k"
  have keys: "k \<in> set (obj_keys ob) \<longleftrightarrow> obj_get ob k \<noteq> None" for k and ob :: "jstr obj"
    by (simp add: obj_get_def obj_keys_def map_of_eq_None_iff)
  have "set (obj_keys a) = set (obj_keys b)" using e keys by (intro set_eqI) simp
  then have "length (obj_keys a) = length (obj_keys b)" using assms by (simp flip: distinct_card)
  then show "sameConfig a b" using e by (simp add: sameConfig_def list_all_iff)
qed

end
