(* ===== verification/Console_Session.thy ===== *)
theory Console_Session
  imports Ui Jwt
begin

text \<open>
  \<open>features/console-session\<close>: taking a tenant token from the URL fragment, checking and storing it,
  the sign-in form of both consoles (\<open>session-gate.tsx\<close>), the tenant's gate with its expiry timer,
  signing out, and what the tenant's session shows.
\<close>

section \<open>The fragment as form data\<close>

text \<open>\<open>URLSearchParams\<close>: the parser and the serializer of \<open>application/x-www-form-urlencoded\<close>.\<close>

fun percent_decode :: "nat list \<Rightarrow> nat list" where
  "percent_decode (c # a # b # r) =
     (case (hex_digit (of_nat a), hex_digit (of_nat b)) of
        (Some i, Some j) \<Rightarrow> if c = 37 then (16 * i + j) # percent_decode r else c # percent_decode (a # b # r)
      | _ \<Rightarrow> c # percent_decode (a # b # r))"
| "percent_decode (c # r) = c # percent_decode r"
| "percent_decode [] = []"

definition form_text :: "nat list \<Rightarrow> jstr" where
  "form_text bs = concat (map utf16_point (utf8_points (percent_decode (map (\<lambda>b. if b = 43 then 32 else b) bs))))"

definition form_pair :: "nat list \<Rightarrow> jstr \<times> jstr" where
  "form_pair bs = (form_text (takeWhile (\<lambda>b. b \<noteq> 61) bs), form_text (drop 1 (dropWhile (\<lambda>b. b \<noteq> 61) bs)))"

definition form_parse :: "jstr \<Rightarrow> (jstr \<times> jstr) list" where
  "form_parse s = map form_pair (filter (\<lambda>p. p \<noteq> []) (str_split 38 (utf8_encode s)))"

definition form_byte :: "nat \<Rightarrow> jstr" where
  "form_byte b =
     (if b = 32 then [43]
      else if b < 128 \<and> (is_digit (of_nat b) \<or> lower_unit (of_nat b) \<or> 65 \<le> b \<and> b \<le> 90 \<or> b \<in> {42, 45, 46, 95})
        then [of_nat b]
      else percent b)"

definition form_quote :: "jstr \<Rightarrow> jstr" where
  "form_quote s = concat (map form_byte (utf8_encode s))"

definition form_serialize :: "(jstr \<times> jstr) list \<Rightarrow> jstr" where
  "form_serialize ps = str_join [38] (map (\<lambda>(k, v). form_quote k @ [61] @ form_quote v) ps)"

section \<open>Tokens (\<open>tenant-token.ts\<close>)\<close>

text \<open>The address of the window: \<open>loc_hash\<close> is empty or starts with \<open>#\<close>.\<close>

record location =
  loc_path :: jstr
  loc_search :: jstr
  loc_hash :: jstr

definition MOCK_TENANT_TOKEN :: jstr where "MOCK_TENANT_TOKEN = lit ''mock''"
definition MOCK_TENANT :: jstr where "MOCK_TENANT = lit ''merchant-a''"
definition MAX_TIMER_DELAY_MS :: int where "MAX_TIMER_DELAY_MS = 2147483647"

definition takeTokenFromFragment :: "location \<Rightarrow> jstr option \<times> location" where
  "takeTokenFromFragment loc =
     (let fragment = (if str_starts_with (lit ''#'') (loc_hash loc) then drop 1 (loc_hash loc) else loc_hash loc);
          params = form_parse fragment
      in if fragment = [] then (None, loc)
         else (case map_of params (lit ''token'') of
             None \<Rightarrow> (None, loc)
           | Some t \<Rightarrow>
               let token = js_trim t;
                   rest = form_serialize (filter (\<lambda>(k, v). k \<noteq> lit ''token'') params);
                   loc' = loc\<lparr>loc_hash := (if rest = [] then [] else lit ''#'' @ rest)\<rparr>
               in (if token = [] then None else Some token, loc')))"

definition adoptTokenFromFragment :: "location \<times> browser \<Rightarrow> location \<times> browser" where
  "adoptTokenFromFragment lb =
     (case lb of (loc, b) \<Rightarrow>
        (case takeTokenFromFragment loc of
           (None, loc') \<Rightarrow> (loc', b)
         | (Some t, loc') \<Rightarrow> (loc', set_token Tenant t b)))"

definition expired_text :: jstr where
  "expired_text = (ru ''Srok dejstwiq tokena ist#k'')"

definition with_token :: "jstr \<Rightarrow> zschema \<Rightarrow> options" where
  "with_token token s = (get_options s)\<lparr>opt_token := Some token\<rparr>"

definition verifyTenantToken ::
  "host \<Rightarrow> 'w network \<Rightarrow> number \<Rightarrow> jstr \<Rightarrow> browser \<Rightarrow> 'w \<Rightarrow> (js_error + unit) \<times> browser \<times> 'w" where
  "verifyTenantToken h net now token b w =
     (if is_jwt_expired (zod_parse h) token now then (Inl (JsError (lit ''Error'') expired_text), b, w)
      else (case api_request h net (lit ''/tenant/hooks'') (with_token token tenantHookListSchema) b w of
          (Inl e, b', w') \<Rightarrow> (if is_status 401 e then Inl e else Inr (), b', w')
        | (Inr v, b', w') \<Rightarrow> (Inr (), b', w')))"

text \<open>The operator's check: any error of the request refuses the key.\<close>

definition verifyOperatorKey ::
  "host \<Rightarrow> 'w network \<Rightarrow> jstr \<Rightarrow> browser \<Rightarrow> 'w \<Rightarrow> (js_error + unit) \<times> browser \<times> 'w" where
  "verifyOperatorKey h net token b w =
     (case api_request h net (lit ''/hooks'') (with_token token operatorHookListSchema) b w of
        (Inl e, b', w') \<Rightarrow> (Inl e, b', w') | (Inr v, b', w') \<Rightarrow> (Inr (), b', w'))"

section \<open>The session (\<open>use-tenant-session.ts\<close>)\<close>

record tenant_session =
  session_tenant :: "jstr option"
  session_expires :: "number option"

definition useTenantSession :: "zparser \<Rightarrow> jstr option option \<Rightarrow> tenant_session option" where
  "useTenantSession zp token =
     (case token of
        Some (Some t) \<Rightarrow>
          if t = [] then None
          else if t = MOCK_TENANT_TOKEN then Some \<lparr>session_tenant = Some MOCK_TENANT, session_expires = None\<rparr>
          else (let claims = read_jwt_claims zp t in
            Some \<lparr>session_tenant = Option.bind claims claim_sub,
                  session_expires = map_option (\<lambda>x. js_mul x (num 1000)) (Option.bind claims claim_exp)\<rparr>)
      | _ \<Rightarrow> None)"

definition TenantName :: "tenant_session option \<Rightarrow> unit ui list" where
  "TenantName s = (case s of None \<Rightarrow> [] | Some x \<Rightarrow> [text_el ''span'' (nullish (session_tenant x) (ru ''tenant ne ukazan w tokene''))])"

text \<open>
  A time value outside the range of dates (\<open>8.64e15\<close> milliseconds) makes an invalid date, whose
  \<open>toISOString\<close> throws a \<open>RangeError\<close>: the left result. \<open>fmt\<close> is the host's date format.
\<close>

definition valid_time :: "number \<Rightarrow> bool" where
  "valid_time x \<longleftrightarrow> (case x of Fin q \<Rightarrow> \<bar>q\<bar> \<le> 8640000000000000 | _ \<Rightarrow> False)"

definition time_iso :: "number \<Rightarrow> jstr" where
  "time_iso x = (case x of Fin q \<Rightarrow> iso_of_ms (if q < 0 then - \<lfloor>- q\<rfloor> else \<lfloor>q\<rfloor>) | _ \<Rightarrow> [])"

definition TenantSessionInfo :: "(jstr \<Rightarrow> jstr) \<Rightarrow> tenant_session option \<Rightarrow> js_error + unit ui list" where
  "TenantSessionInfo fmt s =
     (case Option.bind s session_expires of
        None \<Rightarrow> Inr []
      | Some t \<Rightarrow>
          if \<not> valid_time t then Inl (JsError (lit ''RangeError'') (lit ''Invalid time value''))
          else Inr [El ''dl'' [] [text_el ''dt'' (ru ''Sessiq do''), text_el ''dd'' (fmt (time_iso t))]])"

section \<open>The sign-in form (\<open>session-gate.tsx\<close>)\<close>

record gate_config =
  gate_kind :: console_kind
  gate_title :: jstr
  gate_description :: jstr
  gate_label :: jstr
  gate_verifies :: bool
  gate_rejected :: jstr

record gate =
  gate_value :: jstr
  gate_error :: "jstr option"
  gate_checking :: bool

definition empty_gate :: gate where
  "empty_gate = \<lparr>gate_value = [], gate_error = None, gate_checking = False\<rparr>"

text \<open>The result of a check arrives with the candidate it was started for.\<close>

datatype gate_event = GateInput jstr | GateSubmit | GateVerified jstr "js_error + unit"

definition gate_refusal :: "gate_config \<Rightarrow> js_error \<Rightarrow> jstr" where
  "gate_refusal c e = (if is_status 401 e then gate_rejected c else describe_error e)"

text \<open>A step returns the candidate whose check it starts, if any.\<close>

definition gate_step :: "gate_config \<Rightarrow> gate_event \<Rightarrow> gate \<times> browser \<Rightarrow> (gate \<times> browser) \<times> jstr option" where
  "gate_step c e gb =
     (case gb of (g, b) \<Rightarrow>
        (case e of
           GateInput s \<Rightarrow> ((g\<lparr>gate_value := s, gate_error := None\<rparr>, b), None)
         | GateSubmit \<Rightarrow>
             let candidate = js_trim (gate_value g) in
             if candidate = [] then ((g, b), None)
             else if gate_verifies c then ((g\<lparr>gate_error := None, gate_checking := True\<rparr>, b), Some candidate)
             else ((g\<lparr>gate_error := None\<rparr>, set_token (gate_kind c) candidate b), None)
         | GateVerified candidate r \<Rightarrow>
             (case r of
                Inl x \<Rightarrow> ((g\<lparr>gate_error := Some (gate_refusal c x), gate_checking := False\<rparr>, b), None)
              | Inr _ \<Rightarrow> ((g\<lparr>gate_checking := False\<rparr>, set_token (gate_kind c) candidate b), None))))"

definition SessionGate :: "gate_config \<Rightarrow> gate_event ui list \<Rightarrow> gate_event ui list \<Rightarrow> jstr option option \<Rightarrow> gate \<Rightarrow> gate_event ui list" where
  "SessionGate c hint children token g =
     (case token of
        None \<Rightarrow> []
      | Some t \<Rightarrow>
          if truthy t then children
          else [El ''Card'' []
            ([El ''CardHeader'' [] [text_el ''CardTitle'' (gate_title c), text_el ''CardDescription'' (gate_description c)],
              El ''form'' []
               ([text_el ''label'' (gate_label c),
                 El ''input'' [(''type'', PStr (lit ''password'')), (''value'', PStr (gate_value g))] []]
                @ whenever (truthy (gate_error g)) [alert_p (the (gate_error g))]
                @ [button (js_trim (gate_value g) = [] \<or> gate_checking g) [(''onSubmit'', PAct GateSubmit)]
                     (if gate_checking g then (ru ''Prowerka'' @ [0x2026]) else (ru ''Wojti''))])]
             @ hint)])"

definition operator_gate :: gate_config where
  "operator_gate = \<lparr>gate_kind = Operator, gate_title = (ru ''Whod w konsolx operatora''),
     gate_description = (ru ''Kl@~ ustanowki da#t polnyj dostup k ustanowke. Wwodite ego tolxko na swo#m kompx@tere.''),
     gate_label = (ru ''Kl@~ ustanowki''), gate_verifies = True, gate_rejected = (ru ''Kl@~ ne podo[#l'')\<rparr>"

definition tenant_gate :: gate_config where
  "tenant_gate = \<lparr>gate_kind = Tenant, gate_title = (ru ''Sessiq konsoli ne na~ata ili istekla''),
     gate_description = (ru ''Otkrojte konsolx zanowo iz magazina.''), gate_label = (ru ''Token konsoli tenanta''),
     gate_verifies = True, gate_rejected = (ru ''Token ne podo[#l'')\<rparr>"

section \<open>The tenant's gate (\<open>tenant-session-gate.tsx\<close>)\<close>

definition CONSOLE_SESSION_CURL :: jstr where
  "CONSOLE_SESSION_CURL = (lit ''curl -s -X POST localhost:8000/api/v1/tenants/merchant-a/console-sessions -H '' @ [34] @ lit ''Authorization: Bearer $KEY'' @ [34])"

definition DevHint :: "mocking_mode \<Rightarrow> 'e ui" where
  "DevHint mode = El ''div'' []
     ([text_el ''p'' (ru ''Podskazka dlq razrabotki'')]
      @ whenever (mode = MockAll)
          [El ''p'' [] [Txt (ru ''Moki wkl@~eny: ''),
             El ''a'' [(''href'', PStr (lit ''#token='' @ MOCK_TENANT_TOKEN))] [Txt (lit ''/tenant#token='' @ MOCK_TENANT_TOKEN)]]]
      @ [text_el ''p'' (ru ''Token ot nastoq]ego '' @ lit ''control plane '' @ ru ''wyda#t operator kl@~om ustanowki:''),
         text_el ''pre'' CONSOLE_SESSION_CURL,
         El ''p'' [] [Txt (ru ''Zatem otkrojte ''), text_el ''span'' (lit ''/tenant#token=<token>''), Txt (ru '' ili wstawxte token w pole wy[e.'')]])"

text \<open>The effect on mount: adopt the fragment's token, then drop a token that has expired.\<close>

definition gate_mount :: "zparser \<Rightarrow> number \<Rightarrow> location \<times> browser \<Rightarrow> location \<times> browser" where
  "gate_mount zp now lb =
     (case adoptTokenFromFragment lb of (loc, b) \<Rightarrow>
        (loc, case get_token b Tenant of
                None \<Rightarrow> b
              | Some t \<Rightarrow> if is_jwt_expired zp t now then clear_token Tenant b else b))"

text \<open>One run of \<open>check\<close>: drop the token, or set a timer for the time left, at most the longest delay.\<close>

datatype expiry_action = ClearNow | WaitMs number

definition js_min :: "number \<Rightarrow> number \<Rightarrow> number" where
  "js_min x y = (if x = NaN \<or> y = NaN then NaN else if js_lt x y then x else y)"

definition expiry_check :: "number \<Rightarrow> number \<Rightarrow> expiry_action" where
  "expiry_check expiresAt now =
     (let left = js_sub expiresAt now in
      if js_le left (num 0) then ClearNow else WaitMs (js_min left (num MAX_TIMER_DELAY_MS)))"

text \<open>The effect of the token: nothing without an expiry, else a check (\<open>None\<close>: no timer is started).\<close>

definition expiry_effect :: "zparser \<Rightarrow> jstr option \<Rightarrow> number \<Rightarrow> expiry_action option" where
  "expiry_effect zp token now =
     (if \<not> truthy token then None
      else map_option (\<lambda>x. expiry_check (js_mul x (num 1000)) now) (Option.bind (read_jwt_claims zp (the token)) claim_exp))"

definition TenantSessionGate :: "bool \<Rightarrow> mocking_mode \<Rightarrow> bool \<Rightarrow> gate_event ui list \<Rightarrow> jstr option option \<Rightarrow> gate \<Rightarrow> gate_event ui list" where
  "TenantSessionGate ready mode devHint children token g =
     (if \<not> ready then [] else SessionGate tenant_gate (whenever devHint [DevHint mode]) children token g)"

section \<open>Entering and leaving\<close>

definition console_text :: "console_kind \<Rightarrow> jstr" where
  "console_text k = (case k of Operator \<Rightarrow> lit ''operator'' | Tenant \<Rightarrow> lit ''tenant'')"

text \<open>Signing out clears the token of the console and removes its queries from the cache.\<close>

definition sign_out :: "console_kind \<Rightarrow> browser \<Rightarrow> browser \<times> cache_effect list" where
  "sign_out k b = (clear_token k b, [RemoveQueries [JStr (console_text k)]])"

definition SignOutButton :: "console_kind \<Rightarrow> jstr option option \<Rightarrow> console_kind ui list" where
  "SignOutButton k token =
     (case token of Some (Some t) \<Rightarrow> whenever (t \<noteq> []) [button False [(''onClick'', PAct k)] (ru ''Wyjti'')] | _ \<Rightarrow> [])"

text \<open>\<open>TenantEntryRedirect\<close>: adopt the token, then replace the route.\<close>

definition tenant_entry :: "route \<Rightarrow> location \<times> browser \<Rightarrow> (location \<times> browser) \<times> jstr option" where
  "tenant_entry to lb = (adoptTokenFromFragment lb, route_path to)"

section \<open>The fragment round trip\<close>

lemma hex_digit_upper_nat: "d < 16 \<Longrightarrow> hex_digit (of_nat (unat (hex_upper d))) = Some d"
  by (simp add: hex_digit_upper)

lemma percent_decode_percent [simp]: "b < 256 \<Longrightarrow> percent_decode (map unat (percent b) @ r) = b # percent_decode r"
  by (simp add: percent_def hex_digit_upper)

lemma percent_decode_plain: "c \<noteq> 37 \<Longrightarrow> percent_decode (c # r) = c # percent_decode r"
  by (cases r; cases "tl r") (auto split: option.splits)

declare percent_decode.simps(1) [simp del]

lemma percent_decode_percents:
  "list_all (\<lambda>b. b < 256) bs \<Longrightarrow> percent_decode (map unat (concat (map percent bs)) @ r) = bs @ percent_decode r"
  by (induction bs) (simp_all add: percent_decode_percent)

definition uri_point :: "nat \<Rightarrow> jstr" where
  "uri_point p = (if p < 128 \<and> uri_unreserved (of_nat p) then [of_nat p] else concat (map percent (utf8_point p)))"

lemma encode_uri_eq: "encode_uri_component s = Some t \<longleftrightarrow> well_formed s \<and> t = concat (map uri_point (code_points s))"
  unfolding encode_uri_component_def uri_point_def [abs_def] by auto

lemma unat_small: "p < 65536 \<Longrightarrow> unat (of_nat p :: cu) = p"
  by (simp add: unat_of_nat take_bit_nat_eq_self)

lemma utf8_point_byte: "scalar p \<Longrightarrow> b \<in> set (utf8_point p) \<Longrightarrow> b < 256"
  by (auto simp: utf8_point_def scalar_def split: if_splits)

lemma percent_decode_uri:
  "list_all scalar ps \<Longrightarrow> percent_decode (map unat (concat (map uri_point ps)) @ r) = concat (map utf8_point ps) @ percent_decode r"
proof (induction ps)
  case (Cons p ps)
  have "percent_decode (map unat (uri_point p) @ q) = utf8_point p @ percent_decode q" for q
  proof (cases "p < 128 \<and> uri_unreserved (of_nat p)")
    case True
    then have "of_nat p \<noteq> (37 :: cu)" by (auto simp: uri_unreserved_def lit_def)
    then have "p \<noteq> 37" by auto
    with True show ?thesis by (simp add: uri_point_def percent_decode_plain unat_small utf8_point_def)
  next
    case False
    then have "uri_point p = concat (map percent (utf8_point p))" unfolding uri_point_def by (rule if_not_P)
    moreover have "list_all (\<lambda>b. b < 256) (utf8_point p)"
      using Cons.prems utf8_point_byte by (auto simp: list_all_iff)
    ultimately show ?thesis by (simp add: percent_decode_percents)
  qed
  then show ?case using Cons by simp
qed simp

text \<open>The output of \<open>encodeURIComponent\<close> has no \<open>&\<close>, \<open>=\<close> or \<open>+\<close> and is ASCII.\<close>

lemma hex_upper_range: "d < 16 \<Longrightarrow> unat (hex_upper d) < 128 \<and> unat (hex_upper d) \<notin> {38, 43, 61}"
  by (auto simp: hex_upper_def unat_small)

lemma percent_range: "b < 256 \<Longrightarrow> c \<in> set (percent b) \<Longrightarrow> unat c < 128 \<and> unat c \<notin> {38, 43, 61}"
proof -
  assume b: "b < 256" "c \<in> set (percent b)"
  have "b div 16 < 16" using b(1) by (simp add: div_less_iff_less_mult)
  then show "unat c < 128 \<and> unat c \<notin> {38, 43, 61}"
    using hex_upper_range [of "b div 16"] hex_upper_range [of "b mod 16"] b(2) by (auto simp: percent_def)
qed

lemma unreserved_range: "p < 128 \<Longrightarrow> uri_unreserved (of_nat p) \<Longrightarrow> p \<notin> {38, 43, 61}"
  by (auto simp: uri_unreserved_def lit_def)

lemma uri_point_range:
  assumes "scalar p" "c \<in> set (uri_point p)" shows "unat c < 128 \<and> unat c \<notin> {38, 43, 61}"
proof (cases "p < 128 \<and> uri_unreserved (of_nat p)")
  case True
  then show ?thesis using assms unreserved_range [of p] by (simp add: uri_point_def unat_small)
next
  case False
  then obtain b where "b \<in> set (utf8_point p)" "c \<in> set (percent b)"
    using assms(2) unfolding uri_point_def if_not_P [OF False] by auto
  then show ?thesis using percent_range utf8_point_byte [OF assms(1)] by blast
qed

lemma code_points_low: "unat c < 128 \<Longrightarrow> code_points (c # s) = unat c # code_points s"
  by (cases s) (simp_all add: high_surrogate_def low_surrogate_def)

lemma code_points_ascii: "(\<And>c. c \<in> set s \<Longrightarrow> unat c < 128) \<Longrightarrow> code_points s = map unat s"
  by (induction s) (simp_all add: code_points_low)

lemma utf8_encode_ascii: "(\<And>c. c \<in> set s \<Longrightarrow> unat c < 128) \<Longrightarrow> utf8_encode s = map unat s"
proof -
  assume a: "\<And>c. c \<in> set s \<Longrightarrow> unat c < 128"
  have "concat (map utf8_point (map unat s)) = map unat s"
    using a by (induction s) (simp_all add: utf8_point_def)
  then show ?thesis by (simp add: utf8_encode_def code_points_ascii [OF a])
qed

lemma form_parse_token:
  assumes "encode_uri_component t = Some u"
  shows "form_parse (lit ''token='' @ u) = [(lit ''token'', t)]"
proof -
  have wf: "well_formed t" and u: "u = concat (map uri_point (code_points t))" using assms by (simp_all add: encode_uri_eq)
  have sc: "list_all scalar (code_points t)" using code_points_scalar by (auto simp: list_all_iff)
  have range: "unat c < 128 \<and> unat c \<notin> {38, 43, 61}" if "c \<in> set u" for c
    using that uri_point_range code_points_scalar unfolding u by auto
  have "\<And>c. c \<in> set (lit ''token='' @ u) \<Longrightarrow> unat c < 128" using range by (auto simp: lit_def)
  then have bytes: "utf8_encode (lit ''token='' @ u) = [116, 111, 107, 101, 110, 61] @ map unat u"
    by (subst utf8_encode_ascii) (simp_all add: lit_def)
  have "38 \<notin> set ([116, 111, 107, 101, 110, 61] @ map unat u)" using range by auto
  then have split: "str_split 38 ([116, 111, 107, 101, 110, 61] @ map unat u) = [[116, 111, 107, 101, 110, 61] @ map unat u]"
    by (rule str_split_no_sep)
  have plus: "map (\<lambda>b. if b = 43 then 32 else b) (map unat u) = map unat u"
    using range by (intro map_idI) auto
  have name: "form_text [116, 111, 107, 101, 110] = lit ''token''"
    by (simp add: form_text_def percent_decode_plain utf8_points_def utf16_point_def lit_def)
  have "percent_decode (map unat u) = concat (map utf8_point (code_points t))"
    using percent_decode_uri [OF sc, of "[]"] by (simp add: u)
  then have val: "form_text (map unat u) = t"
    unfolding form_text_def plus by (simp add: utf8_points_encode [OF sc] utf16_code_points [OF wf])
  show ?thesis
    unfolding form_parse_def bytes split by (simp add: form_pair_def name val)
qed

text \<open>Opening an address with a token in the fragment yields the token and clears the fragment.\<close>

lemma take_token:
  assumes "encode_uri_component t = Some u" "js_trim t = t" "t \<noteq> []" "loc_hash loc = lit ''#token='' @ u"
  shows "takeTokenFromFragment loc = (Some t, loc\<lparr>loc_hash := []\<rparr>)"
proof -
  have "lit ''#token='' @ u = 35 # (lit ''token='' @ u)" by (simp add: lit_def)
  then have hash: "loc_hash loc = 35 # (lit ''token='' @ u)" using assms(4) by simp
  have "str_starts_with (lit ''#'') (loc_hash loc)" by (simp add: hash str_starts_with_def lit_def)
  then show ?thesis
    using form_parse_token [OF assms(1)] assms(2,3)
    by (simp add: takeTokenFromFragment_def hash Let_def form_serialize_def)
qed

lemma adopt_token:
  assumes "encode_uri_component t = Some u" "js_trim t = t" "t \<noteq> []" "loc_hash loc = lit ''#token='' @ u"
  shows "adoptTokenFromFragment (loc, b) = (loc\<lparr>loc_hash := []\<rparr>, set_token Tenant t b)"
  by (simp add: adoptTokenFromFragment_def take_token [OF assms])

lemma adopt_nothing: "loc_hash loc = [] \<Longrightarrow> adoptTokenFromFragment (loc, b) = (loc, b)"
  by (simp add: adoptTokenFromFragment_def takeTokenFromFragment_def str_starts_with_def)

text \<open>Whatever the address, only the tenant's token can change.\<close>

lemma adopt_operator: "has_storage b \<Longrightarrow> get_token (snd (adoptTokenFromFragment (loc, b))) Operator = get_token b Operator"
  by (auto simp: adoptTokenFromFragment_def tokens.get_put split: prod.splits option.splits)

section \<open>The sign-in form\<close>

lemma gate_step_browser:
  "snd (fst (gate_step c e (g, b))) = b
   \<or> (\<exists>t. snd (fst (gate_step c e (g, b))) = set_token (gate_kind c) t b
        \<and> (e = GateSubmit \<and> \<not> gate_verifies c \<and> t = js_trim (gate_value g) \<or> (\<exists>r. e = GateVerified t (Inr r))))"
  by (auto simp: gate_step_def Let_def split: gate_event.splits sum.splits)

text \<open>
  A form with its checks in progress: candidates under check, and the tokens that passed. The token
  of a console with a check is always one that passed.
\<close>

inductive gate_run :: "gate_config \<Rightarrow> browser \<Rightarrow> gate \<times> browser \<Rightarrow> jstr list \<Rightarrow> jstr list \<Rightarrow> bool" for c b0 where
  start: "gate_run c b0 (empty_gate, b0) [] []"
| user: "gate_run c b0 gb pend passed \<Longrightarrow> e = GateInput s \<or> e = GateSubmit \<Longrightarrow> gate_step c e gb = (gb', o') \<Longrightarrow>
    gate_run c b0 gb' (pend @ (case o' of None \<Rightarrow> [] | Some t \<Rightarrow> [t])) passed"
| refused: "gate_run c b0 gb pend passed \<Longrightarrow> t \<in> set pend \<Longrightarrow> gate_step c (GateVerified t (Inl x)) gb = (gb', o') \<Longrightarrow>
    gate_run c b0 gb' (remove1 t pend) passed"
| accepted: "gate_run c b0 gb pend passed \<Longrightarrow> t \<in> set pend \<Longrightarrow> gate_step c (GateVerified t (Inr u)) gb = (gb', o') \<Longrightarrow>
    gate_run c b0 gb' (remove1 t pend) (t # passed)"

lemma gate_run_inv:
  assumes "gate_run c b0 gb pend passed" "gate_verifies c" "has_storage b0"
  shows "has_storage (snd gb) \<and> list_all (\<lambda>t. t \<noteq> [] \<and> js_trim t = t) pend
    \<and> list_all (\<lambda>t. t \<noteq> [] \<and> js_trim t = t) passed
    \<and> get_token (snd gb) (gate_kind c) = (case passed of [] \<Rightarrow> get_token b0 (gate_kind c) | t # ts \<Rightarrow> Some t)
    \<and> (\<forall>k. k \<noteq> gate_kind c \<longrightarrow> get_token (snd gb) k = get_token b0 k)"
  using assms
proof (induction rule: gate_run.induct)
  case (user gb pend passed e s gb' o')
  then show ?case
    by (cases gb) (auto simp: gate_step_def Let_def split: if_splits)
next
  case (refused gb pend passed t x gb' o')
  then show ?case
    by (cases gb) (auto simp: gate_step_def list_all_iff dest: notin_set_remove1 split: list.splits)
next
  case (accepted gb pend passed t u gb' o')
  then show ?case
    by (cases gb) (auto simp: gate_step_def list_all_iff tokens.get_put tokens.usable_put dest: notin_set_remove1)
qed simp

section \<open>The expiry timer\<close>

lemma js_sub_num: "safe_int (i - j) \<Longrightarrow> js_sub (num i) (num j) = num (i - j)"
  using js_add_num [of i "- j"] by (simp add: js_sub_def)

lemma expiry_check_num:
  assumes "safe_int (e - n)"
  shows "expiry_check (num e) (num n) = (if e \<le> n then ClearNow else WaitMs (num (min (e - n) MAX_TIMER_DELAY_MS)))"
proof -
  have "js_le (num (e - n)) (num 0) \<longleftrightarrow> e \<le> n" by simp
  moreover have "js_min (num (e - n)) (num MAX_TIMER_DELAY_MS) = num (min (e - n) MAX_TIMER_DELAY_MS)"
    by (auto simp: js_min_def min_def)
  ultimately show ?thesis by (simp only: expiry_check_def js_sub_num [OF assms] Let_def)
qed

lemma fl_not_NaN: "fl x \<noteq> NaN"
  by (simp add: fl_def Let_def)

lemma expiry_delay_bounded:
  assumes "expiry_check expiresAt (Fin n) = WaitMs d" "expiresAt \<noteq> NaN"
  shows "js_le d (num MAX_TIMER_DELAY_MS) \<and> js_lt (num 0) d"
proof -
  define left where "left = js_sub expiresAt (Fin n)"
  have "left \<noteq> NaN" using assms(2) fl_not_NaN by (cases expiresAt) (simp_all add: left_def js_sub_def)
  moreover have "\<not> js_le left (num 0)" and d: "d = js_min left (num MAX_TIMER_DELAY_MS)"
    using assms(1) by (auto simp: expiry_check_def left_def [symmetric] Let_def split: if_splits)
  ultimately show ?thesis
    by (cases left) (auto simp: d js_min_def MAX_TIMER_DELAY_MS_def js_le_def js_num_eq_def)
qed

end
