(* ===== verification/Open_Console.thy ===== *)
theory Open_Console
  imports Console_Session Mock_Invariant
begin

text \<open>
  \<open>features/open-tenant-console\<close>: opening a tenant's console in a new tab, and the mock server as the
  network behind the HTTP client (\<open>mocks/browser.ts\<close>, \<open>node.ts\<close>, \<open>pending.ts\<close>). The request
  matcher of the mocking library is the parameter of the locale \<open>path_matcher\<close>; \<open>match_parts\<close> is a
  matcher with its laws.
\<close>

section \<open>The mock server as a network\<close>

datatype path_part = Seg jstr | Param

locale path_matcher =
  fixes matches :: "path_part list \<Rightarrow> jstr list \<Rightarrow> jstr list option"
  assumes match_Nil: "matches [] segs = (if segs = [] then Some [] else None)"
    and match_Seg: "matches (Seg s # ps) segs =
      (case segs of [] \<Rightarrow> None | x # xs \<Rightarrow> if x = s then matches ps xs else None)"
    and match_Param: "x \<noteq> [] \<Longrightarrow> decode_uri_component x = Some v \<Longrightarrow>
      matches (Param # ps) (x # xs) = map_option ((#) v) (matches ps xs)"
    and match_Param_empty: "matches (Param # ps) [] = None" "matches (Param # ps) ([] # xs) = None"
begin

lemma match_literal: "matches (map Seg ss) segs = (if segs = ss then Some [] else None)"
  by (induction ss arbitrary: segs) (auto simp: match_Nil match_Seg split: list.splits)

lemma match_prefix: "matches (map Seg ss @ ps) (ss @ segs) = matches ps segs"
  by (induction ss) (simp_all add: match_Seg)

lemma match_prefix_param:
  "x \<noteq> [] \<Longrightarrow> decode_uri_component x = Some v \<Longrightarrow> matches (map Seg ss @ Param # ps) (ss @ x # xs) = map_option ((#) v) (matches ps xs)"
  by (simp add: match_prefix match_Param)

end

fun match_parts :: "path_part list \<Rightarrow> jstr list \<Rightarrow> jstr list option" where
  "match_parts [] segs = (if segs = [] then Some [] else None)"
| "match_parts (p # ps) [] = None"
| "match_parts (Seg s # ps) (x # xs) = (if x = s then match_parts ps xs else None)"
| "match_parts (Param # ps) (x # xs) =
     (if x = [] then None
      else (case decode_uri_component x of None \<Rightarrow> None | Some v \<Rightarrow> map_option ((#) v) (match_parts ps xs)))"

interpretation plain_matcher: path_matcher match_parts
  by unfold_locales (auto split: list.splits)

text \<open>The routes of the handlers, in the order of \<open>handlerGroups\<close>.\<close>

type_synonym mock_route = "http_method \<times> path_part list \<times> (jstr list \<Rightarrow> endpoint)"

definition segs :: "string list \<Rightarrow> path_part list" where
  "segs ss = map (\<lambda>s. Seg (lit s)) ([''api'', ''v1''] @ ss)"

definition operator_hook_routes :: "mock_route list" where
  "operator_hook_routes =
     [(GET, segs [''hooks''], \<lambda>_. GetHooks), (GET, segs [''hooks''] @ [Param], \<lambda>ps. GetHook (ps ! 0)),
      (POST, segs [''hooks''], \<lambda>_. PostHook), (PUT, segs [''hooks''] @ [Param], \<lambda>ps. PutHook (ps ! 0))]"

definition tenant_routes :: "mock_route list" where
  "tenant_routes =
     [(GET, segs [''tenants''], \<lambda>_. GetTenants), (GET, segs [''tenants''] @ [Param], \<lambda>ps. GetTenant (ps ! 0)),
      (POST, segs [''tenants''], \<lambda>_. PostTenant), (PATCH, segs [''tenants''] @ [Param], \<lambda>ps. PatchTenant (ps ! 0))]"

definition console_session_routes :: "mock_route list" where
  "console_session_routes =
     [(POST, segs [''tenants''] @ [Param, Seg (lit ''console-sessions'')], \<lambda>ps. PostConsoleSession (ps ! 0))]"

definition key_routes :: "mock_route list" where
  "key_routes =
     [(GET, segs [''api-keys''], \<lambda>_. GetKeys), (POST, segs [''api-keys''], \<lambda>_. PostKey),
      (DELETE, segs [''api-keys''] @ [Param], \<lambda>ps. DeleteKey (ps ! 0))]"

definition tenant_api_routes :: "mock_route list" where
  "tenant_api_routes =
     [(GET, segs [''tenant'', ''hooks''], \<lambda>_. GetTenantHooks), (GET, segs [''tenant'', ''hooks''] @ [Param], \<lambda>ps. GetTenantHook (ps ! 0)),
      (GET, segs [''tenant'', ''hooks''] @ [Param, Seg (lit ''modules'')], \<lambda>ps. GetModules (ps ! 0)),
      (POST, segs [''tenant'', ''hooks''] @ [Param, Seg (lit ''modules'')], \<lambda>ps. PostModule (ps ! 0)),
      (PUT, segs [''tenant'', ''hooks''] @ [Param, Seg (lit ''binding'')], \<lambda>ps. PutBinding (ps ! 0))]"

definition invocation_routes :: "mock_route list" where
  "invocation_routes = [(GET, segs [''tenant'', ''invocations''], \<lambda>_. GetInvocations)]"

definition handlers :: "mock_route list" where
  "handlers = operator_hook_routes @ tenant_routes @ console_session_routes @ key_routes @ tenant_api_routes @ invocation_routes"

text \<open>Only the groups of \<open>pendingGroups\<close> are mocked in partial mode.\<close>

definition pendingHandlers :: "mock_route list" where
  "pendingHandlers = invocation_routes"

definition worker_routes :: "mocking_mode \<Rightarrow> mock_route list" where
  "worker_routes mode = (case mode of MockAll \<Rightarrow> handlers | MockPartial \<Rightarrow> pendingHandlers | MockDisabled \<Rightarrow> [])"

definition match_route ::
  "(path_part list \<Rightarrow> jstr list \<Rightarrow> jstr list option) \<Rightarrow> mock_route list \<Rightarrow> request \<Rightarrow> endpoint option" where
  "match_route matches rs req =
     (case find (\<lambda>(m, ps, f). m = req_method req \<and> matches ps (url_path (req_url req)) \<noteq> None) rs of
        None \<Rightarrow> None
      | Some (m, ps, f) \<Rightarrow> map_option f (matches ps (url_path (req_url req))))"

text \<open>
  The network with the mocks on: a handler that throws becomes the library's error answer
  (\<open>on_error\<close>), an unmatched request goes to the server behind (\<open>net\<close>).
\<close>

definition mock_network ::
  "(path_part list \<Rightarrow> jstr list \<Rightarrow> jstr list option) \<Rightarrow> mock_route list \<Rightarrow> (js_error \<Rightarrow> response) \<Rightarrow> env \<Rightarrow> world network \<Rightarrow> world network" where
  "mock_network matches rs on_error e net req w =
     (case match_route matches rs req of
        None \<Rightarrow> net req w
      | Some p \<Rightarrow> (case authed (resolve p) e req w of (Inl x, w') \<Rightarrow> (Inr (on_error x), w') | (Inr r, w') \<Rightarrow> (Inr r, w')))"

section \<open>The new tab (\<open>use-open-tenant-console.ts\<close>)\<close>

record tab =
  tab_browser :: browser
  tab_location :: "location option"
  tab_opener :: bool
  tab_closed :: bool

definition popup_blocked :: js_error where
  "popup_blocked = JsError (lit ''PopupBlockedError'')
     (ru ''Brauzer ne dal otkrytx nowu@ wkladku. Razre[ite wsplywa@]ie okna dlq |togo sajta.'')"

text \<open>\<open>window.open("", "_blank")\<close> copies the session storage of the opener.\<close>

definition open_tab :: "browser \<Rightarrow> tab" where
  "open_tab b = \<lparr>tab_browser = \<lparr>storage = storage b, listeners = []\<rparr>, tab_location = None, tab_opener = True, tab_closed = False\<rparr>"

definition tenantConsoleUrl :: "jstr \<Rightarrow> location option" where
  "tenantConsoleUrl token =
     map_option (\<lambda>u. \<lparr>loc_path = lit ''/tenant'', loc_search = [], loc_hash = lit ''#token='' @ u\<rparr>) (encode_uri_component token)"

definition detach :: "tab \<Rightarrow> tab" where
  "detach t = t\<lparr>tab_opener := False, tab_browser := (tab_browser t)\<lparr>storage := map_option (\<lambda>_. Map.empty) (storage (tab_browser t))\<rparr>\<rparr>"

definition close_tab :: "tab \<Rightarrow> tab" where
  "close_tab t = t\<lparr>tab_closed := True\<rparr>"

definition uri_error :: js_error where
  "uri_error = JsError (lit ''URIError'') (lit ''URI malformed'')"

definition post_options :: "zschema \<Rightarrow> options" where
  "post_options s = (get_options s)\<lparr>opt_method := POST\<rparr>"

definition open_tenant_console ::
  "host \<Rightarrow> 'w network \<Rightarrow> jstr \<Rightarrow> tab option \<Rightarrow> browser \<Rightarrow> 'w \<Rightarrow> (js_error + json option) \<times> tab option \<times> browser \<times> 'w" where
  "open_tenant_console h net externalId tab b w =
     (case tab of
        None \<Rightarrow> (Inl popup_blocked, None, b, w)
      | Some t0 \<Rightarrow>
          let t = detach t0 in
          (case encode_uri_component externalId of
             None \<Rightarrow> (Inl uri_error, Some (close_tab t), b, w)
           | Some i \<Rightarrow>
               (case api_request h net (lit ''/tenants/'' @ i @ lit ''/console-sessions'') (post_options consoleSessionSchema) b w of
                  (Inl e, b', w') \<Rightarrow> (Inl e, Some (close_tab t), b', w')
                | (Inr s, b', w') \<Rightarrow>
                    (case Option.bind (string_field s (lit ''token'')) tenantConsoleUrl of
                       None \<Rightarrow> (Inl uri_error, Some (close_tab t), b', w')
                     | Some l \<Rightarrow> (Inr s, Some (t\<lparr>tab_location := Some l\<rparr>), b', w')))))"

text \<open>The tab loads its address: the entry page adopts the token of the fragment.\<close>

definition load_tab :: "tab \<Rightarrow> tab" where
  "load_tab t =
     (case tab_location t of
        None \<Rightarrow> t
      | Some l \<Rightarrow> (case adoptTokenFromFragment (l, tab_browser t) of
          (l', b) \<Rightarrow> t\<lparr>tab_location := Some l', tab_browser := b\<rparr>))"

definition OpenTenantConsoleButton :: "jstr \<Rightarrow> json option mutation \<Rightarrow> unit ui list" where
  "OpenTenantConsoleButton externalId m =
     button (is_pending m) [(''aria-label'', PStr ((ru ''Otkrytx konsolx '') @ externalId)), (''onClick'', PAct ())]
       (if is_pending m then (ru ''Otkrywaem'' @ [0x2026]) else (ru ''Otkrytx konsolx''))
     # (case mutation_error m of None \<Rightarrow> [] | Some e \<Rightarrow> [alert_p (describe_error e)])"

section \<open>Paths survive the URL\<close>

lemma uri_no_slash: "encode_uri_component s = Some u \<Longrightarrow> 47 \<notin> set u"
proof
  assume e: "encode_uri_component s = Some u" and "47 \<in> set u"
  then obtain p where p: "p \<in> set (code_points s)" "47 \<in> set (uri_point p)" by (auto simp: encode_uri_eq)
  have sc: "scalar p" using p(1) code_points_scalar by blast
  show False
  proof (cases "p < 128 \<and> uri_unreserved (of_nat p)")
    case True
    with p(2) have "uri_unreserved 47" by (simp add: uri_point_def)
    then show False by (simp add: uri_unreserved_def lit_def)
  next
    case False
    then obtain b where b: "b \<in> set (utf8_point p)" "47 \<in> set (percent b)"
      using p(2) unfolding uri_point_def if_not_P [OF False] by auto
    have "b < 256" using utf8_point_byte [OF sc b(1)] .
    then have "b div 16 < 16" "b mod 16 < 16" by (simp_all add: div_less_iff_less_mult)
    moreover have "47 = hex_upper (b div 16) \<or> 47 = hex_upper (b mod 16)" using b(2) by (simp add: percent_def)
    moreover have "hex_upper d \<noteq> 47" if "d < 16" for d
    proof
      assume "hex_upper d = 47"
      then have "unat (hex_upper d) = 47" by simp
      then show False using that by (auto simp: hex_upper_def unat_small split: if_splits)
    qed
    ultimately show False by metis
  qed
qed

lemma ascii_lower_iff:
  "ascii_lower c = 46 \<longleftrightarrow> c = 46" "ascii_lower c = 37 \<longleftrightarrow> c = 37" "ascii_lower c = 50 \<longleftrightarrow> c = 50"
  "ascii_lower c = 101 \<longleftrightarrow> c = 101 \<or> c = 69"
proof -
  have up: "c + 32 = k \<longleftrightarrow> c = k - 32" for k :: cu by (metis add_diff_cancel_right' diff_add_cancel)
  show "ascii_lower c = 46 \<longleftrightarrow> c = 46" "ascii_lower c = 37 \<longleftrightarrow> c = 37" "ascii_lower c = 50 \<longleftrightarrow> c = 50"
    "ascii_lower c = 101 \<longleftrightarrow> c = 101 \<or> c = 69"
    by (auto simp: ascii_lower_def up split: if_splits)
qed

lemma dot_lits:
  "lit ''.'' = [46]" "lit ''..'' = [46, 46]" "lit ''%2e'' = [37, 50, 101]" "lit ''.%2e'' = [46, 37, 50, 101]"
  "lit ''%2e.'' = [37, 50, 101, 46]" "lit ''%2e%2e'' = [37, 50, 101, 37, 50, 101]"
  by (simp_all add: lit_def)

lemma decode_plain: "c \<noteq> 37 \<Longrightarrow> decode_uri_component (c # s) = map_option ((#) c) (decode_uri_component s)"
  by (simp add: decode_uri_component.simps(2))

lemma decode_escaped_dot: "x \<in> {101, 69} \<Longrightarrow> decode_uri_component (37 # 50 # x # s) = map_option ((#) 46) (decode_uri_component s)"
proof -
  assume x: "x \<in> {101, 69}"
  have "percent_byte (37 # 50 # x # s) = Some (46, s)" using x by (auto simp: percent_byte_def hex_digit_def Let_def)
  moreover have "utf8_single [46] = Some 46" using utf8_single_point [of 46] by (simp add: utf8_point_def scalar_def)
  moreover have "utf16_point 46 = [46]" by (simp add: utf16_point_def)
  ultimately show ?thesis by (simp add: decode_uri_component.simps(2) utf8_extra_def append_eq_Cons_conv fun_eq_iff option.map_comp cong: option.map_cong)
qed

lemmas decode_dots = decode_plain decode_escaped_dot

lemma lower_ConsD:
  "map ascii_lower u = x # xs \<Longrightarrow> \<exists>c v. u = c # v \<and> ascii_lower c = x \<and> map ascii_lower v = xs"
  by (cases u) auto

lemma lower_dot_decode:
  "map ascii_lower u = [46] \<Longrightarrow> decode_uri_component u = Some [46]"
  "map ascii_lower u = [37, 50, 101] \<Longrightarrow> decode_uri_component u = Some [46]"
  "map ascii_lower u = [46, 46] \<Longrightarrow> decode_uri_component u = Some [46, 46]"
  "map ascii_lower u = [46, 37, 50, 101] \<Longrightarrow> decode_uri_component u = Some [46, 46]"
  "map ascii_lower u = [37, 50, 101, 46] \<Longrightarrow> decode_uri_component u = Some [46, 46]"
  "map ascii_lower u = [37, 50, 101, 37, 50, 101] \<Longrightarrow> decode_uri_component u = Some [46, 46]"
  by (((drule lower_ConsD, elim exE conjE)+, simp only: map_is_Nil_conv ascii_lower_iff, (elim disjE)?; simp add: decode_dots); fail)+

lemma dots_decode:
  "single_dot u \<Longrightarrow> decode_uri_component u = Some (lit ''.'')"
  "double_dot u \<Longrightarrow> decode_uri_component u = Some (lit ''..'')"
  unfolding single_dot_def double_dot_def dot_lits by (elim insertE emptyE; simp only: lower_dot_decode)+

lemma uri_no_dots:
  assumes "encode_uri_component s = Some u" "s \<notin> {lit ''.'', lit ''..''}"
  shows "\<not> single_dot u \<and> \<not> double_dot u"
  using dots_decode [of u] uri_roundtrip [OF assms(1)] assms(2) by auto

lemma uri_nonempty: "encode_uri_component s = Some u \<Longrightarrow> s \<noteq> [] \<Longrightarrow> u \<noteq> []"
  using uri_roundtrip [of s u] by auto

text \<open>A path of plain parts is split into them.\<close>

definition plain_part :: "jstr \<Rightarrow> bool" where
  "plain_part s \<longleftrightarrow> 47 \<notin> set s \<and> \<not> single_dot s \<and> \<not> double_dot s"

definition path_of :: "jstr list \<Rightarrow> jstr" where
  "path_of ss = concat (map (\<lambda>s. 47 # s) ss)"

lemma path_of_simps [simp]: "path_of [] = []" "path_of (s # ss) = 47 # s @ path_of ss"
  by (simp_all add: path_of_def)

lemma split_path: "(\<And>s. s \<in> set ss \<Longrightarrow> 47 \<notin> set s) \<Longrightarrow> 47 \<notin> set t \<Longrightarrow> str_split 47 (t @ path_of ss) = t # ss"
proof (induction ss arbitrary: t)
  case (Cons s ss)
  then show ?case by (simp add: str_split_append)
qed (simp add: str_split_no_sep)

lemma url_segments_path:
  assumes "\<And>s. s \<in> set ss \<Longrightarrow> plain_part s" shows "url_segments (path_of ss) = ss"
proof -
  have "str_split 47 (path_of ss) = [] # ss"
    using split_path [of ss "[]"] assms by (simp add: plain_part_def)
  then show ?thesis
    using assms resolve_dots_plain [of ss "[]"] by (simp add: url_segments_def plain_part_def)
qed

lemma plain_lits [simp]:
  "plain_part (lit ''api'')" "plain_part (lit ''v1'')" "plain_part (lit ''tenants'')" "plain_part (lit ''hooks'')"
  "plain_part (lit ''tenant'')" "plain_part (lit ''modules'')" "plain_part (lit ''binding'')" "plain_part (lit ''api-keys'')"
  "plain_part (lit ''console-sessions'')" "plain_part (lit ''invocations'')"
  by (simp_all add: plain_part_def single_dot_def double_dot_def lit_def ascii_lower_def)

lemma plain_uri: "encode_uri_component s = Some u \<Longrightarrow> s \<notin> {lit ''.'', lit ''..''} \<Longrightarrow> plain_part u"
  by (simp add: plain_part_def uri_no_slash uri_no_dots)

section \<open>Opening a console against the mocks\<close>

context path_matcher
begin

lemma no_match_console:
  "matches (segs ss) (lit ''api'' # lit ''v1'' # lit ''tenants'' # u # lit ''console-sessions'' # []) = None"
  if "ss \<in> {[''hooks''], [''tenants'']}"
proof -
  have "segs ss = map Seg (map lit ([''api'', ''v1''] @ ss))" by (simp add: segs_def)
  moreover have "length (map lit ([''api'', ''v1''] @ ss)) = 3" using that by auto
  moreover have "length (lit ''api'' # lit ''v1'' # lit ''tenants'' # u # lit ''console-sessions'' # []) = 5" by simp
  ultimately have "matches (segs ss) (lit ''api'' # lit ''v1'' # lit ''tenants'' # u # lit ''console-sessions'' # []) =
      (if (lit ''api'' # lit ''v1'' # lit ''tenants'' # u # lit ''console-sessions'' # []) = map lit ([''api'', ''v1''] @ ss) then Some [] else None)"
    by (simp only: match_literal)
  also have "\<dots> = None" using that by (intro if_not_P notI) (drule arg_cong [of _ _ length], auto)
  finally show ?thesis .
qed

lemma match_console_route:
  assumes "req_method req = POST" "u \<noteq> []" "decode_uri_component u = Some i"
    "url_path (req_url req) = [lit ''api'', lit ''v1'', lit ''tenants'', u, lit ''console-sessions'']"
  shows "match_route matches handlers req = Some (PostConsoleSession i)"
proof -
  have m: "matches (segs [''tenants''] @ [Param, Seg (lit ''console-sessions'')]) (url_path (req_url req)) = Some [i]"
    using assms(2,3) by (simp add: assms(4) segs_def match_Seg match_Param match_Nil)
  show ?thesis
    using m no_match_console [of "[''hooks'']" u] no_match_console [of "[''tenants'']" u]
    by (simp add: match_route_def handlers_def operator_hook_routes_def tenant_routes_def console_session_routes_def assms(1,4))
qed

end

text \<open>The token of the session has a readable payload.\<close>

lemma token_claims_ok: "safe_int (now div 1000) \<Longrightarrow> safe_int (t div 1000) \<Longrightarrow> json_ok (token_claims i now t)"
proof -
  have "canon_keys (map lit [''sub'', ''aud'', ''iss'', ''iat'', ''exp''])"
    by (rule canon_lits; simp add: is_digit_def)
  then show "safe_int (now div 1000) \<Longrightarrow> safe_int (t div 1000) \<Longrightarrow> json_ok (token_claims i now t)"
    by (simp add: token_claims_def json_int_def)
qed

lemma token_header_ok: "json_ok token_header"
proof -
  have "canon_keys (map lit [''alg'', ''typ''])" by (rule canon_lits; simp add: is_digit_def)
  then show ?thesis by (simp add: token_header_def)
qed

text \<open>Its characters are printable ASCII, so the fragment carries it unchanged.\<close>

definition token_unit :: "cu \<Rightarrow> bool" where
  "token_unit c \<longleftrightarrow> 33 \<le> unat c \<and> unat c < 127"

lemma token_unit_space: "token_unit c \<Longrightarrow> \<not> is_space c \<and> \<not> http_space c"
  by (auto simp: token_unit_def is_space_def ws_units_def http_space_def)

lemma b64url_token_unit:
  assumes "list_all (\<lambda>b. b < 256) bs" "c \<in> set (b64url_encode bs)" shows "token_unit c"
proof -
  have units: "list_all token_unit b64_units"
    by (simp add: b64_units_def lit_def token_unit_def)
  have "b64_unit i \<in> set b64_units" if "i \<in> set (b64_sextets bs)" for i
    using b64_sextets_less [OF assms(1) that] b64_units_props(2) by (simp add: b64_unit_def)
  then have "token_unit c" if "c \<in> set (js_btoa bs)" for c
    using that units by (auto simp: js_btoa_def Let_def list_all_iff token_unit_def)
  moreover have "c \<in> set (str_replace_all 47 95 (str_replace_all 43 45 (js_btoa bs)))"
    using assms(2) unfolding b64url_encode_def by (metis set_dropWhileD set_rev)
  ultimately show ?thesis by (auto simp: str_replace_all_def token_unit_def split: if_splits)
qed

lemma b64url_json_unit: "c \<in> set (b64url_json v) \<Longrightarrow> token_unit c"
  unfolding b64url_json_def by (rule b64url_token_unit) (auto simp: list_all_iff dest: utf8_encode_bytes)

lemma consoleToken_unit: "c \<in> set (consoleToken now i t) \<Longrightarrow> token_unit c"
  by (auto simp: consoleToken_def dest: b64url_json_unit) (auto simp: lit_def token_unit_def)

lemma well_formed_token: "(\<And>c. c \<in> set t \<Longrightarrow> token_unit c) \<Longrightarrow> well_formed t"
  by (rule well_formed_low) (fastforce simp: token_unit_def)

lemma dropWhile_none: "(\<And>c. c \<in> set xs \<Longrightarrow> \<not> P c) \<Longrightarrow> xs \<noteq> [] \<or> ys = [] \<Longrightarrow> dropWhile P (xs @ ys) = xs @ ys"
  by (cases xs) auto

lemma trim_token: "(\<And>c. c \<in> set t \<Longrightarrow> token_unit c) \<Longrightarrow> js_trim t = t"
  using dropWhile_none [of t is_space "[]"] dropWhile_none [of "rev t" is_space "[]"] token_unit_space
  by (simp add: js_trim_def)

lemma token_unit_header: "token_unit c \<Longrightarrow> c \<le> 0xFF \<and> c \<noteq> 0 \<and> c \<noteq> 10 \<and> c \<noteq> 13"
  by (auto simp: token_unit_def word_le_nat_alt)

lemma header_token:
  assumes "\<And>c. c \<in> set t \<Longrightarrow> token_unit c" "t \<noteq> []"
  shows "header_value (lit ''Bearer '' @ t) = Some (lit ''Bearer '' @ t)"
proof -
  have "dropWhile http_space (rev t @ rev (lit ''Bearer '')) = rev t @ rev (lit ''Bearer '')"
    using assms token_unit_space by (intro dropWhile_none) auto
  moreover have "dropWhile http_space (lit ''Bearer '' @ t) = lit ''Bearer '' @ t"
    by (simp add: lit_def http_space_def)
  moreover have "list_all (\<lambda>c. c \<le> 0xFF \<and> c \<noteq> 0 \<and> c \<noteq> 10 \<and> c \<noteq> 13) t"
    using assms(1) token_unit_header by (simp add: list_all_iff)
  moreover have "list_all (\<lambda>c. c \<le> 0xFF \<and> c \<noteq> 0 \<and> c \<noteq> 10 \<and> c \<noteq> 13) (lit ''Bearer '')"
    by (simp add: lit_def)
  ultimately show ?thesis by (simp add: header_value_def Let_def)
qed

text \<open>The claims the console reads from the session's token.\<close>

lemma dot_signature: "lit ''.mock-signature'' = 46 # lit ''mock-signature''"
  by (simp add: lit_def)

context zod
begin

lemma parse_claims:
  "zp claims_schema (Some (token_claims i now t)) =
     Some (Some (JObj [(lit ''sub'', JStr i), (lit ''exp'', json_int (t div 1000))]))"
proof -
  have "canon_keys (map lit [''sub'', ''exp''])" by (rule canon_lits; simp add: is_digit_def)
  then have "obj_of_list [(lit ''sub'', JStr i), (lit ''exp'', json_int (t div 1000))] =
      [(lit ''sub'', JStr i), (lit ''exp'', json_int (t div 1000))]"
    by (intro obj_of_list_canon) simp
  then show ?thesis
    by (simp add: claims_schema_def token_claims_def zp_laws shape_fields_def obj_get_def present_fields_def json_int_def finite_number_def)
qed

lemma read_consoleToken:
  assumes "safe_int (now div 1000)" "safe_int (t div 1000)"
  shows "read_jwt_claims zp (consoleToken now i t) = Some \<lparr>claim_sub = Some i, claim_exp = Some (num (t div 1000))\<rparr>"
  using read_claims_of_payload [OF token_claims_ok [OF assms] b64url_json_token(1) [OF token_header_ok], of zp i "lit ''mock-signature''"] parse_claims [of i now t]
  by (simp add: consoleToken_def claim_fields_def obj_get_def json_int_def dot_signature)

lemma parse_session:
  assumes "zp ZDatetime (Some (JStr d)) \<noteq> None"
  shows "zp consoleSessionSchema (Some (session_json t d)) = Some (Some (session_json t d))"
proof -
  have "canon_keys (map lit [''token'', ''expires_at''])" by (rule canon_lits; simp add: is_digit_def)
  then have "obj_of_list [(lit ''token'', JStr t), (lit ''expires_at'', JStr d)] = [(lit ''token'', JStr t), (lit ''expires_at'', JStr d)]"
    by (intro obj_of_list_canon) simp
  moreover have "zp ZDatetime (Some (JStr d)) = Some (Some (JStr d))" using assms zp_datetime by fastforce
  ultimately show ?thesis
    by (simp add: consoleSessionSchema_def session_json_def zp_laws shape_fields_def obj_get_def present_fields_def)
qed

end

lemma session_json_ok: "json_ok (session_json t d)"
proof -
  have "canon_keys (map lit [''token'', ''expires_at''])" by (rule canon_lits; simp add: is_digit_def)
  then show ?thesis by (simp add: session_json_def)
qed

lemma session_request:
  assumes "get_token b Operator = Some op" "\<And>c. c \<in> set op \<Longrightarrow> token_unit c"
    "encode_uri_component ext = Some u" "ext \<notin> {[], lit ''.'', lit ''..''}"
  obtains req where
    "build_request h (lit ''/tenants/'' @ u @ lit ''/console-sessions'') (post_options consoleSessionSchema) b = Inr req"
    "req_method req = POST" "req_auth req = Some (lit ''Bearer '' @ op)"
    "url_path (req_url req) = [lit ''api'', lit ''v1'', lit ''tenants'', u, lit ''console-sessions'']"
proof -
  let ?p = "lit ''/tenants/'' @ u @ lit ''/console-sessions''"
  have op: "op \<noteq> []" using assms(1) tokens.get_nonempty [of b Operator] by auto
  have "console_for_path ?p = Operator"
    by (simp add: console_for_path_def str_starts_with_def lit_def)
  moreover have "api_base_url @ ?p = path_of [lit ''api'', lit ''v1'', lit ''tenants'', u, lit ''console-sessions'']"
    by (simp add: api_base_url_def lit_def)
  moreover have "url_segments (path_of [lit ''api'', lit ''v1'', lit ''tenants'', u, lit ''console-sessions'']) =
      [lit ''api'', lit ''v1'', lit ''tenants'', u, lit ''console-sessions'']"
    using plain_uri [OF assms(3)] assms(4) by (intro url_segments_path) auto
  ultimately have "build_request h ?p (post_options consoleSessionSchema) b = Inr
      \<lparr>req_method = POST, req_url = \<lparr>url_path = [lit ''api'', lit ''v1'', lit ''tenants'', u, lit ''console-sessions''], url_query = []\<rparr>,
       req_auth = Some (lit ''Bearer '' @ op), req_content_type = None, req_body = WireNone\<rparr>"
    using header_token [OF assms(2) op] assms(1) op
    by (simp add: build_request_def api_token_def post_options_def get_options_def api_url_def)
  then show ?thesis by (rule that) simp_all
qed

lemma session_answer:
  assumes "path_matcher matches" "req_method req = POST" "req_auth req = Some (lit ''Bearer '' @ op)"
    "url_path (req_url req) = [lit ''api'', lit ''v1'', lit ''tenants'', u, lit ''console-sessions'']"
    "encode_uri_component ext = Some u" "ext \<noteq> []" "\<And>c. c \<in> set op \<Longrightarrow> token_unit c" "op \<noteq> []"
    "\<not> list_ex (key_refused op) (db_keys (wdb w))" "ext \<in> external_id ` set (db_tenants (wdb w))"
  shows "mock_network matches handlers on_error e net req w =
    (Inr (http_json 201 (session_json (consoleToken (env_now e) ext (env_now e + SESSION_TTL_MS))
       (iso_of_ms (env_now e + SESSION_TTL_MS)))), w)"
proof -
  have "bearer_token (nullish (req_auth req) []) = Some op"
    using bearer_token_header [of op] assms(3,7,8) token_unit_space by (simp add: nullish_def)
  then have "hasBearer (wdb w) req" using assms(9) by (simp add: hasBearer_def)
  moreover have "match_route matches handlers req = Some (PostConsoleSession ext)"
    using path_matcher.match_console_route [OF assms(1,2) uri_nonempty [OF assms(5,6)] uri_roundtrip [OF assms(5)] assms(4)] .
  moreover have "list_ex (\<lambda>t. external_id t = ext) (db_tenants (wdb w))"
    using assms(10) by (auto simp: list_ex_iff)
  ultimately show ?thesis
    by (simp add: mock_network_def authed_def post_console_session_def Let_def)
qed

lemma http_json_text: "resp_text (http_json s v) = json_stringify v"
  by (simp add: http_json_def)

lemma post_options_schema: "opt_schema (post_options s) = s"
  by (simp add: post_options_def get_options_def)

lemma open_console_request:
  assumes "zod (zod_parse h)" "encode_uri_component ext = Some u"
    "build_request h (lit ''/tenants/'' @ u @ lit ''/console-sessions'') (post_options consoleSessionSchema) b = Inr req"
    "net req w = (Inr (http_json 201 (session_json t d)), w)"
    "zod_parse h ZDatetime (Some (JStr d)) \<noteq> None" "\<And>c. c \<in> set t \<Longrightarrow> token_unit c"
  obtains v where "encode_uri_component t = Some v"
    "open_tenant_console h net ext (Some tb) b w = (Inr (Some (session_json t d)),
       Some ((detach tb)\<lparr>tab_location := Some \<lparr>loc_path = lit ''/tenant'', loc_search = [], loc_hash = lit ''#token='' @ v\<rparr>\<rparr>), b, w)"
proof -
  obtain v where v: "encode_uri_component t = Some v"
    using well_formed_token [OF assms(6)] by (simp add: encode_uri_component_def)
  have "api_request h net (lit ''/tenants/'' @ u @ lit ''/console-sessions'') (post_options consoleSessionSchema) b w =
      (Inr (Some (session_json t d)), b, w)"
    using zod.parse_session [OF assms(1,5)] json_parse_stringify [OF session_json_ok]
    by (simp add: api_request_def assms(3,4) response_ok_def api_payload_def http_json_text post_options_schema)
  moreover have "string_field (Some (session_json t d)) (lit ''token'') = Some t"
    by (simp add: session_json_def string_field_def obj_get_def)
  ultimately show ?thesis
    using that [OF v] v by (simp add: open_tenant_console_def assms(2) Let_def tenantConsoleUrl_def)
qed

text \<open>
  What the new tab holds once its entry page has run: no token of the opener, and the new token as the
  tenant's.
\<close>

lemma load_console_tab:
  assumes "encode_uri_component t = Some v" "\<And>c. c \<in> set t \<Longrightarrow> token_unit c" "t \<noteq> []" "storage (tab_browser tb) \<noteq> None"
    "l = \<lparr>loc_path = lit ''/tenant'', loc_search = [], loc_hash = lit ''#token='' @ v\<rparr>"
  shows "get_token (tab_browser (load_tab ((detach tb)\<lparr>tab_location := Some l\<rparr>))) Operator = None"
    "get_token (tab_browser (load_tab ((detach tb)\<lparr>tab_location := Some l\<rparr>))) Tenant = Some t"
    "tab_location (load_tab ((detach tb)\<lparr>tab_location := Some l\<rparr>)) = Some (l\<lparr>loc_hash := []\<rparr>)"
proof -
  have "loc_hash l = lit ''#token='' @ v" by (simp add: assms(5))
  from adopt_token [OF assms(1) trim_token [OF assms(2)] assms(3) this]
  have load: "load_tab ((detach tb)\<lparr>tab_location := Some l\<rparr>) =
      (detach tb)\<lparr>tab_location := Some (l\<lparr>loc_hash := []\<rparr>), tab_browser := set_token Tenant t (tab_browser (detach tb))\<rparr>"
    by (simp add: load_tab_def)
  have usable: "has_storage (tab_browser (detach tb))" and none: "get_token (tab_browser (detach tb)) k = None" for k
    using assms(4) by (auto simp: has_storage_def detach_def get_token_def)
  show "get_token (tab_browser (load_tab ((detach tb)\<lparr>tab_location := Some l\<rparr>))) Operator = None"
    "get_token (tab_browser (load_tab ((detach tb)\<lparr>tab_location := Some l\<rparr>))) Tenant = Some t"
    "tab_location (load_tab ((detach tb)\<lparr>tab_location := Some l\<rparr>)) = Some (l\<lparr>loc_hash := []\<rparr>)"
    using assms(3) by (simp_all add: load tokens.get_put [OF usable] none)
qed

text \<open>Whatever goes wrong, the tab that was opened is closed and holds nothing.\<close>

lemma open_console_failed:
  assumes "open_tenant_console h net ext tab b w = (Inl x, tab', b', w')"
  shows "(tab = None \<and> tab' = None) \<or> (\<exists>t. tab = Some t \<and> tab' = Some (close_tab (detach t)))"
  using assms by (auto simp: open_tenant_console_def Let_def split: option.splits sum.splits prod.splits)

end
