(* ===== verification/Mutations.thy ===== *)
theory Mutations
  imports Forms Open_Console
begin

text \<open>
  The mutations of the features (\<open>use-save-hook.ts\<close>, \<open>use-save-tenant.ts\<close>, \<open>use-save-config.ts\<close>,
  \<open>use-upload-module.ts\<close>, \<open>use-activate-module.ts\<close>, \<open>use-issue-api-key.ts\<close>,
  \<open>use-revoke-api-key.ts\<close>): the request each sends and what its success does to the query cache; the
  agreement of every query and mutation with the routes of the mock server; and the locale of the dialogs
  that run a mutation.
\<close>

section \<open>Requests\<close>

text \<open>A mutation: its path (none when building it throws), its options, and the cache effects of its answer.\<close>

record mutation_call =
  call_path :: "jstr option"
  call_opts :: options
  call_effects :: "json option \<Rightarrow> cache_effect list"

definition json_options :: "http_method \<Rightarrow> zschema \<Rightarrow> json \<Rightarrow> options" where
  "json_options m s body = (get_options s)\<lparr>opt_method := m, opt_body := JsonValue body\<rparr>"

text \<open>\<open>mutateAsync\<close>: the request, then \<open>onSuccess\<close> with the answer.\<close>

definition run_mutation ::
  "host \<Rightarrow> 'w network \<Rightarrow> mutation_call \<Rightarrow> browser \<Rightarrow> 'w \<Rightarrow> (js_error + json option) \<times> cache_effect list \<times> browser \<times> 'w" where
  "run_mutation h net c b w =
     (case call_path c of
        None \<Rightarrow> (Inl uri_error, [], b, w)
      | Some path \<Rightarrow>
          (case api_request h net path (call_opts c) b w of
             (Inl e, b', w') \<Rightarrow> (Inl e, [], b', w')
           | (Inr v, b', w') \<Rightarrow> (Inr v, call_effects c v, b', w')))"

definition operatorHookKeys_list :: "json list" where
  "operatorHookKeys_list = operatorHookKeys_all @ key_strs [lit ''list'']"

text \<open>The saved hook replaces the cached one, and the list is read again.\<close>

definition hook_saved :: "json option \<Rightarrow> cache_effect list" where
  "hook_saved v = (case v of
     None \<Rightarrow> [] | Some j \<Rightarrow> [SetQueryData (operatorHookKeys_detail (nullish (string_field v (lit ''name'')) [])) j,
                            Invalidate operatorHookKeys_list])"

definition useCreateHook :: "json \<Rightarrow> mutation_call" where
  "useCreateHook body = \<lparr>call_path = Some (lit ''/hooks''), call_opts = json_options POST operatorHookSchema body, call_effects = hook_saved\<rparr>"

definition useReplaceHook :: "jstr \<Rightarrow> json \<Rightarrow> mutation_call" where
  "useReplaceHook name body = \<lparr>call_path = map_option ((@) (lit ''/hooks/'')) (encode_uri_component name),
     call_opts = json_options PUT operatorHookSchema body, call_effects = hook_saved\<rparr>"

definition useCreateTenant :: "json \<Rightarrow> mutation_call" where
  "useCreateTenant body = \<lparr>call_path = Some (lit ''/tenants''), call_opts = json_options POST tenantSchema body,
     call_effects = (\<lambda>_. [Invalidate tenantKeys_all])\<rparr>"

definition usePatchTenant :: "jstr \<Rightarrow> json \<Rightarrow> mutation_call" where
  "usePatchTenant externalId body = \<lparr>call_path = map_option ((@) (lit ''/tenants/'')) (encode_uri_component externalId),
     call_opts = json_options PATCH tenantSchema body, call_effects = (\<lambda>_. [Invalidate tenantKeys_all])\<rparr>"

definition hook_part :: "jstr \<Rightarrow> string \<Rightarrow> jstr option" where
  "hook_part hook part = map_option (\<lambda>u. lit ''/tenant/hooks/'' @ u @ lit part) (encode_uri_component hook)"

definition config_json :: "jstr obj \<Rightarrow> json" where
  "config_json c = JObj (map (\<lambda>(k, v). (k, JStr v)) c)"

definition useSaveConfig :: "jstr \<Rightarrow> jstr obj \<Rightarrow> mutation_call" where
  "useSaveConfig hook config = \<lparr>call_path = hook_part hook ''/binding'',
     call_opts = json_options PUT bindingSchema (JObj [(lit ''config'', config_json config)]), call_effects = (\<lambda>_. [Invalidate hookKeys_all])\<rparr>"

definition useUploadModule :: "jstr \<Rightarrow> upload_file \<Rightarrow> mutation_call" where
  "useUploadModule hook f = \<lparr>call_path = hook_part hook ''/modules'',
     call_opts = (get_options moduleSchema)\<lparr>opt_method := POST, opt_body := FormData f\<rparr>,
     call_effects = (\<lambda>_. [Invalidate (moduleKeys_byHook hook)])\<rparr>"

definition useActivateModule :: "jstr \<Rightarrow> jstr \<Rightarrow> mutation_call" where
  "useActivateModule hook moduleId = \<lparr>call_path = hook_part hook ''/binding'',
     call_opts = json_options PUT bindingSchema (JObj [(lit ''active_module_id'', JStr moduleId)]),
     call_effects = (\<lambda>_. [Invalidate hookKeys_all, Invalidate (moduleKeys_byHook hook)])\<rparr>"

definition useIssueApiKey :: "jstr \<Rightarrow> mutation_call" where
  "useIssueApiKey name = \<lparr>call_path = Some (lit ''/api-keys''),
     call_opts = json_options POST apiKeyCreatedSchema (JObj [(lit ''name'', JStr name)]), call_effects = (\<lambda>_. [Invalidate apiKeyKeys_all])\<rparr>"

definition useRevokeApiKey :: "jstr \<Rightarrow> mutation_call" where
  "useRevokeApiKey keyId = \<lparr>call_path = map_option ((@) (lit ''/api-keys/'')) (encode_uri_component keyId),
     call_opts = (get_options ZUndefined)\<lparr>opt_method := DELETE\<rparr>, call_effects = (\<lambda>_. [Invalidate apiKeyKeys_all])\<rparr>"

section \<open>Requests and routes agree\<close>

definition readable :: "jstr \<Rightarrow> bool" where
  "readable u \<longleftrightarrow> u \<noteq> [] \<and> decode_uri_component u \<noteq> None"

context path_matcher
begin

lemma matches_readable: "list_all readable us \<Longrightarrow> matches ps us = match_parts ps us"
proof (induction ps us rule: match_parts.induct)
  case (2 p ps)
  then show ?case by (cases p) (simp_all add: match_Seg match_Param_empty)
next
  case (4 ps u us)
  then show ?case by (auto simp: readable_def match_Param)
qed (simp_all add: match_Nil match_Seg)

end

text \<open>A request to a path with these options is carried out by the handler of the endpoint.\<close>

definition served_by ::
  "(path_part list \<Rightarrow> jstr list \<Rightarrow> jstr list option) \<Rightarrow> jstr option \<Rightarrow> options \<Rightarrow> endpoint \<Rightarrow> bool" where
  "served_by matches path opts p \<longleftrightarrow>
     (\<forall>q h b req. path = Some q \<longrightarrow> build_request h q opts b = Inr req \<longrightarrow> match_route matches handlers req = Some p)"

lemma readable_uri: "encode_uri_component s = Some u \<Longrightarrow> s \<noteq> [] \<Longrightarrow> readable u"
  by (simp add: readable_def uri_nonempty uri_roundtrip)

lemma readable_lits [simp]:
  "readable (lit ''api'')" "readable (lit ''v1'')" "readable (lit ''tenants'')" "readable (lit ''hooks'')"
  "readable (lit ''tenant'')" "readable (lit ''modules'')" "readable (lit ''binding'')" "readable (lit ''api-keys'')"
  "readable (lit ''invocations'')"
  by (simp_all add: readable_def lit_def decode_plain)

lemma match_route_eq:
  assumes "path_matcher matches" "list_all readable (url_path (req_url req))"
  shows "match_route matches rs req = match_route match_parts rs req"
proof -
  have "matches ps (url_path (req_url req)) = match_parts ps (url_path (req_url req))" for ps
    using path_matcher.matches_readable [OF assms] .
  then show ?thesis by (simp add: match_route_def split: option.split prod.split)
qed

lemma served_byI:
  assumes "path_matcher matches"
    "\<And>q. path = Some q \<Longrightarrow> \<exists>us. api_base_url @ q = path_of us \<and> (\<forall>s \<in> set us. plain_part s) \<and> list_all readable us
       \<and> (\<forall>req. req_method req = opt_method opts \<longrightarrow> url_path (req_url req) = us \<longrightarrow> match_route match_parts handlers req = Some p)"
  shows "served_by matches path opts p"
  unfolding served_by_def
proof (intro allI impI)
  fix q h b req
  assume q: "path = Some q" and req: "build_request h q opts b = Inr req"
  obtain us where us: "api_base_url @ q = path_of us" "\<forall>s \<in> set us. plain_part s" "list_all readable us"
    "\<forall>req. req_method req = opt_method opts \<longrightarrow> url_path (req_url req) = us \<longrightarrow> match_route match_parts handlers req = Some p"
    using assms(2) [OF q] by blast
  have path: "url_path (req_url req) = us"
    using build_request_frame(2) [OF req] us(1,2) url_segments_path [of us] by (simp add: api_url_def)
  show "match_route matches handlers req = Some p"
    using match_route_eq [OF assms(1), of req] us(3,4) path build_request_frame(1) [OF req] by simp
qed

lemmas route_defs = match_route_def handlers_def operator_hook_routes_def tenant_routes_def console_session_routes_def
  key_routes_def tenant_api_routes_def invocation_routes_def segs_def

lemma served_literal:
  assumes "path_matcher matches" "api_base_url @ q = path_of (map lit ss)" "list_all (\<lambda>s. plain_part (lit s) \<and> readable (lit s)) ss"
    "\<And>req. req_method req = opt_method opts \<Longrightarrow> url_path (req_url req) = map lit ss \<Longrightarrow> match_route match_parts handlers req = Some p"
  shows "served_by matches (Some q) opts p"
  by (rule served_byI [OF assms(1)], rule exI [of _ "map lit ss"]) (use assms in \<open>auto simp: list_all_iff\<close>)

lemma served_param:
  assumes "path_matcher matches" "path = map_option q (encode_uri_component s)"
    "s \<notin> {[], lit ''.'', lit ''..''}" "\<And>u. api_base_url @ q u = path_of (map lit pre @ u # map lit post)"
    "list_all (\<lambda>s. plain_part (lit s) \<and> readable (lit s)) (pre @ post)"
    "\<And>req u. req_method req = opt_method opts \<Longrightarrow> u \<noteq> [] \<Longrightarrow> decode_uri_component u = Some s \<Longrightarrow>
       url_path (req_url req) = map lit pre @ u # map lit post \<Longrightarrow> match_route match_parts handlers req = Some p"
  shows "served_by matches path opts p"
proof (rule served_byI [OF assms(1)])
  fix r assume "path = Some r"
  then obtain u where u: "encode_uri_component s = Some u" "r = q u" using assms(2) by auto
  have "plain_part u" "readable u" "u \<noteq> []" "decode_uri_component u = Some s"
    using plain_uri [OF u(1)] readable_uri [OF u(1)] uri_nonempty [OF u(1)] uri_roundtrip [OF u(1)] assms(3) by auto
  then show "\<exists>us. api_base_url @ r = path_of us \<and> (\<forall>s \<in> set us. plain_part s) \<and> list_all readable us
      \<and> (\<forall>req. req_method req = opt_method opts \<longrightarrow> url_path (req_url req) = us \<longrightarrow> match_route match_parts handlers req = Some p)"
    using assms(4,5,6) by (intro exI [of _ "map lit pre @ u # map lit post"]) (auto simp: u(2) list_all_iff)
qed

lemma path_lits:
  "lit ''/hooks'' = 47 # lit ''hooks''" "lit ''/tenants'' = 47 # lit ''tenants''" "lit ''/api-keys'' = 47 # lit ''api-keys''"
  "lit ''/tenant/hooks'' = 47 # lit ''tenant'' @ 47 # lit ''hooks''"
  "lit ''/tenant/invocations'' = 47 # lit ''tenant'' @ 47 # lit ''invocations''"
  "lit ''/hooks/'' = 47 # lit ''hooks'' @ [47]" "lit ''/tenants/'' = 47 # lit ''tenants'' @ [47]"
  "lit ''/api-keys/'' = 47 # lit ''api-keys'' @ [47]" "lit ''/tenant/hooks/'' = 47 # lit ''tenant'' @ 47 # lit ''hooks'' @ [47]"
  "lit ''/modules'' = 47 # lit ''modules''" "lit ''/binding'' = 47 # lit ''binding''"
  "lit ''/console-sessions'' = 47 # lit ''console-sessions''"
  by (simp_all add: lit_def)

lemma base_path: "api_base_url = 47 # lit ''api'' @ 47 # lit ''v1''"
  by (simp add: api_base_url_def lit_def)

lemmas literal_call_defs = operatorHookQueries_list_def tenantQueries_list_def apiKeyQueries_list_def hookQueries_list_def
  invocationQueries_list_def useCreateHook_def useCreateTenant_def useIssueApiKey_def get_options_def json_options_def

lemmas param_call_defs = operatorHookQueries_detail_def hookQueries_detail_def moduleQueries_byHook_def useReplaceHook_def
  usePatchTenant_def useSaveConfig_def useActivateModule_def useUploadModule_def useRevokeApiKey_def hook_part_def
  get_options_def json_options_def

lemma literal_routes:
  assumes m: "path_matcher matches"
  shows "served_by matches (query_path operatorHookQueries_list) (query_opts operatorHookQueries_list) GetHooks"
    "served_by matches (query_path tenantQueries_list) (query_opts tenantQueries_list) GetTenants"
    "served_by matches (query_path apiKeyQueries_list) (query_opts apiKeyQueries_list) GetKeys"
    "served_by matches (query_path hookQueries_list) (query_opts hookQueries_list) GetTenantHooks"
    "served_by matches (query_path (invocationQueries_list f)) (query_opts (invocationQueries_list f)) GetInvocations"
    "served_by matches (call_path (useCreateHook body)) (call_opts (useCreateHook body)) PostHook"
    "served_by matches (call_path (useCreateTenant body)) (call_opts (useCreateTenant body)) PostTenant"
    "served_by matches (call_path (useIssueApiKey name)) (call_opts (useIssueApiKey name)) PostKey"
  unfolding literal_call_defs query.select_convs mutation_call.select_convs
  by (rule served_literal [OF m, of _ "[''api'', ''v1'', ''hooks'']"] served_literal [OF m, of _ "[''api'', ''v1'', ''tenants'']"]
      served_literal [OF m, of _ "[''api'', ''v1'', ''api-keys'']"] served_literal [OF m, of _ "[''api'', ''v1'', ''tenant'', ''hooks'']"]
      served_literal [OF m, of _ "[''api'', ''v1'', ''tenant'', ''invocations'']"];
      simp add: base_path path_lits route_defs; fail)+

lemma param_routes:
  assumes m: "path_matcher matches" and s: "s \<notin> {[], lit ''.'', lit ''..''}"
  shows "served_by matches (query_path (operatorHookQueries_detail s)) (query_opts (operatorHookQueries_detail s)) (GetHook s)"
    "served_by matches (call_path (useReplaceHook s body)) (call_opts (useReplaceHook s body)) (PutHook s)"
    "served_by matches (call_path (usePatchTenant s body)) (call_opts (usePatchTenant s body)) (PatchTenant s)"
    "served_by matches (call_path (useRevokeApiKey s)) (call_opts (useRevokeApiKey s)) (DeleteKey s)"
    "served_by matches (query_path (hookQueries_detail s)) (query_opts (hookQueries_detail s)) (GetTenantHook s)"
    "served_by matches (query_path (moduleQueries_byHook s)) (query_opts (moduleQueries_byHook s)) (GetModules s)"
    "served_by matches (call_path (useSaveConfig s c)) (call_opts (useSaveConfig s c)) (PutBinding s)"
    "served_by matches (call_path (useActivateModule s i)) (call_opts (useActivateModule s i)) (PutBinding s)"
    "served_by matches (call_path (useUploadModule s file0)) (call_opts (useUploadModule s file0)) (PostModule s)"
  unfolding param_call_defs query.select_convs mutation_call.select_convs
  by (rule served_param [OF m refl s, of _ "[''api'', ''v1'', ''hooks'']" "[]"] served_param [OF m refl s, of _ "[''api'', ''v1'', ''tenants'']" "[]"]
      served_param [OF m refl s, of _ "[''api'', ''v1'', ''api-keys'']" "[]"] served_param [OF m refl s, of _ "[''api'', ''v1'', ''tenant'', ''hooks'']" "[]"]
      served_param [OF m refl s, of _ "[''api'', ''v1'', ''tenant'', ''hooks'']" "[''modules'']"]
      served_param [OF m refl s, of _ "[''api'', ''v1'', ''tenant'', ''hooks'']" "[''binding'']"];
      simp add: base_path path_lits route_defs; fail)+

section \<open>A mutation while it runs\<close>

text \<open>
  After the answer of a success the mutation stays pending until its \<open>onSuccess\<close> (the refreshing of the
  queries) is done; \<open>succeeded\<close> holds that answer.
\<close>

record mutation_state =
  mut :: "json option mutation"
  succeeded :: "json option option"

definition mut_idle :: mutation_state where
  "mut_idle = \<lparr>mut = MIdle, succeeded = None\<rparr>"

definition mut_sent :: mutation_state where
  "mut_sent = \<lparr>mut = MPending, succeeded = None\<rparr>"

definition mut_answer :: "js_error + json option \<Rightarrow> mutation_state" where
  "mut_answer r = (case r of Inl e \<Rightarrow> \<lparr>mut = MFailed e, succeeded = None\<rparr> | Inr v \<Rightarrow> \<lparr>mut = MPending, succeeded = Some v\<rparr>)"

definition mut_refreshed :: "mutation_state \<Rightarrow> mutation_state" where
  "mut_refreshed m = (case succeeded m of None \<Rightarrow> m | Some v \<Rightarrow> \<lparr>mut = MDone v, succeeded = None\<rparr>)"

definition awaits :: "mutation_state \<Rightarrow> bool" where
  "awaits m \<longleftrightarrow> is_pending (mut m) \<and> succeeded m = None"

definition refreshes :: "mutation_state \<Rightarrow> bool" where
  "refreshes m \<longleftrightarrow> succeeded m \<noteq> None"

lemma mutation_state_simps [simp]:
  "mut mut_idle = MIdle" "succeeded mut_idle = None" "mut mut_sent = MPending" "succeeded mut_sent = None"
  "\<not> awaits mut_idle" "awaits mut_sent" "\<not> awaits (mut_answer r)" "\<not> refreshes mut_idle" "\<not> refreshes mut_sent"
  "\<not> refreshes (mut_refreshed m)" "awaits (mut_refreshed m) = awaits m"
  "mut (mut_answer (Inl e)) = MFailed e" "mut (mut_answer (Inr v)) = MPending"
  by (auto simp: mut_idle_def mut_sent_def awaits_def refreshes_def mut_answer_def mut_refreshed_def split: sum.splits option.splits)

lemma awaits_pending: "awaits m \<Longrightarrow> is_pending (mut m)"
  by (simp add: awaits_def)

section \<open>Dialogs that run a mutation\<close>

text \<open>Runs of a component: the events that can come one after the other, the state they lead to, the requests they start.\<close>

fun legal_run :: "('e \<Rightarrow> 's \<Rightarrow> 's \<times> 'c list) \<Rightarrow> ('s \<Rightarrow> 'e \<Rightarrow> bool) \<Rightarrow> 'e list \<Rightarrow> 's \<Rightarrow> bool" where
  "legal_run step offered [] s \<longleftrightarrow> True"
| "legal_run step offered (e # es) s \<longleftrightarrow> offered s e \<and> legal_run step offered es (fst (step e s))"

fun run_events :: "('e \<Rightarrow> 's \<Rightarrow> 's \<times> 'c list) \<Rightarrow> 'e list \<Rightarrow> 's \<Rightarrow> 's" where
  "run_events step [] s = s"
| "run_events step (e # es) s = run_events step es (fst (step e s))"

fun calls_of :: "('e \<Rightarrow> 's \<Rightarrow> 's \<times> 'c list) \<Rightarrow> 'e list \<Rightarrow> 's \<Rightarrow> 'c list" where
  "calls_of step [] s = []"
| "calls_of step (e # es) s = snd (step e s) @ calls_of step es (fst (step e s))"

text \<open>The answers among the events of a run.\<close>

definition answers_in :: "('r \<Rightarrow> 'e) \<Rightarrow> 'e list \<Rightarrow> nat" where
  "answers_in answer es = length (filter (\<lambda>e. \<exists>r. e = answer r) es)"

lemma answers_in_simps [simp]:
  "answers_in answer [] = 0" "answers_in answer (e # es) = (if \<exists>r. e = answer r then Suc (answers_in answer es) else answers_in answer es)"
  by (simp_all add: answers_in_def)

lemma run_invariant:
  assumes "\<And>s e. P s \<Longrightarrow> offered s e \<Longrightarrow> Q e \<Longrightarrow> P (fst (step e s))"
  shows "legal_run step offered es s \<Longrightarrow> list_all Q es \<Longrightarrow> P s \<Longrightarrow> P (run_events step es s)"
  by (induction es arbitrary: s) (simp_all add: assms)

text \<open>
  What every dialog promises: events come from its controls (\<open>offered\<close>), in its good states a request starts
  only when none is under way, its answer ends the wait, and meanwhile the dialog cannot be closed.
\<close>

locale mutation_dialog =
  fixes step :: "'e \<Rightarrow> 's \<Rightarrow> 's \<times> mutation_call list"
    and offered :: "'s \<Rightarrow> 'e \<Rightarrow> bool"
    and good :: "'s \<Rightarrow> bool"
    and answer :: "js_error + json option \<Rightarrow> 'e"
    and waiting :: "'s \<Rightarrow> bool"
    and opened :: "'s \<Rightarrow> bool"
  assumes stays_good: "good s \<Longrightarrow> offered s e \<Longrightarrow> good (fst (step e s))"
    and starts: "good s \<Longrightarrow> offered s e \<Longrightarrow> snd (step e s) \<noteq> [] \<Longrightarrow>
      \<not> waiting s \<and> length (snd (step e s)) = 1 \<and> waiting (fst (step e s))"
    and waits: "good s \<Longrightarrow> offered s e \<Longrightarrow> waiting s \<Longrightarrow> (\<forall>r. e \<noteq> answer r) \<Longrightarrow>
      waiting (fst (step e s)) \<and> opened (fst (step e s)) = opened s"
    and idle: "good s \<Longrightarrow> offered s e \<Longrightarrow> \<not> waiting s \<Longrightarrow> snd (step e s) = [] \<Longrightarrow> \<not> waiting (fst (step e s))"
    and answered: "offered s (answer r) \<longleftrightarrow> waiting s" "\<not> waiting (fst (step (answer r) s))" "snd (step (answer r) s) = []"
begin

text \<open>At most one request is under way, and it is under way exactly while the dialog waits.\<close>

lemma one_flight:
  "good s \<Longrightarrow> legal_run step offered es s \<Longrightarrow>
     length (calls_of step es s) + (if waiting s then 1 else 0) = answers_in answer es + (if waiting (run_events step es s) then 1 else 0)"
proof (induction es arbitrary: s)
  case (Cons e es)
  have off: "offered s e" and leg: "legal_run step offered es (fst (step e s))" using Cons.prems by simp_all
  note IH = Cons.IH [OF stays_good [OF Cons.prems(1) off] leg] and laws = starts [OF Cons.prems(1) off] waits [OF Cons.prems(1) off] idle [OF Cons.prems(1) off]
  show ?case
  proof (cases "\<exists>r. e = answer r")
    case True
    then show ?thesis using IH answered off by auto
  next
    case False
    then show ?thesis using IH laws by (cases "snd (step e s) = []") auto
  qed
qed simp

text \<open>Until the answer arrives, nothing opens or closes a waiting dialog.\<close>

lemma stays_open:
  "good s \<Longrightarrow> legal_run step offered es s \<Longrightarrow> waiting s \<Longrightarrow> answers_in answer es = 0 \<Longrightarrow>
     waiting (run_events step es s) \<and> opened (run_events step es s) = opened s \<and> calls_of step es s = []"
proof (induction es arbitrary: s)
  case (Cons e es)
  have e: "offered s e" "\<forall>r. e \<noteq> answer r" and es: "legal_run step offered es (fst (step e s))" "answers_in answer es = 0"
    using Cons.prems by (simp_all split: if_splits)
  then show ?case
    using Cons.IH [OF stays_good [OF Cons.prems(1) e(1)] es(1) _ es(2)] waits [OF Cons.prems(1) e(1) Cons.prems(3) e(2)]
      starts [OF Cons.prems(1) e(1)] Cons.prems(3) by auto
qed simp

lemma run_good: "good s \<Longrightarrow> legal_run step offered es s \<Longrightarrow> good (run_events step es s)"
  by (induction es arbitrary: s) (simp_all add: stays_good)

end

end
