(* ===== verification/Key_Dialogs.thy ===== *)
theory Key_Dialogs
  imports Mutations
begin

text \<open>
  The dialogs of API keys: \<open>features/issue-api-key\<close> and \<open>features/revoke-api-key\<close>. Each is a state, a
  step function on its events, and what it renders; both are mutation dialogs.
\<close>

section \<open>Dialogs\<close>

text \<open>The dialog component: its content exists only while it is open.\<close>

definition dialog :: "bool \<Rightarrow> (bool \<Rightarrow> 'e) \<Rightarrow> 'e ui list \<Rightarrow> 'e ui list \<Rightarrow> 'e ui list" where
  "dialog is_open change trigger content =
     map (\<lambda>t. El ''DialogTrigger'' [(''onClick'', PAct (change True))] [t]) trigger
     @ whenever is_open [El ''DialogContent'' [(''onDismiss'', PAct (change False))] content]"

definition dialog_close :: "bool \<Rightarrow> (bool \<Rightarrow> 'e) \<Rightarrow> jstr \<Rightarrow> 'e ui" where
  "dialog_close disabled change t = button disabled [(''onClick'', PAct (change False))] t"

lemma dialog_actions:
  "actions_of (dialog b change trigger content) =
     concat (map (\<lambda>t. change True # ui_actions t) trigger) @ (if b then change False # actions_of content else [])"
  by (induction trigger) (simp_all add: dialog_def actions_of_def)

lemma dialog_close_actions [simp]: "ui_actions (dialog_close d change t) = (if d then [] else [change False])"
  by (simp add: dialog_close_def)

section \<open>Issuing a key (\<open>issue-api-key-dialog.tsx\<close>)\<close>

record issue_state =
  is_open :: bool
  is_name :: jstr
  is_field_error :: "jstr option"
  is_mutation :: mutation_state
  is_copied :: "bool option"

datatype issue_event = IsChangeOpen bool | IsName jstr | IsSubmit | IsAnswer "js_error + json option" | IsRefreshed
  | IsCopy | IsCopyDone bool

definition nameError :: "jstr \<Rightarrow> jstr option" where
  "nameError name =
     (if name = [] then Some (ru ''Ukavite imq kl@~a'')
      else if KEY_NAME_MAX < length name then Some (no_longer_text KEY_NAME_MAX) else None)"

definition issue_init :: issue_state where
  "issue_init = \<lparr>is_open = False, is_name = [], is_field_error = None, is_mutation = mut_idle, is_copied = None\<rparr>"

definition issue_pending :: "issue_state \<Rightarrow> bool" where
  "issue_pending s \<longleftrightarrow> is_pending (mut (is_mutation s))"

definition issue_change_open :: "bool \<Rightarrow> issue_state \<Rightarrow> issue_state" where
  "issue_change_open next s =
     (if issue_pending s then s
      else (if next then s\<lparr>is_name := [], is_field_error := None, is_mutation := mut_idle\<rparr> else s)\<lparr>is_open := next, is_copied := None\<rparr>)"

definition issue_submit :: "issue_state \<Rightarrow> issue_state \<times> mutation_call list" where
  "issue_submit s =
     (let trimmed = js_trim (is_name s); invalid = nameError trimmed; s' = s\<lparr>is_field_error := invalid\<rparr> in
      if invalid \<noteq> None then (s', [])
      else (s'\<lparr>is_mutation := mut_sent\<rparr>, [useIssueApiKey trimmed]))"

definition issue_answer :: "js_error + json option \<Rightarrow> issue_state \<Rightarrow> issue_state" where
  "issue_answer r s =
     (let s' = s\<lparr>is_mutation := mut_answer r\<rparr> in
      case r of
        Inl e \<Rightarrow> if is_status 409 e then s'\<lparr>is_field_error := Some (error_message e)\<rparr> else s'
      | Inr _ \<Rightarrow> s')"

definition issue_step :: "issue_event \<Rightarrow> issue_state \<Rightarrow> issue_state \<times> mutation_call list" where
  "issue_step e s =
     (case e of
        IsChangeOpen b \<Rightarrow> (issue_change_open b s, [])
      | IsName n \<Rightarrow> (s\<lparr>is_name := n, is_field_error := None\<rparr>, [])
      | IsSubmit \<Rightarrow> issue_submit s
      | IsAnswer r \<Rightarrow> (issue_answer r s, [])
      | IsRefreshed \<Rightarrow> (s\<lparr>is_mutation := mut_refreshed (is_mutation s)\<rparr>, [])
      | IsCopy \<Rightarrow> (s, [])
      | IsCopyDone ok \<Rightarrow> (s\<lparr>is_copied := Some ok\<rparr>, []))"

text \<open>The issued key: the answer's name and token.\<close>

definition issued_field :: "json option \<Rightarrow> string \<Rightarrow> jstr" where
  "issued_field v k = nullish (string_field v (lit k)) []"

definition IssuedToken :: "json option \<Rightarrow> bool option \<Rightarrow> issue_event ui list" where
  "IssuedToken issued copied =
     [text_el ''DialogTitle'' ((ru ''Kl@~ '') @ issued_field issued ''name'' @ (ru '' wypu]en'')),
      text_el ''p'' (ru ''Skopirujte token sej~as: bolx[e ego ne pokavut. Esli on poterqetsq, wypustite nowyj kl@~, a |tot otzowite.''),
      El ''code'' [(''aria-label'', PStr (ru ''Token kl@~a''))] [Txt (issued_field issued ''token'')],
      button False [(''onClick'', PAct IsCopy)] (if copied = Some True then (ru ''Skopirowano'') else (ru ''Skopirowatx''))]
     @ whenever (copied = Some False) [alert_p (ru ''Ne udalosx skopirowatx. Wydelite token i skopirujte wru~nu@.'')]
     @ [dialog_close False IsChangeOpen (ru ''Gotowo'')]"

definition issue_conflict :: "issue_state \<Rightarrow> bool" where
  "issue_conflict s \<longleftrightarrow> (case mutation_error (mut (is_mutation s)) of Some e \<Rightarrow> is_status 409 e | None \<Rightarrow> False)"

definition issue_form :: "issue_state \<Rightarrow> issue_event ui list" where
  "issue_form s =
     [text_el ''DialogTitle'' (ru ''Nowyj kl@~ ustanowki''),
      text_el ''DialogDescription'' (ru ''Kl@~ da#t polnyj dostup k '' @ lit ''API '' @ ru ''operatora i k wyzowam hukow. Token pokavem odin raz.''),
      text_el ''Label'' (ru ''Imq kl@~a''),
      El ''Input'' [(''value'', PStr (is_name s)), (''aria-invalid'', PBool (is_field_error s \<noteq> None))] [],
      text_el ''p'' (nullish (is_field_error s) (ru ''Naprimer '' @ lit ''shop-backend: '' @ ru ''po imeni widno, gde kl@~ ispolxzuetsq.''))]
     @ (case mutation_error (mut (is_mutation s)) of
          Some e \<Rightarrow> whenever (\<not> issue_conflict s) [alert_p (describe_error e)] | None \<Rightarrow> [])
     @ [dialog_close (issue_pending s) IsChangeOpen (ru ''Otmena''),
        button (issue_pending s) [(''onSubmit'', PAct IsSubmit)] (if issue_pending s then (ru ''Wypuskaem'' @ [0x2026]) else (ru ''Wypustitx''))]"

definition IssueApiKeyDialog :: "issue_state \<Rightarrow> issue_event ui list" where
  "IssueApiKeyDialog s = dialog (is_open s) IsChangeOpen [button False [] (ru ''Wypustitx kl@~'')]
     (case mut (is_mutation s) of MDone v \<Rightarrow> IssuedToken v (is_copied s) | _ \<Rightarrow> issue_form s)"

text \<open>The events that can occur: the controls shown, typing while the form is shown, the answer that is awaited.\<close>

definition issue_offered :: "issue_state \<Rightarrow> issue_event \<Rightarrow> bool" where
  "issue_offered s e \<longleftrightarrow>
     (case e of
        IsAnswer r \<Rightarrow> awaits (is_mutation s)
      | IsRefreshed \<Rightarrow> refreshes (is_mutation s)
      | IsName n \<Rightarrow> is_open s \<and> (\<forall>v. mut (is_mutation s) \<noteq> MDone v)
      | IsCopyDone ok \<Rightarrow> is_open s \<and> (\<exists>v. mut (is_mutation s) = MDone v)
      | _ \<Rightarrow> e \<in> set (actions_of (IssueApiKeyDialog s)))"

lemma issue_actions:
  "set (actions_of (IssueApiKeyDialog s)) = insert (IsChangeOpen True) (if is_open s then insert (IsChangeOpen False)
     (case mut (is_mutation s) of MDone v \<Rightarrow> {IsCopy} | _ \<Rightarrow> if issue_pending s then {} else {IsSubmit}) else {})"
  by (auto simp: IssueApiKeyDialog_def dialog_actions IssuedToken_def issue_form_def whenever_def issue_pending_def
      split: mutation.split option.split)

lemma awaits_cases: "awaits m \<longleftrightarrow> mut m = MPending \<and> succeeded m = None"
  by (auto simp: awaits_def is_pending_def split: mutation.splits)

interpretation issue: mutation_dialog issue_step issue_offered "\<lambda>_. True" IsAnswer "\<lambda>s. awaits (is_mutation s)" is_open
proof (unfold_locales, goal_cases)
  case (2 s e)
  then show ?case
    by (cases e) (auto simp: issue_step_def issue_submit_def issue_offered_def issue_actions issue_pending_def Let_def
        awaits_cases split: if_splits mutation.splits)
next
  case (3 s e)
  then show ?case
    by (cases e) (auto simp: issue_step_def issue_submit_def issue_offered_def issue_actions issue_pending_def issue_change_open_def Let_def
        awaits_cases refreshes_def split: if_splits)
next
  case (4 s e)
  then show ?case
    by (cases e) (auto simp: issue_step_def issue_submit_def issue_offered_def issue_change_open_def Let_def split: if_splits)
qed (auto simp: issue_offered_def issue_step_def issue_answer_def Let_def split: sum.splits)

section \<open>Lemmas of the issue dialog\<close>

text \<open>The form accepts the names the control plane accepts.\<close>

lemma nameError_iff: "nameError n = None \<longleftrightarrow> key_name_ok n"
  by (cases n) (auto simp: nameError_def key_name_ok_def)

lemma nameError_keyError:
  "nameError n = None \<longleftrightarrow> keyError e (JObj [(lit ''name'', JStr n)]) = Inr None"
  by (cases n) (auto simp: nameError_def keyError_def field_check_def body_get_def obj_get_def required_text_def)

text \<open>A token is shown only by the dialog run that issued it: opening the dialog again shows the form.\<close>

lemma code_shown:
  "''code'' \<in> set (tags_of (IssueApiKeyDialog s)) \<longleftrightarrow> is_open s \<and> (\<exists>v. mut (is_mutation s) = MDone v)"
  by (auto simp: IssueApiKeyDialog_def dialog_def IssuedToken_def issue_form_def dialog_close_def whenever_def
      split: mutation.split option.split)

lemma reopened_form: "\<not> issue_pending s \<Longrightarrow> ''code'' \<notin> set (tags_of (IssueApiKeyDialog (issue_change_open True s)))"
  by (simp add: code_shown issue_change_open_def)

section \<open>Revoking a key (\<open>revoke-api-key-dialog.tsx\<close>)\<close>

record revoke_state =
  rv_open :: bool
  rv_mutation :: mutation_state

datatype revoke_event = RvChangeOpen bool | RvConfirm | RvAnswer "js_error + json option" | RvRefreshed

definition revoke_pending :: "revoke_state \<Rightarrow> bool" where
  "revoke_pending s \<longleftrightarrow> is_pending (mut (rv_mutation s))"

definition revoke_change_open :: "bool \<Rightarrow> revoke_state \<Rightarrow> revoke_state" where
  "revoke_change_open next s =
     (if revoke_pending s then s else (if next then s else s\<lparr>rv_mutation := mut_idle\<rparr>)\<lparr>rv_open := next\<rparr>)"

text \<open>Success closes the dialog before the key list is read again.\<close>

definition revoke_answer :: "js_error + json option \<Rightarrow> revoke_state \<Rightarrow> revoke_state" where
  "revoke_answer r s =
     (case r of Inl e \<Rightarrow> s\<lparr>rv_mutation := mut_answer r\<rparr> | Inr _ \<Rightarrow> s\<lparr>rv_mutation := mut_answer r, rv_open := False\<rparr>)"

definition revoke_step :: "api_key \<Rightarrow> revoke_event \<Rightarrow> revoke_state \<Rightarrow> revoke_state \<times> mutation_call list" where
  "revoke_step k e s =
     (case e of
        RvChangeOpen b \<Rightarrow> (revoke_change_open b s, [])
      | RvConfirm \<Rightarrow> (s\<lparr>rv_mutation := mut_sent\<rparr>, [useRevokeApiKey (key_id k)])
      | RvAnswer r \<Rightarrow> (revoke_answer r s, [])
      | RvRefreshed \<Rightarrow> (s\<lparr>rv_mutation := mut_refreshed (rv_mutation s)\<rparr>, []))"

definition RevokeApiKeyDialog :: "api_key \<Rightarrow> revoke_state \<Rightarrow> revoke_event ui list" where
  "RevokeApiKeyDialog k s = dialog (rv_open s) RvChangeOpen
     [button False [(''aria-label'', PStr ((ru ''Otozwatx '') @ key_name k))] (ru ''Otozwatx'')]
     ([text_el ''DialogTitle'' ((ru ''Otozwatx kl@~ '') @ key_name k @ lit ''?''),
       text_el ''p'' (ru ''Zaprosy s |tim kl@~om srazu na~nut polu~atx 401: i k '' @ lit ''API '' @ ru ''operatora, i wyzowy hukow ~erez '' @ lit ''data plane. '' @ ru ''Wernutx kl@~ nelxzq, tolxko wypustitx nowyj.''),
       text_el ''p'' (ru ''Esli wy wo[li w konsolx |tim kl@~om, konsolx poprosit wojti zanowo.'')]
      @ (case mutation_error (mut (rv_mutation s)) of Some e \<Rightarrow> [alert_p (describe_error e)] | None \<Rightarrow> [])
      @ [dialog_close (revoke_pending s) RvChangeOpen (ru ''Otmena''),
         button (revoke_pending s) [(''onClick'', PAct RvConfirm)] (if revoke_pending s then (ru ''Otzywaem'' @ [0x2026]) else (ru ''Otozwatx''))])"

definition revoke_offered :: "api_key \<Rightarrow> revoke_state \<Rightarrow> revoke_event \<Rightarrow> bool" where
  "revoke_offered k s e \<longleftrightarrow>
     (case e of
        RvAnswer r \<Rightarrow> awaits (rv_mutation s)
      | RvRefreshed \<Rightarrow> refreshes (rv_mutation s)
      | _ \<Rightarrow> e \<in> set (actions_of (RevokeApiKeyDialog k s)))"

lemma revoke_actions:
  "set (actions_of (RevokeApiKeyDialog k s)) = insert (RvChangeOpen True)
     (if rv_open s then insert (RvChangeOpen False) (if revoke_pending s then {} else {RvConfirm}) else {})"
  by (auto simp: RevokeApiKeyDialog_def dialog_actions split: option.split)

interpretation revoke: mutation_dialog "revoke_step k" "revoke_offered k" "\<lambda>_. True" RvAnswer "\<lambda>s. awaits (rv_mutation s)" rv_open for k
proof (unfold_locales, goal_cases)
  case (2 s e)
  then show ?case
    by (cases e) (auto simp: revoke_step_def revoke_offered_def revoke_actions revoke_pending_def awaits_cases split: if_splits)
next
  case (3 s e)
  then show ?case
    by (cases e) (auto simp: revoke_step_def revoke_offered_def revoke_actions revoke_pending_def revoke_change_open_def
        awaits_cases refreshes_def split: if_splits)
next
  case (4 s e)
  then show ?case
    by (cases e) (auto simp: revoke_step_def revoke_offered_def revoke_change_open_def split: if_splits)
qed (auto simp: revoke_offered_def revoke_step_def revoke_answer_def split: sum.splits)

end
