(* ===== verification/Module_Dialogs.thy ===== *)
theory Module_Dialogs
  imports Key_Dialogs
begin

text \<open>
  \<open>features/upload-module\<close> (the check of a chosen file, the dialog with its three steps, the outcome of a
  failed upload) and \<open>features/activate-module\<close>.
\<close>

section \<open>The check of a file (\<open>check-wasm.ts\<close>)\<close>

definition WASM_MAGIC :: "byte list" where
  "WASM_MAGIC = [0x00, 0x61, 0x73, 0x6d]"

text \<open>\<open>head[i] === byte\<close> fails past the end of a short file.\<close>

definition has_magic :: "byte list \<Rightarrow> bool" where
  "has_magic bs \<longleftrightarrow> (let h = take 4 bs in list_all (\<lambda>(b, i). i < length h \<and> h ! i = b) (zip WASM_MAGIC [0..<4]))"

definition checkWasmFile :: "upload_file \<Rightarrow> jstr option" where
  "checkWasmFile f =
     (if length (file_bytes f) = 0 then Some (ru ''Fajl pustoj'')
      else if MAX_MODULE_BYTES < length (file_bytes f) then Some (ru ''Fajl bolx[e 10 MiB: platforma takoj modulx ne primet'')
      else if \<not> has_magic (file_bytes f) then Some (ru ''^to ne '' @ lit ''WebAssembly-'' @ ru ''modulx: nuven skompilirowannyj fajl .'' @ lit ''wasm'')
      else None)"

section \<open>Outcomes (\<open>upload-outcome.ts\<close>)\<close>

definition isUploadUnconfirmed :: "js_error \<Rightarrow> bool" where
  "isUploadUnconfirmed e \<longleftrightarrow>
     (case e of ApiError s m d \<Rightarrow> if s < 400 then True else 500 \<le> s \<and> s \<noteq> 501 | _ \<Rightarrow> True)"

section \<open>The upload dialog (\<open>upload-module-dialog.tsx\<close>)\<close>

datatype upload_step_name = Pick | Picked | Unconfirmed

text \<open>\<open>up_checking\<close> holds the files whose check is under way; \<open>up_open\<close> belongs to the parent.\<close>

record upload_state =
  up_open :: bool
  up_step :: upload_step_name
  up_file :: "upload_file option"
  up_error :: "jstr option"
  up_mutation :: mutation_state
  up_checking :: "upload_file list"

datatype upload_event = UpChangeOpen bool | UpPickFile | UpChosen "upload_file option" | UpChecked upload_file | UpSubmit
  | UpAnswer "js_error + json option" | UpRefreshed | UpBack

definition upload_init :: upload_state where
  "upload_init = \<lparr>up_open = False, up_step = Pick, up_file = None, up_error = None, up_mutation = mut_idle, up_checking = []\<rparr>"

definition upload_busy :: "upload_state \<Rightarrow> bool" where
  "upload_busy s \<longleftrightarrow> is_pending (mut (up_mutation s))"

definition upload_reset :: "upload_state \<Rightarrow> upload_state" where
  "upload_reset s = s\<lparr>up_step := Pick, up_file := None, up_error := None, up_mutation := mut_idle\<rparr>"

definition upload_change_open :: "bool \<Rightarrow> upload_state \<Rightarrow> upload_state" where
  "upload_change_open next s =
     (if upload_busy s then s else (if next then s else upload_reset s)\<lparr>up_open := next\<rparr>)"

text \<open>The end of a check of \<open>f\<close>, whatever happened since the file was chosen.\<close>

definition upload_checked :: "upload_file \<Rightarrow> upload_state \<Rightarrow> upload_state" where
  "upload_checked f s =
     (let problem = checkWasmFile f in
      s\<lparr>up_file := (if problem \<noteq> None then None else Some f), up_error := problem,
        up_step := (if problem \<noteq> None then Pick else Picked), up_checking := remove1 f (up_checking s)\<rparr>)"

definition upload_submit :: "jstr \<Rightarrow> upload_state \<Rightarrow> upload_state \<times> mutation_call list" where
  "upload_submit hook s =
     (case up_file s of
        None \<Rightarrow> (s, [])
      | Some f \<Rightarrow> (s\<lparr>up_error := None, up_mutation := mut_sent\<rparr>, [useUploadModule hook f]))"

definition upload_answer :: "js_error + json option \<Rightarrow> upload_state \<Rightarrow> upload_state" where
  "upload_answer r s =
     (let s' = s\<lparr>up_mutation := mut_answer r\<rparr> in
      case r of
        Inr _ \<Rightarrow> s'
      | Inl e \<Rightarrow> if isUploadUnconfirmed e then s'\<lparr>up_step := Unconfirmed\<rparr> else s'\<lparr>up_error := Some (describe_error e)\<rparr>)"

text \<open>After the version list has been read again the dialog resets and closes.\<close>

definition upload_refreshed :: "upload_state \<Rightarrow> upload_state" where
  "upload_refreshed s = (upload_reset s)\<lparr>up_open := False\<rparr>"

definition upload_step :: "jstr \<Rightarrow> upload_event \<Rightarrow> upload_state \<Rightarrow> upload_state \<times> mutation_call list" where
  "upload_step hook e s =
     (case e of
        UpChangeOpen b \<Rightarrow> (upload_change_open b s, [])
      | UpPickFile \<Rightarrow> (s, [])
      | UpChosen None \<Rightarrow> (s, [])
      | UpChosen (Some f) \<Rightarrow> (s\<lparr>up_checking := up_checking s @ [f]\<rparr>, [])
      | UpChecked f \<Rightarrow> (upload_checked f s, [])
      | UpSubmit \<Rightarrow> upload_submit hook s
      | UpAnswer r \<Rightarrow> (upload_answer r s, [])
      | UpRefreshed \<Rightarrow> (upload_refreshed s, [])
      | UpBack \<Rightarrow> (upload_change_open False s, []))"

definition back_effects :: "jstr \<Rightarrow> cache_effect list" where
  "back_effects hook = [Invalidate (moduleKeys_byHook hook)]"

definition error_text :: "jstr option \<Rightarrow> 'e ui list" where
  "error_text e = (if truthy e then [alert_p (the e)] else [])"

definition active_hash :: "jstr option \<Rightarrow> jstr option" where
  "active_hash h = (if truthy h then Some (shortHash (the h)) else None)"

definition upload_pick :: "jstr \<Rightarrow> jstr option \<Rightarrow> upload_state \<Rightarrow> upload_event ui list" where
  "upload_pick hook active s =
     [text_el ''DialogTitle'' (ru ''Zagruzitx modulx''), text_el ''p'' ((ru ''Huk: '') @ hook),
      text_el ''p'' ((ru ''Wyberite skompilirowannyj fajl .'' @ lit ''wasm. '' @ ru ''Posle zagruzki na~n#tsq prowerka.'')
        @ (if truthy active then (ru '' Teku]aq wersiq '') @ the active @ (ru '' prodolvit rabotatx.'') else []))]
     @ error_text (up_error s)
     @ [dialog_close False UpChangeOpen (ru ''Otmena''), button False [(''onClick'', PAct UpPickFile)] (ru ''Wybratx fajl'')]"

definition upload_picked :: "jstr \<Rightarrow> jstr option \<Rightarrow> upload_file \<Rightarrow> upload_state \<Rightarrow> upload_event ui list" where
  "upload_picked hook active f s =
     [text_el ''DialogTitle'' (ru ''Fajl wybran''), text_el ''p'' ((ru ''Huk: '') @ hook), text_el ''p'' ((ru ''Fajl: '') @ file_name f),
      text_el ''p'' ((ru ''Posle zagruzki na~n#tsq prowerka.'')
        @ (if truthy active then (ru '' Wersiq '') @ the active @ (ru '' prodolvit rabotatx do wa[ej komandy aktiwacii.'') else []))]
     @ error_text (up_error s)
     @ [button (upload_busy s) [(''onClick'', PAct (UpChangeOpen False))] (ru ''Otmena''),
        if truthy (up_error s) then button False [(''onClick'', PAct UpPickFile)] (ru ''Wybratx drugoj fajl'')
        else button (upload_busy s) [(''onClick'', PAct UpSubmit)] (if upload_busy s then (ru ''Zagruzka'' @ [0x2026]) else (ru ''Zagruzitx i proweritx''))]"

definition upload_unconfirmed :: "upload_event ui list" where
  "upload_unconfirmed =
     [text_el ''DialogTitle'' (ru ''Ne udalosx podtwerditx zagruzku''),
      text_el ''p'' (ru ''Otwet serwera ne polu~en. Fajl mog zagruzitxsq '' @ [0x2014] @ ru '' prowerxte spisok wersij pered powtornoj popytkoj.''),
      text_el ''p'' (ru ''Aktiwnaq wersiq ne izmenilasx.''), button False [(''onClick'', PAct UpBack)] (ru ''K wersiqm'')]"

definition UploadModuleDialog :: "jstr \<Rightarrow> jstr option \<Rightarrow> upload_state \<Rightarrow> upload_event ui list" where
  "UploadModuleDialog hook activeHash s = dialog (up_open s) UpChangeOpen []
     (El ''input'' [(''type'', PStr (lit ''file'')), (''accept'', PStr (lit ''.wasm,application/wasm''))] []
      # (case up_step s of
           Pick \<Rightarrow> upload_pick hook (active_hash activeHash) s
         | Picked \<Rightarrow> (case up_file s of None \<Rightarrow> [] | Some f \<Rightarrow> upload_picked hook (active_hash activeHash) f s)
         | Unconfirmed \<Rightarrow> upload_unconfirmed))"

definition upload_offered :: "jstr \<Rightarrow> jstr option \<Rightarrow> upload_state \<Rightarrow> upload_event \<Rightarrow> bool" where
  "upload_offered hook activeHash s e \<longleftrightarrow>
     (case e of
        UpAnswer r \<Rightarrow> awaits (up_mutation s)
      | UpRefreshed \<Rightarrow> refreshes (up_mutation s)
      | UpChosen f \<Rightarrow> up_open s
      | UpChecked f \<Rightarrow> f \<in> set (up_checking s)
      | _ \<Rightarrow> e \<in> set (actions_of (UploadModuleDialog hook activeHash s)))"

section \<open>Lemmas of the upload dialog\<close>

lemma error_text_actions [simp]: "actions_of (error_text e) = []"
  by (simp add: error_text_def)

lemma upload_actions:
  "set (actions_of (UploadModuleDialog hook activeHash s)) = (if \<not> up_open s then {} else insert (UpChangeOpen False)
     (case up_step s of
        Pick \<Rightarrow> {UpPickFile}
      | Picked \<Rightarrow> (if up_file s = None then {} else if truthy (up_error s) then {UpPickFile} else if upload_busy s then {} else {UpSubmit})
      | Unconfirmed \<Rightarrow> {UpBack}))"
  by (auto simp: UploadModuleDialog_def dialog_actions upload_pick_def upload_picked_def upload_unconfirmed_def
      split: upload_step_name.split option.split)

interpretation upload: mutation_dialog "upload_step hook" "upload_offered hook activeHash" "\<lambda>_. True" UpAnswer "\<lambda>s. awaits (up_mutation s)" up_open
  for hook activeHash
proof (unfold_locales, goal_cases)
  case (2 s e)
  then show ?case
    by (cases e) (auto simp: upload_step_def upload_submit_def upload_offered_def upload_actions upload_busy_def awaits_cases
        split: if_splits option.splits upload_step_name.splits)
next
  case (3 s e)
  then show ?case
    by (cases e) (auto simp: upload_step_def upload_submit_def upload_offered_def upload_actions upload_busy_def awaits_cases
        upload_change_open_def upload_checked_def refreshes_def Let_def split: if_splits option.splits upload_step_name.splits)
next
  case (4 s e)
  then show ?case
    by (cases e) (auto simp: upload_step_def upload_submit_def upload_offered_def upload_change_open_def upload_checked_def
        upload_reset_def upload_refreshed_def Let_def split: if_splits option.splits)
qed (auto simp: upload_offered_def upload_step_def upload_answer_def Let_def split: sum.splits)

text \<open>A file is shown as picked only after its check found nothing, and only such a file is sent.\<close>

definition upload_ok :: "upload_state \<Rightarrow> bool" where
  "upload_ok s \<longleftrightarrow> (\<forall>f. up_file s = Some f \<longrightarrow> checkWasmFile f = None) \<and> (up_step s = Picked \<longrightarrow> up_file s \<noteq> None)"

lemma upload_ok_init: "upload_ok upload_init"
  by (simp add: upload_ok_def upload_init_def)

lemma upload_ok_step: "upload_ok s \<Longrightarrow> upload_ok (fst (upload_step hook e s))"
  by (cases e) (auto simp: upload_ok_def upload_step_def upload_change_open_def upload_checked_def upload_submit_def upload_answer_def
      upload_refreshed_def upload_reset_def Let_def split: option.splits sum.splits)

lemma upload_sends_checked:
  assumes "upload_ok s" "c \<in> set (snd (upload_step hook e s))"
  shows "\<exists>f. up_file s = Some f \<and> checkWasmFile f = None \<and> c = useUploadModule hook f"
  using assms by (cases e) (auto simp: upload_ok_def upload_step_def upload_submit_def split: option.splits)

lemma checkWasmFile_None:
  "checkWasmFile f = None \<longleftrightarrow> length (file_bytes f) \<le> MAX_MODULE_BYTES \<and> take 4 (file_bytes f) = WASM_MAGIC"
proof -
  have idx: "[0..<4] = [0, 1, 2, 3]" by (simp add: upt_rec)
  have "has_magic bs \<longleftrightarrow> take 4 bs = WASM_MAGIC" for bs
  proof (cases "\<exists>a b c d r. bs = a # b # c # d # r")
    case True
    then show ?thesis by (auto simp: has_magic_def WASM_MAGIC_def idx)
  next
    case False
    then have "length bs < 4" by (cases bs; cases "tl bs"; cases "tl (tl bs)"; cases "tl (tl (tl bs))") auto
    then have "take 4 bs = bs" "length bs \<noteq> length WASM_MAGIC" "\<not> 3 < length bs" by (auto simp: WASM_MAGIC_def)
    then show ?thesis by (auto simp: has_magic_def Let_def WASM_MAGIC_def idx)
  qed
  then show ?thesis by (auto simp: checkWasmFile_def WASM_MAGIC_def)
qed

text \<open>The outcomes the dialog takes as final refusals are exactly the client errors and 501.\<close>

lemma upload_final: "\<not> isUploadUnconfirmed e \<longleftrightarrow> (\<exists>s m d. e = ApiError s m d \<and> (400 \<le> s \<and> s < 500 \<or> s = 501))"
  by (cases e) (auto simp: isUploadUnconfirmed_def)

text \<open>When the dialog calls an upload refused, the control plane has not changed.\<close>

lemma post_module_refused: "post_module name e req w = (Inr r, w') \<Longrightarrow> \<not> response_ok r \<Longrightarrow> w' = w"
  by (auto simp: post_module_def upload_file_to_def response_ok_def Let_def split: if_splits option.splits prod.splits)

lemma post_module_thrown: "post_module name e req w = (Inl x, w') \<Longrightarrow> w' = w"
  by (auto simp: post_module_def upload_file_to_def Let_def split: if_splits option.splits prod.splits)

lemma mock_module_refused:
  assumes "match_route matches handlers req = Some (PostModule hook)"
    "mock_network matches handlers on_error e net req w = (Inr r, w')" "\<not> response_ok r"
  shows "w' = w"
  using assms post_module_refused [of hook e req w r w'] post_module_thrown [of hook e req w]
  by (auto simp: mock_network_def authed_def split: if_splits prod.splits sum.splits)

lemma payload_unconfirmed: "response_ok r \<Longrightarrow> api_payload h path opts r = Inl x \<Longrightarrow> isUploadUnconfirmed x"
  by (auto simp: api_payload_def isUploadUnconfirmed_def response_ok_def split: option.splits if_splits)

lemma mock_answers: "match_route matches handlers req = Some p \<Longrightarrow> mock_network matches handlers on_error e net req w \<noteq> (Inl x, w')"
  by (auto simp: mock_network_def split: prod.splits sum.splits)

lemma upload_refused_world:
  assumes "path_matcher matches" "hook \<notin> {[], lit ''.'', lit ''..''}"
    "run_mutation h (mock_network matches handlers on_error e net) (useUploadModule hook f) b w = (Inl x, fx, b', w')"
    "\<not> isUploadUnconfirmed x"
  shows "w' = w"
proof (cases "call_path (useUploadModule hook f)")
  case None
  then show ?thesis using assms(3) by (simp add: run_mutation_def)
next
  case (Some path)
  let ?net = "mock_network matches handlers on_error e net"
  let ?opts = "call_opts (useUploadModule hook f)"
  have route: "match_route matches handlers req = Some (PostModule hook)" if "build_request h path ?opts b = Inr req" for req
    using param_routes(9) [OF assms(1,2)] Some that by (auto simp: served_by_def)
  have run: "api_request h ?net path ?opts b w = (Inl x, b', w')"
    using assms(3) Some by (auto simp: run_mutation_def split: prod.splits sum.splits)
  show ?thesis
  proof (cases rule: api_request_cases [of h ?net path ?opts b w])
    case (offline req y w1)
    then show ?thesis using mock_answers [OF route] by blast
  next
    case (answered req r w1)
    then show ?thesis using run payload_unconfirmed [of r h path ?opts x] assms(4) by simp
  next
    case (refused req r w1)
    then show ?thesis using run mock_module_refused [OF route] by simp
  qed (use run in simp)
qed

section \<open>Activation (\<open>activate-module-dialog.tsx\<close>)\<close>

record activate_state =
  ac_open :: bool
  ac_mutation :: mutation_state

datatype activate_event = AcChangeOpen bool | AcConfirm | AcAnswer "js_error + json option" | AcRefreshed

definition activate_pending :: "activate_state \<Rightarrow> bool" where
  "activate_pending s \<longleftrightarrow> is_pending (mut (ac_mutation s))"

definition activate_change_open :: "bool \<Rightarrow> activate_state \<Rightarrow> activate_state" where
  "activate_change_open next s =
     (if activate_pending s then s else (if next then s else s\<lparr>ac_mutation := mut_idle\<rparr>)\<lparr>ac_open := next\<rparr>)"

definition activate_answer :: "js_error + json option \<Rightarrow> activate_state \<Rightarrow> activate_state" where
  "activate_answer r s =
     (case r of Inl e \<Rightarrow> s\<lparr>ac_mutation := mut_answer r\<rparr> | Inr _ \<Rightarrow> s\<lparr>ac_mutation := mut_answer r, ac_open := False\<rparr>)"

definition activate_step :: "jstr \<Rightarrow> module \<Rightarrow> activate_event \<Rightarrow> activate_state \<Rightarrow> activate_state \<times> mutation_call list" where
  "activate_step hook m e s =
     (case e of
        AcChangeOpen b \<Rightarrow> (activate_change_open b s, [])
      | AcConfirm \<Rightarrow> (s\<lparr>ac_mutation := mut_sent\<rparr>, [useActivateModule hook (mod_id m)])
      | AcAnswer r \<Rightarrow> (activate_answer r s, [])
      | AcRefreshed \<Rightarrow> (s\<lparr>ac_mutation := mut_refreshed (ac_mutation s)\<rparr>, []))"

definition ActivateModuleDialog :: "jstr \<Rightarrow> module \<Rightarrow> jstr option \<Rightarrow> activate_state \<Rightarrow> activate_event ui list" where
  "ActivateModuleDialog hook m activeHash s =
     (let target = shortHash (content_hash m); current = active_hash activeHash in
      dialog (ac_open s) AcChangeOpen [button False [(''aria-label'', PStr ((ru ''Aktiwirowatx '') @ target))] (ru ''Aktiwirowatx'')]
       ([text_el ''DialogTitle'' ((ru ''Aktiwirowatx '') @ target @ lit ''?''),
         text_el ''p'' ((ru ''Dlq '') @ hook @ (ru '' budet wybrana wersiq '') @ target
           @ (if truthy current then (ru '' wmesto '') @ the current @ lit ''.'' else lit ''.'')),
         text_el ''p'' ((ru ''Obnowlenie ispolnitelej movet zanqtx nekotoroe wremq.'')
           @ (if truthy current then (ru '' Predydu]aq wersiq ostanetsq w spiske.'') else []))]
        @ (case mutation_error (mut (ac_mutation s)) of Some e \<Rightarrow> [alert_p (describe_error e)] | None \<Rightarrow> [])
        @ [dialog_close (activate_pending s) AcChangeOpen (ru ''Otmena''),
           button (activate_pending s) [(''onClick'', PAct AcConfirm)] (if activate_pending s then (ru ''Aktiwaciq'' @ [0x2026]) else (ru ''Aktiwirowatx''))]))"

definition activate_offered :: "jstr \<Rightarrow> module \<Rightarrow> jstr option \<Rightarrow> activate_state \<Rightarrow> activate_event \<Rightarrow> bool" where
  "activate_offered hook m activeHash s e \<longleftrightarrow>
     (case e of
        AcAnswer r \<Rightarrow> awaits (ac_mutation s)
      | AcRefreshed \<Rightarrow> refreshes (ac_mutation s)
      | _ \<Rightarrow> e \<in> set (actions_of (ActivateModuleDialog hook m activeHash s)))"

lemma activate_actions:
  "set (actions_of (ActivateModuleDialog hook m activeHash s)) = insert (AcChangeOpen True)
     (if ac_open s then insert (AcChangeOpen False) (if activate_pending s then {} else {AcConfirm}) else {})"
  by (auto simp: ActivateModuleDialog_def dialog_actions Let_def split: option.split)

interpretation activate: mutation_dialog "activate_step hook m" "activate_offered hook m activeHash" "\<lambda>_. True" AcAnswer
    "\<lambda>s. awaits (ac_mutation s)" ac_open for hook m activeHash
proof (unfold_locales, goal_cases)
  case (2 s e)
  then show ?case
    by (cases e) (auto simp: activate_step_def activate_offered_def activate_actions activate_pending_def awaits_cases split: if_splits)
next
  case (3 s e)
  then show ?case
    by (cases e) (auto simp: activate_step_def activate_offered_def activate_actions activate_pending_def activate_change_open_def
        awaits_cases refreshes_def split: if_splits)
next
  case (4 s e)
  then show ?case
    by (cases e) (auto simp: activate_step_def activate_offered_def activate_change_open_def split: if_splits)
qed (auto simp: activate_offered_def activate_step_def activate_answer_def split: sum.splits)

end
