(* ===== verification/Form_State.thy ===== *)
theory Form_State
  imports Key_Dialogs
begin

text \<open>
  What the editors share. The form library (react-hook-form) is third-party code: its operations on a form of
  type \<open>'fs\<close> are the record \<open>form_lib\<close>, a parameter of the editors, and \<open>form_library\<close> states the documented
  behaviour they rely on. \<open>plain_form\<close> is a library with these laws. \<open>field_el\<close> is the \<open>Field\<close> component
  of the hook editor.
\<close>

section \<open>The form library\<close>

record ('fs, 'v, 'f) form_lib =
  fl_values :: "'fs \<Rightarrow> 'v"
  fl_errors :: "'fs \<Rightarrow> ('f \<times> jstr) list"
  fl_dirty :: "'fs \<Rightarrow> bool"
  fl_submitting :: "'fs \<Rightarrow> bool"
  fl_init :: "'v \<Rightarrow> 'fs"
  fl_reset :: "'v \<Rightarrow> 'fs \<Rightarrow> 'fs"
  fl_change :: "('v \<Rightarrow> ('f \<times> jstr) list) \<Rightarrow> 'f \<Rightarrow> ('v \<Rightarrow> 'v) \<Rightarrow> 'fs \<Rightarrow> 'fs"
  fl_set :: "('v \<Rightarrow> 'v) \<Rightarrow> 'fs \<Rightarrow> 'fs"
  fl_set_error :: "'f \<Rightarrow> jstr \<Rightarrow> 'fs \<Rightarrow> 'fs"
  fl_submit :: "('v \<Rightarrow> ('f \<times> jstr) list) \<Rightarrow> 'fs \<Rightarrow> 'fs \<times> bool"
  fl_settled :: "'fs \<Rightarrow> 'fs"

locale form_library =
  fixes lib :: "('fs, 'v, 'f) form_lib"
  assumes init: "fl_values lib (fl_init lib v) = v" "fl_errors lib (fl_init lib v) = []"
      "\<not> fl_dirty lib (fl_init lib v)" "\<not> fl_submitting lib (fl_init lib v)"
    and reset: "fl_values lib (fl_reset lib v s) = v" "fl_errors lib (fl_reset lib v s) = []"
      "\<not> fl_dirty lib (fl_reset lib v s)" "\<not> fl_submitting lib (fl_reset lib v s)"
    and change: "fl_values lib (fl_change lib r f g s) = g (fl_values lib s)"
      "fl_submitting lib (fl_change lib r f g s) = fl_submitting lib s"
    and set: "fl_values lib (fl_set lib g s) = g (fl_values lib s)" "fl_submitting lib (fl_set lib g s) = fl_submitting lib s"
    and set_error: "fl_values lib (fl_set_error lib f m s) = fl_values lib s" "map_of (fl_errors lib (fl_set_error lib f m s)) f = Some m"
      "fl_submitting lib (fl_set_error lib f m s) = fl_submitting lib s"
    and submit: "fl_values lib (fst (fl_submit lib r s)) = fl_values lib s" "fl_errors lib (fst (fl_submit lib r s)) = r (fl_values lib s)"
      "snd (fl_submit lib r s) \<longleftrightarrow> r (fl_values lib s) = []" "fl_submitting lib (fst (fl_submit lib r s)) \<longleftrightarrow> r (fl_values lib s) = []"
    and settled: "fl_values lib (fl_settled lib s) = fl_values lib s" "fl_errors lib (fl_settled lib s) = fl_errors lib s"
      "fl_dirty lib (fl_settled lib s) = fl_dirty lib s" "\<not> fl_submitting lib (fl_settled lib s)"
begin

lemmas form_laws = init reset change set set_error submit settled

end

text \<open>A library with these laws: errors are looked up again when a field changes after the first submission.\<close>

record ('v, 'f) plain =
  pf_values :: 'v
  pf_defaults :: 'v
  pf_errors :: "('f \<times> jstr) list"
  pf_submitted :: bool
  pf_submitting :: bool

definition plain_new :: "'v \<Rightarrow> ('v, 'f) plain" where
  "plain_new v = \<lparr>pf_values = v, pf_defaults = v, pf_errors = [], pf_submitted = False, pf_submitting = False\<rparr>"

definition plain_change :: "('v \<Rightarrow> ('f \<times> jstr) list) \<Rightarrow> 'f \<Rightarrow> ('v \<Rightarrow> 'v) \<Rightarrow> ('v, 'f) plain \<Rightarrow> ('v, 'f) plain" where
  "plain_change r f g s =
     (let v = g (pf_values s); others = filter (\<lambda>(f', m). f' \<noteq> f) (pf_errors s) in
      s\<lparr>pf_values := v, pf_errors := (if pf_submitted s then filter (\<lambda>(f', m). f' = f) (r v) @ others else pf_errors s)\<rparr>)"

definition plain_form :: "(('v, 'f) plain, 'v, 'f) form_lib" where
  "plain_form = \<lparr>fl_values = pf_values, fl_errors = pf_errors, fl_dirty = (\<lambda>s. pf_values s \<noteq> pf_defaults s),
     fl_submitting = pf_submitting, fl_init = plain_new, fl_reset = (\<lambda>v s. plain_new v), fl_change = plain_change,
     fl_set = (\<lambda>g s. s\<lparr>pf_values := g (pf_values s)\<rparr>), fl_set_error = (\<lambda>f m s. s\<lparr>pf_errors := (f, m) # pf_errors s\<rparr>),
     fl_submit = (\<lambda>r s. (s\<lparr>pf_errors := r (pf_values s), pf_submitted := True, pf_submitting := r (pf_values s) = []\<rparr>, r (pf_values s) = [])),
     fl_settled = (\<lambda>s. s\<lparr>pf_submitted := True, pf_submitting := False\<rparr>)\<rparr>"

interpretation plain_form: form_library plain_form
  by unfold_locales (simp_all add: plain_form_def plain_new_def plain_change_def Let_def)

section \<open>A labelled field\<close>

definition field_error :: "('f \<times> jstr) list \<Rightarrow> 'f \<Rightarrow> jstr option" where
  "field_error es f = map_of es f"

definition field_el :: "jstr \<Rightarrow> jstr option \<Rightarrow> jstr option \<Rightarrow> 'e ui list \<Rightarrow> 'e ui list \<Rightarrow> 'e ui list" where
  "field_el label hint error action children =
     text_el ''Label'' label # action @ children
     @ (if truthy error then [text_el ''p'' (the error)] else if truthy hint then [text_el ''p'' (the hint)] else [])"

lemma field_el_actions [simp]: "actions_of (field_el label hint error action children) = actions_of action @ actions_of children"
  by (simp add: field_el_def)

text \<open>An input of a form: its value and whether it is marked invalid.\<close>

definition input_el :: "string \<Rightarrow> 'e attr \<Rightarrow> bool \<Rightarrow> 'e ui" where
  "input_el tag v invalid = El tag [(''value'', v), (''aria-invalid'', PBool invalid)] []"

text \<open>An embedded component: its tree with the events mapped to those of the parent.\<close>

fun attr_map :: "('a \<Rightarrow> 'b) \<Rightarrow> 'a attr \<Rightarrow> 'b attr" where
  "attr_map f (PAct a) = PAct (f a)"
| "attr_map f (PStr s) = PStr s"
| "attr_map f (PBool b) = PBool b"
| "attr_map f (PNum x) = PNum x"
| "attr_map f (PVal v) = PVal v"

fun ui_map :: "('a \<Rightarrow> 'b) \<Rightarrow> 'a ui \<Rightarrow> 'b ui" where
  "ui_map f (Txt t) = Txt t"
| "ui_map f (El tag ps cs) = El tag (map (apsnd (attr_map f)) ps) (map (ui_map f) cs)"

lemma attr_map_bool: "attr_map f p = PBool b \<longleftrightarrow> p = PBool b"
  by (cases p) auto

lemma prop_actions_map: "prop_actions (map (apsnd (attr_map f)) ps) = map f (prop_actions ps)"
  by (induction ps rule: prop_actions.induct) auto

lemma disabled_map: "(k, PBool b) \<in> set (map (apsnd (attr_map f)) ps) \<longleftrightarrow> (k, PBool b) \<in> set ps"
  by (induction ps) (auto simp: attr_map_bool, metis attr_map_bool)

lemma ui_actions_map: "ui_actions (ui_map f u) = map f (ui_actions u)"
proof (induction u)
  case (El tag ps cs)
  have "map ui_actions (map (ui_map f) cs) = map (map f \<circ> ui_actions) cs" using El by simp
  then show ?case by (simp only: ui_map.simps ui_actions.simps disabled_map prop_actions_map) (simp add: map_concat)
qed simp

lemma actions_of_map: "actions_of (map (ui_map f) us) = map f (actions_of us)"
  by (induction us) (simp_all add: ui_actions_map)

end
