(* ===== verification/Module_Versions.thy ===== *)
theory Module_Versions
  imports Module_Dialogs Form_State
begin

text \<open>
  \<open>widgets/module-versions\<close>: the list of a hook's module versions, the panel that says what comes next, and
  the dialogs it holds (one to upload, one per version that can be activated).
\<close>

section \<open>Order and panel\<close>

definition newestFirst :: "(jstr \<Rightarrow> jstr \<Rightarrow> int) \<Rightarrow> module list \<Rightarrow> module list" where
  "newestFirst compare ms = js_sort (\<lambda>a b. compare (uploaded_at b) (uploaded_at a)) ms"

datatype focus_kind = FocusActivated | FocusRejected

datatype panel_state = PanelSaved module | PanelChecking module | PanelReady module | PanelRejected module | PanelIdle

definition panelState :: "module list \<Rightarrow> jstr option \<Rightarrow> (focus_kind \<times> jstr) option \<Rightarrow> panel_state" where
  "panelState modules activeId focus =
     (let latest = (case modules of [] \<Rightarrow> None | m # _ \<Rightarrow> Some m);
          focused = (case focus of None \<Rightarrow> None | Some (k, i) \<Rightarrow> find (\<lambda>m. mod_id m = i) modules);
          kind = map_option fst focus in
      if kind = Some FocusActivated \<and> focused \<noteq> None \<and> Some (mod_id (the focused)) = activeId then PanelSaved (the focused)
      else if kind = Some FocusRejected \<and> focused \<noteq> None then PanelRejected (the focused)
      else (case latest of
          None \<Rightarrow> PanelIdle
        | Some m \<Rightarrow>
            if isPending (mod_status m) then PanelChecking m
            else if mod_status m = Rejected then PanelRejected m
            else if mod_status m = Validated \<and> Some (mod_id m) \<noteq> activeId then PanelReady m
            else PanelIdle))"

section \<open>State and steps\<close>

text \<open>The dialogs of the rows are keyed by the version; a row that has shown none has none.\<close>

record versions_state =
  mv_upload :: upload_state
  mv_focus :: "(focus_kind \<times> jstr) option"
  mv_dialogs :: "jstr \<rightharpoonup> activate_state"

datatype versions_event = MvOpenUpload | MvShowReason jstr | MvUpload upload_event | MvActivate module activate_event

definition versions_init :: versions_state where
  "versions_init = \<lparr>mv_upload = upload_init, mv_focus = None, mv_dialogs = Map.empty\<rparr>"

definition row_dialog :: "versions_state \<Rightarrow> module \<Rightarrow> activate_state" where
  "row_dialog s m = nullish (mv_dialogs s (mod_id m)) \<lparr>ac_open = False, ac_mutation = mut_idle\<rparr>"

definition versions_step :: "jstr \<Rightarrow> versions_event \<Rightarrow> versions_state \<Rightarrow> versions_state \<times> mutation_call list" where
  "versions_step hook e s =
     (case e of
        MvOpenUpload \<Rightarrow> (s\<lparr>mv_upload := (mv_upload s)\<lparr>up_open := True\<rparr>\<rparr>, [])
      | MvShowReason i \<Rightarrow> (s\<lparr>mv_focus := Some (FocusRejected, i)\<rparr>, [])
      | MvUpload ue \<Rightarrow> (case upload_step hook ue (mv_upload s) of
          (u, cs) \<Rightarrow> (s\<lparr>mv_upload := u, mv_focus := (if ue = UpRefreshed then None else mv_focus s)\<rparr>, cs))
      | MvActivate m ae \<Rightarrow> (case activate_step hook m ae (row_dialog s m) of
          (d, cs) \<Rightarrow> (s\<lparr>mv_dialogs := (mv_dialogs s)(mod_id m \<mapsto> d),
                       mv_focus := (case ae of AcAnswer (Inr _) \<Rightarrow> Some (FocusActivated, mod_id m) | _ \<Rightarrow> mv_focus s)\<rparr>, cs)))"

section \<open>What the widget shows\<close>

definition RejectedPanel :: "module \<Rightarrow> versions_event ui" where
  "RejectedPanel m =
     (let failed = firstFailedCheck m; failure = map_option describeCheckFailure failed in
      info_panel (Some (lit ''status''))
        (case failure of Some f \<Rightarrow> (ru ''Modulx otklon#n: '') @ failure_title f | None \<Rightarrow> (ru ''Modulx otklon#n''))
        ([text_el ''p'' (shortHash (content_hash m)
            @ (case failed of Some c \<Rightarrow> if truthy (check_detail c) then lit '': '' @ the (check_detail c) else [] | None \<Rightarrow> []))]
         @ (case failure of Some f \<Rightarrow> [text_el ''p'' (failure_hint f)] | None \<Rightarrow> [])
         @ [text_el ''p'' (ru ''Aktiwnaq wersiq ne izmenilasx.'')])
        [button False [(''onClick'', PAct MvOpenUpload)] (ru ''Zagruzitx isprawlennyj fajl'')])"

definition StatusPanel :: "panel_state \<Rightarrow> versions_event ui" where
  "StatusPanel p =
     (case p of
        PanelSaved m \<Rightarrow> info_panel (Some (lit ''status'')) (ru ''Aktiwnaq wersiq sohranena'')
          [text_el ''p'' ((ru ''Wybrana wersiq '') @ shortHash (content_hash m)
             @ (ru ''. Obnowlenie ispolnitelej movet zanqtx nekotoroe wremq. Aktiwaciq ne zapuskaet obrabot~ik.''))] []
      | PanelChecking m \<Rightarrow> info_panel (Some (lit ''status'')) ((ru ''Prowerqem modulx '') @ shortHash (content_hash m))
          [text_el ''p'' (ru ''Prowerqem modulx i wypolnqem probnyj wyzow. Aktiwirowatx movno posle uspe[noj prowerki. Teku]aq aktiwnaq wersiq ne menqetsq.'')] []
      | PanelRejected m \<Rightarrow> RejectedPanel m
      | PanelReady m \<Rightarrow> info_panel (Some (lit ''status'')) (ru ''Modulx gotow k aktiwacii'')
          [text_el ''p'' (ru ''Prowerka projdena na primere whoda. ^to ne garantiruet rabotu na wseh dannyh. Wersiq e]# ne aktiwna.'')] []
      | PanelIdle \<Rightarrow> info_panel None (ru ''Nowaq wersiq ne wkl@~aetsq awtomati~eski'')
          [text_el ''p'' (ru ''Posle zagruzki modulx prohodit prowerku. Wy sami wybiraete moment aktiwacii.'')] [])"

definition explained_id :: "panel_state \<Rightarrow> jstr option" where
  "explained_id p = (case p of PanelRejected m \<Rightarrow> Some (mod_id m) | _ \<Rightarrow> None)"

definition version_action ::
  "jstr \<Rightarrow> jstr option \<Rightarrow> jstr option \<Rightarrow> panel_state \<Rightarrow> versions_state \<Rightarrow> module \<Rightarrow> versions_event ui list" where
  "version_action hook activeId activeHash p s m =
     (if Some (mod_id m) = activeId then [Txt [0x2013]]
      else if mod_status m = Validated then
        map (ui_map (MvActivate m)) (ActivateModuleDialog hook m activeHash (row_dialog s m))
      else if mod_status m = Rejected then
        (if Some (mod_id m) = explained_id p then [Txt (ru ''Pri~ina nive'')]
         else [button False [(''onClick'', PAct (MvShowReason (mod_id m)))] (ru ''Pokazatx pri~inu'')])
      else [Txt [0x2013]])"

definition version_row ::
  "jstr \<Rightarrow> jstr option \<Rightarrow> jstr option \<Rightarrow> panel_state \<Rightarrow> versions_state \<Rightarrow> module \<Rightarrow> versions_event ui" where
  "version_row hook activeId activeHash p s m = El ''tr'' []
     [El ''td'' [(''title'', PStr (content_hash m))] [Txt (shortHash (content_hash m))],
      text_el ''td'' (moduleStatusLabels (mod_status m)),
      text_el ''td'' (if Some (mod_id m) = activeId then (ru ''Aktiwna'') else (ru ''Ne aktiwna'')),
      El ''td'' [] (version_action hook activeId activeHash p s m)]"

definition ModuleVersions ::
  "(jstr \<Rightarrow> jstr \<Rightarrow> int) \<Rightarrow> jstr \<Rightarrow> binding option \<Rightarrow> module list query_state \<Rightarrow> versions_state \<Rightarrow> versions_event ui list" where
  "ModuleVersions compare hook b q s =
     (let activeId = Option.bind b active_module_id; activeHash = Option.bind b active_module_hash;
          modules = (case query_data q of None \<Rightarrow> [] | Some d \<Rightarrow> newestFirst compare d);
          p = panelState modules activeId (mv_focus s) in
      [text_el ''h2'' (ru ''Wersii modulq''), button False [(''onClick'', PAct MvOpenUpload)] (ru ''Zagruzitx modulx'')]
      @ query_body 3 q (\<lambda>_. if modules = [] then [text_el ''p'' (ru ''Wersij poka net. Zagruzite perwyj .'' @ lit ''wasm-'' @ ru ''modulx.'')]
          else [El ''table'' [] (map (text_el ''th'') [(ru ''Wersiq (he[)''), (ru ''Prowerka''), (ru ''Ispolxzowanie''), (ru ''Dejstwie'')]
                  @ map (version_row hook activeId activeHash p s) modules)])
      @ (if query_data q \<noteq> None then [StatusPanel p] else [])
      @ map (ui_map MvUpload) (UploadModuleDialog hook activeHash (mv_upload s)))"

section \<open>Lemmas\<close>

lemma find_id: "find (\<lambda>m. mod_id m = i) ms = Some x \<Longrightarrow> x \<in> set ms \<and> mod_id x = i"
  by (auto simp: find_Some_iff)

text \<open>What each panel says is true of the versions it was computed from.\<close>

lemma panelState_sound:
  "panelState ms a f = PanelSaved m \<Longrightarrow> m \<in> set ms \<and> Some (mod_id m) = a"
  "panelState ms a f = PanelChecking m \<Longrightarrow> m \<in> set ms \<and> isPending (mod_status m)"
  "panelState ms a f = PanelReady m \<Longrightarrow> m \<in> set ms \<and> mod_status m = Validated \<and> Some (mod_id m) \<noteq> a"
  "panelState ms a f = PanelRejected m \<Longrightarrow> m \<in> set ms \<and> (mod_status m = Rejected \<or> f = Some (FocusRejected, mod_id m))"
  by (auto simp: panelState_def Let_def dest!: find_id split: if_splits list.splits option.splits prod.splits)

lemma set_newestFirst [simp]: "set (newestFirst compare ms) = set ms"
  by (simp add: newestFirst_def)

text \<open>The dialog that activates a version is there exactly for the versions that passed their checks and are not active.\<close>

lemma version_row_actions: "ui_actions (version_row hook a h p s m) = actions_of (version_action hook a h p s m)"
  by (simp add: version_row_def actions_of_def)

lemma action_activates:
  "MvActivate m e \<in> set (actions_of (version_action hook a h p s n)) \<longleftrightarrow>
     n = m \<and> Some (mod_id m) \<noteq> a \<and> mod_status m = Validated \<and> e \<in> set (actions_of (ActivateModuleDialog hook m h (row_dialog s m)))"
  by (auto simp: version_action_def actions_of_map)

lemma panel_actions: "MvActivate m e \<notin> set (ui_actions (StatusPanel p))"
  by (auto simp: StatusPanel_def RejectedPanel_def info_panel_def whenever_def Let_def split: panel_state.split option.split)

lemma versions_activate:
  "MvActivate m e \<in> set (actions_of (ModuleVersions compare hook b q s)) \<longleftrightarrow>
     (\<exists>ms. q = QReady ms \<and> m \<in> set ms) \<and> Some (mod_id m) \<noteq> Option.bind b active_module_id \<and> mod_status m = Validated
     \<and> e \<in> set (actions_of (ActivateModuleDialog hook m (Option.bind b active_module_hash) (row_dialog s m)))"
proof -
  have empty: "MvActivate m e \<notin> set (actions_of (map (ui_map MvUpload) us))" for us by (auto simp: actions_of_map)
  have heads: "actions_of (map (text_el ''th'') ts) = []" for ts by (induction ts) simp_all
  have nil: "newestFirst compare ms = [] \<longleftrightarrow> ms = []" for ms by (simp add: newestFirst_def)
  show ?thesis
    by (cases q) (auto simp: ModuleVersions_def Let_def query_data_def empty panel_actions heads version_row_actions action_activates nil)
qed

text \<open>The control plane accepts an activation the widget offers: version identifiers are unique.\<close>

lemma module_id_inject: "module_id_text i = module_id_text j \<longleftrightarrow> i = j"
proof -
  have "str_pad_start 2 48 (nat_text i) = str_pad_start 2 48 (nat_text j) \<longleftrightarrow> i = j"
    by (metis nat_of_units_pad)
  then show ?thesis by (simp add: module_id_text_def)
qed

lemma distinct_ids: "modules_ok d \<Longrightarrow> distinct (map mod_id (db_modules d))"
  by (simp add: modules_ok_def distinct_map inj_on_def module_id_inject)

lemma find_distinct: "distinct (map f xs) \<Longrightarrow> x \<in> set xs \<Longrightarrow> P x \<Longrightarrow> (\<And>y. P y \<Longrightarrow> f y = f x) \<Longrightarrow> find P xs = Some x"
proof (induction xs)
  case (Cons y ys)
  show ?case
  proof (cases "P y")
    case True
    then have "f y = f x" by (rule Cons.prems(4))
    then have "y = x" using Cons.prems(1,2) by (auto simp: image_iff)
    then show ?thesis using True by simp
  next
    case False
    then have "x \<in> set ys" using Cons.prems(2,3) by auto
    then have "find P ys = Some x" using Cons.prems(1) by (intro Cons.IH [OF _ _ Cons.prems(3,4)]) simp_all
    then show ?thesis using False by simp
  qed
qed simp

lemma requested_unique:
  assumes "modules_ok d" "m \<in> set (db_modules d)" "mod_status m = Validated"
  shows "requested_module (mod_hook m) (Some (JStr (mod_id m))) d = Inr (Some m)"
proof -
  have "find (\<lambda>x. Some (JStr (mod_id m)) = Some (JStr (mod_id x)) \<and> mod_hook x = mod_hook m) (db_modules d) = Some m"
    by (rule find_distinct [OF distinct_ids [OF assms(1)] assms(2)]) simp_all
  then show ?thesis using assms(3) by (simp add: requested_module_def nullish_field_def)
qed

lemma activation_accepted:
  assumes "modules_ok (wdb w)" "m \<in> set (db_modules (wdb w))" "mod_status m = Validated"
    "json_body req = Some (JObj [(lit ''active_module_id'', JStr (mod_id m))])"
  shows "\<exists>r w'. put_binding (mod_hook m) e req w = (Inr r, w') \<and> resp_status r = 200
    \<and> Option.bind (db_bindings (wdb w') (mod_hook m)) active_module_id = Some (mod_id m)"
proof -
  have "mod_hook m \<in> set (hook_names (wdb w))" using assms(1,2) by (auto simp: modules_ok_def list_all_iff)
  then have hook: "tenantHook (mod_hook m) (wdb w) \<noteq> None" by (simp add: tenantHook_None)
  have gets: "field_of (JObj [(lit ''active_module_id'', JStr (mod_id m))]) ''active_module_id'' = Some (JStr (mod_id m))"
    "field_of (JObj [(lit ''active_module_id'', JStr (mod_id m))]) ''config'' = None"
    by (simp_all add: field_of_def body_get_def obj_get_def)
  show ?thesis
    using hook requested_unique [OF assms(1-3)]
    by (auto simp: put_binding_def with_body_def assms(4) gets nullish_field_def Let_def config_changed_def module_changed_def next_binding_def
        split: option.splits)
qed

end
