(* ===== verification/Hook_Editor.thy ===== *)
theory Hook_Editor
  imports Form_State
begin

text \<open>
  \<open>features/hook-editor\<close>: the form that creates a hook definition or replaces one. The state is the form, the
  notice, the server's error, the running mutation and the drafts of the two list editors.
\<close>

section \<open>The answer as a hook\<close>

definition json_member :: "json option \<Rightarrow> string \<Rightarrow> json option" where
  "json_member v k = (case v of Some (JObj ob) \<Rightarrow> obj_get ob (lit k) | _ \<Rightarrow> None)"

definition json_text_of :: "json option \<Rightarrow> jstr" where
  "json_text_of v = (case v of Some (JStr s) \<Rightarrow> s | _ \<Rightarrow> [])"

definition json_texts_of :: "json option \<Rightarrow> jstr list" where
  "json_texts_of v = (case v of Some (JArr xs) \<Rightarrow> map (\<lambda>x. json_text_of (Some x)) xs | _ \<Rightarrow> [])"

definition hook_of_json :: "json option \<Rightarrow> operator_hook" where
  "hook_of_json v = (let m = json_member v in
     \<lparr>hook_name = json_text_of (m ''name''), def_version = cast_number (m ''def_version''),
      hook_created = json_text_of (m ''created_at''), hook_updated = json_text_of (m ''updated_at''),
      hook_spec_of = \<lparr>input_schema = cast_object (m ''input_schema''), output_schema = cast_object (m ''output_schema''),
        timeout_ms = cast_number (m ''timeout_ms''), memory_max_pages = cast_number (m ''memory_max_pages''),
        allowed_host_functions = json_texts_of (m ''allowed_host_functions''),
        allowed_effect_types = json_texts_of (m ''allowed_effect_types''), sample_input = cast_object (m ''sample_input'')\<rparr>\<rparr>)"

lemma hook_of_hook_json: "hook_of_json (Some (hook_json h)) = h"
proof -
  have "json_texts_of (Some (json_strs ss)) = ss" for ss
    by (simp add: json_texts_of_def json_strs_def json_text_of_def o_def)
  then show ?thesis
    by (cases h; cases "hook_spec_of h")
      (simp add: hook_of_json_def json_member_def hook_json_def spec_fields_def obj_get_def json_text_of_def cast_number_def
        cast_object_def Let_def)
qed

section \<open>State and steps (\<open>hook-form.tsx\<close>)\<close>

datatype notice_tone = ToneSuccess | ToneInfo

record 'fs hook_editor =
  he_form :: 'fs
  he_notice :: "(notice_tone \<times> jstr) option"
  he_error :: "js_error option"
  he_mutation :: mutation_state
  he_editing :: "operator_hook option"
  he_hosts_draft :: jstr
  he_effects_draft :: jstr
  he_created :: "json option option"

datatype json_field = JfInput | JfOutput | JfSample

datatype hook_event = HeName jstr | HeTimeout number | HePages number | HeJson json_field jstr | HeFormat json_field
  | HeHosts list_event | HeEffects list_event | HeSubmit | HeAnswer "js_error + json option" | HeRefreshed

type_synonym 'fs hook_lib = "('fs, hook_form, hook_field) form_lib"

definition LOCKED_HINT :: jstr where
  "LOCKED_HINT = (ru ''Uve razre[eno: ubratx nelxzq, skripty tenantow mogut na |to opiratxsq'')"

definition json_field_name :: "json_field \<Rightarrow> hook_field" where
  "json_field_name f = (case f of JfInput \<Rightarrow> HfInput | JfOutput \<Rightarrow> HfOutput | JfSample \<Rightarrow> HfSample)"

definition json_field_text :: "json_field \<Rightarrow> hook_form \<Rightarrow> jstr" where
  "json_field_text f v = (case f of JfInput \<Rightarrow> hf_input v | JfOutput \<Rightarrow> hf_output v | JfSample \<Rightarrow> hf_sample v)"

definition set_json_field :: "json_field \<Rightarrow> jstr \<Rightarrow> hook_form \<Rightarrow> hook_form" where
  "set_json_field f t v =
     (case f of JfInput \<Rightarrow> v\<lparr>hf_input := t\<rparr> | JfOutput \<Rightarrow> v\<lparr>hf_output := t\<rparr> | JfSample \<Rightarrow> v\<lparr>hf_sample := t\<rparr>)"

definition hook_editor_init :: "'fs hook_lib \<Rightarrow> operator_hook option \<Rightarrow> 'fs hook_editor" where
  "hook_editor_init lib hook =
     \<lparr>he_form = fl_init lib (case hook of Some h \<Rightarrow> formFromHook h | None \<Rightarrow> emptyHookForm), he_notice = None, he_error = None,
      he_mutation = mut_idle, he_editing = hook, he_hosts_draft = [], he_effects_draft = [], he_created = None\<rparr>"

text \<open>\<open>onSubmit\<close> up to its request; it closes over the hook of that moment (\<open>he_editing\<close>).\<close>

definition hook_submit :: "field_zod \<Rightarrow> 'fs hook_lib \<Rightarrow> operator_hook option \<Rightarrow> 'fs hook_editor \<Rightarrow> 'fs hook_editor \<times> mutation_call list" where
  "hook_submit zf lib hook s =
     (case fl_submit lib (hookFormSchema zf) (he_form s) of
        (f, False) \<Rightarrow> (s\<lparr>he_form := f\<rparr>, [])
      | (f, True) \<Rightarrow>
          (s\<lparr>he_form := f, he_notice := None, he_error := None, he_mutation := mut_sent, he_editing := hook\<rparr>,
           [case hook of
              None \<Rightarrow> useCreateHook (create_body (fl_values lib f))
            | Some h \<Rightarrow> useReplaceHook (hook_name h) (replace_body (fl_values lib f))]))"

text \<open>The request failed: a taken name is an error of the name field of a new hook.\<close>

definition hook_failed :: "'fs hook_lib \<Rightarrow> js_error \<Rightarrow> 'fs hook_editor \<Rightarrow> 'fs hook_editor" where
  "hook_failed lib e s =
     (if he_editing s = None \<and> is_status 409 e
      then s\<lparr>he_form := fl_settled lib (fl_set_error lib HfName (error_message e) (he_form s))\<rparr>
      else s\<lparr>he_form := fl_settled lib (he_form s), he_error := Some e\<rparr>)"

definition saved_notice :: "operator_hook \<Rightarrow> operator_hook \<Rightarrow> notice_tone \<times> jstr" where
  "saved_notice saved hook =
     (if js_num_eq (def_version saved) (def_version hook) then (ToneInfo, (ru ''Izmenenij net''))
      else (ToneSuccess, (ru ''Sohraneno. Wersiq opredeleniq: '') @ number_text (def_version saved)))"

definition hook_saved_form :: "'fs hook_lib \<Rightarrow> json option \<Rightarrow> 'fs hook_editor \<Rightarrow> 'fs hook_editor" where
  "hook_saved_form lib v s =
     (case he_editing s of
        None \<Rightarrow> s\<lparr>he_form := fl_settled lib (he_form s), he_created := Some v\<rparr>
      | Some h \<Rightarrow> s\<lparr>he_form := fl_settled lib (fl_reset lib (formFromHook (hook_of_json v)) (he_form s)),
                    he_notice := Some (saved_notice (hook_of_json v) h)\<rparr>)"

definition hook_list_step ::
  "'fs hook_lib \<Rightarrow> (hook_form \<Rightarrow> jstr list) \<Rightarrow> (jstr list \<Rightarrow> hook_form \<Rightarrow> hook_form) \<Rightarrow> list_event \<Rightarrow> jstr \<Rightarrow> 'fs \<Rightarrow> jstr \<times> 'fs" where
  "hook_list_step lib get put e draft f =
     (case list_step (get (fl_values lib f)) draft e of
        (d, None) \<Rightarrow> (d, f) | (d, Some items) \<Rightarrow> (d, fl_set lib (put items) f))"

definition hook_editor_step ::
  "field_zod \<Rightarrow> 'fs hook_lib \<Rightarrow> operator_hook option \<Rightarrow> hook_event \<Rightarrow> 'fs hook_editor \<Rightarrow> 'fs hook_editor \<times> mutation_call list" where
  "hook_editor_step zf lib hook e s =
     (let change = (\<lambda>f g. (s\<lparr>he_form := fl_change lib (hookFormSchema zf) f g (he_form s)\<rparr>, [])) in
      case e of
        HeName n \<Rightarrow> change HfName (\<lambda>v. v\<lparr>hf_name := n\<rparr>)
      | HeTimeout x \<Rightarrow> change HfTimeout (\<lambda>v. v\<lparr>hf_timeout := x\<rparr>)
      | HePages x \<Rightarrow> change HfPages (\<lambda>v. v\<lparr>hf_pages := x\<rparr>)
      | HeJson f t \<Rightarrow> change (json_field_name f) (set_json_field f t)
      | HeFormat f \<Rightarrow>
          (s\<lparr>he_form := fl_set lib (\<lambda>v. set_json_field f (formatJson (json_field_text f v)) v) (he_form s)\<rparr>, [])
      | HeHosts le \<Rightarrow> (case hook_list_step lib hf_hosts (\<lambda>xs v. v\<lparr>hf_hosts := xs\<rparr>) le (he_hosts_draft s) (he_form s) of
          (d, f) \<Rightarrow> (s\<lparr>he_hosts_draft := d, he_form := f\<rparr>, []))
      | HeEffects le \<Rightarrow> (case hook_list_step lib hf_effects (\<lambda>xs v. v\<lparr>hf_effects := xs\<rparr>) le (he_effects_draft s) (he_form s) of
          (d, f) \<Rightarrow> (s\<lparr>he_effects_draft := d, he_form := f\<rparr>, []))
      | HeSubmit \<Rightarrow> hook_submit zf lib hook s
      | HeAnswer r \<Rightarrow>
          (case r of Inl x \<Rightarrow> (hook_failed lib x s)\<lparr>he_mutation := mut_answer r\<rparr> | Inr v \<Rightarrow> s\<lparr>he_mutation := mut_answer r\<rparr>, [])
      | HeRefreshed \<Rightarrow>
          (case succeeded (he_mutation s) of
             None \<Rightarrow> s | Some v \<Rightarrow> (hook_saved_form lib v s)\<lparr>he_mutation := mut_refreshed (he_mutation s)\<rparr>, []))"

section \<open>What the form shows\<close>

definition ServerError :: "js_error \<Rightarrow> 'e ui" where
  "ServerError e = El ''div'' [(''role'', PStr (lit ''alert''))]
     (text_el ''p'' (error_message e)
      # (if truthy (error_detail e)
         then [text_el ''p'' (if is_status 409 e then (ru ''Ubrany: '') @ the (error_detail e) else the (error_detail e))] else []))"

definition json_field_el ::
  "hook_form \<Rightarrow> (hook_field \<times> jstr) list \<Rightarrow> json_field \<Rightarrow> jstr \<Rightarrow> jstr \<Rightarrow> hook_event ui list" where
  "json_field_el v errors f label hint =
     field_el label (Some hint) (field_error errors (json_field_name f))
       [button False [(''onClick'', PAct (HeFormat f))] (ru ''Formatirowatx'')]
       [input_el ''Textarea'' (PStr (json_field_text f v)) (field_error errors (json_field_name f) \<noteq> None)]"

definition grow_hint :: jstr where
  "grow_hint = (ru ''Spisok movet tolxko rasti: posle sohraneniq zna~enie ubratx nelxzq.'')"

definition HookForm :: "'fs hook_lib \<Rightarrow> operator_hook option \<Rightarrow> 'fs hook_editor \<Rightarrow> hook_event ui list" where
  "HookForm lib hook s =
     (let v = fl_values lib (he_form s); errors = fl_errors lib (he_form s); busy = fl_submitting lib (he_form s);
          locked = (\<lambda>get. case hook of None \<Rightarrow> [] | Some h \<Rightarrow> get (hook_spec_of h)) in
      (case he_error s of None \<Rightarrow> [] | Some e \<Rightarrow> [ServerError e])
      @ (case he_notice s of None \<Rightarrow> [] | Some (tone, t) \<Rightarrow> [El ''div'' [(''role'', PStr (lit ''status''))] [Txt t]])
      @ whenever (hook = None)
          (field_el (ru ''Imq huka'') (Some (ru ''Naprimer '' @ lit ''checkout.discount. '' @ ru ''Imq potom izmenitx nelxzq.'')) (field_error errors HfName) []
            [input_el ''Input'' (PStr (hf_name v)) (field_error errors HfName \<noteq> None)])
      @ field_el (ru ''Limit wremeni, ms'') (Some (ru ''Ot 1 do 30000'')) (field_error errors HfTimeout) []
          [input_el ''Input'' (PNum (hf_timeout v)) (field_error errors HfTimeout \<noteq> None)]
      @ field_el (ru ''Limit pamqti, stranic po 64 KiB'')
          (Some ((ru ''Ot 16 do 16384'') @ (if finite_number (hf_pages v) then (lit '' '' @ [0xb7] @ lit '' '') @ formatWasmPages (hf_pages v) else [])))
          (field_error errors HfPages) [] [input_el ''Input'' (PNum (hf_pages v)) (field_error errors HfPages \<noteq> None)]
      @ json_field_el v errors JfInput (ru ''Shema whoda ('' @ lit ''JSON Schema 2020-12)'') ([0x427] @ ru ''to operator pereda#t w wyzow huka.'')
      @ json_field_el v errors JfOutput (ru ''Shema wyhoda ('' @ lit ''JSON Schema 2020-12)'') ([0x427] @ ru ''to obqzan wernutx skript tenanta.'')
      @ json_field_el v errors JfSample (ru ''Primer whoda'') (ru ''Dolven prohoditx shemu whoda: na n#m prowerq@t kavdyj zagruvennyj skript.'')
      @ field_el (ru ''Razre[#nnye '' @ lit ''host-'' @ ru ''funkcii'') (Some grow_hint) None []
          (map (ui_map HeHosts) (string_list_input (hf_hosts v) (locked allowed_host_functions) (Some LOCKED_HINT) (he_hosts_draft s)))
      @ field_el (ru ''Razre[#nnye tipy |ffektow'') (Some grow_hint) None []
          (map (ui_map HeEffects) (string_list_input (hf_effects v) (locked allowed_effect_types) (Some LOCKED_HINT) (he_effects_draft s)))
      @ [button busy [(''onSubmit'', PAct HeSubmit)]
          (if busy then (ru ''Sohranenie'' @ [0x2026]) else if hook \<noteq> None then (ru ''Sohranitx'') else (ru ''Sozdatx huk''))])"

text \<open>The events of the form: its controls, typing (a name only for a new hook), and the awaited answer.\<close>

definition typed :: "list_event \<Rightarrow> bool" where
  "typed e \<longleftrightarrow> (\<exists>t. e = Draft t \<or> e = KeyDown t)"

definition hook_offered :: "'fs hook_lib \<Rightarrow> operator_hook option \<Rightarrow> 'fs hook_editor \<Rightarrow> hook_event \<Rightarrow> bool" where
  "hook_offered lib hook s e \<longleftrightarrow>
     (case e of
        HeName n \<Rightarrow> hook = None
      | HeTimeout x \<Rightarrow> True | HePages x \<Rightarrow> True | HeJson f t \<Rightarrow> True
      | HeHosts le \<Rightarrow> typed le \<or> e \<in> set (actions_of (HookForm lib hook s))
      | HeEffects le \<Rightarrow> typed le \<or> e \<in> set (actions_of (HookForm lib hook s))
      | HeAnswer r \<Rightarrow> awaits (he_mutation s)
      | HeRefreshed \<Rightarrow> refreshes (he_mutation s)
      | _ \<Rightarrow> e \<in> set (actions_of (HookForm lib hook s)))"

section \<open>Lemmas\<close>

lemma busy_submit:
  "HeSubmit \<in> set (actions_of (HookForm lib hook s)) \<longleftrightarrow> \<not> fl_submitting lib (he_form s)"
  by (auto simp: HookForm_def Let_def json_field_el_def input_el_def actions_of_map ServerError_def whenever_def
      split: option.splits notice_tone.splits)

lemma list_actions:
  "HeHosts le \<in> set (actions_of (HookForm lib hook s)) \<longleftrightarrow> le \<in> set (actions_of (string_list_input
     (hf_hosts (fl_values lib (he_form s))) (case hook of None \<Rightarrow> [] | Some h \<Rightarrow> allowed_host_functions (hook_spec_of h))
     (Some LOCKED_HINT) (he_hosts_draft s)))"
  "HeEffects le \<in> set (actions_of (HookForm lib hook s)) \<longleftrightarrow> le \<in> set (actions_of (string_list_input
     (hf_effects (fl_values lib (he_form s))) (case hook of None \<Rightarrow> [] | Some h \<Rightarrow> allowed_effect_types (hook_spec_of h))
     (Some LOCKED_HINT) (he_effects_draft s)))"
  by (auto simp: HookForm_def Let_def json_field_el_def input_el_def actions_of_map ServerError_def whenever_def
      split: option.splits notice_tone.splits)

definition hook_editor_good :: "'fs hook_lib \<Rightarrow> 'fs hook_editor \<Rightarrow> bool" where
  "hook_editor_good lib s \<longleftrightarrow> (fl_submitting lib (he_form s) \<longleftrightarrow> is_pending (mut (he_mutation s)))"

locale hook_form_library = form_library lib for lib :: "('fs, hook_form, hook_field) form_lib"
begin

lemma list_step_form:
  "hook_list_step lib get put e d f = (d', f') \<Longrightarrow> fl_submitting lib f' = fl_submitting lib f"
  by (auto simp: hook_list_step_def form_laws split: prod.splits option.splits)

lemma submit_step:
  "hook_submit zf lib hook s = (if hookFormSchema zf (fl_values lib (he_form s)) = []
     then (s\<lparr>he_form := fst (fl_submit lib (hookFormSchema zf) (he_form s)), he_notice := None, he_error := None, he_mutation := mut_sent,
             he_editing := hook\<rparr>,
           [case hook of None \<Rightarrow> useCreateHook (create_body (fl_values lib (he_form s)))
              | Some h \<Rightarrow> useReplaceHook (hook_name h) (replace_body (fl_values lib (he_form s)))])
     else (s\<lparr>he_form := fst (fl_submit lib (hookFormSchema zf) (he_form s))\<rparr>, []))"
  using submit [of "hookFormSchema zf" "he_form s"]
  by (cases "fl_submit lib (hookFormSchema zf) (he_form s)") (auto simp: hook_submit_def split: bool.split option.split)

lemma settle_good:
  "\<not> fl_submitting lib (he_form (hook_failed lib x s))" "\<not> fl_submitting lib (he_form (hook_saved_form lib v s))"
  by (simp_all add: hook_failed_def hook_saved_form_def form_laws split: option.split)

text \<open>A name taken by another hook is reported at the name field, and the form can be sent again.\<close>

lemma name_conflict:
  "he_editing s = None \<Longrightarrow> is_status 409 x \<Longrightarrow>
     field_error (fl_errors lib (he_form (hook_failed lib x s))) HfName = Some (error_message x)
     \<and> fl_values lib (he_form (hook_failed lib x s)) = fl_values lib (he_form s) \<and> he_error (hook_failed lib x s) = he_error s"
  by (simp add: hook_failed_def form_laws field_error_def)

end

sublocale hook_form_library \<subseteq> editor: mutation_dialog "hook_editor_step zf lib hook" "hook_offered lib hook" "hook_editor_good lib"
    HeAnswer "\<lambda>s. awaits (he_mutation s)" "\<lambda>_. True" for zf hook
proof (unfold_locales, goal_cases)
  case (1 s e)
  then show ?case
    by (cases e) (auto simp: hook_editor_step_def hook_editor_good_def hook_offered_def submit_step form_laws settle_good busy_submit
        refreshes_def mut_refreshed_def mut_answer_def awaits_pending Let_def dest!: list_step_form split: option.splits sum.splits prod.splits)
next
  case (2 s e)
  then show ?case
    by (cases e) (auto simp: hook_editor_step_def hook_editor_good_def hook_offered_def submit_step busy_submit awaits_pending
        Let_def split: option.splits prod.splits if_splits)
next
  case (3 s e)
  then show ?case
    by (cases e) (auto simp: hook_editor_step_def hook_editor_good_def hook_offered_def submit_step busy_submit awaits_pending
        refreshes_def awaits_cases Let_def split: option.splits prod.splits if_splits)
next
  case (4 s e)
  then show ?case
    by (cases e) (auto simp: hook_editor_step_def hook_offered_def submit_step Let_def split: option.splits prod.splits if_splits sum.splits)
qed (auto simp: hook_offered_def hook_editor_step_def Let_def split: sum.splits)

text \<open>Until a save has been answered, the lists of an edited hook keep everything the hook allows.\<close>

definition keeps_allowed :: "'fs hook_lib \<Rightarrow> operator_hook \<Rightarrow> 'fs hook_editor \<Rightarrow> bool" where
  "keeps_allowed lib h s \<longleftrightarrow> narrowed_by (hook_spec_of h) (specFromForm (fl_values lib (he_form s))) = []"

lemma keeps_allowed_iff:
  "keeps_allowed lib h s \<longleftrightarrow> set (allowed_host_functions (hook_spec_of h)) \<subseteq> set (hf_hosts (fl_values lib (he_form s)))
     \<and> set (allowed_effect_types (hook_spec_of h)) \<subseteq> set (hf_effects (fl_values lib (he_form s)))"
  by (simp add: keeps_allowed_def narrowed_by_Nil specFromForm_def)

context hook_form_library
begin

lemma list_step_keeps:
  assumes "hook_list_step lib get put le d f = (d', f')" "typed le \<or> le \<in> set (actions_of (string_list_input (get (fl_values lib f)) locked hint d))"
    "set locked \<subseteq> set (get (fl_values lib f))" "\<And>xs v. get (put xs v) = xs"
  shows "set locked \<subseteq> set (get (fl_values lib f'))"
proof -
  obtain d1 v where step: "list_step (get (fl_values lib f)) d le = (d1, v)" by fastforce
  show ?thesis
  proof (cases v)
    case (Some items)
    have "set locked \<subseteq> set items"
      using list_step_locked [of le "get (fl_values lib f)" locked hint d _ _ d1 items] assms(2,3) step Some by (auto simp: typed_def)
    then show ?thesis using assms(1,4) step Some by (auto simp: hook_list_step_def form_laws)
  qed (use assms step in \<open>simp add: hook_list_step_def\<close>)
qed

lemma list_step_other:
  "hook_list_step lib get put le d f = (d', f') \<Longrightarrow> (\<And>xs v. get' (put xs v) = get' v) \<Longrightarrow> get' (fl_values lib f') = get' (fl_values lib f)"
  by (auto simp: hook_list_step_def form_laws split: prod.splits option.splits)

lemma json_field_lists: "hf_hosts (set_json_field f t v) = hf_hosts v" "hf_effects (set_json_field f t v) = hf_effects v"
  by (simp_all add: set_json_field_def split: json_field.split)

lemma failed_values: "fl_values lib (he_form (hook_failed lib x s)) = fl_values lib (he_form s)"
  by (simp add: hook_failed_def form_laws)

lemma keeps_allowed_step:
  assumes "keeps_allowed lib h s" "hook_offered lib (Some h) s e" "e \<noteq> HeRefreshed"
  shows "keeps_allowed lib h (fst (hook_editor_step zf lib (Some h) e s))"
proof (cases e)
  case (HeHosts le)
  obtain d f where step: "hook_list_step lib hf_hosts (\<lambda>xs v. v\<lparr>hf_hosts := xs\<rparr>) le (he_hosts_draft s) (he_form s) = (d, f)" by fastforce
  show ?thesis
    using assms list_step_keeps [OF step, of "allowed_host_functions (hook_spec_of h)" "Some LOCKED_HINT"] list_step_other [OF step, of hf_effects]
    by (simp add: HeHosts hook_editor_step_def step keeps_allowed_iff hook_offered_def list_actions)
next
  case (HeEffects le)
  obtain d f where step: "hook_list_step lib hf_effects (\<lambda>xs v. v\<lparr>hf_effects := xs\<rparr>) le (he_effects_draft s) (he_form s) = (d, f)" by fastforce
  show ?thesis
    using assms list_step_keeps [OF step, of "allowed_effect_types (hook_spec_of h)" "Some LOCKED_HINT"] list_step_other [OF step, of hf_hosts]
    by (simp add: HeEffects hook_editor_step_def step keeps_allowed_iff hook_offered_def list_actions)
next
  case (HeAnswer r)
  then show ?thesis using assms by (cases r) (simp_all add: hook_editor_step_def keeps_allowed_iff failed_values)
qed (use assms in \<open>simp_all add: hook_editor_step_def keeps_allowed_iff form_laws submit_step json_field_lists Let_def\<close>)

lemma keeps_allowed_init: "keeps_allowed lib h (hook_editor_init lib (Some h))"
  by (simp add: keeps_allowed_iff hook_editor_init_def form_laws formFromHook_def Let_def)

end

interpretation plain_hook: hook_form_library plain_form
  by unfold_locales

end
