(* ===== verification/Pages.thy ===== *)
theory Pages
  imports Module_Versions Hook_Editor
begin

text \<open>
  The widgets without state machines of their own (\<open>widgets/invocation-log\<close>, \<open>console-shell\<close>,
  \<open>storefront-header\<close>), the views, and \<open>app/\<close>: layouts, pages with their parameters, the provider of the mocks.
  A child component stands in the tree as an element with its props; \<open>fmt\<close> is the host's date format. A tree is
  none when rendering throws, which an address with a lone surrogate in it does.
\<close>

section \<open>The invocation log (\<open>invocation-log.tsx\<close>)\<close>

text \<open>The state is the outcome the log is filtered by; its event sets it.\<close>

definition log_query :: "outcome option \<Rightarrow> query" where
  "log_query filter_by = invocationQueries_list \<lparr>filter_outcome = filter_by, filter_hook = None\<rparr>"

definition log_step :: "outcome option \<Rightarrow> outcome option \<Rightarrow> outcome option" where
  "log_step picked filter_by = picked"

definition OutcomeBadge :: "outcome \<Rightarrow> 'e ui" where
  "OutcomeBadge t = El ''Badge'' [(''variant'', PStr (lit (case outcome_variant t of
       BadgeDefault \<Rightarrow> ''default'' | BadgeSecondary \<Rightarrow> ''secondary'' | BadgeDestructive \<Rightarrow> ''destructive'' | BadgeOutline \<Rightarrow> ''outline'')))]
     [Txt (outcome_text t)]"

definition log_choices :: "outcome option list" where
  "log_choices = None # map Some outcomes"

definition log_button :: "outcome option \<Rightarrow> outcome option \<Rightarrow> outcome option ui" where
  "log_button filter_by choice = button False [(''aria-pressed'', PBool (filter_by = choice)), (''onClick'', PAct choice)]
     (case choice of Some t \<Rightarrow> outcome_text t | None \<Rightarrow> (ru ''wse''))"

definition title_attr :: "jstr option \<Rightarrow> (string \<times> 'e attr) list" where
  "title_attr t = (case t of Some s \<Rightarrow> [(''title'', PStr s)] | None \<Rightarrow> [])"

definition log_row :: "(jstr \<Rightarrow> jstr) \<Rightarrow> invocation \<Rightarrow> 'e ui" where
  "log_row fmt i = El ''TableRow''
     (title_attr (let t = str_join [10] (inv_logs i) in if t = [] then None else Some t))
     [text_el ''TableCell'' (fmt (inv_ts i)), text_el ''TableCell'' (inv_hook i),
      El ''TableCell'' [] (OutcomeBadge (inv_outcome i) # (if truthy (inv_reason i) then [text_el ''span'' (the (inv_reason i))] else [])),
      El ''TableCell'' [] (Txt (to_fixed 2 (inv_duration i) @ (ru '' ms''))
        # whenever (inv_cold_start i) [El ''span'' [(''title'', PStr (ru ''Holodnyj start''))] [Txt [0x2744]]]),
      text_el ''TableCell'' (if truthy (inv_module_hash i) then shortHash (the (inv_module_hash i)) else [0x2014]),
      El ''TableCell'' (title_attr (inv_error i)) [Txt (nullish (inv_error i) [])]]"

definition table_of :: "jstr list \<Rightarrow> 'e ui list \<Rightarrow> 'e ui" where
  "table_of heads rows = El ''Table'' [] [El ''TableRow'' [] (map (text_el ''TableHead'') heads), El ''TableBody'' [] rows]"

definition InvocationLog :: "(jstr \<Rightarrow> jstr) \<Rightarrow> bool \<Rightarrow> invocation list query_state \<Rightarrow> outcome option \<Rightarrow> outcome option ui list" where
  "InvocationLog fmt fetching q filter_by =
     [El ''div'' [(''role'', PStr (lit ''group'')), (''aria-label'', PStr (ru ''Filxtr po ishodu''))] (map (log_button filter_by) log_choices),
      text_el ''span'' (if fetching then (ru ''obnowlenie'' @ [0x2026]) else (ru ''obnowlqetsq kavdye '') @ nat_text (INVOCATIONS_POLL_MS div 1000) @ (ru '' s''))]
     @ query_body 8 q (\<lambda>is. if is = [] then [empty_state (ru ''Wyzowow s takim ishodom net.'')]
         else [table_of [(ru ''Wremq''), (ru ''Huk''), (ru ''Ishod''), (ru ''Dlitelxnostx''), (ru ''Wersiq''), (ru ''O[ibka'')] (map (log_row fmt) is)])"

section \<open>The frame of a console (\<open>console-shell.tsx\<close>)\<close>

record nav_item =
  nav_href :: route
  nav_label :: jstr
  nav_hint :: "jstr option"

definition isActive :: "jstr \<Rightarrow> jstr \<Rightarrow> bool" where
  "isActive pathname href \<longleftrightarrow> pathname = href \<or> str_starts_with (href @ [47]) pathname"

definition nav_el :: "jstr \<Rightarrow> nav_item \<Rightarrow> 'e ui list option" where
  "nav_el pathname n = map_option (\<lambda>href.
     El ''Link'' ([(''href'', PStr href)] @ (if isActive pathname href then [(''aria-current'', PStr (lit ''page''))] else []))
       [Txt (nav_label n)]
     # (if truthy (nav_hint n) then [text_el ''p'' (the (nav_hint n))] else [])) (route_path (nav_href n))"

definition ConsoleShell ::
  "jstr \<Rightarrow> jstr \<Rightarrow> 'e ui list \<Rightarrow> nav_item list \<Rightarrow> 'e ui list \<Rightarrow> 'e ui list \<Rightarrow> 'e ui list option" where
  "ConsoleShell pathname title context nav footer children = map_option (\<lambda>links.
     [El ''aside'' [] ([text_el ''p'' (lit ''WasmHooks''), text_el ''p'' title] @ context @ [El ''nav'' [] (concat links)] @ footer),
      El ''main'' [] children]) (all_some (map (nav_el pathname) nav))"

section \<open>The layouts (\<open>app/*/layout.tsx\<close>)\<close>

definition operator_nav :: "nav_item list" where
  "operator_nav = [\<lparr>nav_href = OperatorHooks, nav_label = (ru ''Huki''), nav_hint = None\<rparr>,
     \<lparr>nav_href = OperatorTenants, nav_label = (ru ''Tenanty''), nav_hint = None\<rparr>,
     \<lparr>nav_href = OperatorApiKeys, nav_label = (ru ''Kl@~i ustanowki''), nav_hint = None\<rparr>]"

definition tenant_nav :: "nav_item list" where
  "tenant_nav = [\<lparr>nav_href = TenantHooks, nav_label = (ru ''Huki''), nav_hint = Some (ru ''Uprawlenie obrabot~ikami'')\<rparr>]"

definition child :: "string \<Rightarrow> (string \<times> 'e attr) list \<Rightarrow> 'e ui" where
  "child name props = El name props []"

definition OperatorLayout :: "jstr \<Rightarrow> 'e ui list \<Rightarrow> 'e ui list option" where
  "OperatorLayout pathname children = ConsoleShell pathname (ru ''Konsolx operatora'') [] operator_nav
     [child ''SignOutButton'' [(''kind'', PStr (lit ''operator''))]] [El ''OperatorSessionGate'' [] children]"

definition TenantLayout :: "jstr \<Rightarrow> 'e ui list \<Rightarrow> 'e ui list option" where
  "TenantLayout pathname children = ConsoleShell pathname (ru ''Konsolx tenanta'') [child ''TenantName'' []] tenant_nav
     [child ''TenantSessionInfo'' [], child ''SignOutButton'' [(''kind'', PStr (lit ''tenant''))]] [El ''TenantSessionGate'' [] children]"

section \<open>The views\<close>

definition route_link :: "route \<Rightarrow> (string \<times> 'e attr) list \<Rightarrow> jstr \<Rightarrow> 'e ui option" where
  "route_link r props t = map_option (\<lambda>href. El ''Link'' ((''href'', PStr href) # props) [Txt t]) (route_path r)"

definition hook_row :: "(jstr \<Rightarrow> jstr) \<Rightarrow> operator_hook \<Rightarrow> 'e ui option" where
  "hook_row fmt h = map_option (\<lambda>link. El ''TableRow'' []
     [El ''TableCell'' [] [link], text_el ''TableCell'' (number_text (def_version h)),
      text_el ''TableCell'' (number_text (timeout_ms (hook_spec_of h)) @ (ru '' ms'')),
      text_el ''TableCell'' (number_text (memory_max_pages (hook_spec_of h)) @ (ru '' str. '' @ [0xb7] @ lit '' '') @ formatWasmPages (memory_max_pages (hook_spec_of h))),
      text_el ''TableCell'' (fmt (hook_updated h))]) (route_link (OperatorHook (hook_name h)) [] (hook_name h))"

text \<open>The rows of a query's data, when none of them throws.\<close>

definition query_rows :: "nat \<Rightarrow> 'a list query_state \<Rightarrow> jstr \<Rightarrow> ('a \<Rightarrow> 'e ui option) \<Rightarrow> ('e ui list \<Rightarrow> 'e ui list) \<Rightarrow> 'e ui list option" where
  "query_rows n q none row body =
     (case q of
        QReady xs \<Rightarrow> if xs = [] then Some [empty_state none] else map_option body (all_some (map row xs))
      | QPending \<Rightarrow> Some [loading_rows n]
      | QFailed e d \<Rightarrow> Some [error_state e])"

definition OperatorHooksPage :: "(jstr \<Rightarrow> jstr) \<Rightarrow> operator_hook list query_state \<Rightarrow> 'e ui list option" where
  "OperatorHooksPage fmt q =
     (case route_link OperatorNewHook [] (ru ''Sozdatx huk'') of
        None \<Rightarrow> None
      | Some link \<Rightarrow> map_option (\<lambda>body.
          [text_el ''h1'' (ru ''Huki''), text_el ''p'' (ru ''To~ki ras[ireniq produkta, na kotorye tenanty zagruva@t swoi obrabot~iki.''), link] @ body)
          (query_rows 3 q (ru ''Hukow poka net. Sozdajte perwyj, naprimer '' @ lit ''checkout.discount.'') (hook_row fmt)
            (\<lambda>rows. [table_of [(ru ''Huk''), (ru ''Wersiq opredeleniq''), (ru ''Limit wremeni''), (ru ''Limit pamqti''), (ru ''Izmen#n'')] rows])))"

definition back_link :: "'e ui option" where
  "back_link = route_link OperatorHooks [] (ru ''Wse huki'')"

definition OperatorHookPage :: "(jstr \<Rightarrow> jstr) \<Rightarrow> jstr \<Rightarrow> operator_hook query_state \<Rightarrow> 'e ui list option" where
  "OperatorHookPage fmt name q = map_option (\<lambda>link.
     [link, text_el ''h1'' name]
     @ (case query_data q of None \<Rightarrow> []
        | Some h \<Rightarrow> [text_el ''p'' ((ru ''Wersiq opredeleniq '') @ number_text (def_version h) @ (lit '' '' @ [0xb7] @ ru '' sozdan '') @ fmt (hook_created h)
            @ (lit '' '' @ [0xb7] @ ru '' izmen#n '') @ fmt (hook_updated h))])
     @ query_body 6 q (\<lambda>h. [child ''HookForm'' [(''key'', PStr (hook_name h)), (''hook'', PVal (hook_json h))]])) back_link"

definition OperatorHookNewPage :: "'e ui list option" where
  "OperatorHookNewPage = map_option (\<lambda>link. [link, text_el ''h1'' (ru ''Nowyj huk''), child ''HookForm'' []]) back_link"

text \<open>After a hook has been created the page goes to its address.\<close>

definition created_address :: "json option \<Rightarrow> jstr option" where
  "created_address v = route_path (OperatorHook (hook_name (hook_of_json v)))"

definition key_cells :: "(jstr \<Rightarrow> jstr) \<Rightarrow> api_key \<Rightarrow> 'e ui list" where
  "key_cells fmt k =
     (if truthy (revoked_at k)
      then [text_el ''TableCell'' ((ru ''Otozwan '') @ fmt (the (revoked_at k))), text_el ''TableCell'' [0x2013]]
      else [El ''TableCell'' [] [text_el ''Badge'' (ru ''Aktiwen'')],
            El ''TableCell'' [] [child ''RevokeApiKeyDialog'' [(''apiKey'', PVal (JObj (api_key_fields k)))]]])"

definition key_row :: "(jstr \<Rightarrow> jstr) \<Rightarrow> api_key \<Rightarrow> 'e ui" where
  "key_row fmt k = El ''TableRow'' []
     ([El ''TableCell'' [] [text_el ''p'' (key_name k), text_el ''p'' (key_id k)], text_el ''TableCell'' (fmt (key_created k))] @ key_cells fmt k)"

definition sorted_keys :: "(jstr \<Rightarrow> jstr \<Rightarrow> int) \<Rightarrow> api_key list \<Rightarrow> api_key list" where
  "sorted_keys compare ks = js_sort (\<lambda>a b. compare (key_created b) (key_created a)) ks"

definition OperatorApiKeysPage :: "(jstr \<Rightarrow> jstr) \<Rightarrow> (jstr \<Rightarrow> jstr \<Rightarrow> int) \<Rightarrow> api_key list query_state \<Rightarrow> 'e ui list" where
  "OperatorApiKeysPage fmt compare q =
     [text_el ''h1'' (ru ''Kl@~i ustanowki''),
      text_el ''p'' (ru ''Da@t dostup k '' @ lit ''API '' @ ru ''operatora i k wyzowam hukow. Otozwannye kl@~i osta@tsq w spiske.''), child ''IssueApiKeyDialog'' []]
     @ query_body 3 q (\<lambda>ks. let keys = sorted_keys compare ks in
         if length keys = 0 then [empty_state (ru ''Kl@~ej net. Wypustite kl@~ ili sozdajte ego komandoj '' @ lit ''controlplane apikey create.'')]
         else [table_of [(ru ''Kl@~''), (ru ''Wypu]en''), (ru ''Status''), (ru ''Dejstwie'')] (map (key_row fmt) keys)])"

definition tenant_row :: "(jstr \<Rightarrow> jstr) \<Rightarrow> tenant \<Rightarrow> 'e ui" where
  "tenant_row fmt t = El ''TableRow'' []
     [El ''TableCell'' [] [text_el ''p'' (external_id t), text_el ''p'' (tenant_name t)],
      text_el ''TableCell'' (formatQuota (rate_limit_rps t) (lit ''rps'')), text_el ''TableCell'' (formatQuota (concurrency_limit t) (ru ''[t.'')),
      text_el ''TableCell'' (fmt (tenant_updated t)),
      El ''TableCell'' [] [child ''TenantDialog'' [(''tenant'', PVal (tenant_json t))],
                          child ''OpenTenantConsoleButton'' [(''externalId'', PStr (external_id t))]]]"

definition OperatorTenantsPage :: "(jstr \<Rightarrow> jstr) \<Rightarrow> tenant list query_state \<Rightarrow> 'e ui list" where
  "OperatorTenantsPage fmt q =
     [text_el ''h1'' (ru ''Tenanty''),
      text_el ''p'' (ru ''Klienty produkta, kotorye zagruva@t swoi obrabot~iki hukow. Kwota 0 ozna~aet zna~enie po umol~ani@ '' @ lit ''data plane.''),
      child ''TenantDialog'' []]
     @ query_body 3 q (\<lambda>ts.
         if ts = [] then [empty_state (ru ''Tenantow poka net. Dobawxte perwogo, naprimer '' @ lit ''merchant-a.'')]
         else [table_of [(ru ''Tenant''), (ru ''Zaprosow w sekundu''), (ru ''Parallelxnyh wyzowow''), (ru ''Izmen#n''), (ru ''Dejstwiq'')] (map (tenant_row fmt) ts)])"

definition session_crumbs :: "tenant_session option \<Rightarrow> (jstr \<times> jstr option) list" where
  "session_crumbs s = (if truthy (Option.bind s session_tenant) then [(the (Option.bind s session_tenant), None)] else [])"

definition binding_hash :: "binding option \<Rightarrow> jstr option" where
  "binding_hash b = Option.bind b active_module_hash"

definition tenant_hook_item :: "jstr \<times> binding option \<Rightarrow> 'e ui option" where
  "tenant_hook_item nb = (case nb of (name, b) \<Rightarrow> map_option (\<lambda>link. El ''li'' []
     [text_el ''h2'' name,
      text_el ''p'' (if truthy (binding_hash b) then (ru ''Aktiwnaq wersiq: '') @ shortHash (the (binding_hash b))
                     else (ru ''Aktiwnoj wersii net: huk rabotaet bez obrabot~ika'')), link])
     (route_link (TenantHook name) [(''aria-label'', PStr ((ru ''Otkrytx '') @ name))] (ru ''Otkrytx'')))"

definition TenantHooksPage :: "tenant_session option \<Rightarrow> (jstr \<times> binding option) list query_state \<Rightarrow> 'e ui list option" where
  "TenantHooksPage s q = map_option (\<lambda>body.
     [breadcrumbs (session_crumbs s @ [((ru ''Huki''), None)]), text_el ''h1'' (ru ''Huki''),
      text_el ''p'' (ru ''Wyberite to~ku ras[ireniq, ~toby uprawlqtx wersiqmi obrabot~ika.'')]
     @ body @ [info_panel None (ru ''Kak rabotaet obnowlenie'')
       [text_el ''p'' (ru ''Zagruzite gotowyj .'' @ lit ''wasm, '' @ ru ''dovditesx prowerki i aktiwirujte wersi@. Do aktiwacii prodolvaet rabotatx teku]ij obrabot~ik.'')] []])
     (query_rows 3 q (ru ''Operator e]# ne otkryl ni odnogo huka.'') tenant_hook_item (\<lambda>rows. [El ''ul'' [] rows]))"

definition binding_prop :: "binding option \<Rightarrow> (string \<times> 'e attr) list" where
  "binding_prop b = (case b of None \<Rightarrow> [] | Some x \<Rightarrow> [(''binding'', PVal (binding_json x))])"

definition TenantHookPage :: "tenant_session option \<Rightarrow> jstr \<Rightarrow> (jstr \<times> binding option) query_state \<Rightarrow> 'e ui list" where
  "TenantHookPage s name q =
     [breadcrumbs (session_crumbs s @ [((ru ''Huki''), route_path TenantHooks)]), text_el ''h1'' name,
      text_el ''p'' (ru ''Zagruzka, prowerka i aktiwaciq obrabot~ika, parametry skripta'')]
     @ query_body 3 q (\<lambda>d. let h = binding_hash (snd d) in
         [text_el ''span'' (if truthy h then (ru ''Aktiwnaq wersiq: '') @ shortHash (the h) else (ru ''Aktiwnoj wersii net'')),
          text_el ''span'' (if truthy h then (ru ''Wybrana dlq |togo huka'') else (ru ''Huk otwe~aet bez obrabot~ika, poka wy ne aktiwiruete wersi@'')),
          child ''ModuleVersions'' ((''hook'', PStr name) # binding_prop (snd d)),
          child ''BindingConfigEditor'' ((''hook'', PStr name) # binding_prop (snd d))])"

definition TenantInvocationsPage :: "'e ui list" where
  "TenantInvocationsPage = [text_el ''h1'' (ru ''Log wyzowow''),
     text_el ''p'' (ru ''Poslednie wyzowy wa[ih obrabot~ikow. Nawedite na stroku, ~toby uwidetx logi skripta.''), child ''InvocationLog'' []]"

definition StorefrontHeader :: "'e ui list option" where
  "StorefrontHeader = map_option (\<lambda>links. [El ''header'' [] links])
     (all_some [route_link StorefrontCatalog [] (ru ''Demo-magazin''), route_link StorefrontCart [] (ru ''Korzina'')])"

definition StorefrontCatalogPage :: "'e ui" where
  "StorefrontCatalogPage = page_stub (ru ''Katalog'') (ru ''Spisok towarow demo-magazina s dobawleniem w korzinu.'') (lit ''M0'') []"

definition StorefrontCartPage :: "'e ui" where
  "StorefrontCartPage = page_stub (ru ''Korzina'')
     (ru ''Towary w korzine, skidka ot huka '' @ lit ''checkout.discount '' @ ru ''i status zakaza posle walidacii.'') (lit ''M0'') []"

end
