(* ===== verification/Tenant_Editor.thy ===== *)
theory Tenant_Editor
  imports Form_State
begin

text \<open>
  \<open>features/tenant-editor\<close>: the dialog that creates a tenant or changes one. An edited tenant is sent as the
  patch of its changed fields; without changes the dialog just closes.
\<close>

section \<open>State and steps (\<open>tenant-dialog.tsx\<close>)\<close>

record 'fs tenant_dialog =
  td_open :: bool
  td_error :: "js_error option"
  td_form :: 'fs
  td_mutation :: mutation_state

datatype tenant_event = TdChangeOpen bool | TdExternalId jstr | TdName jstr | TdRate number | TdConcurrency number | TdSubmit
  | TdAnswer "js_error + json option" | TdRefreshed

type_synonym 'fs tenant_lib = "('fs, tenant_form, tenant_form_field) form_lib"

definition tenant_defaults :: "tenant option \<Rightarrow> tenant_form" where
  "tenant_defaults t = (case t of Some u \<Rightarrow> formFromTenant u | None \<Rightarrow> emptyTenantForm)"

definition tenant_resolver :: "field_zod \<Rightarrow> tenant_form \<Rightarrow> (tenant_form_field \<times> jstr) list" where
  "tenant_resolver zf v = (case tenantFormSchema zf v of Inl es \<Rightarrow> es | Inr _ \<Rightarrow> [])"

definition tenant_parsed :: "field_zod \<Rightarrow> tenant_form \<Rightarrow> tenant_form" where
  "tenant_parsed zf v = (case tenantFormSchema zf v of Inl es \<Rightarrow> v | Inr p \<Rightarrow> p)"

definition tenant_dialog_init :: "'fs tenant_lib \<Rightarrow> tenant option \<Rightarrow> 'fs tenant_dialog" where
  "tenant_dialog_init lib t =
     \<lparr>td_open = False, td_error = None, td_form = fl_init lib (tenant_defaults t), td_mutation = mut_idle\<rparr>"

definition tenant_change_open :: "'fs tenant_lib \<Rightarrow> tenant option \<Rightarrow> bool \<Rightarrow> 'fs tenant_dialog \<Rightarrow> 'fs tenant_dialog" where
  "tenant_change_open lib t next s =
     (if fl_submitting lib (td_form s) then s
      else (if next then s\<lparr>td_form := fl_reset lib (tenant_defaults t) (td_form s), td_error := None\<rparr> else s)\<lparr>td_open := next\<rparr>)"

definition tenant_body :: "tenant_form \<Rightarrow> json" where
  "tenant_body v = JObj [(lit ''external_id'', JStr (tf_external_id v)), (lit ''name'', JStr (tf_name v)),
     (lit ''rate_limit_rps'', JNum (tf_rate v)), (lit ''concurrency_limit'', JNum (tf_concurrency v))]"

definition tenant_submit :: "field_zod \<Rightarrow> 'fs tenant_lib \<Rightarrow> tenant option \<Rightarrow> 'fs tenant_dialog \<Rightarrow> 'fs tenant_dialog \<times> mutation_call list" where
  "tenant_submit zf lib t s =
     (case fl_submit lib (tenant_resolver zf) (td_form s) of
        (f, False) \<Rightarrow> (s\<lparr>td_form := f\<rparr>, [])
      | (f, True) \<Rightarrow>
          let values = tenant_parsed zf (fl_values lib f); s' = s\<lparr>td_form := f, td_error := None\<rparr> in
          (case t of
             None \<Rightarrow> (s'\<lparr>td_mutation := mut_sent\<rparr>, [useCreateTenant (tenant_body values)])
           | Some u \<Rightarrow>
               let changes = tenantChanges u values in
               if 0 < length changes
               then (s'\<lparr>td_mutation := mut_sent\<rparr>, [usePatchTenant (external_id u) (JObj changes)])
               else (s'\<lparr>td_form := fl_settled lib f, td_open := False\<rparr>, [])))"

definition tenant_failed :: "'fs tenant_lib \<Rightarrow> tenant option \<Rightarrow> js_error \<Rightarrow> 'fs tenant_dialog \<Rightarrow> 'fs tenant_dialog" where
  "tenant_failed lib t e s =
     (if t = None \<and> is_status 409 e
      then s\<lparr>td_form := fl_settled lib (fl_set_error lib TfExternalId (error_message e) (td_form s))\<rparr>
      else s\<lparr>td_form := fl_settled lib (td_form s), td_error := Some e\<rparr>)"

definition tenant_step :: "field_zod \<Rightarrow> 'fs tenant_lib \<Rightarrow> tenant option \<Rightarrow> tenant_event \<Rightarrow> 'fs tenant_dialog \<Rightarrow> 'fs tenant_dialog \<times> mutation_call list" where
  "tenant_step zf lib t e s =
     (let change = (\<lambda>f g. (s\<lparr>td_form := fl_change lib (tenant_resolver zf) f g (td_form s)\<rparr>, [])) in
      case e of
        TdChangeOpen b \<Rightarrow> (tenant_change_open lib t b s, [])
      | TdExternalId x \<Rightarrow> change TfExternalId (\<lambda>v. v\<lparr>tf_external_id := x\<rparr>)
      | TdName x \<Rightarrow> change TfName (\<lambda>v. v\<lparr>tf_name := x\<rparr>)
      | TdRate x \<Rightarrow> change TfRate (\<lambda>v. v\<lparr>tf_rate := x\<rparr>)
      | TdConcurrency x \<Rightarrow> change TfConcurrency (\<lambda>v. v\<lparr>tf_concurrency := x\<rparr>)
      | TdSubmit \<Rightarrow> tenant_submit zf lib t s
      | TdAnswer r \<Rightarrow>
          (case r of Inl x \<Rightarrow> (tenant_failed lib t x s)\<lparr>td_mutation := mut_answer r\<rparr> | Inr v \<Rightarrow> s\<lparr>td_mutation := mut_answer r\<rparr>, [])
      | TdRefreshed \<Rightarrow>
          (s\<lparr>td_form := fl_settled lib (td_form s), td_open := False, td_mutation := mut_refreshed (td_mutation s)\<rparr>, []))"

section \<open>What the dialog shows\<close>

definition QUOTA_HINT :: jstr where
  "QUOTA_HINT = (lit ''0 '' @ [0x2014] @ ru '' zna~enie po umol~ani@ '' @ lit ''data plane'')"

definition Field :: "jstr \<Rightarrow> jstr option \<Rightarrow> jstr option \<Rightarrow> 'e ui list \<Rightarrow> 'e ui list" where
  "Field label hint error children =
     text_el ''Label'' label # children
     @ (if truthy error then [text_el ''p'' (the error)] else if truthy hint then [text_el ''p'' (the hint)] else [])"

lemma Field_actions [simp]: "actions_of (Field label hint error children) = actions_of children"
  by (simp add: Field_def)

definition tenant_input ::
  "(tenant_form_field \<times> jstr) list \<Rightarrow> tenant_form_field \<Rightarrow> jstr \<Rightarrow> jstr option \<Rightarrow> 'e attr \<Rightarrow> 'e ui list" where
  "tenant_input errors f label hint v =
     Field label hint (field_error errors f) [input_el ''Input'' v (field_error errors f \<noteq> None)]"

definition TenantDialog :: "'fs tenant_lib \<Rightarrow> tenant option \<Rightarrow> 'fs tenant_dialog \<Rightarrow> tenant_event ui list" where
  "TenantDialog lib t s =
     (let v = fl_values lib (td_form s); errors = fl_errors lib (td_form s); busy = fl_submitting lib (td_form s) in
      dialog (td_open s) TdChangeOpen
        [case t of
           Some u \<Rightarrow> button False [(''aria-label'', PStr ((ru ''Izmenitx '') @ external_id u))] (ru ''Izmenitx'')
         | None \<Rightarrow> button False [] (ru ''Dobawitx tenanta'')]
        ([text_el ''DialogTitle'' (case t of Some u \<Rightarrow> (ru ''Tenant '') @ external_id u | None \<Rightarrow> (ru ''Nowyj tenant'')),
          text_el ''DialogDescription'' (case t of
              Some u \<Rightarrow> (lit ''external_id '' @ ru ''izmenitx nelxzq: po nemu '' @ lit ''data plane '' @ ru ''uzna#t tenanta w wyzowah.'')
            | None \<Rightarrow> (ru ''Tenant poqwitsq w snimke konfiguracii '' @ lit ''data plane '' @ ru ''srazu posle sozdaniq.''))]
         @ whenever (t = None) (tenant_input errors TfExternalId (lit ''external_id'')
             (Some (ru ''Identifikator tenanta w wa[em produkte, naprimer '' @ lit ''merchant-a.'')) (PStr (tf_external_id v)))
         @ tenant_input errors TfName (ru ''Nazwanie'') None (PStr (tf_name v))
         @ tenant_input errors TfRate (ru ''Limit zaprosow w sekundu'') (Some QUOTA_HINT) (PNum (tf_rate v))
         @ tenant_input errors TfConcurrency (ru ''Parallelxnyh wyzowow'') (Some QUOTA_HINT) (PNum (tf_concurrency v))
         @ [text_el ''p'' (ru ''Kwoty popadut w snimok, primenqtx ih '' @ lit ''data plane '' @ ru ''na~n#t w '' @ lit ''MVP.'')]
         @ (case td_error s of None \<Rightarrow> [] | Some e \<Rightarrow> [alert_p (describe_error e)])
         @ [dialog_close busy TdChangeOpen (ru ''Otmena''),
            button (busy \<or> (t \<noteq> None \<and> \<not> fl_dirty lib (td_form s))) [(''onSubmit'', PAct TdSubmit)]
              (if busy then (ru ''Sohranenie'' @ [0x2026]) else if t \<noteq> None then (ru ''Sohranitx'') else (ru ''Sozdatx''))]))"

definition tenant_offered :: "'fs tenant_lib \<Rightarrow> tenant option \<Rightarrow> 'fs tenant_dialog \<Rightarrow> tenant_event \<Rightarrow> bool" where
  "tenant_offered lib t s e \<longleftrightarrow>
     (case e of
        TdExternalId x \<Rightarrow> td_open s \<and> t = None
      | TdName x \<Rightarrow> td_open s | TdRate x \<Rightarrow> td_open s | TdConcurrency x \<Rightarrow> td_open s
      | TdAnswer r \<Rightarrow> awaits (td_mutation s)
      | TdRefreshed \<Rightarrow> refreshes (td_mutation s)
      | _ \<Rightarrow> e \<in> set (actions_of (TenantDialog lib t s)))"

section \<open>Lemmas\<close>

lemma tenant_dialog_actions:
  "set (actions_of (TenantDialog lib t s)) = insert (TdChangeOpen True) (if td_open s then insert (TdChangeOpen False)
     (if fl_submitting lib (td_form s) \<or> (t \<noteq> None \<and> \<not> fl_dirty lib (td_form s)) then {} else {TdSubmit}) else {})"
  by (auto simp: TenantDialog_def Let_def dialog_actions tenant_input_def input_el_def whenever_def split: option.split)

definition tenant_good :: "'fs tenant_lib \<Rightarrow> 'fs tenant_dialog \<Rightarrow> bool" where
  "tenant_good lib s \<longleftrightarrow> (fl_submitting lib (td_form s) \<longleftrightarrow> is_pending (mut (td_mutation s)))"

lemma tenant_resolver_Nil: "tenant_resolver zf v = [] \<Longrightarrow> tenantFormSchema zf v = Inr (tenant_parsed zf v)"
  by (auto simp: tenant_resolver_def tenant_parsed_def tenantFormSchema_def Let_def split: if_splits)

context field_parser
begin

lemma tenant_parsed_ok:
  assumes "tenant_resolver zf v = []"
  shows "tf_external_id (tenant_parsed zf v) = tf_external_id v" "tf_external_id v \<noteq> []" "length (tf_external_id v) \<le> EXTERNAL_ID_MAX"
    "js_trim (tf_external_id v) = tf_external_id v"
    "tf_name (tenant_parsed zf v) = js_trim (tf_name v)" "js_trim (tf_name v) \<noteq> []"
    "tf_rate (tenant_parsed zf v) = tf_rate v" "js_is_safe (tf_rate v)" "\<not> js_lt (tf_rate v) (num 0)"
    "tf_concurrency (tenant_parsed zf v) = tf_concurrency v" "js_is_safe (tf_concurrency v)" "\<not> js_lt (tf_concurrency v) (num 0)"
proof -
  note p = tenant_resolver_Nil [OF assms, unfolded tenantFormSchema_def Let_def]
  have none: "field_message (tenant_field_parse zf v f) = None" for f
    using p messages_Nil [of "\<lambda>f. field_message (tenant_field_parse zf v f)" "[TfExternalId, TfName, TfRate, TfConcurrency]"]
    by (cases f) (auto split: if_splits)
  obtain a b c d where parts: "tenant_field_parse zf v TfExternalId = Inr a" "tenant_field_parse zf v TfName = Inr b"
    "tenant_field_parse zf v TfRate = Inr c" "tenant_field_parse zf v TfConcurrency = Inr d"
    using none field_message_None by metis
  have q: "tenant_parsed zf v = \<lparr>tf_external_id = field_str (Inr a), tf_name = field_str (Inr b), tf_rate = field_num (Inr c), tf_concurrency = field_num (Inr d)\<rparr>"
    using p parts by (auto split: if_splits)
  note fields = parts [unfolded tenant_field_parse_def tenant_form_field.case, unfolded external_id_ok tenant_name_ok quota_field_ok]
  show "tf_external_id (tenant_parsed zf v) = tf_external_id v" "tf_external_id v \<noteq> []" "length (tf_external_id v) \<le> EXTERNAL_ID_MAX"
    "js_trim (tf_external_id v) = tf_external_id v"
    "tf_name (tenant_parsed zf v) = js_trim (tf_name v)" "js_trim (tf_name v) \<noteq> []"
    "tf_rate (tenant_parsed zf v) = tf_rate v" "js_is_safe (tf_rate v)" "\<not> js_lt (tf_rate v) (num 0)"
    "tf_concurrency (tenant_parsed zf v) = tf_concurrency v" "js_is_safe (tf_concurrency v)" "\<not> js_lt (tf_concurrency v) (num 0)"
    using fields by (simp_all add: q)
qed

text \<open>A tenant the form lets through passes the checks of the control plane.\<close>

lemma tenant_body_accepted:
  assumes "tenant_resolver zf v = []" shows "createError e (tenant_body (tenant_parsed zf v)) = Inr None"
proof -
  have safe: "js_is_safe x \<Longrightarrow> js_is_integer x" for x by (cases x) simp_all
  note ok = tenant_parsed_ok [OF assms]
  have "1 \<le> length (tf_external_id v)" using ok(2) by (cases "tf_external_id v") simp_all
  then show ?thesis
    using ok by (simp add: createError_def tenant_body_def first_error_pass field_check_def body_get_def obj_get_def required_text_def
        quotaError_def nullish_field_def safe not_less)
qed

end

locale tenant_form_library = form_library lib for lib :: "('fs, tenant_form, tenant_form_field) form_lib"
begin

lemma tenant_submit_cases:
  "tenant_submit zf lib t s =
     (let r = tenant_resolver zf; f = fst (fl_submit lib r (td_form s)); v = tenant_parsed zf (fl_values lib (td_form s)) in
      if r (fl_values lib (td_form s)) \<noteq> [] then (s\<lparr>td_form := f\<rparr>, [])
      else (case t of
          None \<Rightarrow> (s\<lparr>td_form := f, td_error := None, td_mutation := mut_sent\<rparr>, [useCreateTenant (tenant_body v)])
        | Some u \<Rightarrow> if tenantChanges u v \<noteq> []
            then (s\<lparr>td_form := f, td_error := None, td_mutation := mut_sent\<rparr>, [usePatchTenant (external_id u) (JObj (tenantChanges u v))])
            else (s\<lparr>td_form := fl_settled lib f, td_error := None, td_open := False\<rparr>, [])))"
  using submit [of "tenant_resolver zf" "td_form s"]
  by (cases "fl_submit lib (tenant_resolver zf) (td_form s)") (auto simp: tenant_submit_def Let_def split: bool.split option.split)

lemma tenant_settled: "\<not> fl_submitting lib (td_form (tenant_failed lib t x s))"
  by (simp add: tenant_failed_def form_laws)

lemma tenant_failed_open: "td_open (tenant_failed lib t x s) = td_open s" "td_mutation (tenant_failed lib t x s) = td_mutation s"
  by (simp_all add: tenant_failed_def)

end

sublocale tenant_form_library \<subseteq> dialog: mutation_dialog "tenant_step zf lib t" "tenant_offered lib t" "tenant_good lib"
    TdAnswer "\<lambda>s. awaits (td_mutation s)" td_open for zf t
proof (unfold_locales, goal_cases)
  case (1 s e)
  then show ?case
    by (cases e) (auto simp: tenant_step_def tenant_good_def tenant_offered_def tenant_submit_cases tenant_change_open_def form_laws
        tenant_settled tenant_dialog_actions refreshes_def mut_refreshed_def mut_answer_def awaits_pending Let_def
        split: option.splits sum.splits if_splits)
next
  case (2 s e)
  then show ?case
    by (cases e) (auto simp: tenant_step_def tenant_good_def tenant_offered_def tenant_submit_cases tenant_dialog_actions awaits_pending Let_def
        split: option.splits if_splits)
next
  case (3 s e)
  then show ?case
    by (cases e) (auto simp: tenant_step_def tenant_good_def tenant_offered_def tenant_submit_cases tenant_change_open_def tenant_dialog_actions
        awaits_pending refreshes_def awaits_cases Let_def split: option.splits if_splits)
next
  case (4 s e)
  then show ?case
    by (cases e) (auto simp: tenant_step_def tenant_offered_def tenant_submit_cases tenant_change_open_def Let_def split: option.splits if_splits sum.splits)
qed (auto simp: tenant_offered_def tenant_step_def Let_def split: sum.splits)

interpretation plain_tenant: tenant_form_library plain_form
  by unfold_locales

end
