(* ===== verification/Config_Editor.thy ===== *)
theory Config_Editor
  imports Form_State
begin

text \<open>
  \<open>features/edit-binding-config\<close>: the editor of the string parameters of a binding. A config equal to the
  current one is not sent.
\<close>

section \<open>Configs in bindings\<close>

definition config_of_json :: "json \<Rightarrow> jstr obj" where
  "config_of_json v = (case v of JObj ob \<Rightarrow> map (\<lambda>(k, x). (k, case x of JStr s \<Rightarrow> s | _ \<Rightarrow> [])) ob | _ \<Rightarrow> [])"

lemma config_of_config_json: "config_of_json (config_json c) = c"
  by (simp add: config_of_json_def config_json_def o_def case_prod_unfold)

text \<open>The members of a saved binding the editor reads.\<close>

definition saved_config :: "json option \<Rightarrow> jstr obj" where
  "saved_config v = (case v of Some (JObj ob) \<Rightarrow> (case obj_get ob (lit ''config'') of Some c \<Rightarrow> config_of_json c | None \<Rightarrow> []) | _ \<Rightarrow> [])"

definition saved_version :: "json option \<Rightarrow> number" where
  "saved_version v = (case v of Some (JObj ob) \<Rightarrow> cast_number (obj_get ob (lit ''config_version'')) | _ \<Rightarrow> NaN)"

lemma saved_binding:
  "saved_config (Some (binding_json b)) = config_of_json (binding_config b)" "saved_version (Some (binding_json b)) = config_version b"
  by (simp_all add: saved_config_def saved_version_def binding_json_def obj_get_def cast_number_def)

section \<open>State and steps (\<open>binding-config-editor.tsx\<close>)\<close>

record 'fs config_editor =
  ce_form :: 'fs
  ce_notice :: "jstr option"
  ce_mutation :: mutation_state
  ce_binding :: "binding option"

datatype config_event = CeKey nat jstr | CeValue nat jstr | CeAppend | CeRemove nat | CeSubmit
  | CeAnswer "js_error + json option" | CeRefreshed

type_synonym 'fs config_lib = "('fs, config_row list, nat) form_lib"

definition current_config :: "binding option \<Rightarrow> jstr obj" where
  "current_config b = (case b of None \<Rightarrow> [] | Some x \<Rightarrow> config_of_json (binding_config x))"

definition config_editor_init :: "'fs config_lib \<Rightarrow> (jstr \<Rightarrow> jstr \<Rightarrow> int) \<Rightarrow> binding option \<Rightarrow> 'fs config_editor" where
  "config_editor_init lib compare b =
     \<lparr>ce_form = fl_init lib (formFromConfig compare (map_option (\<lambda>x. config_of_json (binding_config x)) b)), ce_notice = None,
      ce_mutation = mut_idle, ce_binding = b\<rparr>"

definition no_changes_text :: jstr where
  "no_changes_text = (ru ''Izmenenij net'')"

definition config_submit ::
  "'fs config_lib \<Rightarrow> (jstr \<Rightarrow> jstr \<Rightarrow> int) \<Rightarrow> jstr \<Rightarrow> binding option \<Rightarrow> 'fs config_editor \<Rightarrow> 'fs config_editor \<times> mutation_call list" where
  "config_submit lib compare hook b s =
     (case fl_submit lib configFormSchema (ce_form s) of
        (f, False) \<Rightarrow> (s\<lparr>ce_form := f\<rparr>, [])
      | (f, True) \<Rightarrow>
          let config = configFromForm (fl_values lib f); s' = s\<lparr>ce_form := f, ce_notice := None, ce_mutation := mut_idle, ce_binding := b\<rparr> in
          if sameConfig config (current_config b)
          then (s'\<lparr>ce_form := fl_settled lib (fl_reset lib (formFromConfig compare (Some (current_config b))) f),
                   ce_notice := Some no_changes_text\<rparr>, [])
          else (s'\<lparr>ce_mutation := mut_sent\<rparr>, [useSaveConfig hook config]))"

definition saved_config_notice :: "json option \<Rightarrow> binding option \<Rightarrow> jstr" where
  "saved_config_notice v b =
     (case b of
        Some x \<Rightarrow> if js_num_eq (saved_version v) (config_version x) then no_changes_text
                  else (ru ''Sohraneno. Wersiq konfiga: '') @ number_text (saved_version v)
      | None \<Rightarrow> (ru ''Sohraneno. Wersiq konfiga: '') @ number_text (saved_version v))"

definition config_step ::
  "'fs config_lib \<Rightarrow> (jstr \<Rightarrow> jstr \<Rightarrow> int) \<Rightarrow> jstr \<Rightarrow> binding option \<Rightarrow> config_event \<Rightarrow> 'fs config_editor
     \<Rightarrow> 'fs config_editor \<times> mutation_call list" where
  "config_step lib compare hook b e s =
     (let change = (\<lambda>i g. (s\<lparr>ce_form := fl_change lib configFormSchema i (\<lambda>rs. rs[i := g (rs ! i)]) (ce_form s)\<rparr>, [])) in
      case e of
        CeKey i k \<Rightarrow> change i (\<lambda>r. r\<lparr>row_key := k\<rparr>)
      | CeValue i v \<Rightarrow> change i (\<lambda>r. r\<lparr>row_value := v\<rparr>)
      | CeAppend \<Rightarrow> (s\<lparr>ce_form := fl_set lib (\<lambda>rs. rs @ [\<lparr>row_key = [], row_value = []\<rparr>]) (ce_form s)\<rparr>, [])
      | CeRemove i \<Rightarrow> (s\<lparr>ce_form := fl_set lib (\<lambda>rs. take i rs @ drop (Suc i) rs) (ce_form s)\<rparr>, [])
      | CeSubmit \<Rightarrow> config_submit lib compare hook b s
      | CeAnswer r \<Rightarrow>
          (case r of
             Inl x \<Rightarrow> s\<lparr>ce_form := fl_settled lib (ce_form s), ce_mutation := mut_answer r\<rparr>
           | Inr v \<Rightarrow> s\<lparr>ce_mutation := mut_answer r\<rparr>, [])
      | CeRefreshed \<Rightarrow>
          (case succeeded (ce_mutation s) of
             None \<Rightarrow> s
           | Some v \<Rightarrow> s\<lparr>ce_form := fl_settled lib (fl_reset lib (formFromConfig compare (Some (saved_config v))) (ce_form s)),
                         ce_notice := Some (saved_config_notice v (ce_binding s)), ce_mutation := mut_refreshed (ce_mutation s)\<rparr>, []))"

section \<open>What the editor shows\<close>

definition row_el :: "(nat \<times> jstr) list \<Rightarrow> nat \<times> config_row \<Rightarrow> config_event ui list" where
  "row_el errors ir =
     (case ir of (i, r) \<Rightarrow>
        [El ''Input'' [(''aria-label'', PStr ((ru ''Kl@~ '') @ nat_text (i + 1))), (''value'', PStr (row_key r)),
                      (''aria-invalid'', PBool (truthy (field_error errors i)))] []]
        @ (if truthy (field_error errors i) then [text_el ''p'' (the (field_error errors i))] else [])
        @ [El ''Input'' [(''aria-label'', PStr ((ru ''Zna~enie '') @ nat_text (i + 1))), (''value'', PStr (row_value r))] [],
           button False [(''aria-label'', PStr ((ru ''Udalitx parametr '') @ nat_text (i + 1))), (''onClick'', PAct (CeRemove i))] []])"

definition BindingConfigEditor :: "'fs config_lib \<Rightarrow> binding option \<Rightarrow> 'fs config_editor \<Rightarrow> config_event ui list" where
  "BindingConfigEditor lib b s =
     (let rows = fl_values lib (ce_form s); errors = fl_errors lib (ce_form s); busy = fl_submitting lib (ce_form s) in
      [text_el ''h2'' (ru ''Parametry skripta''),
       text_el ''p'' ((ru ''Skript ~itaet ih ~erez '' @ lit ''config_get. '' @ ru ''Zna~eniq '' @ [0x2014] @ ru '' stroki: ~isla wwodite kak tekst, skript razber#t ih sam.'')
         @ (case b of Some x \<Rightarrow> (ru '' Wersiq konfiga: '') @ number_text (config_version x) @ lit ''.''
            | None \<Rightarrow> (ru '' Parametry movno zadatx do aktiwacii wersii.'')))]
      @ (if 0 < length rows then [text_el ''span'' (ru ''Kl@~''), text_el ''span'' (ru ''Zna~enie'')] else [text_el ''p'' (ru ''Parametrow net.'')])
      @ concat (map (row_el errors) (zip [0..<length rows] rows))
      @ [button False [(''onClick'', PAct CeAppend)] (ru ''Dobawitx parametr''),
         button busy [(''onSubmit'', PAct CeSubmit)] (if busy then (ru ''Sohranenie'' @ [0x2026]) else (ru ''Sohranitx parametry''))]
      @ (if truthy (ce_notice s) \<and> \<not> fl_dirty lib (ce_form s)
         then [El ''p'' [(''role'', PStr (lit ''status''))] [Txt (the (ce_notice s))]] else [])
      @ (case mutation_error (mut (ce_mutation s)) of Some x \<Rightarrow> [alert_p (describe_error x)] | None \<Rightarrow> [])
      @ [text_el ''p'' (ru ''Obnowlenie ispolnitelej movet zanqtx nekotoroe wremq. Modulx s nowymi parametrami powtorno ne prowerqetsq.'')])"

definition config_offered :: "'fs config_lib \<Rightarrow> binding option \<Rightarrow> 'fs config_editor \<Rightarrow> config_event \<Rightarrow> bool" where
  "config_offered lib b s e \<longleftrightarrow>
     (case e of
        CeKey i k \<Rightarrow> i < length (fl_values lib (ce_form s))
      | CeValue i v \<Rightarrow> i < length (fl_values lib (ce_form s))
      | CeAnswer r \<Rightarrow> awaits (ce_mutation s)
      | CeRefreshed \<Rightarrow> refreshes (ce_mutation s)
      | _ \<Rightarrow> e \<in> set (actions_of (BindingConfigEditor lib b s)))"

section \<open>Lemmas\<close>

lemma row_actions: "actions_of (row_el errors (i, r)) = [CeRemove i]"
  by (simp add: row_el_def)

lemma rows_actions: "set (actions_of (concat (map (row_el errors) irs))) = (CeRemove \<circ> fst) ` set irs"
  by (induction irs) (auto simp: row_actions)

lemma config_actions:
  "set (actions_of (BindingConfigEditor lib b s)) =
     insert CeAppend (CeRemove ` {0..<length (fl_values lib (ce_form s))} \<union> (if fl_submitting lib (ce_form s) then {} else {CeSubmit}))"
proof -
  have "fst ` set (zip [0..<length rs] rs) = {0..<length rs}" for rs :: "config_row list"
    by (metis set_map map_fst_zip length_upt minus_nat.diff_0 atLeastLessThan_upt)
  then show ?thesis
    by (auto simp: BindingConfigEditor_def Let_def rows_actions image_comp [symmetric] split: option.split)
qed

definition config_good :: "'fs config_lib \<Rightarrow> 'fs config_editor \<Rightarrow> bool" where
  "config_good lib s \<longleftrightarrow> (fl_submitting lib (ce_form s) \<longleftrightarrow> is_pending (mut (ce_mutation s)))"

locale config_form_library = form_library lib for lib :: "('fs, config_row list, nat) form_lib"
begin

lemma config_submit_cases:
  "config_submit lib compare hook b s =
     (let f = fst (fl_submit lib configFormSchema (ce_form s)); rows = fl_values lib (ce_form s) in
      if configFormSchema rows \<noteq> [] then (s\<lparr>ce_form := f\<rparr>, [])
      else if sameConfig (configFromForm rows) (current_config b)
      then (s\<lparr>ce_form := fl_settled lib (fl_reset lib (formFromConfig compare (Some (current_config b))) f), ce_notice := Some no_changes_text,
              ce_mutation := mut_idle, ce_binding := b\<rparr>, [])
      else (s\<lparr>ce_form := f, ce_notice := None, ce_mutation := mut_sent, ce_binding := b\<rparr>, [useSaveConfig hook (configFromForm rows)]))"
  using submit [of configFormSchema "ce_form s"]
  by (cases "fl_submit lib configFormSchema (ce_form s)") (auto simp: config_submit_def Let_def split: bool.split)

text \<open>A request carries a config that differs from the current one and holds every row that was kept.\<close>

lemma config_sent:
  assumes "c \<in> set (snd (config_step lib compare hook b e s))"
  shows "c = useSaveConfig hook (configFromForm (fl_values lib (ce_form s))) \<and> configFormSchema (fl_values lib (ce_form s)) = []
     \<and> \<not> sameConfig (configFromForm (fl_values lib (ce_form s))) (current_config b)"
  using assms by (cases e) (auto simp: config_step_def config_submit_cases Let_def split: if_splits sum.splits option.splits)

text \<open>Opening the editor and saving without a change sends nothing.\<close>

lemma config_unchanged:
  assumes "config_ok (current_config b)"
  shows "snd (config_step lib compare hook b CeSubmit (config_editor_init lib compare b)) = []"
proof -
  have init: "fl_values lib (ce_form (config_editor_init lib compare b)) = formFromConfig compare (Some (current_config b))"
    by (cases b) (simp_all add: config_editor_init_def current_config_def form_laws formFromConfig_def)
  have d: "distinct (obj_keys (current_config b))" using assms by (simp add: config_ok_def)
  note rt = config_roundtrip [OF assms, of compare]
  have "sameConfig (configFromForm (formFromConfig compare (Some (current_config b)))) (current_config b)"
    using rt(2) sameConfig_iff [OF d config_of_valid_form(3) [OF rt(1)]] sameConfig_iff [OF config_of_valid_form(3) [OF rt(1)] d] by auto
  then show ?thesis using rt(1) by (simp add: config_step_def config_submit_cases init Let_def)
qed

end

sublocale config_form_library \<subseteq> editor: mutation_dialog "config_step lib compare hook b" "config_offered lib b" "config_good lib"
    CeAnswer "\<lambda>s. awaits (ce_mutation s)" "\<lambda>_. True" for compare hook b
proof (unfold_locales, goal_cases)
  case (1 s e)
  then show ?case
    by (cases e) (auto simp: config_step_def config_good_def config_offered_def config_submit_cases config_actions form_laws
        refreshes_def mut_refreshed_def mut_answer_def awaits_pending Let_def split: option.splits sum.splits)
next
  case (2 s e)
  then show ?case
    by (cases e) (auto simp: config_step_def config_good_def config_offered_def config_submit_cases config_actions awaits_pending Let_def
        split: if_splits)
next
  case (3 s e)
  then show ?case
    by (cases e) (auto simp: config_step_def config_good_def config_offered_def config_submit_cases config_actions awaits_pending
        refreshes_def awaits_cases Let_def split: option.splits if_splits)
next
  case (4 s e)
  then show ?case
    by (cases e) (auto simp: config_step_def config_offered_def config_submit_cases Let_def split: option.splits if_splits sum.splits)
qed (auto simp: config_offered_def config_step_def Let_def split: sum.splits)

interpretation plain_config: config_form_library plain_form
  by unfold_locales

end
