(* ===== verification/App.thy ===== *)
theory App
  imports Pages Tenant_Editor Config_Editor
begin

text \<open>
  \<open>app/\<close>: which page an address shows (the folders of \<open>app/\<close>, a static folder before a dynamic one), the
  parameters the dynamic pages decode, and the provider that starts the mocks. The lemmas show that the links of
  the views lead to the pages they name and that the console asks for what the address names.
\<close>

section \<open>Pages and their parameters\<close>

datatype app_page =
    PageCatalog | PageCart
  | PageTenantEntry route | PageTenantHooks | PageTenantHook jstr | PageTenantInvocations
  | PageOperatorRedirect route | PageOperatorHooks | PageOperatorHook jstr | PageOperatorNewHook
  | PageOperatorTenants | PageOperatorApiKeys
  | PageUriError
  | PageNotFound

text \<open>\<open>decodeURIComponent\<close> of a page's parameter; it throws on a malformed escape.\<close>

definition decoded_page :: "(jstr \<Rightarrow> app_page) \<Rightarrow> jstr \<Rightarrow> app_page" where
  "decoded_page p param = (case decode_uri_component param of Some v \<Rightarrow> p v | None \<Rightarrow> PageUriError)"

definition tenant_hook_page :: "jstr \<Rightarrow> app_page" where
  "tenant_hook_page param = decoded_page PageTenantHook param"

definition operator_hook_page :: "jstr \<Rightarrow> app_page" where
  "operator_hook_page param = decoded_page PageOperatorHook param"

definition TenantIndex :: app_page where
  "TenantIndex = PageTenantEntry TenantHooks"

definition OperatorIndex :: app_page where
  "OperatorIndex = PageOperatorRedirect OperatorHooks"

text \<open>The title of a dynamic page is its decoded parameter.\<close>

definition page_title :: "app_page \<Rightarrow> jstr option" where
  "page_title p =
     (case p of
        PageCart \<Rightarrow> Some (ru ''Korzina'') | PageTenantHooks \<Rightarrow> Some (ru ''Huki'') | PageTenantHook name \<Rightarrow> Some name
      | PageTenantInvocations \<Rightarrow> Some (ru ''Log wyzowow'') | PageOperatorHooks \<Rightarrow> Some (ru ''Huki'') | PageOperatorHook name \<Rightarrow> Some name
      | PageOperatorNewHook \<Rightarrow> Some (ru ''Nowyj huk'') | PageOperatorTenants \<Rightarrow> Some (ru ''Tenanty'')
      | PageOperatorApiKeys \<Rightarrow> Some (ru ''Kl@~i ustanowki'') | _ \<Rightarrow> None)"

definition static_pages :: "(jstr list \<times> app_page) list" where
  "static_pages = map (apfst (map lit))
     [([], PageCatalog), ([''cart''], PageCart), ([''tenant''], TenantIndex), ([''tenant'', ''hooks''], PageTenantHooks),
      ([''tenant'', ''invocations''], PageTenantInvocations), ([''operator''], OperatorIndex), ([''operator'', ''hooks''], PageOperatorHooks),
      ([''operator'', ''hooks'', ''new-hook''], PageOperatorNewHook), ([''operator'', ''tenants''], PageOperatorTenants),
      ([''operator'', ''api-keys''], PageOperatorApiKeys)]"

definition dynamic_page :: "jstr list \<Rightarrow> app_page" where
  "dynamic_page parts =
     (case parts of
        [a, b, param] \<Rightarrow>
          if param = [] then PageNotFound
          else if a = lit ''tenant'' \<and> b = lit ''hooks'' then tenant_hook_page param
          else if a = lit ''operator'' \<and> b = lit ''hooks'' then operator_hook_page param
          else PageNotFound
      | _ \<Rightarrow> PageNotFound)"

definition app_page_at :: "jstr list \<Rightarrow> app_page" where
  "app_page_at parts = (case map_of static_pages parts of Some p \<Rightarrow> p | None \<Rightarrow> dynamic_page parts)"

text \<open>The segments of an address of the application: the parser's, without the empty last one of the root.\<close>

definition address_segments :: "jstr \<Rightarrow> jstr list" where
  "address_segments path = (let parts = url_segments path in if parts = [[]] then [] else parts)"

definition route_page :: "route \<Rightarrow> app_page" where
  "route_page r =
     (case r of
        StorefrontCatalog \<Rightarrow> PageCatalog | StorefrontCart \<Rightarrow> PageCart | TenantRoot \<Rightarrow> TenantIndex | TenantHooks \<Rightarrow> PageTenantHooks
      | TenantHook name \<Rightarrow> PageTenantHook name | TenantInvocations \<Rightarrow> PageTenantInvocations | OperatorRoot \<Rightarrow> OperatorIndex
      | OperatorHooks \<Rightarrow> PageOperatorHooks | OperatorNewHook \<Rightarrow> PageOperatorNewHook | OperatorHook name \<Rightarrow> PageOperatorHook name
      | OperatorTenants \<Rightarrow> PageOperatorTenants | OperatorApiKeys \<Rightarrow> PageOperatorApiKeys)"

text \<open>The query a page runs for its own content.\<close>

definition page_query :: "app_page \<Rightarrow> query option" where
  "page_query p =
     (case p of
        PageTenantHooks \<Rightarrow> Some hookQueries_list | PageTenantHook name \<Rightarrow> Some (hookQueries_detail name)
      | PageOperatorHooks \<Rightarrow> Some operatorHookQueries_list | PageOperatorHook name \<Rightarrow> Some (operatorHookQueries_detail name)
      | PageOperatorTenants \<Rightarrow> Some tenantQueries_list | PageOperatorApiKeys \<Rightarrow> Some apiKeyQueries_list | _ \<Rightarrow> None)"

section \<open>The mock provider (\<open>mock-provider.tsx\<close>)\<close>

datatype mock_state = MockStarting | MockReady | MockFailed

datatype mock_event = MockStarted | MockStartFailed

text \<open>The handlers the worker starts with; none where the mocks are off.\<close>

definition startWorker :: "jstr option \<Rightarrow> mocking_mode \<Rightarrow> mock_route list option" where
  "startWorker node_env mode =
     (if node_env \<noteq> Some (lit ''development'') \<or> mode = MockDisabled then None else Some (worker_routes mode))"

definition mock_init :: "mocking_mode \<Rightarrow> mock_state" where
  "mock_init mode = (if mode = MockDisabled then MockReady else MockStarting)"

definition mock_step :: "mock_event \<Rightarrow> mock_state \<Rightarrow> mock_state" where
  "mock_step e s = (case e of MockStarted \<Rightarrow> MockReady | MockStartFailed \<Rightarrow> MockFailed)"

definition MockProvider :: "mock_state \<Rightarrow> 'e ui list \<Rightarrow> 'e ui list" where
  "MockProvider s children =
     (if s = MockStarting then [text_el ''div'' (ru ''Zapusk mokow '' @ lit ''API'' @ [0x2026])]
      else (if s = MockFailed
            then [El ''div'' [(''role'', PStr (lit ''alert''))]
                   [Txt (ru ''Moki '' @ lit ''API '' @ ru ''ne zapustilisx, zaprosy uhodqt na nastoq]ij b|kend. Podrobnosti w konsoli brauzera. Otkrojte prilovenie ~erez '' @ lit ''http://localhost:3000.'')]]
            else []) @ children)"

section \<open>Layouts of the shop and of the whole application\<close>

text \<open>The shop's frame, none when a link cannot be built; the document with its providers, and its title from the page's.\<close>

definition StorefrontLayout :: "'e ui list \<Rightarrow> 'e ui list option" where
  "StorefrontLayout children = map_option (\<lambda>h. h @ [El ''main'' [] children]) StorefrontHeader"

text \<open>The options of the query client, and the providers around every page.\<close>

definition makeQueryClient :: json where
  "makeQueryClient = JObj [(lit ''defaultOptions'', JObj [(lit ''queries'',
     JObj [(lit ''staleTime'', json_int 10000), (lit ''retry'', json_int 1)])])]"

definition Providers :: "mock_state \<Rightarrow> 'e ui list \<Rightarrow> 'e ui" where
  "Providers s children = El ''QueryClientProvider'' [(''client'', PVal makeQueryClient)]
     (MockProvider s children @ [El ''ReactQueryDevtools'' [(''initialIsOpen'', PBool False)] []])"

definition RootLayout :: "mock_state \<Rightarrow> 'e ui list \<Rightarrow> 'e ui" where
  "RootLayout s children = El ''html'' [(''lang'', PStr (lit ''ru''))] [El ''body'' [] [Providers s children]]"

definition document_title :: "app_page \<Rightarrow> jstr" where
  "document_title p = (case page_title p of Some t \<Rightarrow> t @ [32, 0xB7, 32] @ lit ''WasmHooks'' | None \<Rightarrow> lit ''WasmHooks'')"

section \<open>Lemmas\<close>

lemma mocks_off: "node_env \<noteq> Some (lit ''development'') \<Longrightarrow> startWorker node_env m = None \<and> mock_init (mockingMode node_env v) = MockReady"
  by (simp add: startWorker_def mock_init_def mockingMode_def)

lemma address_path:
  "(\<And>s. s \<in> set ss \<Longrightarrow> plain_part s) \<Longrightarrow> ss \<noteq> [] \<Longrightarrow> ss \<noteq> [[]] \<Longrightarrow> address_segments (path_of ss) = ss"
  by (simp add: address_segments_def url_segments_path Let_def)

lemma plain_app_lits [simp]:
  "plain_part (lit ''cart'')" "plain_part (lit ''operator'')" "plain_part (lit ''new-hook'')"
  by (simp_all add: plain_part_def single_dot_def double_dot_def lit_def ascii_lower_def)

lemma static_at:
  assumes "path = path_of (map lit cs)" "list_all (\<lambda>c. c \<noteq> [] \<and> plain_part (lit c)) cs" "cs \<noteq> []" "map_of static_pages (map lit cs) = Some p"
  shows "app_page_at (address_segments path) = p"
proof -
  have "address_segments path = map lit cs"
    unfolding assms(1) using assms(2,3) by (intro address_path) (auto simp: list_all_iff)
  then show ?thesis using assms(4) by (simp add: app_page_at_def)
qed

text \<open>A link leads to its page: the static ones by their folders, the dynamic ones through one encoding and one decoding.\<close>

lemma static_link:
  "app_page_at (address_segments (lit ''/'')) = PageCatalog"
  "app_page_at (address_segments (lit ''/cart'')) = PageCart"
  "app_page_at (address_segments (lit ''/tenant'')) = TenantIndex"
  "app_page_at (address_segments (lit ''/tenant/hooks'')) = PageTenantHooks"
  "app_page_at (address_segments (lit ''/tenant/invocations'')) = PageTenantInvocations"
  "app_page_at (address_segments (lit ''/operator'')) = OperatorIndex"
  "app_page_at (address_segments (lit ''/operator/hooks'')) = PageOperatorHooks"
  "app_page_at (address_segments (lit ''/operator/hooks/new-hook'')) = PageOperatorNewHook"
  "app_page_at (address_segments (lit ''/operator/tenants'')) = PageOperatorTenants"
  "app_page_at (address_segments (lit ''/operator/api-keys'')) = PageOperatorApiKeys"
proof -
  have "url_segments (lit ''/'') = [[]]" by (simp add: url_segments_def lit_def double_dot_def single_dot_def)
  then show "app_page_at (address_segments (lit ''/'')) = PageCatalog"
    by (simp add: app_page_at_def address_segments_def static_pages_def)
qed (rule static_at [of _ "[''cart'']"] static_at [of _ "[''tenant'']"] static_at [of _ "[''tenant'', ''hooks'']"]
      static_at [of _ "[''tenant'', ''invocations'']"] static_at [of _ "[''operator'']"] static_at [of _ "[''operator'', ''hooks'']"]
      static_at [of _ "[''operator'', ''hooks'', ''new-hook'']"] static_at [of _ "[''operator'', ''tenants'']"]
      static_at [of _ "[''operator'', ''api-keys'']"]; (simp add: lit_def; fail)?; simp add: static_pages_def; fail)+

lemma hook_link:
  assumes "name \<notin> {[], lit ''.'', lit ''..''}" "encode_uri_component name = Some u"
  shows "app_page_at (address_segments (lit ''/tenant/hooks/'' @ u)) = PageTenantHook name"
    "name \<noteq> lit ''new-hook'' \<Longrightarrow> app_page_at (address_segments (lit ''/operator/hooks/'' @ u)) = PageOperatorHook name"
proof -
  have u: "plain_part u" "u \<noteq> []" "decode_uri_component u = Some name"
    using plain_uri [OF assms(2)] uri_nonempty [OF assms(2)] uri_roundtrip [OF assms(2)] assms(1) by auto
  have "decode_uri_component (lit ''new-hook'') = Some (lit ''new-hook'')" by (simp add: lit_def decode_plain)
  then have other: "u \<noteq> lit ''new-hook''" if "name \<noteq> lit ''new-hook''" using that u(3) by auto
  have addr: "address_segments (lit ''/'' @ lit c @ lit ''/hooks/'' @ u) = [lit c, lit ''hooks'', u]" if "plain_part (lit c)" for c
  proof -
    have e: "lit ''/'' @ lit c @ lit ''/hooks/'' @ u = path_of [lit c, lit ''hooks'', u]" by (simp add: lit_def)
    show ?thesis unfolding e using that u(1) by (intro address_path) auto
  qed
  have lits: "lit ''/tenant/hooks/'' @ u = lit ''/'' @ lit ''tenant'' @ lit ''/hooks/'' @ u"
    "lit ''/operator/hooks/'' @ u = lit ''/'' @ lit ''operator'' @ lit ''/hooks/'' @ u" by (simp_all add: lit_def)
  show "app_page_at (address_segments (lit ''/tenant/hooks/'' @ u)) = PageTenantHook name"
    unfolding lits addr [OF plain_lits(5)] using u
    by (simp add: app_page_at_def static_pages_def dynamic_page_def tenant_hook_page_def decoded_page_def)
  show "name \<noteq> lit ''new-hook'' \<Longrightarrow> app_page_at (address_segments (lit ''/operator/hooks/'' @ u)) = PageOperatorHook name"
    unfolding lits addr [OF plain_app_lits(2)] using u other
    by (simp add: app_page_at_def static_pages_def dynamic_page_def operator_hook_page_def decoded_page_def)
qed

text \<open>No hook can be named after the page that creates hooks.\<close>

lemma new_hook_no_name: "\<not> HOOK_NAME_PATTERN (lit ''new-hook'')" "\<not> HOOK_NAME_PATTERN (lit ''.'')" "\<not> HOOK_NAME_PATTERN (lit ''..'')"
    "\<not> HOOK_NAME_PATTERN []"
  by (simp_all add: HOOK_NAME_PATTERN_def lit_def name_part_def lower_unit_def is_digit_def)

text \<open>At most one entry of a console's navigation is marked as current.\<close>

lemma active_split: "isActive p h \<Longrightarrow> \<exists>rest. p @ [47] = h @ 47 # rest"
proof -
  assume "isActive p h"
  then consider "p = h" | "take (length h + 1) p = h @ [47]" by (auto simp: isActive_def str_starts_with_def)
  then show ?thesis
  proof cases
    case 2
    then have "p = (h @ [47]) @ drop (length h + 1) p" by (metis append_take_drop_id)
    then show ?thesis by (metis append.assoc append_Cons append_Nil)
  qed simp
qed

lemma nav_exclusive:
  assumes "n \<in> set operator_nav" "m \<in> set operator_nav" "route_path (nav_href n) = Some h" "route_path (nav_href m) = Some k"
    "isActive p h" "isActive p k"
  shows "n = m"
proof -
  obtain r r' where "h @ 47 # r = k @ 47 # r'" using active_split [OF assms(5)] active_split [OF assms(6)] by metis
  then show ?thesis using assms(1-4) by (auto simp: operator_nav_def route_path_def lit_def)
qed

end
