(* ===== verification/System.thy ===== *)
theory System
  imports App Mock_Invariant
begin

text \<open>
  Facts that join components: what the console's forms send against what the control plane checks, what the
  control plane stores against what the console shows next.
\<close>

section \<open>The seeds\<close>

lemma seeded_db: "wdb (fresh_world now) = fst (initialDb now 42)"
  by (simp add: fresh_world_def case_prod_unfold Let_def)

lemma seeded_ok: "db_ok (wdb (fresh_world now))"
  using control_reach.init [of now 42] by (simp add: seeded_db control_reach_ok)

lemma seeded_log: "length (db_invocations (wdb (fresh_world now))) = 60"
proof -
  have "length (map inv_seq (fst (initialInvocations now h 42))) = 60" for h
    by (simp only: initialInvocations_def invocation_run_seq) simp
  then show ?thesis by (simp add: seeded_db initial_fields(5))
qed

section \<open>Addresses\<close>

lemma uri_unchanged:
  assumes "list_all (\<lambda>c. unat c < 128 \<and> uri_unreserved c) s" shows "encode_uri_component s = Some s"
proof -
  have low: "\<And>c. c \<in> set s \<Longrightarrow> unat c < 128" using assms by (simp add: list_all_iff)
  have "well_formed s" by (rule well_formed_low) (use low in fastforce)
  moreover have "concat (map uri_point (map unat s)) = s"
    using assms by (induction s) (simp_all add: uri_point_def)
  ultimately show ?thesis by (simp add: encode_uri_eq code_points_ascii [OF low])
qed

text \<open>
  Every request the console makes, with the endpoint meant for it: the queries and mutations with fixed paths, then
  those about a hook, a tenant or a key \<open>s\<close>.
\<close>

definition fixed_requests :: "json \<Rightarrow> jstr \<Rightarrow> invocation_filter \<Rightarrow> (jstr option \<times> options \<times> endpoint) list" where
  "fixed_requests body name f =
     map (\<lambda>(q, p). (query_path q, query_opts q, p))
       [(operatorHookQueries_list, GetHooks), (tenantQueries_list, GetTenants), (apiKeyQueries_list, GetKeys),
        (hookQueries_list, GetTenantHooks), (invocationQueries_list f, GetInvocations)]
     @ map (\<lambda>(c, p). (call_path c, call_opts c, p))
       [(useCreateHook body, PostHook), (useCreateTenant body, PostTenant), (useIssueApiKey name, PostKey)]"

definition named_requests :: "jstr \<Rightarrow> json \<Rightarrow> jstr obj \<Rightarrow> jstr \<Rightarrow> upload_file \<Rightarrow> (jstr option \<times> options \<times> endpoint) list" where
  "named_requests s body c i f =
     map (\<lambda>(q, p). (query_path q, query_opts q, p))
       [(operatorHookQueries_detail s, GetHook s), (hookQueries_detail s, GetTenantHook s), (moduleQueries_byHook s, GetModules s)]
     @ map (\<lambda>(c, p). (call_path c, call_opts c, p))
       [(useReplaceHook s body, PutHook s), (usePatchTenant s body, PatchTenant s), (useRevokeApiKey s, DeleteKey s),
        (useSaveConfig s c, PutBinding s), (useActivateModule s i, PutBinding s), (useUploadModule s f, PostModule s)]"

lemma all_routes:
  assumes "path_matcher matches"
  shows "list_all (\<lambda>(q, opts, p). served_by matches q opts p) (fixed_requests body name f)"
    "s \<notin> {[], lit ''.'', lit ''..''} \<Longrightarrow> list_all (\<lambda>(q, opts, p). served_by matches q opts p) (named_requests s body c i file0)"
  using literal_routes [OF assms] param_routes [OF assms] by (simp_all add: fixed_requests_def named_requests_def)

text \<open>A dot segment is resolved before any handler sees it.\<close>

lemma dots_encoded: "encode_uri_component (lit ''..'') = Some (lit ''..'')"
  by (rule uri_unchanged) (simp add: lit_def uri_unreserved_def)

lemma dots_resolved: "url_segments (lit ''/api/v1/tenants/../console-sessions'') = map lit [''api'', ''v1'', ''console-sessions'']"
  by (simp add: url_segments_def double_dot_def single_dot_def ascii_lower_def lit_def)

lemma dots_unmatched:
  assumes "path_matcher matches" "req_method req = POST" "url_path (req_url req) = map lit [''api'', ''v1'', ''console-sessions'']"
  shows "match_route matches handlers req = None"
proof -
  have "readable (lit ''console-sessions'')" by (simp add: readable_def lit_def decode_plain)
  then have "match_route matches handlers req = match_route match_parts handlers req"
    by (intro match_route_eq [OF assms(1)]) (simp add: assms(3))
  then show ?thesis using assms(2,3) by (simp add: route_defs)
qed

section \<open>Bodies on the wire\<close>

lemma body_on_wire:
  assumes "build_request h q (json_options m z body) b = Inr req" "json_ok body"
  shows "json_body req = Some body" "req_method req = m"
  using assms json_parse_stringify
  by (auto simp: build_request_def json_options_def get_options_def json_body_def Let_def split: option.splits if_splits)

lemma int_between_safe: "int_between r x \<Longrightarrow> safe_int (fst r) \<Longrightarrow> safe_int (snd r) \<Longrightarrow> js_is_safe x"
proof (cases x)
  case (Fin q)
  assume a: "int_between r x" "safe_int (fst r)" "safe_int (snd r)"
  then have q: "of_int \<lfloor>q\<rfloor> = q" "of_int (fst r) \<le> q" "q \<le> of_int (snd r)" by (simp_all add: int_between_def Fin)
  then have "fst r \<le> \<lfloor>q\<rfloor>" "\<lfloor>q\<rfloor> \<le> snd r" by (simp add: le_floor_iff) (metis q(1,3) of_int_le_iff)
  then show ?thesis using a(2,3) q(1) by (simp add: Fin safe_int_def)
qed (simp_all add: int_between_def)

section \<open>Hook definitions: the form and the control plane\<close>

text \<open>The control plane stores the lists of a definition sorted and without repetitions.\<close>

definition stored_spec :: "hook_spec \<Rightarrow> hook_spec" where
  "stored_spec s = s\<lparr>allowed_host_functions := js_sort default_compare (js_set (allowed_host_functions s)),
     allowed_effect_types := js_sort default_compare (js_set (allowed_effect_types s))\<rparr>"

lemma sorted_strings_texts: "sorted_strings (Some (json_strs xs)) = Some (js_sort default_compare (js_set xs))"
proof -
  have "all_some (map js_string (map JStr xs)) = Some xs" by (induction xs) simp_all
  then show ?thesis by (simp add: sorted_strings_def json_strs_def)
qed

lemma stored_again: "spec_ok s \<Longrightarrow> stored_spec s = s"
proof -
  have "js_sort default_compare (js_set xs) = xs" if "sorted xs" "distinct xs" for xs :: "jstr list"
    by (rule sorted_distinct_set_unique) (use that sorted_js_sort_units in \<open>simp_all\<close>)
  then show "spec_ok s \<Longrightarrow> stored_spec s = s" by (simp add: spec_ok_def stored_spec_def)
qed

lemma specOf_fields:
  assumes "set (map fst pre) \<inter> set SPEC_FIELDS = {}"
  shows "specOf e (JObj (pre @ spec_fields s)) = Inr (stored_spec s)"
proof -
  have "obj_get (pre @ spec_fields s) k = obj_get (spec_fields s) k" if "k \<in> set SPEC_FIELDS" for k
    using assms that by (induction pre) (auto simp: obj_get_def)
  moreover have "set (map lit [''input_schema'', ''output_schema'', ''timeout_ms'', ''memory_max_pages'', ''allowed_host_functions'',
      ''allowed_effect_types'', ''sample_input'']) \<subseteq> set SPEC_FIELDS" by (simp add: SPEC_FIELDS_def)
  ultimately show ?thesis
    by (simp add: specOf_def body_get_def obj_get_def spec_fields_def sorted_strings_texts stored_spec_def cast_object_def cast_number_def)
qed

lemma sameSpec_refl [simp]: "sameSpec h (hook_spec_of h)"
  by (simp add: sameSpec_def zip_same_conv_map list_all_iff)

text \<open>The form of a stored hook passes its own checks, so a hook can be opened and saved at any time.\<close>

lemma stored_form_valid:
  assumes "field_parser zf" "spec_json_ok (hook_spec_of h)" "spec_ok (hook_spec_of h)" "hook_name_ok (hook_name h)" "hook_name h \<noteq> []"
  shows "hookFormSchema zf (formFromHook h) = []"
proof -
  have txt_ok: "\<exists>x. zf jsonObjectText (FStr (json_pretty (JObj ob))) = Inr x" if "json_ok (JObj ob)" for ob
    using parseObject_pretty [OF that] field_parser.json_field_ok [OF assms(1)] by blast
  have in_range: "\<exists>y. zf (integerIn r) (FNum x) = Inr y" if "int_between r x" "safe_int (fst r)" "safe_int (snd r)" for r x
    using that int_between_safe [OF that] field_parser.integerIn_ok [OF assms(1)] by (auto simp: int_between_def)
  show ?thesis
    unfolding hookFormSchema_Nil hook_field_parse_def
    using assms(2-5) txt_ok in_range [of TIMEOUT_MS "timeout_ms (hook_spec_of h)"] in_range [of MEMORY_PAGES "memory_max_pages (hook_spec_of h)"]
      field_parser.hook_name_field_ok [OF assms(1), of "hook_name h"]
    by (auto simp: formFromHook_def Let_def spec_json_ok_def spec_ok_def TIMEOUT_MS_def MEMORY_PAGES_def safe_int_def split: hook_field.split simp del: json_ok.simps)
qed

lemma create_body_ok:
  assumes "spec_json_ok s" "spec_ok s" shows "json_ok (JObj ((lit ''name'', JStr n) # spec_fields s))"
proof -
  have "canon_keys (map lit [''name'', ''input_schema'', ''output_schema'', ''timeout_ms'', ''memory_max_pages'', ''allowed_host_functions'',
      ''allowed_effect_types'', ''sample_input''])" by (rule canon_lits; simp add: is_digit_def)
  moreover have "js_is_safe (timeout_ms s)" "js_is_safe (memory_max_pages s)"
    using int_between_safe [of TIMEOUT_MS "timeout_ms s"] int_between_safe [of MEMORY_PAGES "memory_max_pages s"] assms(2)
    by (simp_all add: spec_ok_def TIMEOUT_MS_def MEMORY_PAGES_def safe_int_def)
  ultimately show ?thesis
    using assms(1) by (simp add: spec_fields_def spec_json_ok_def json_strs_def list_all_iff)
qed

lemma find_index_unique:
  assumes "distinct (map f xs)" "x \<in> set xs" obtains i where "find_index (\<lambda>y. f y = f x) xs = Some i" "xs ! i = x" "i < length xs"
proof -
  obtain i where i: "find_index (\<lambda>y. f y = f x) xs = Some i"
    using assms(2) find_index_None [of "\<lambda>y. f y = f x" xs] by (cases "find_index (\<lambda>y. f y = f x) xs") auto
  then have "i < length xs" "f (xs ! i) = f x" using find_index_Some by fastforce+
  then show ?thesis using that [OF i] assms by (metis distinct_map inj_onD nth_mem)
qed

lemma spec_body_ok:
  assumes "spec_json_ok s" "int_between TIMEOUT_MS (timeout_ms s)" "int_between MEMORY_PAGES (memory_max_pages s)"
  shows "json_ok (JObj (spec_fields s))"
proof -
  have "canon_keys (map lit [''input_schema'', ''output_schema'', ''timeout_ms'', ''memory_max_pages'', ''allowed_host_functions'',
      ''allowed_effect_types'', ''sample_input''])" by (rule canon_lits; simp add: is_digit_def)
  moreover have "js_is_safe (timeout_ms s)" "js_is_safe (memory_max_pages s)"
    using int_between_safe [OF assms(2)] int_between_safe [OF assms(3)] by (simp_all add: TIMEOUT_MS_def MEMORY_PAGES_def safe_int_def)
  ultimately show ?thesis
    using assms(1) by (simp add: spec_fields_def spec_json_ok_def json_strs_def list_all_iff)
qed

lemma put_unchanged:
  assumes "h \<in> set (db_hooks (wdb w))" "hooks_ok (wdb w)" "hookError (hook_spec_of h) = Inr None"
    "json_body req = Some (JObj (spec_fields (hook_spec_of h)))"
  shows "put_hook (hook_name h) e req w = (Inr (http_json 200 (hook_json h)), w)"
proof -
  have ok: "spec_ok (hook_spec_of h)" using assms(1,2) by (simp add: hooks_ok_def list_all_iff)
  obtain i where i: "find_index (\<lambda>y. hook_name y = hook_name h) (db_hooks (wdb w)) = Some i" "db_hooks (wdb w) ! i = h"
    using find_index_unique [of hook_name "db_hooks (wdb w)" h] assms(1,2) by (auto simp: hooks_ok_def hook_names_def)
  have req: "set REQUIRED \<subseteq> set SPEC_FIELDS" by (simp add: REQUIRED_def SPEC_FIELDS_def)
  have nn: "lit ''name'' \<notin> set SPEC_FIELDS" by (simp add: SPEC_FIELDS_def)
  have "bodyError e (JObj (spec_fields (hook_spec_of h))) SPEC_FIELDS REQUIRED = Inr None"
    by (rule bodyError_complete) (use ok req nn in \<open>auto simp: spec_body_gets name_not_inherited spec_ok_def\<close>)
  moreover have "specOf e (JObj (spec_fields (hook_spec_of h))) = Inr (hook_spec_of h)"
    using specOf_fields [of "[]" e "hook_spec_of h"] stored_again [OF ok] by simp
  ultimately show ?thesis
    using assms(3,4) i by (simp add: put_hook_def with_body_def replace_hook_def narrowed_by_Nil Let_def)
qed

lemma post_from_form:
  assumes "bodyError e (create_body v) (lit ''name'' # SPEC_FIELDS) (lit ''name'' # REQUIRED) = Inr None"
    "json_body req = Some (create_body v)" "hookError (stored_spec (specFromForm v)) = Inr None"
  shows "post_hook e req w = insert_hook e (hf_name v) (stored_spec (specFromForm v)) w"
proof -
  have "specOf e (create_body v) = Inr (stored_spec (specFromForm v))"
    using specOf_fields [of "[(lit ''name'', JStr (hf_name v))]" e "specFromForm v"] by (simp add: create_body_def SPEC_FIELDS_def)
  moreover have "Option.bind (body_get (create_body v) (lit ''name'')) body_string = Some (hf_name v)"
    by (simp add: create_body_def body_get_def obj_get_def body_string_def)
  ultimately show ?thesis using assms by (simp add: post_hook_def with_body_def)
qed

section \<open>Tenants: the form and the control plane\<close>

text \<open>What a tenant is after its form was saved, and the tenant a form creates.\<close>

definition edited_tenant :: "int \<Rightarrow> tenant_form \<Rightarrow> tenant \<Rightarrow> tenant" where
  "edited_tenant now v t = t\<lparr>tenant_updated := iso_of_ms now, tenant_name := tf_name v, rate_limit_rps := tf_rate v,
     concurrency_limit := tf_concurrency v\<rparr>"

definition created_tenant :: "int \<Rightarrow> tenant_form \<Rightarrow> tenant" where
  "created_tenant now v = \<lparr>rate_limit_rps = tf_rate v, concurrency_limit = tf_concurrency v, external_id = tf_external_id v,
     tenant_name = tf_name v, tenant_created = iso_of_ms now, tenant_updated = iso_of_ms now\<rparr>"

lemma js_safe_integer: "js_is_safe x \<Longrightarrow> js_is_integer x \<and> x \<noteq> NaN"
  by (cases x) simp_all

lemma patch_body_ok:
  assumes "js_is_safe (tf_rate v)" "js_is_safe (tf_concurrency v)"
  shows "json_ok (JObj (tenantChanges t v))"
proof -
  have "canon_keys (map fst (tenantChanges t v))"
    by (auto simp: tenantChanges_def canon_keys_def key_before_def array_index_lit is_digit_def)
  then show ?thesis using assms by (simp add: tenantChanges_def)
qed

lemma patch_body_accepted:
  assumes "js_is_safe (tf_rate v)" "\<not> js_lt (tf_rate v) (num 0)" "js_is_safe (tf_concurrency v)" "\<not> js_lt (tf_concurrency v) (num 0)"
  shows "patchError e (JObj (tenantChanges t v)) = Inr None"
  using assms js_safe_integer tenantChanges_gets [of t v]
  by (auto simp: patchError_def first_error_pass field_check_def quotaError_def nullish_field_def field_of_def body_get_def split: if_splits)

lemma patch_from_form:
  assumes "js_is_safe (tf_rate v)" "\<not> js_lt (tf_rate v) (num 0)" "js_is_safe (tf_concurrency v)" "\<not> js_lt (tf_concurrency v) (num 0)"
    "t \<in> set (db_tenants (wdb w))" "tenants_ok (wdb w)" "json_body req = Some (JObj (tenantChanges t v))" "tenantChanges t v \<noteq> []"
  shows "patch_tenant (external_id t) e req w = (Inr (http_json 200 (tenant_json (edited_tenant (env_now e) v t))),
    w\<lparr>wdb := (wdb w)\<lparr>db_tenants := map (\<lambda>u. if external_id u = external_id t then edited_tenant (env_now e) v t else u) (db_tenants (wdb w))\<rparr>\<rparr>)"
proof -
  let ?t = "edited_tenant (env_now e) v t"
  have dist: "distinct (map external_id (db_tenants (wdb w)))" using assms(6) by (simp add: tenants_ok_def)
  obtain i where i: "find_index (\<lambda>u. external_id u = external_id t) (db_tenants (wdb w)) = Some i" "db_tenants (wdb w) ! i = t" "i < length (db_tenants (wdb w))"
    by (rule find_index_unique [OF dist assms(5)])
  have upd: "(db_tenants (wdb w))[i := ?t] = map (\<lambda>u. if external_id u = external_id t then ?t else u) (db_tenants (wdb w))"
  proof (rule nth_equalityI)
    fix j assume "j < length ((db_tenants (wdb w))[i := ?t])"
    then show "(db_tenants (wdb w))[i := ?t] ! j = map (\<lambda>u. if external_id u = external_id t then ?t else u) (db_tenants (wdb w)) ! j"
      using i dist by (auto simp: nth_list_update distinct_conv_nth)
  qed simp
  have "patch_changes (JObj (tenantChanges t v)) t \<noteq> []"
    using assms(8) tenantChanges_Nil [of t v] by (auto simp: patch_of_changes)
  then show ?thesis
    using patch_body_accepted [OF assms(1-4)] assms(7) i upd patched_fields [of v t] js_safe_integer assms(1,3)
    by (simp add: patch_tenant_def with_body_def edited_tenant_def Let_def)
qed

lemma post_tenant_from_form:
  assumes "createError e (tenant_body v) = Inr None" "json_body req = Some (tenant_body v)"
  shows "tf_external_id v \<notin> external_id ` set (db_tenants (wdb w)) \<Longrightarrow> post_tenant e req w =
      (Inr (http_json 201 (tenant_json (created_tenant (env_now e) v))),
       w\<lparr>wdb := (wdb w)\<lparr>db_tenants := db_tenants (wdb w) @ [created_tenant (env_now e) v]\<rparr>\<rparr>)"
    "tf_external_id v \<in> external_id ` set (db_tenants (wdb w)) \<Longrightarrow> \<exists>r. post_tenant e req w = (Inr r, w) \<and> resp_status r = 409"
  using assms(1,2) by (auto simp: post_tenant_def with_body_def list_ex_map_mem created_tenant_def tenant_body_def field_of_def body_get_def obj_get_def
      text_of_def quota_or_zero_def Let_def)

section \<open>Configurations: the rows and the binding\<close>

text \<open>Objects built by assignment list their keys the way the language does, so they survive the wire.\<close>

lemma digits_of_digits_value:
  "ds \<noteq> [] \<Longrightarrow> \<forall>d \<in> set ds. d < 10 \<Longrightarrow> hd ds \<noteq> 0 \<or> length ds = 1 \<Longrightarrow> digits_of 10 (digits_value 10 ds) = ds"
proof (induction ds rule: rev_induct)
  case (snoc d ds)
  have d: "d < 10" using snoc.prems(2) by simp
  show ?case
  proof (cases "ds = []")
    case True
    then show ?thesis using d digits_of_single [of d 10] by (simp add: digits_value_def)
  next
    case False
    then have IH: "digits_of 10 (digits_value 10 ds) = ds" and h: "hd ds \<noteq> 0" using snoc by auto
    have "0 < digits_value 10 ds"
    proof (rule ccontr)
      assume "\<not> 0 < digits_value 10 ds"
      then have "ds = digits_of 10 0" using IH by simp
      then show False using h digits_of_single [of 0 10] by simp
    qed
    then show ?thesis using d IH digits_of.simps [of 10 "digits_value 10 ds * 10 + d"] by simp
  qed
qed simp

lemma digit_value_inj:
  assumes "is_digit c" "is_digit d" "digit_value c = digit_value d" shows "c = d"
proof -
  have "unat c = unat d" using assms by (auto simp: is_digit_def digit_value_def cu_cases_le)
  then show ?thesis by (simp add: word_unat_eq_iff)
qed

lemma index_digits:
  assumes "array_index x = Some i" shows "map digit_value x = digits_of 10 i" "list_all is_digit x"
proof -
  have x: "list_all is_digit x" "x \<noteq> []" "hd x \<noteq> 48 \<or> x = [48]" "digits_value 10 (map digit_value x) = i"
    using assms by (auto simp: array_index_def Let_def split: if_splits)
  have zero: "c = 48" if "is_digit c" "digit_value c = 0" for c
    by (rule digit_value_inj) (use that in \<open>simp_all add: is_digit_def digit_value_def\<close>)
  have less: "digit_value c < 10" if "is_digit c" for c
    using that by (auto simp: is_digit_def digit_value_def cu_cases_le)
  have "hd (map digit_value x) \<noteq> 0 \<or> length (map digit_value x) = 1"
    using x(1-3) zero [of "hd x"] by (cases x) auto
  moreover have "\<forall>d \<in> set (map digit_value x). d < 10" using x(1) less by (auto simp: list_all_iff)
  ultimately show "map digit_value x = digits_of 10 i" using digits_of_digits_value [of "map digit_value x"] x(2,4) by simp
  show "list_all is_digit x" by (rule x(1))
qed

lemma array_index_inj:
  assumes "array_index k = Some i" "array_index k' = Some i" shows "k = k'"
proof -
  have "map digit_value k = map digit_value k'" using index_digits(1) [OF assms(1)] index_digits(1) [OF assms(2)] by simp
  moreover have "inj_on digit_value (set k \<union> set k')"
    using index_digits(2) [OF assms(1)] index_digits(2) [OF assms(2)] digit_value_inj by (auto simp: inj_on_def list_all_iff)
  ultimately show ?thesis using inj_on_map_eq_map by blast
qed

lemma canon_put:
  assumes "canon_keys (obj_keys ob)" shows "canon_keys (obj_keys (obj_put k v ob))"
proof (cases "k \<in> set (obj_keys ob)")
  case True
  then have "obj_keys (obj_put k v ob) = obj_keys ob" by (auto simp: obj_put_def obj_keys_def)
  then show ?thesis using assms by simp
next
  case new: False
  show ?thesis
  proof (cases "array_index k")
    case None
    then have "obj_put k v ob = ob @ [(k, v)]" using new by (simp add: obj_put_def)
    then show ?thesis using assms new None by (auto simp: canon_keys_def obj_keys_def sorted_wrt_append key_before_def split: option.split)
  next
    case (Some i)
    define lower where "lower = (\<lambda>(k', v' :: 'a). array_index k' \<noteq> None \<and> key_before k' k)"
    let ?l = "takeWhile lower ob" and ?r = "dropWhile lower ob"
    have put: "obj_put k v ob = ?l @ (k, v) # ?r" using new Some by (simp add: obj_put_def lower_def Let_def)
    have ob: "obj_keys ob = obj_keys ?l @ obj_keys ?r" by (metis map_append obj_keys_def takeWhile_dropWhile_id)
    have before: "key_before x k" if "x \<in> set (obj_keys ?l)" for x
      using that by (auto simp: obj_keys_def lower_def dest: set_takeWhileD)
    have after: "key_before k y" if "y \<in> set (obj_keys ?r)" for y
    proof (cases ?r)
      case (Cons p r)
      then have p: "\<not> lower p" using hd_dropWhile [of lower ob] by simp
      have "p \<in> set ob" using Cons set_dropWhileD [of p lower ob] by simp
      then have "fst p \<in> set (obj_keys ob)" by (simp add: obj_keys_def)
      then have pk: "fst p \<noteq> k" using new by blast
      have first: "key_before k (fst p)"
      proof (cases "array_index (fst p)")
        case (Some j)
        then have "j \<noteq> i" using array_index_inj [OF Some] \<open>array_index k = Some i\<close> pk by blast
        then show ?thesis using p Some \<open>array_index k = Some i\<close> by (auto simp: lower_def key_before_def split: prod.splits)
      qed (simp add: key_before_def Some)
      have "y = fst p \<or> key_before (fst p) y" using that assms ob Cons by (auto simp: canon_keys_def sorted_wrt_append obj_keys_def)
      then show ?thesis using first Some by (auto simp: key_before_def split: option.splits)
    next
      case Nil
      show ?thesis using that unfolding Nil obj_keys_def by simp
    qed
    have keys: "obj_keys (obj_put k v ob) = obj_keys ?l @ k # obj_keys ?r" by (simp add: put obj_keys_def)
    have "k \<notin> set (obj_keys ?l) \<union> set (obj_keys ?r)" using new ob by simp
    then show ?thesis using assms before after unfolding keys ob canon_keys_def by (auto simp: sorted_wrt_append)
  qed
qed

lemma canon_of_list: "canon_keys (obj_keys (obj_of_list kvs))"
proof (induction kvs rule: rev_induct)
  case (snoc p kvs)
  then show ?case by (cases p) (simp add: canon_put)
qed (simp add: obj_of_list_def canon_keys_def obj_keys_def)

lemma config_json_ok: "json_ok (config_json (configFromForm rows))"
  using canon_of_list [of "kept_rows rows"] by (auto simp: config_json_def configFromForm_kept obj_keys_def list_all_iff o_def case_prod_unfold)

lemma config_body_ok: "json_ok (JObj [(lit ''config'', config_json (configFromForm rows))])"
  using config_json_ok by (simp add: canon_keys_def)

lemma config_stored:
  assumes "name \<in> set (hook_names (wdb w))" "json_body req = Some (JObj [(lit ''config'', config_json (configFromForm rows))])"
    "\<And>p. db_bindings (wdb w) name = Some p \<Longrightarrow> json_ok (binding_config p)"
  obtains r w' b where "put_binding name e req w = (Inr r, w')" "resp_status r = 200" "db_bindings (wdb w') name = Some b"
    "binding_config b = config_json (configFromForm rows)" "active_module_id b = Option.bind (db_bindings (wdb w) name) active_module_id"
proof -
  let ?c = "config_json (configFromForm rows)" and ?prev = "db_bindings (wdb w) name"
  obtain th where name: "tenantHook name (wdb w) = Some th" using assms(1) tenantHook_None by fastforce
  have c: "\<not> nullish_field (Some ?c)" by (simp add: nullish_field_def config_json_def)
  have fields: "field_of (JObj [(lit ''config'', ?c)]) ''active_module_id'' = None" "field_of (JObj [(lit ''config'', ?c)]) ''config'' = Some ?c"
    by (simp_all add: field_of_def body_get_def obj_get_def)
  have m: "requested_module name None (wdb w) = Inr None" by (simp add: requested_module_def nullish_field_def)
  show ?thesis
  proof (cases "?prev \<noteq> None \<and> \<not> config_changed (Some ?c) ?prev")
    case True
    then obtain p where p: "?prev = Some p" by blast
    then have "binding_config p = ?c"
      using True c json_stringify_inject [OF config_json_ok assms(3) [OF p], of rows] by (simp add: config_changed_def)
    moreover have "put_binding name e req w = (Inr (http_json 200 (binding_json p)), w)"
      using True name assms(2) p c m by (simp add: put_binding_def with_body_def fields module_changed_def Let_def)
    ultimately show ?thesis using that p by simp
  next
    case False
    let ?b = "next_binding (env_now e) (Some ?c) None ?prev"
    have "put_binding name e req w = (Inr (http_json 200 (binding_json ?b)), w\<lparr>wdb := (wdb w)\<lparr>db_bindings := (db_bindings (wdb w))(name \<mapsto> ?b)\<rparr>\<rparr>)"
      using False name assms(2) c m by (auto simp: put_binding_def with_body_def fields module_changed_def Let_def)
    then show ?thesis using that c by (simp add: next_binding_def)
  qed
qed

section \<open>Module versions\<close>

lemma calls_invariant:
  assumes "\<And>s e. P s \<Longrightarrow> P (fst (step e s))" "\<And>s e. P s \<Longrightarrow> list_all Q (snd (step e s))"
  shows "P s \<Longrightarrow> list_all Q (calls_of step es s)"
  by (induction es arbitrary: s) (simp_all add: assms)

text \<open>A version that has passed its checks stays what it is, whatever the control plane does afterwards.\<close>

lemma validated_persists:
  assumes "served s s'" "m \<in> set (db_modules (wdb (srv_world s)))" "mod_status m = Validated"
  shows "m \<in> set (db_modules (wdb (srv_world s')))"
proof -
  have "grows verdict_persists (db_modules (wdb (srv_world s))) (db_modules (wdb (srv_world s')))"
    using served_evolves [OF assms(1)] by (simp add: evolves_def)
  then obtain m' where "m' \<in> set (db_modules (wdb (srv_world s')))" "verdict_persists m m'"
    using module_evolution.grows_mem [OF _ assms(2)] by blast
  then show ?thesis using assms(3) by (simp add: verdict_persists_def)
qed

lemma settled_all:
  assumes "module_ok m" "validates_at m \<le> now" shows "\<not> isPending (mod_status (settle_module now m))"
  using assms by (auto simp: settle_module_def module_ok_def split: option.splits)

text \<open>The modules of a hook as the control plane answers with them.\<close>

definition listed_modules :: "env \<Rightarrow> jstr \<Rightarrow> db \<Rightarrow> module list" where
  "listed_modules e hook d = map publicModule (hook_modules e hook d)"

lemma in_listed_modules: "m \<in> set (listed_modules e hook d) \<longleftrightarrow> (\<exists>p \<in> set (db_modules d). mod_hook p = hook \<and> m = publicModule p)"
  by (auto simp: listed_modules_def hook_modules_def)

lemma publicModule_fields [simp]:
  "mod_id (publicModule p) = mod_id p" "mod_status (publicModule p) = mod_status p" "mod_hook (publicModule p) = mod_hook p"
  by (simp_all add: publicModule_def)

section \<open>Runs of the editors\<close>

text \<open>What the interface of the dialogs gives for the editors, from the states they are mounted in.\<close>

definition single_flight ::
  "('e \<Rightarrow> 's \<Rightarrow> 's \<times> mutation_call list) \<Rightarrow> (js_error + json option \<Rightarrow> 'e) \<Rightarrow> ('s \<Rightarrow> mutation_state) \<Rightarrow> 'e list \<Rightarrow> 's \<Rightarrow> bool" where
  "single_flight step answer mutation es s \<longleftrightarrow>
     length (calls_of step es s) = answers_in answer es + (if awaits (mutation (run_events step es s)) then 1 else 0)"

definition stays_put ::
  "('e \<Rightarrow> 's \<Rightarrow> 's \<times> mutation_call list) \<Rightarrow> ('s \<Rightarrow> bool) \<Rightarrow> 'e list \<Rightarrow> 's \<Rightarrow> bool" where
  "stays_put step opened es s \<longleftrightarrow> opened (run_events step es s) = opened s \<and> calls_of step es s = []"

definition revoke_mounted :: revoke_state where
  "revoke_mounted = \<lparr>rv_open = False, rv_mutation = mut_idle\<rparr>"

definition activate_mounted :: activate_state where
  "activate_mounted = \<lparr>ac_open = False, ac_mutation = mut_idle\<rparr>"

context hook_form_library
begin

lemma hook_flights:
  "legal_run (hook_editor_step zf lib hook) (hook_offered lib hook) es (hook_editor_init lib hook) \<Longrightarrow>
     single_flight (hook_editor_step zf lib hook) HeAnswer he_mutation es (hook_editor_init lib hook)"
  using editor.one_flight [of "hook_editor_init lib hook" zf hook es]
  by (simp add: single_flight_def hook_editor_good_def hook_editor_init_def form_laws)

end

context tenant_form_library
begin

lemma tenant_flights:
  "legal_run (tenant_step zf lib t) (tenant_offered lib t) es (tenant_dialog_init lib t) \<Longrightarrow>
     single_flight (tenant_step zf lib t) TdAnswer td_mutation es (tenant_dialog_init lib t)"
  using dialog.one_flight [of "tenant_dialog_init lib t" zf t es]
  by (simp add: single_flight_def tenant_good_def tenant_dialog_init_def form_laws)

lemma tenant_dialog_waits:
  "tenant_good lib s \<Longrightarrow> legal_run (tenant_step zf lib t) (tenant_offered lib t) es s \<Longrightarrow> awaits (td_mutation s) \<Longrightarrow> answers_in TdAnswer es = 0 \<Longrightarrow>
     stays_put (tenant_step zf lib t) td_open es s"
  using dialog.stays_open [of s zf t es] by (simp add: stays_put_def)

end

context config_form_library
begin

lemma config_flights:
  "legal_run (config_step lib compare hook b) (config_offered lib b) es (config_editor_init lib compare b) \<Longrightarrow>
     single_flight (config_step lib compare hook b) CeAnswer ce_mutation es (config_editor_init lib compare b)"
  using editor.one_flight [of "config_editor_init lib compare b" compare hook b es]
  by (simp add: single_flight_def config_good_def config_editor_init_def form_laws)

end

section \<open>Names and links\<close>

lemma split_units: "c \<in> set s \<Longrightarrow> c = x \<or> (\<exists>p \<in> set (str_split x s). c \<in> set p)"
proof (induction s)
  case (Cons d s)
  then show ?case by (cases "str_split x s") auto
qed simp

lemma name_units:
  assumes "HOOK_NAME_PATTERN n" "c \<in> set n" shows "unat c < 128 \<and> uri_unreserved c"
proof -
  have part: "lower_unit c \<or> is_digit c \<or> c = 95" if "name_part p" "c \<in> set p" for p
    using that by (cases p) (auto simp: name_part_def list_all_iff)
  have "lower_unit c \<or> is_digit c \<or> c = 95 \<or> c = 46"
    using assms split_units [of c n 46] part by (auto simp: HOOK_NAME_PATTERN_def list_all_iff)
  then have "c \<le> 122 \<and> uri_unreserved c" by (auto simp: lower_unit_def is_digit_def uri_unreserved_def lit_def word_le_nat_alt)
  then show ?thesis by (simp add: word_le_nat_alt)
qed

lemma hook_name_uri: "hook_name_ok n \<Longrightarrow> encode_uri_component n = Some n"
  using name_units by (intro uri_unchanged) (auto simp: hook_name_ok_def list_all_iff)

section \<open>Answers and schemas\<close>

lemmas fixed_keys = obj_of_list_canon canon_keys_def key_before_def array_index_lit is_digit_def

text \<open>What the console's schemas make of the control plane's texts: every record is accepted as it is.\<close>

lemma api_error_problem:
  assumes "zod (zod_parse h)" "safe_int (int s)"
  shows "api_error h (problem s t (Some (JStr d))) = ApiError s t (Some d)"
proof -
  have ok: "json_ok (JObj [(lit ''type'', JStr (lit ''about:blank'')), (lit ''title'', JStr t), (lit ''status'', json_int (int s)), (lit ''detail'', JStr d)])"
    using assms(2) by (simp add: json_int_def fixed_keys)
  show ?thesis
    using zod.zp_laws [OF assms(1)] ok
    by (simp add: api_error_def problem_def http_json_def json_parse_stringify problem_schema_def shape_fields_def obj_get_def
        present_fields_def fixed_keys json_int_def finite_number_def string_field_def Let_def)
qed

lemma all_some_total: "(\<And>x. x \<in> set xs \<Longrightarrow> f x = Some (g x)) \<Longrightarrow> all_some (map f xs) = Some (map g xs)"
  by (induction xs) simp_all

context zod
begin

lemma strings_fit: "zp (ZArray ZString) (Some (json_strs xs)) = Some (Some (json_strs xs))"
proof -
  have "all_some (map (\<lambda>x. zp ZString (Some x)) (map JStr xs)) = Some (map Some (map JStr xs))"
    by (rule all_some_total) (auto simp: zp_string)
  then show ?thesis by (simp add: zp_array json_strs_def o_def)
qed

lemma nullable_fits: "zp (ZNullable ZString) (Some (json_nullable s)) = Some (Some (json_nullable s))"
  "zp (ZNullish ZString) (Some (json_nullable s)) = Some (Some (json_nullable s))"
  by (simp_all add: json_nullable_def zp_nullable zp_nullish zp_string split: option.split)

lemma datetime_fits: "zp ZDatetime (Some (JStr s)) \<noteq> None \<Longrightarrow> zp ZDatetime (Some (JStr s)) = Some (Some (JStr s))"
  using zp_datetime by blast

lemma nullable_datetime_fits:
  "(\<And>d. s = Some d \<Longrightarrow> zp ZDatetime (Some (JStr d)) \<noteq> None) \<Longrightarrow> zp (ZNullish ZDatetime) (Some (json_nullable s)) = Some (Some (json_nullable s))"
  using datetime_fits by (auto simp: json_nullable_def zp_nullish split: option.split)

lemma key_fits:
  assumes "zp ZDatetime (Some (JStr (key_created k))) \<noteq> None" "\<And>d. revoked_at k = Some d \<Longrightarrow> zp ZDatetime (Some (JStr d)) \<noteq> None"
  shows "zp apiKeySchema (Some (JObj (api_key_fields k))) = Some (Some (JObj (api_key_fields k)))"
  using datetime_fits [OF assms(1)] nullable_datetime_fits [of "revoked_at k"] assms(2)
  by (simp add: apiKeySchema_def apiKeySchema_fields_def api_key_fields_def zp_object shape_fields_def obj_get_def
      present_fields_def fixed_keys zp_string)

lemma tenant_fits:
  assumes "zp ZDatetime (Some (JStr (tenant_created t))) \<noteq> None" "zp ZDatetime (Some (JStr (tenant_updated t))) \<noteq> None"
    "js_is_safe (rate_limit_rps t)" "js_is_safe (concurrency_limit t)"
  shows "zp tenantSchema (Some (tenant_json t)) = Some (Some (tenant_json t))"
  using datetime_fits [OF assms(1)] datetime_fits [OF assms(2)] assms(3,4)
  by (simp add: tenantSchema_def tenant_json_def quota_schema_def zp_object shape_fields_def obj_get_def
      present_fields_def fixed_keys zp_string zp_transform zp_nullish zp_int)

lemma outcome_fits: "zp outcomeSchema (Some (JStr (outcome_text t))) = Some (Some (JStr (outcome_text t)))"
  by (cases t) (simp_all add: outcomeSchema_def zp_enum outcomes_def)

lemma status_fits: "zp moduleStatusSchema (Some (JStr (status_text s))) = Some (Some (JStr (status_text s)))"
  by (cases s) (simp_all add: moduleStatusSchema_def zp_enum module_statuses_def)

lemma invocation_fits:
  assumes "zp ZDatetime (Some (JStr (inv_ts i))) \<noteq> None" "js_is_safe (inv_seq i)" "finite_number (inv_duration i)" "js_le (num 0) (inv_duration i)"
  shows "zp invocationSchema (Some (invocation_json i)) = Some (Some (invocation_json i))"
  using datetime_fits [OF assms(1)] assms(2-) outcome_fits [of "inv_outcome i"] strings_fit nullable_fits
  by (simp add: invocationSchema_def invocation_json_def zp_object shape_fields_def obj_get_def present_fields_def fixed_keys
      zp_string zp_boolean zp_int zp_number zp_nonnegative)

lemma check_fits: "zp validationCheckSchema (Some (check_json c)) = Some (Some (check_json c))"
  by (cases "check_name_of c"; cases "check_detail c")
    (simp_all add: validationCheckSchema_def check_json_def zp_object shape_fields_def obj_get_def present_fields_def fixed_keys
      zp_string zp_boolean zp_enum check_names_def zp_nullish)

lemma array_fits:
  assumes "\<And>x. x \<in> set xs \<Longrightarrow> zp s (Some (f x)) = Some (Some (g x))"
  shows "zp (ZArray s) (Some (JArr (map f xs))) = Some (Some (JArr (map g xs)))"
proof -
  have "all_some (map (\<lambda>x. zp s (Some (f x))) xs) = Some (map (\<lambda>x. Some (g x)) xs)"
    by (rule all_some_total) (simp add: assms)
  then show ?thesis by (simp add: zp_array o_def)
qed

lemma report_fits: "zp (ZNullish validationReportSchema) (Some (report_json r)) = Some (Some (report_json r))"
  using array_fits [of _ validationCheckSchema check_json check_json, OF check_fits]
  by (cases r) (simp_all add: report_json_def zp_nullish validationReportSchema_def zp_object shape_fields_def obj_get_def present_fields_def
      fixed_keys zp_boolean)

lemma module_fits:
  assumes "zp ZDatetime (Some (JStr (uploaded_at m))) \<noteq> None" "js_is_safe (size_bytes m)" "js_le (num 0) (size_bytes m)"
  shows "zp moduleSchema (Some (module_json m)) = Some (Some (module_json m))"
  using datetime_fits [OF assms(1)] assms(2-) status_fits [of "mod_status m"] report_fits [of "mod_report m"]
  by (simp add: moduleSchema_def module_json_def zp_object shape_fields_def obj_get_def present_fields_def fixed_keys
      zp_string zp_int zp_nonnegative)

text \<open>Objects of any values pass, their keys in the order they have in a canonical object.\<close>

lemma object_fits:
  assumes "canon_keys (map fst ob)" shows "zp obj_schema (Some (JObj ob)) = Some (Some (JObj ob))"
proof -
  have "shape_fields zp (map (\<lambda>(k, x). (k, ZUnknown)) ob) ob = Some (map (\<lambda>(k, x). (k, Some x)) ob)"
    unfolding shape_fields_def map_map
    by (rule all_some_total) (use assms in \<open>auto simp: zp_unknown obj_get_def canon_keys_def\<close>)
  then show ?thesis
    using assms by (simp add: obj_schema_def zp_record present_fields_def o_def case_prod_unfold obj_of_list_canon comp_def)
qed

lemma hook_fits:
  assumes "zp ZDatetime (Some (JStr (hook_created h))) \<noteq> None" "zp ZDatetime (Some (JStr (hook_updated h))) \<noteq> None"
    "js_is_safe (def_version h)" "spec_ok (hook_spec_of h)" "canon_keys (map fst (input_schema (hook_spec_of h)))"
    "canon_keys (map fst (output_schema (hook_spec_of h)))" "canon_keys (map fst (sample_input (hook_spec_of h)))"
  shows "\<exists>v. zp operatorHookSchema (Some (hook_json h)) = Some v \<and> hook_of_json v = h"
proof -
  have lists: "zp stringList_schema (Some (json_strs ss)) = Some (Some (json_strs ss))" for ss
    using strings_fit [of ss] by (simp add: stringList_schema_def zp_transform zp_nullish json_strs_def)
  have "js_is_safe (timeout_ms (hook_spec_of h))" "js_is_safe (memory_max_pages (hook_spec_of h))"
    using assms(4) int_between_safe by (auto simp: spec_ok_def TIMEOUT_MS_def MEMORY_PAGES_def safe_int_def)
  then show ?thesis
    using datetime_fits [OF assms(1)] datetime_fits [OF assms(2)] assms(3) object_fits [OF assms(5)] object_fits [OF assms(6)] object_fits [OF assms(7)] lists
      hook_of_hook_json [of h]
    by (simp add: operatorHookSchema_def hook_json_def spec_fields_def zp_object shape_fields_def obj_get_def present_fields_def fixed_keys
      zp_string zp_int hook_of_json_def json_member_def)
qed

end

section \<open>The log as it is listed\<close>

definition wanted :: "invocation_filter \<Rightarrow> invocation \<Rightarrow> bool" where
  "wanted f i \<longleftrightarrow> (\<forall>t. filter_outcome f = Some t \<longrightarrow> inv_outcome i = t) \<and> (\<forall>h. filter_hook f = Some h \<longrightarrow> h = [] \<or> inv_hook i = h)"

lemma outcome_text_nonempty: "outcome_text t \<noteq> []"
  by (cases t) (simp_all add: outcome_text_def lit_def)

lemma listed_query:
  assumes "zod (env_zod e)" "req_url req = api_url p (opt_query (query_opts (invocationQueries_list f)))"
  shows "listed_invocations e req d = take 100 (rev (filter (wanted f) (db_invocations d)))"
proof -
  have limit: "string_number (lit ''100'') = num 100"
    using fl_int [of 100] by (simp add: string_number_def decimal_number_def lit_def js_trim_def is_space_def ws_units_def is_digit_def
        exponent_of_def span_def safe_int_def nat_of_units_def digits_value_def digit_value_def)
  have hundred: "rat_text 100 = lit ''100''" using rat_text_int [of 100] by (simp add: safe_int_def int_text_def nat_text_def digit_cu_def digits_of.simps lit_def)
  have params: "search_param req ''outcome'' = map_option outcome_text (filter_outcome f)"
    "search_param req ''hook'' = (case filter_hook f of Some h \<Rightarrow> if h = [] then None else Some h | None \<Rightarrow> None)"
    "search_param req ''limit'' = Some (lit ''100'')"
    using outcome_text_nonempty
    by (simp_all add: search_param_def assms(2) api_url_def invocationQueries_list_def get_options_def query_opt_def query_text_def hundred split: option.split)
  have mem: "t \<in> set outcomes" for t by (cases t) (simp_all add: outcomes_def)
  have "outcome_filter e req i \<and> hook_filter req i \<longleftrightarrow> wanted f i" for i
    using mem zod.outcome_fits [OF assms(1)] zod.zp_enum [OF assms(1)]
    by (auto simp: outcome_filter_def hook_filter_def params wanted_def json_nullable_def outcomeSchema_def split: option.split)
  then have "filter (hook_filter req) (filter (outcome_filter e req) xs) = filter (wanted f) xs" for xs
    by (simp add: filter_filter conj_commute)
  then show ?thesis by (simp add: listed_invocations_def params limit slice_to_def)
qed

lemma tick_length: "length (db_invocations (wdb (tickInvocations now w))) \<le> Suc (length (db_invocations (wdb w)))"
proof (cases w)
  case (fields d g)
  show ?thesis unfolding fields by (rule tick_cases [of now d g]) simp_all
qed

lemma log_descends:
  assumes "log_ok d" "length (db_invocations d) < 2 ^ 53"
  shows "sorted_wrt (\<lambda>i j. js_lt (inv_seq j) (inv_seq i)) (take n (rev (filter P (db_invocations d))))"
proof -
  have "map inv_seq (db_invocations d) = map (\<lambda>i. num (int i)) [1..<Suc (length (db_invocations d))]"
    using assms by (simp add: log_ok_def Let_def)
  then have "sorted_wrt js_lt (map inv_seq (db_invocations d))"
    by (simp add: sorted_wrt_map sorted_wrt_upt del: upt_Suc)
  then have "sorted_wrt (\<lambda>i j. js_lt (inv_seq i) (inv_seq j)) (filter P (db_invocations d))"
    by (simp add: sorted_wrt_map sorted_wrt_filter)
  then show ?thesis by (simp add: sorted_wrt_take sorted_wrt_rev)
qed

end
