(* ===== verification/Upload_Verdict.thy ===== *)
theory Upload_Verdict
  imports System
begin

text \<open>
  What becomes of an uploaded version: the mock control plane keeps it as it was stored until the delay of its check has passed, and
  gives it one verdict from then on, whatever requests come in between (\<open>mocks/handlers.ts\<close>, \<open>mocks/db.ts\<close>).
\<close>

section \<open>Versions only settle\<close>

definition settles :: "pending_module \<Rightarrow> pending_module \<Rightarrow> bool" where
  "settles m m' \<longleftrightarrow> m' = m \<or> (\<exists>now. m' = settle_module now m)"

lemma settle_twice: "settle_module n2 (settle_module n1 m) \<in> {settle_module n1 m, settle_module n2 m}"
  by (simp add: settle_module_def)

interpretation settling: evolution settles
proof
  fix x y z assume "settles x y" "settles y z"
  then show "settles x z" using settle_twice by (fastforce simp: settles_def)
qed (simp add: settles_def)

lemma settles_step:
  assumes "control_step now d d'" shows "grows settles (db_modules d) (db_modules d')"
  using assms
proof cases
  case settle
  have "settles m (settle_module now m)" for m by (auto simp: settles_def)
  then show ?thesis by (simp add: settle settleModules_def settling.grows_map)
next
  case (add_module n sz h f)
  then show ?thesis using snd_addUploadedModule [of now n h sz f d] by auto
next
  case (log g)
  obtain is' where "d' = d\<lparr>db_invocations := is'\<rparr>" using tick_frame log by blast
  then show ?thesis by simp
qed auto

lemma served_settles: "served s s' \<Longrightarrow> grows settles (db_modules (wdb (srv_world s))) (db_modules (wdb (srv_world s')))"
  by (induction rule: served.induct) (auto dest!: serve_step settles_step intro: settling.grows_trans)

lemma served_names: "served s s' \<Longrightarrow> set (hook_names (wdb (srv_world s))) \<subseteq> set (hook_names (wdb (srv_world s')))"
  by (induction rule: served.induct) (auto dest!: serve_step names_grow)

section \<open>The verdict\<close>

definition verdict_of :: "jstr \<Rightarrow> module_status" where
  "verdict_of name = (if str_includes (lit ''http'') name then Rejected else Validated)"

text \<open>An accepted upload has stored the version that the answer shows.\<close>

lemma upload_stored:
  assumes "post_module n e req w = (Inr r, w')" "resp_status r = 201" "form_file req = Some f"
  obtains m where "m \<in> set (db_modules (wdb w'))" "mod_hook m = n" "content_hash m = sha256 e (file_bytes f)"
    "mod_status m = Validating" "validates_at m = env_now e + VALIDATION_MS"
    "reject_reason m = (if str_includes (lit ''http'') (file_name f) then Some HTTP_IMPORT_DETAIL else None)"
    "n \<in> set (hook_names (wdb w'))"
proof -
  have n: "n \<in> set (hook_names (wdb w))" using assms by (auto simp: post_module_def hook_not_found_def tenantHook_None split: if_splits)
  let ?m = "fst (addUploadedModule (env_now e) n (sha256 e (file_bytes f)) (length (file_bytes f)) (file_name f) (wdb w))"
  have "wdb w' = (wdb w)\<lparr>db_modules := db_modules (wdb w) @ [?m]\<rparr>"
    using assms by (auto simp: post_module_def upload_file_to_def hook_not_found_def addUploadedModule_def Let_def split: if_splits)
  then show ?thesis using n by (intro that [of ?m]) (simp_all add: addUploadedModule_def Let_def hook_names_def)
qed

lemma settled_verdict:
  assumes "settles m m'" "mod_status m = Validating" "validates_at m \<le> now"
    "reject_reason m = (if str_includes (lit ''http'') f then Some HTTP_IMPORT_DETAIL else None)"
  shows "mod_status (settle_module now m') = verdict_of f"
proof -
  have reason: "truthy (reject_reason m) \<longleftrightarrow> str_includes (lit ''http'') f"
    by (simp add: assms(4) truthy_def HTTP_IMPORT_DETAIL_def)
  obtain now' where "m' = m \<or> m' = settle_module now' m" using assms(1) by (auto simp: settles_def)
  then have "settle_module now m' = settle_module now m"
    using assms(2,3) by (elim disjE) (simp_all add: settle_module_def)
  then show ?thesis using assms(2,3) by (simp add: settle_module_def reason verdict_of_def)
qed

lemma listed_verdict:
  assumes "post_module n e req w = (Inr r, w')" "resp_status r = 201" "form_file req = Some f"
    "served s s'" "srv_world s = w'" "env_now e + VALIDATION_MS \<le> env_now later"
  shows "\<exists>m \<in> set (listed_modules later n (settleModules (env_now later) (wdb (srv_world s')))).
    content_hash m = sha256 e (file_bytes f) \<and> mod_status m = verdict_of (file_name f)"
proof -
  obtain m where m: "m \<in> set (db_modules (wdb w'))" "mod_hook m = n" "content_hash m = sha256 e (file_bytes f)"
    "mod_status m = Validating" "validates_at m = env_now e + VALIDATION_MS"
    "reject_reason m = (if str_includes (lit ''http'') (file_name f) then Some HTTP_IMPORT_DETAIL else None)"
    using upload_stored [OF assms(1-3)] by metis
  obtain m' where m': "m' \<in> set (db_modules (wdb (srv_world s')))" "settles m m'"
    using settling.grows_mem [OF served_settles [OF assms(4)]] m(1) assms(5) by auto
  let ?v = "settle_module (env_now later) m'"
  have "mod_status ?v = verdict_of (file_name f)" using settled_verdict [OF m'(2) m(4) _ m(6)] m(5) assms(6) by simp
  moreover have "mod_hook ?v = n" "content_hash ?v = sha256 e (file_bytes f)"
    using m'(2) m(2,3) by (auto simp: settles_def settle_frame)
  ultimately show ?thesis using m'(1)
    by (intro bexI [of _ "publicModule ?v"]) (auto simp: in_listed_modules settleModules_def publicModule_def)
qed

end
