(* ===== verification/Contract_Types.thy ===== *)
theory Contract_Types
  imports Entities
begin

text \<open>
  \<open>shared/api/contract.gen.ts\<close>: the types of the API contract, and \<open>contract.ts\<close> with the \<open>contract.check.ts\<close> files: the
  comparisons of the schemas with those types that the compiler carries out. A TypeScript type is data, with the
  values it has (\<open>has_type\<close>) and the compiler's assignability between the types that occur; \<open>z_input\<close> is the type
  the schema library infers for what a schema takes in.
\<close>

section \<open>Types and their values\<close>

text \<open>An object type lists its properties, each optional or not; objects may have more. \<open>None\<close> is \<open>undefined\<close>.\<close>

datatype cty = TUnknown | TString | TNumber | TBoolean | TNull | TUndefined | TLit jstr
  | TUnion "cty list" | TArray cty | TDict cty | TObj "(jstr \<times> bool \<times> cty) list"

function has_type :: "cty \<Rightarrow> json option \<Rightarrow> bool" where
  "has_type TUnknown v \<longleftrightarrow> True"
| "has_type TString v \<longleftrightarrow> (case v of Some (JStr s) \<Rightarrow> True | _ \<Rightarrow> False)"
| "has_type TNumber v \<longleftrightarrow> (case v of Some (JNum x) \<Rightarrow> True | _ \<Rightarrow> False)"
| "has_type TBoolean v \<longleftrightarrow> (case v of Some (JBool b) \<Rightarrow> True | _ \<Rightarrow> False)"
| "has_type TNull v \<longleftrightarrow> v = Some JNull"
| "has_type TUndefined v \<longleftrightarrow> v = None"
| "has_type (TLit s) v \<longleftrightarrow> v = Some (JStr s)"
| "has_type (TUnion ts) v \<longleftrightarrow> (\<exists>t \<in> set ts. has_type t v)"
| "has_type (TArray t) v \<longleftrightarrow> (case v of Some (JArr xs) \<Rightarrow> list_all (\<lambda>x. has_type t (Some x)) xs | _ \<Rightarrow> False)"
| "has_type (TDict t) v \<longleftrightarrow> (case v of Some (JObj ob) \<Rightarrow> list_all (\<lambda>(k, x). has_type t (Some x)) ob | _ \<Rightarrow> False)"
| "has_type (TObj fs) v \<longleftrightarrow>
     (case v of
        Some (JObj ob) \<Rightarrow> (\<forall>(k, optional, t) \<in> set fs. case obj_get ob k of None \<Rightarrow> optional | Some x \<Rightarrow> has_type t (Some x))
      | _ \<Rightarrow> False)"
  by pat_completeness auto
termination
  by (relation "measure (\<lambda>(t, v). size t)") (auto simp: size_list_estimation' less_Suc_eq_le
      dest!: elem_le_sum_list intro: size_list_estimation' order_trans)

section \<open>The components of the contract\<close>

text \<open>\<open>components["schemas"]\<close>; the formats and limits that the document keeps in comments are no part of a type.\<close>

definition contract_ApiKey :: cty where
  "contract_ApiKey = TObj
     [(lit ''id'', False, TString), (lit ''name'', False, TString), (lit ''created_at'', False, TString),
      (lit ''revoked_at'', False, TUnion [TString, TNull])]"

definition contract_ApiKeyCreate :: cty where
  "contract_ApiKeyCreate = TObj
     [(lit ''name'', False, TString)]"

definition contract_ApiKeyCreated :: cty where
  "contract_ApiKeyCreated = TObj
     [(lit ''id'', False, TString), (lit ''name'', False, TString), (lit ''created_at'', False, TString),
      (lit ''revoked_at'', False, TUnion [TString, TNull]), (lit ''token'', False, TString)]"

definition contract_ApiKeyList :: cty where
  "contract_ApiKeyList = TObj
     [(lit ''items'', False, TArray contract_ApiKey)]"

definition contract_BindingUpdate :: cty where
  "contract_BindingUpdate = TObj
     [(lit ''active_module_id'', True, TUnion [TString, TNull]), (lit ''config'', True, TUnion [TDict TString, TNull])]"

definition contract_Body_upload_module :: cty where
  "contract_Body_upload_module = TObj
     [(lit ''file'', False, TString)]"

definition contract_ConsoleSession :: cty where
  "contract_ConsoleSession = TObj
     [(lit ''token'', False, TString), (lit ''expires_at'', False, TString)]"

definition contract_Hook :: cty where
  "contract_Hook = TObj
     [(lit ''input_schema'', False, TDict TUnknown), (lit ''output_schema'', False, TDict TUnknown),
      (lit ''timeout_ms'', False, TNumber), (lit ''memory_max_pages'', False, TNumber),
      (lit ''allowed_host_functions'', True, TArray TString), (lit ''allowed_effect_types'', True, TArray TString),
      (lit ''sample_input'', False, TDict TUnknown), (lit ''name'', False, TString),
      (lit ''def_version'', False, TNumber), (lit ''created_at'', False, TString), (lit ''updated_at'', False, TString)]"

definition contract_HookCreate :: cty where
  "contract_HookCreate = TObj
     [(lit ''input_schema'', False, TDict TUnknown), (lit ''output_schema'', False, TDict TUnknown),
      (lit ''timeout_ms'', False, TNumber), (lit ''memory_max_pages'', False, TNumber),
      (lit ''allowed_host_functions'', True, TArray TString), (lit ''allowed_effect_types'', True, TArray TString),
      (lit ''sample_input'', False, TDict TUnknown), (lit ''name'', False, TString)]"

definition contract_HookList :: cty where
  "contract_HookList = TObj
     [(lit ''items'', False, TArray contract_Hook)]"

definition contract_HookSpec :: cty where
  "contract_HookSpec = TObj
     [(lit ''input_schema'', False, TDict TUnknown), (lit ''output_schema'', False, TDict TUnknown),
      (lit ''timeout_ms'', False, TNumber), (lit ''memory_max_pages'', False, TNumber),
      (lit ''allowed_host_functions'', True, TArray TString), (lit ''allowed_effect_types'', True, TArray TString),
      (lit ''sample_input'', False, TDict TUnknown)]"

definition contract_HookView :: cty where
  "contract_HookView = TObj
     [(lit ''name'', False, TString), (lit ''def_version'', False, TNumber),
      (lit ''input_schema'', False, TDict TUnknown), (lit ''output_schema'', False, TDict TUnknown),
      (lit ''timeout_ms'', False, TNumber), (lit ''memory_max_pages'', False, TNumber),
      (lit ''allowed_host_functions'', False, TArray TString), (lit ''allowed_effect_types'', False, TArray TString),
      (lit ''sample_input'', True, TUnknown)]"

definition contract_ValidationCheck :: cty where
  "contract_ValidationCheck = TObj
     [(lit ''name'', False, TUnion (map (TLit \<circ> lit) [''fetch'', ''compile'', ''exports'', ''imports'', ''sample_call''])),
      (lit ''ok'', False, TBoolean), (lit ''detail'', True, TUnion [TString, TNull])]"

definition contract_ValidationReport :: cty where
  "contract_ValidationReport = TObj
     [(lit ''ok'', False, TBoolean), (lit ''checks'', False, TArray contract_ValidationCheck)]"

definition contract_Module :: cty where
  "contract_Module = TObj
     [(lit ''id'', False, TString), (lit ''hook'', False, TString), (lit ''content_hash'', False, TString),
      (lit ''size_bytes'', False, TNumber),
      (lit ''status'', False, TUnion (map (TLit \<circ> lit) [''uploaded'', ''validating'', ''validated'', ''rejected'', ''archived''])),
      (lit ''validation_report'', False, TUnion [contract_ValidationReport, TNull]),
      (lit ''uploaded_at'', False, TString)]"

definition contract_ModuleList :: cty where
  "contract_ModuleList = TObj
     [(lit ''items'', False, TArray contract_Module)]"

definition contract_Tenant :: cty where
  "contract_Tenant = TObj
     [(lit ''external_id'', False, TString), (lit ''name'', False, TString), (lit ''rate_limit_rps'', False, TNumber),
      (lit ''concurrency_limit'', False, TNumber), (lit ''created_at'', False, TString),
      (lit ''updated_at'', False, TString)]"

definition contract_TenantBinding :: cty where
  "contract_TenantBinding = TObj
     [(lit ''active_module_id'', False, TUnion [TString, TNull]),
      (lit ''active_module_hash'', False, TUnion [TString, TNull]), (lit ''config'', False, TDict TString),
      (lit ''config_version'', False, TNumber), (lit ''updated_at'', False, TString)]"

definition contract_TenantCreate :: cty where
  "contract_TenantCreate = TObj
     [(lit ''external_id'', False, TString), (lit ''name'', False, TString), (lit ''rate_limit_rps'', False, TNumber),
      (lit ''concurrency_limit'', False, TNumber)]"

definition contract_TenantHook :: cty where
  "contract_TenantHook = TObj
     [(lit ''hook'', False, contract_HookView), (lit ''binding'', False, TUnion [contract_TenantBinding, TNull])]"

definition contract_TenantHookList :: cty where
  "contract_TenantHookList = TObj
     [(lit ''items'', False, TArray contract_TenantHook)]"

definition contract_TenantList :: cty where
  "contract_TenantList = TObj
     [(lit ''items'', False, TArray contract_Tenant)]"

definition contract_TenantPatch :: cty where
  "contract_TenantPatch = TObj
     [(lit ''name'', True, TUnion [TString, TNull]), (lit ''rate_limit_rps'', True, TUnion [TNumber, TNull]),
      (lit ''concurrency_limit'', True, TUnion [TNumber, TNull])]"

definition contract_Problem :: cty where
  "contract_Problem = TObj
     [(lit ''type'', False, TString), (lit ''title'', False, TString), (lit ''status'', False, TNumber),
      (lit ''detail'', False, TUnion [TString, TNull])]"

section \<open>Assignability\<close>

text \<open>
  \<open>[A] extends [B]\<close> for the types above, none distributed: a union is assignable when its members are, and to a union when it is
  to a member; an object needs every property of the target that is not optional, and may not make optional what
  the target requires. The compiler lets an object without a property pass where the property is optional, although a
  value of the type may have it with any value; \<open>strict\<close> is the relation without that rule.
\<close>

definition below :: "bool \<Rightarrow> (cty \<Rightarrow> cty \<Rightarrow> bool) \<Rightarrow> cty \<Rightarrow> cty \<Rightarrow> bool" where
  "below strict sub a b = (case b of
      TUnknown \<Rightarrow> True
    | TUnion bs \<Rightarrow> list_ex (sub a) bs
    | TString \<Rightarrow> a = TString \<or> (case a of TLit s \<Rightarrow> True | _ \<Rightarrow> False)
    | TArray t' \<Rightarrow> (case a of TArray t \<Rightarrow> sub t t' | _ \<Rightarrow> False)
    | TDict t' \<Rightarrow> (case a of TDict t \<Rightarrow> sub t t' | _ \<Rightarrow> False)
    | TObj gs \<Rightarrow> (case a of
          TObj fs \<Rightarrow> list_all (\<lambda>(k, optional, t'). case map_of fs k of
              None \<Rightarrow> optional \<and> \<not> strict
            | Some (o', t) \<Rightarrow> (o' \<longrightarrow> optional) \<and> sub t t') gs
        | _ \<Rightarrow> False)
    | _ \<Rightarrow> a = b)"

text \<open>The depth of the nesting is enough fuel.\<close>

fun type_depth :: "cty \<Rightarrow> nat" where
  "type_depth (TUnion ts) = Suc (foldr (max \<circ> type_depth) ts 0)"
| "type_depth (TArray t) = Suc (type_depth t)"
| "type_depth (TDict t) = Suc (type_depth t)"
| "type_depth (TObj fs) = Suc (foldr (\<lambda>(k, b, t). max (type_depth t)) fs 0)"
| "type_depth t = 1"

fun assignable_in :: "nat \<Rightarrow> bool \<Rightarrow> cty \<Rightarrow> cty \<Rightarrow> bool" where
  "assignable_in 0 strict a b = False"
| "assignable_in (Suc n) strict (TUnion as) b = list_all (\<lambda>a. assignable_in n strict a b) as"
| "assignable_in (Suc n) strict a b = below strict (assignable_in n strict) a b"

definition assignable :: "cty \<Rightarrow> cty \<Rightarrow> bool" where
  "assignable a b = assignable_in (type_depth a + type_depth b) False a b"

definition subtype :: "cty \<Rightarrow> cty \<Rightarrow> bool" where
  "subtype a b = assignable_in (type_depth a + type_depth b) True a b"

section \<open>The input of a schema\<close>

text \<open>\<open>z.input\<close>: a property is optional when its schema takes \<open>undefined\<close>; a transformation takes what its schema takes.\<close>

fun takes_undefined :: "zschema \<Rightarrow> bool" where
  "takes_undefined (ZOptional s) = True"
| "takes_undefined ZUndefined = True"
| "takes_undefined (ZNullable s) = takes_undefined s"
| "takes_undefined (ZTransform f s) = takes_undefined s"
| "takes_undefined s = False"

function z_input :: "zschema \<Rightarrow> cty" where
  "z_input ZUnknown = TUnknown"
| "z_input ZUndefined = TUndefined"
| "z_input ZString = TString"
| "z_input ZBoolean = TBoolean"
| "z_input ZNumber = TNumber"
| "z_input ZInt = TNumber"
| "z_input (ZNonNegative s) = z_input s"
| "z_input (ZPositive s) = z_input s"
| "z_input ZDatetime = TString"
| "z_input (ZEnum ts) = TUnion (map TLit ts)"
| "z_input (ZNullable s) = TUnion [z_input s, TNull]"
| "z_input (ZOptional s) = TUnion [z_input s, TUndefined]"
| "z_input (ZArray s) = TArray (z_input s)"
| "z_input (ZRecord s) = TDict (z_input s)"
| "z_input (ZObject shape) = TObj (map (\<lambda>(k, s). (k, takes_undefined s, z_input s)) shape)"
| "z_input (ZTransform f s) = z_input s"
  by pat_completeness auto
termination
  by (relation "measure size") (auto simp: size_list_estimation' less_Suc_eq_le
      dest!: elem_le_sum_list intro: size_list_estimation' order_trans)

section \<open>The checks\<close>

text \<open>\<open>AcceptsContract\<close> and \<open>FitsContract\<close> of \<open>contract.ts\<close>, and the checks of the slices.\<close>

definition AcceptsContract :: "zschema \<Rightarrow> cty \<Rightarrow> bool" where
  "AcceptsContract s c = assignable c (z_input s)"

definition FitsContract :: "cty \<Rightarrow> cty \<Rightarrow> bool" where
  "FitsContract v c = assignable v c"

definition http_accepts :: "(zschema \<times> cty) list" where
  "http_accepts = [(problem_schema, contract_Problem)]"

definition api_key_accepts :: "(zschema \<times> cty) list" where
  "api_key_accepts =
     [(apiKeySchema, contract_ApiKey), (apiKeyListSchema, contract_ApiKeyList), (apiKeyCreatedSchema, contract_ApiKeyCreated)]"

definition api_key_fits :: "(cty \<times> cty) list" where
  "api_key_fits = [(TObj [(lit ''name'', False, TString)], contract_ApiKeyCreate)]"

definition hook_accepts :: "(zschema \<times> cty) list" where
  "hook_accepts =
     [(hookSchema, contract_HookView), (bindingSchema, contract_TenantBinding), (tenantHookSchema, contract_TenantHook),
      (tenantHookListSchema, contract_TenantHookList), (operatorHookSchema, contract_Hook), (operatorHookListSchema, contract_HookList)]"

text \<open>The types \<open>HookSpec\<close>, \<open>HookCreate\<close>, \<open>TenantCreate\<close>, \<open>TenantPatch\<close> of the slices.\<close>

definition HookSpec_fields :: "(jstr \<times> bool \<times> cty) list" where
  "HookSpec_fields =
     [(lit ''input_schema'', False, TDict TUnknown), (lit ''output_schema'', False, TDict TUnknown), (lit ''timeout_ms'', False, TNumber),
      (lit ''memory_max_pages'', False, TNumber), (lit ''allowed_host_functions'', False, TArray TString),
      (lit ''allowed_effect_types'', False, TArray TString), (lit ''sample_input'', False, TDict TUnknown)]"

definition HookCreate_type :: cty where
  "HookCreate_type = TObj (HookSpec_fields @ [(lit ''name'', False, TString)])"

definition TenantQuotas_fields :: "bool \<Rightarrow> (jstr \<times> bool \<times> cty) list" where
  "TenantQuotas_fields partial = [(lit ''rate_limit_rps'', partial, TNumber), (lit ''concurrency_limit'', partial, TNumber)]"

definition TenantCreate_type :: cty where
  "TenantCreate_type = TObj ([(lit ''external_id'', False, TString), (lit ''name'', False, TString)] @ TenantQuotas_fields False)"

definition TenantPatch_type :: cty where
  "TenantPatch_type = TObj ((lit ''name'', True, TString) # TenantQuotas_fields True)"

definition hook_fits :: "(cty \<times> cty) list" where
  "hook_fits =
     [(HookCreate_type, contract_HookCreate), (TObj HookSpec_fields, contract_HookSpec),
      (TObj [(lit ''active_module_id'', False, TString)], contract_BindingUpdate),
      (TObj [(lit ''config'', False, TDict TString)], contract_BindingUpdate)]"

definition module_accepts :: "(zschema \<times> cty) list" where
  "module_accepts =
     [(validationCheckSchema, contract_ValidationCheck), (validationReportSchema, contract_ValidationReport),
      (moduleSchema, contract_Module), (moduleListSchema, contract_ModuleList)]"

definition tenant_accepts :: "(zschema \<times> cty) list" where
  "tenant_accepts =
     [(tenantSchema, contract_Tenant), (tenantListSchema, contract_TenantList), (consoleSessionSchema, contract_ConsoleSession)]"

definition tenant_fits :: "(cty \<times> cty) list" where
  "tenant_fits = [(TenantCreate_type, contract_TenantCreate), (TenantPatch_type, contract_TenantPatch)]"

definition contract_accepts :: "(zschema \<times> cty) list" where
  "contract_accepts = http_accepts @ api_key_accepts @ hook_accepts @ module_accepts @ tenant_accepts"

definition contract_fits :: "(cty \<times> cty) list" where
  "contract_fits = api_key_fits @ hook_fits @ tenant_fits"

lemmas accepts_defs = contract_accepts_def http_accepts_def api_key_accepts_def hook_accepts_def module_accepts_def tenant_accepts_def

lemmas fits_defs = contract_fits_def api_key_fits_def hook_fits_def tenant_fits_def HookCreate_type_def HookSpec_fields_def
  TenantCreate_type_def TenantPatch_type_def TenantQuotas_fields_def

lemmas contract_types =
  contract_ApiKey_def contract_ApiKeyCreate_def contract_ApiKeyCreated_def contract_ApiKeyList_def
  contract_BindingUpdate_def contract_Body_upload_module_def contract_ConsoleSession_def contract_Hook_def
  contract_HookCreate_def contract_HookList_def contract_HookSpec_def contract_HookView_def contract_ValidationCheck_def
  contract_ValidationReport_def contract_Module_def contract_ModuleList_def contract_Tenant_def
  contract_TenantBinding_def contract_TenantCreate_def contract_TenantHook_def contract_TenantHookList_def
  contract_TenantList_def contract_TenantPatch_def contract_Problem_def

lemmas schema_defs = problem_schema_def apiKeySchema_def apiKeySchema_fields_def apiKeyListSchema_def apiKeyCreatedSchema_def
  hookSchema_def bindingSchema_def tenantHookSchema_def tenantHookListSchema_def stringList_schema_def operatorHookSchema_def
  operatorHookListSchema_def obj_schema_def moduleStatusSchema_def validationCheckSchema_def validationReportSchema_def moduleSchema_def
  moduleListSchema_def quota_schema_def tenantSchema_def tenantListSchema_def consoleSessionSchema_def ZNullish_def

lemma contract_accepted: "list_all (\<lambda>(s, c). AcceptsContract s c) contract_accepts"
  by (simp add: accepts_defs AcceptsContract_def assignable_def contract_types schema_defs below_def
      status_text_def module_statuses_def check_names_def check_text_def)

lemma contract_fitted: "list_all (\<lambda>(v, c). FitsContract v c) contract_fits"
  by (simp add: fits_defs FitsContract_def assignable_def contract_types below_def)

lemma contract_subtypes: "list_all (\<lambda>(s, c). subtype c (z_input s)) contract_accepts"
  by (simp add: accepts_defs subtype_def contract_types schema_defs below_def
      status_text_def module_statuses_def check_names_def check_text_def)

section \<open>What the checks are worth\<close>

text \<open>Without the compiler's rule for missing properties, values of a type are values of the types it is below.\<close>

lemma below_sound:
  assumes "below True sub a b" "\<And>a b v. sub a b \<Longrightarrow> has_type a v \<Longrightarrow> has_type b v" "has_type a v"
  shows "has_type b v"
proof (cases b)
  case (TObj gs)
  then obtain fs where a: "a = TObj fs" using assms(1) by (cases a) (simp_all add: below_def)
  then obtain ob where v: "v = Some (JObj ob)" using assms(3) by (auto split: option.splits json.splits)
  have "case obj_get ob k of None \<Rightarrow> opt | Some x \<Rightarrow> has_type t (Some x)" if "(k, opt, t) \<in> set gs" for k opt t
  proof -
    have "\<forall>(k, opt, t) \<in> set gs. case map_of fs k of None \<Rightarrow> opt \<and> \<not> True | Some (o', t') \<Rightarrow> (o' \<longrightarrow> opt) \<and> sub t' t"
      using assms(1) by (simp add: below_def a TObj list_all_iff)
    from bspec [OF this that] obtain o' t' where f: "map_of fs k = Some (o', t')" "o' \<longrightarrow> opt" "sub t' t"
      by (auto split: option.splits)
    then have "case obj_get ob k of None \<Rightarrow> o' | Some x \<Rightarrow> has_type t' (Some x)"
      using assms(3) map_of_SomeD [OF f(1)] by (fastforce simp: a v)
    then show ?thesis using f(2,3) assms(2) by (auto split: option.splits)
  qed
  then show ?thesis by (auto simp: TObj v)
next
  case (TArray t')
  then show ?thesis using assms by (cases a) (auto simp: below_def list_all_iff split: option.splits json.splits)
next
  case (TDict t')
  then show ?thesis using assms by (cases a) (auto simp: below_def list_all_iff split: option.splits json.splits)
next
  case (TUnion bs)
  then show ?thesis using assms by (auto simp: below_def list_ex_iff)
next
  case TString
  then show ?thesis using assms by (cases a) (auto simp: below_def)
qed (use assms in \<open>auto simp: below_def\<close>)

lemma assignable_sound: "assignable_in n True a b \<Longrightarrow> has_type a v \<Longrightarrow> has_type b v"
proof (induction n arbitrary: a b v)
  case (Suc n)
  show ?case
  proof (cases "\<exists>ts. a = TUnion ts")
    case True
    then show ?thesis using Suc by (fastforce simp: list_all_iff)
  next
    case False
    then have "below True (assignable_in n True) a b" using Suc.prems(1) by (cases a) simp_all
    from below_sound [OF this Suc.IH Suc.prems(2)] show ?thesis .
  qed
qed simp

lemma subtype_sound: "subtype a b \<Longrightarrow> has_type a v \<Longrightarrow> has_type b v"
  unfolding subtype_def by (rule assignable_sound)

text \<open>
  What a schema asks of a value beyond its type: bounds on numbers, which the schemas put on numbers only, and the format of
  dates.
\<close>

fun num_schema :: "zschema \<Rightarrow> bool" where
  "num_schema ZNumber = True"
| "num_schema ZInt = True"
| "num_schema (ZNonNegative s) = num_schema s"
| "num_schema (ZPositive s) = num_schema s"
| "num_schema s = False"

function refined :: "zparser \<Rightarrow> zschema \<Rightarrow> json option \<Rightarrow> bool" where
  "refined zp ZUnknown v \<longleftrightarrow> True"
| "refined zp ZUndefined v \<longleftrightarrow> True"
| "refined zp ZString v \<longleftrightarrow> True"
| "refined zp ZBoolean v \<longleftrightarrow> True"
| "refined zp (ZEnum ts) v \<longleftrightarrow> True"
| "refined zp ZNumber v \<longleftrightarrow> (case v of Some (JNum x) \<Rightarrow> finite_number x | _ \<Rightarrow> True)"
| "refined zp ZInt v \<longleftrightarrow> (case v of Some (JNum x) \<Rightarrow> js_is_safe x | _ \<Rightarrow> True)"
| "refined zp (ZNonNegative s) v \<longleftrightarrow> num_schema s \<and> refined zp s v \<and> (case v of Some (JNum x) \<Rightarrow> js_le (Fin 0) x | _ \<Rightarrow> True)"
| "refined zp (ZPositive s) v \<longleftrightarrow> num_schema s \<and> refined zp s v \<and> (case v of Some (JNum x) \<Rightarrow> js_lt (Fin 0) x | _ \<Rightarrow> True)"
| "refined zp ZDatetime v \<longleftrightarrow> (case v of Some (JStr s) \<Rightarrow> zp ZDatetime v \<noteq> None | _ \<Rightarrow> True)"
| "refined zp (ZNullable s) v \<longleftrightarrow> v = Some JNull \<or> refined zp s v"
| "refined zp (ZOptional s) v \<longleftrightarrow> v = None \<or> refined zp s v"
| "refined zp (ZArray s) v \<longleftrightarrow> (case v of Some (JArr xs) \<Rightarrow> list_all (\<lambda>x. refined zp s (Some x)) xs | _ \<Rightarrow> True)"
| "refined zp (ZRecord s) v \<longleftrightarrow> (case v of Some (JObj ob) \<Rightarrow> list_all (\<lambda>(k, x). refined zp s (Some x)) ob | _ \<Rightarrow> True)"
| "refined zp (ZObject shape) v \<longleftrightarrow>
     (case v of
        Some (JObj ob) \<Rightarrow> (\<forall>(k, s) \<in> set shape. case obj_get ob k of None \<Rightarrow> True | Some x \<Rightarrow> refined zp s (Some x))
      | _ \<Rightarrow> True)"
| "refined zp (ZTransform f s) v \<longleftrightarrow> refined zp s v"
  by pat_completeness auto
termination
  by (relation "measure (\<lambda>(zp, s, v). size s)") (auto simp: size_list_estimation' less_Suc_eq_le
      dest!: elem_le_sum_list intro: size_list_estimation' order_trans)

lemma all_some_None: "all_some xs = None \<longleftrightarrow> None \<in> set xs"
  by (induction xs rule: all_some.induct) auto

lemma num_schema_input: "num_schema s \<Longrightarrow> z_input s = TNumber"
  by (induction s rule: num_schema.induct) simp_all

context zod
begin

lemma num_schema_value: "num_schema s \<Longrightarrow> zp s v = Some w \<Longrightarrow> w = v"
proof (induction s arbitrary: w rule: num_schema.induct)
  case 1
  then show ?case by (auto simp: zp_number split: option.splits json.splits if_splits)
next
  case 2
  then show ?case by (auto simp: zp_int split: option.splits json.splits if_splits)
next
  case (3 s)
  then show ?case by (fastforce simp: zp_nonnegative split: option.splits json.splits if_splits)
next
  case (4 s)
  then show ?case by (fastforce simp: zp_positive split: option.splits json.splits if_splits)
qed simp_all

lemma takes_undefined_accepts: "takes_undefined s \<Longrightarrow> zp s None \<noteq> None"
  by (induction s rule: takes_undefined.induct) (simp_all add: zp_optional zp_undefined zp_nullable zp_transform)

lemma number_accepted:
  assumes "num_schema s" "zp s v \<noteq> None" "has_type TNumber v"
  obtains x where "v = Some (JNum x)" "zp s v = Some (Some (JNum x))"
  using assms num_schema_value [OF assms(1)] by (auto split: option.splits json.splits)

text \<open>A value of the input type that meets those demands is accepted.\<close>

theorem input_accepted: "has_type (z_input s) v \<Longrightarrow> refined zp s v \<Longrightarrow> zp s v \<noteq> None"
proof (induction s arbitrary: v rule: z_input.induct)
  case (7 s)
  then obtain x where "v = Some (JNum x)" "zp s v = Some (Some (JNum x))"
    using number_accepted [of s v] num_schema_input [of s] by auto
  then show ?case using 7 by (simp add: zp_nonnegative)
next
  case (8 s)
  then obtain x where "v = Some (JNum x)" "zp s v = Some (Some (JNum x))"
    using number_accepted [of s v] num_schema_input [of s] by auto
  then show ?case using 8 by (simp add: zp_positive)
next
  case (13 s)
  then obtain xs where v: "v = Some (JArr xs)" by (auto split: option.splits json.splits)
  have "None \<notin> set (map (\<lambda>x. zp s (Some x)) xs)" using 13 by (force simp: v list_all_iff)
  then have "all_some (map (\<lambda>x. zp s (Some x)) xs) \<noteq> None" by (simp only: all_some_None not_False_eq_True)
  then show ?case by (simp add: v zp_array)
next
  case (14 s)
  then obtain ob where v: "v = Some (JObj ob)" by (auto split: option.splits json.splits)
  have "zp s (obj_get ob k) \<noteq> None" if "(k, y) \<in> set ob" for k y
  proof -
    have "(k, y) \<in> set ob" using that .
    then obtain x where x: "obj_get ob k = Some x" "(k, x) \<in> set ob"
      using weak_map_of_SomeI [of k y ob] by (auto simp: obj_get_def dest: map_of_SomeD)
    then have "has_type (z_input s) (Some x)" "refined zp s (Some x)" using 14(2,3) by (fastforce simp: v list_all_iff)+
    from 14(1) [OF this] show ?thesis by (simp add: x(1))
  qed
  then have "None \<notin> set (map (\<lambda>(k, x). map_option (Pair k) (zp s (obj_get ob k))) ob)" by (auto simp del: not_None_eq)
  then have "shape_fields zp (map (\<lambda>(k, x). (k, s)) ob) ob \<noteq> None"
    by (simp add: shape_fields_def all_some_None o_def case_prod_unfold del: not_None_eq)
  then show ?case by (simp add: v zp_record del: not_None_eq)
next
  case (15 shape)
  then obtain ob where v: "v = Some (JObj ob)" by (auto split: option.splits json.splits)
  have "zp s (obj_get ob k) \<noteq> None" if "(k, s) \<in> set shape" for k s
  proof (cases "obj_get ob k")
    case None
    then show ?thesis using that 15(2) takes_undefined_accepts [of s] by (force simp: v)
  next
    case (Some x)
    then show ?thesis using that 15 by (force simp: v)
  qed
  then have "None \<notin> set (map (\<lambda>(k, s). map_option (Pair k) (zp s (obj_get ob k))) shape)" by (auto simp del: not_None_eq)
  then have "shape_fields zp shape ob \<noteq> None" by (simp only: shape_fields_def all_some_None not_False_eq_True)
  then show ?case by (simp add: v zp_object del: not_None_eq)
qed (auto simp: zp_laws zp_unknown split: option.splits json.splits)

end

end
