(* ===== verification/Contract_Api.thy ===== *)
theory Contract_Api
  imports System Contract_Types
begin

text \<open>
  The operations and paths of \<open>shared/api/contract.gen.ts\<close>, and the program against them: the routes of the mock
  control plane are the contract's, the requests of the consoles have its bodies and take in its answers, and the answers of the mock
  handlers are the contract's as long as the requests are.
\<close>

section \<open>Operations\<close>

text \<open>
  An operation: its path parameters (all texts), its body, the status and body of its success, and its error answers, all problem
  documents. No operation has query parameters, and every answer may have any headers.
\<close>

datatype request_body = NoRequestBody | JsonBody cty | MultipartBody cty

record operation =
  op_params :: "jstr list"
  op_body :: request_body
  op_ok :: "nat \<times> cty option"
  op_errors :: "(nat \<times> cty) list"

definition problem_answer :: "nat \<Rightarrow> nat \<times> cty" where
  "problem_answer s = (s, contract_Problem)"

definition op_create_console_session :: operation where
  "op_create_console_session = \<lparr>op_params = [lit ''external_id''], op_body = NoRequestBody,
     op_ok = (201, Some contract_ConsoleSession), op_errors = map problem_answer [400, 401, 422]\<rparr>"

definition op_list_hooks :: operation where
  "op_list_hooks = \<lparr>op_params = [], op_body = NoRequestBody,
     op_ok = (200, Some contract_HookList), op_errors = map problem_answer [400, 401, 422]\<rparr>"

definition op_create_hook :: operation where
  "op_create_hook = \<lparr>op_params = [], op_body = JsonBody contract_HookCreate,
     op_ok = (201, Some contract_Hook), op_errors = map problem_answer [400, 401, 422]\<rparr>"

definition op_get_hook :: operation where
  "op_get_hook = \<lparr>op_params = [lit ''name''], op_body = NoRequestBody,
     op_ok = (200, Some contract_Hook), op_errors = map problem_answer [400, 401, 422]\<rparr>"

definition op_replace_hook :: operation where
  "op_replace_hook = \<lparr>op_params = [lit ''name''], op_body = JsonBody contract_HookSpec,
     op_ok = (200, Some contract_Hook), op_errors = map problem_answer [400, 401, 422]\<rparr>"

definition op_list_tenants :: operation where
  "op_list_tenants = \<lparr>op_params = [], op_body = NoRequestBody,
     op_ok = (200, Some contract_TenantList), op_errors = map problem_answer [400, 401, 422]\<rparr>"

definition op_create_tenant :: operation where
  "op_create_tenant = \<lparr>op_params = [], op_body = JsonBody contract_TenantCreate,
     op_ok = (201, Some contract_Tenant), op_errors = map problem_answer [400, 401, 422]\<rparr>"

definition op_get_tenant :: operation where
  "op_get_tenant = \<lparr>op_params = [lit ''external_id''], op_body = NoRequestBody,
     op_ok = (200, Some contract_Tenant), op_errors = map problem_answer [400, 401, 422]\<rparr>"

definition op_patch_tenant :: operation where
  "op_patch_tenant = \<lparr>op_params = [lit ''external_id''], op_body = JsonBody contract_TenantPatch,
     op_ok = (200, Some contract_Tenant), op_errors = map problem_answer [400, 401, 422]\<rparr>"

definition op_list_api_keys :: operation where
  "op_list_api_keys = \<lparr>op_params = [], op_body = NoRequestBody,
     op_ok = (200, Some contract_ApiKeyList), op_errors = map problem_answer [400, 401, 422]\<rparr>"

definition op_create_api_key :: operation where
  "op_create_api_key = \<lparr>op_params = [], op_body = JsonBody contract_ApiKeyCreate,
     op_ok = (201, Some contract_ApiKeyCreated), op_errors = map problem_answer [400, 401, 422]\<rparr>"

definition op_revoke_api_key :: operation where
  "op_revoke_api_key = \<lparr>op_params = [lit ''key_id''], op_body = NoRequestBody,
     op_ok = (204, None), op_errors = map problem_answer [400, 401, 422]\<rparr>"

definition op_list_tenant_hooks :: operation where
  "op_list_tenant_hooks = \<lparr>op_params = [], op_body = NoRequestBody,
     op_ok = (200, Some contract_TenantHookList), op_errors = map problem_answer [400, 401, 422]\<rparr>"

definition op_get_tenant_hook :: operation where
  "op_get_tenant_hook = \<lparr>op_params = [lit ''hook''], op_body = NoRequestBody,
     op_ok = (200, Some contract_TenantHook), op_errors = map problem_answer [400, 401, 422]\<rparr>"

definition op_list_modules :: operation where
  "op_list_modules = \<lparr>op_params = [lit ''hook''], op_body = NoRequestBody,
     op_ok = (200, Some contract_ModuleList), op_errors = map problem_answer [400, 401, 422]\<rparr>"

definition op_upload_module :: operation where
  "op_upload_module = \<lparr>op_params = [lit ''hook''], op_body = MultipartBody contract_Body_upload_module,
     op_ok = (201, Some contract_Module), op_errors = map problem_answer [400, 401, 422]\<rparr>"

definition op_update_binding :: operation where
  "op_update_binding = \<lparr>op_params = [lit ''hook''], op_body = JsonBody contract_BindingUpdate,
     op_ok = (200, Some contract_TenantBinding), op_errors = map problem_answer [400, 401, 422]\<rparr>"

section \<open>Paths\<close>

type_synonym contract_path = "http_method \<times> path_part list \<times> operation"

definition operator_paths :: "contract_path list" where
  "operator_paths =
     [(POST, segs [''tenants''] @ [Param, Seg (lit ''console-sessions'')], op_create_console_session),
      (GET, segs [''hooks''], op_list_hooks),
      (POST, segs [''hooks''], op_create_hook),
      (GET, segs [''hooks''] @ [Param], op_get_hook),
      (PUT, segs [''hooks''] @ [Param], op_replace_hook),
      (GET, segs [''tenants''], op_list_tenants),
      (POST, segs [''tenants''], op_create_tenant),
      (GET, segs [''tenants''] @ [Param], op_get_tenant),
      (PATCH, segs [''tenants''] @ [Param], op_patch_tenant),
      (GET, segs [''api-keys''], op_list_api_keys),
      (POST, segs [''api-keys''], op_create_api_key),
      (DELETE, segs [''api-keys''] @ [Param], op_revoke_api_key)]"

definition tenant_paths :: "contract_path list" where
  "tenant_paths =
     [(GET, segs [''tenant'', ''hooks''], op_list_tenant_hooks),
      (GET, segs [''tenant'', ''hooks''] @ [Param], op_get_tenant_hook),
      (GET, segs [''tenant'', ''hooks''] @ [Param, Seg (lit ''modules'')], op_list_modules),
      (POST, segs [''tenant'', ''hooks''] @ [Param, Seg (lit ''modules'')], op_upload_module),
      (PUT, segs [''tenant'', ''hooks''] @ [Param, Seg (lit ''binding'')], op_update_binding)]"

definition contract_paths :: "contract_path list" where
  "contract_paths = operator_paths @ tenant_paths"

lemmas path_defs = contract_paths_def operator_paths_def tenant_paths_def

lemmas operation_defs =
  op_create_console_session_def op_list_hooks_def op_create_hook_def op_get_hook_def op_replace_hook_def
  op_list_tenants_def op_create_tenant_def op_get_tenant_def op_patch_tenant_def op_list_api_keys_def
  op_create_api_key_def op_revoke_api_key_def op_list_tenant_hooks_def op_get_tenant_hook_def op_list_modules_def
  op_upload_module_def op_update_binding_def

text \<open>The operation an endpoint of the mocks stands for; the log of invocations is not in the contract yet.\<close>

fun contract_of :: "endpoint \<Rightarrow> operation option" where
  "contract_of GetHooks = Some op_list_hooks"
| "contract_of (GetHook n) = Some op_get_hook"
| "contract_of PostHook = Some op_create_hook"
| "contract_of (PutHook n) = Some op_replace_hook"
| "contract_of GetTenants = Some op_list_tenants"
| "contract_of (GetTenant i) = Some op_get_tenant"
| "contract_of PostTenant = Some op_create_tenant"
| "contract_of (PatchTenant i) = Some op_patch_tenant"
| "contract_of (PostConsoleSession i) = Some op_create_console_session"
| "contract_of GetKeys = Some op_list_api_keys"
| "contract_of PostKey = Some op_create_api_key"
| "contract_of (DeleteKey i) = Some op_revoke_api_key"
| "contract_of GetTenantHooks = Some op_list_tenant_hooks"
| "contract_of (GetTenantHook n) = Some op_get_tenant_hook"
| "contract_of (GetModules n) = Some op_list_modules"
| "contract_of (PostModule n) = Some op_upload_module"
| "contract_of (PutBinding n) = Some op_update_binding"
| "contract_of GetInvocations = None"

definition handler_keys :: "mock_route list \<Rightarrow> (http_method \<times> path_part list) list" where
  "handler_keys rs = map (\<lambda>(m, ps, f). (m, ps)) rs"

lemmas handler_defs = handlers_def operator_hook_routes_def tenant_routes_def console_session_routes_def
  key_routes_def tenant_api_routes_def invocation_routes_def pendingHandlers_def

text \<open>Every handler that is not pending has the method and path of its operation, and every operation has a handler.\<close>

lemma handlers_in_contract:
  "(m, ps, f) \<in> set handlers \<Longrightarrow>
     (case contract_of (f args) of None \<Rightarrow> (m, ps) \<in> set (handler_keys pendingHandlers) | Some o' \<Rightarrow> (m, ps, o') \<in> set contract_paths)"
  by (auto simp: handler_defs handler_keys_def path_defs)

lemma contract_in_handlers: "list_all (\<lambda>(m, ps, o'). (m, ps) \<in> set (handler_keys handlers)) contract_paths"
  by (simp add: handler_defs handler_keys_def path_defs)

section \<open>Requests\<close>

definition body_fits :: "request_body \<Rightarrow> body_value \<Rightarrow> bool" where
  "body_fits b v = (case (b, v) of
      (NoRequestBody, NoBody) \<Rightarrow> True
    | (JsonBody c, JsonValue j) \<Rightarrow> has_type c (Some j)
    | (MultipartBody c, FormData f) \<Rightarrow> True
    | _ \<Rightarrow> False)"

text \<open>An answer of the contract's type is one the schema takes in; one without a body is read as \<open>undefined\<close>.\<close>

definition answer_read :: "cty option \<Rightarrow> zschema \<Rightarrow> bool" where
  "answer_read c s = (case c of None \<Rightarrow> s = ZUndefined | Some t \<Rightarrow> AcceptsContract s t \<and> subtype t (z_input s))"

definition offered :: "http_method \<Rightarrow> operation \<Rightarrow> bool" where
  "offered m o' \<longleftrightarrow> list_ex (\<lambda>(m', ps, x). m' = m \<and> x = o') contract_paths"

definition follows_contract :: "options \<times> endpoint \<Rightarrow> bool" where
  "follows_contract r = (case r of (opts, p) \<Rightarrow>
     (case contract_of p of
        None \<Rightarrow> False
      | Some o' \<Rightarrow> offered (opt_method opts) o' \<and> body_fits (op_body o') (opt_body opts)
          \<and> answer_read (snd (op_ok o')) (opt_schema opts)))"

text \<open>
  Every request of the consoles, with the bodies their forms build: the queries, the mutations, the opening of a tenant's
  console, the checks of the two sign-in forms, and the log of invocations.
\<close>

definition log_request :: "invocation_filter \<Rightarrow> options \<times> endpoint" where
  "log_request flt = (query_opts (invocationQueries_list flt), GetInvocations)"

definition console_requests ::
  "hook_form \<Rightarrow> tenant_form \<Rightarrow> tenant \<Rightarrow> config_row list \<Rightarrow> jstr \<Rightarrow> upload_file \<Rightarrow> invocation_filter \<Rightarrow> (options \<times> endpoint) list" where
  "console_requests h v t rows s f flt =
     map (\<lambda>(q, p). (query_opts q, p))
       [(operatorHookQueries_list, GetHooks), (operatorHookQueries_detail s, GetHook s), (tenantQueries_list, GetTenants),
        (apiKeyQueries_list, GetKeys), (hookQueries_list, GetTenantHooks), (hookQueries_detail s, GetTenantHook s),
        (moduleQueries_byHook s, GetModules s)]
     @ map (\<lambda>(c, p). (call_opts c, p))
       [(useCreateHook (create_body h), PostHook), (useReplaceHook s (replace_body h), PutHook s),
        (useCreateTenant (tenant_body v), PostTenant), (usePatchTenant s (JObj (tenantChanges t v)), PatchTenant s),
        (useIssueApiKey s, PostKey), (useRevokeApiKey s, DeleteKey s), (useSaveConfig s (configFromForm rows), PutBinding s),
        (useActivateModule s s, PutBinding s), (useUploadModule s f, PostModule s)]
     @ [(post_options consoleSessionSchema, PostConsoleSession s),
        (with_token s operatorHookListSchema, GetHooks),
        (with_token s tenantHookListSchema, GetTenantHooks)]
     @ [log_request flt]"

lemma strings_typed: "has_type (TArray TString) (Some (json_strs ss))"
  by (simp add: json_strs_def list_all_iff)

lemma object_typed: "has_type (TDict TUnknown) (Some (JObj ob))"
  by (simp add: list_all_iff)

lemma config_typed: "has_type (TDict TString) (Some (config_json c))"
  by (auto simp: config_json_def list_all_iff)

lemma spec_typed:
  "has_type contract_HookSpec (Some (JObj (spec_fields s)))"
  "has_type contract_HookCreate (Some (JObj ((lit ''name'', JStr n) # spec_fields s)))"
  using strings_typed by (simp_all add: contract_HookSpec_def contract_HookCreate_def spec_fields_def obj_get_def list_all_iff)

lemma tenant_bodies_typed:
  "has_type contract_TenantCreate (Some (tenant_body v))" "has_type contract_TenantPatch (Some (JObj (tenantChanges t v)))"
  by (simp_all add: contract_TenantCreate_def contract_TenantPatch_def tenant_body_def tenantChanges_def obj_get_def)

lemma binding_bodies_typed:
  "has_type contract_BindingUpdate (Some (JObj [(lit ''config'', config_json c)]))"
  "has_type contract_BindingUpdate (Some (JObj [(lit ''active_module_id'', JStr i)]))"
  using config_typed [of c] by (simp_all add: contract_BindingUpdate_def obj_get_def)

lemma key_body_typed: "has_type contract_ApiKeyCreate (Some (JObj [(lit ''name'', JStr n)]))"
  by (simp add: contract_ApiKeyCreate_def obj_get_def)

lemma accepted_pair: "(s, c) \<in> set contract_accepts \<Longrightarrow> answer_read (Some c) s"
  using contract_accepted contract_subtypes by (fastforce simp: answer_read_def list_all_iff)

lemma operation_methods:
  "offered POST op_create_console_session"
  "offered GET op_list_hooks"
  "offered POST op_create_hook"
  "offered GET op_get_hook"
  "offered PUT op_replace_hook"
  "offered GET op_list_tenants"
  "offered POST op_create_tenant"
  "offered PATCH op_patch_tenant"
  "offered GET op_list_api_keys"
  "offered POST op_create_api_key"
  "offered DELETE op_revoke_api_key"
  "offered GET op_list_tenant_hooks"
  "offered GET op_get_tenant_hook"
  "offered GET op_list_modules"
  "offered POST op_upload_module"
  "offered PUT op_update_binding"
  by (simp_all add: offered_def path_defs)

lemma answers_read:
  "answer_read (Some contract_Hook) operatorHookSchema" "answer_read (Some contract_HookList) operatorHookListSchema"
  "answer_read (Some contract_ApiKeyList) apiKeyListSchema" "answer_read (Some contract_ApiKeyCreated) apiKeyCreatedSchema"
  "answer_read (Some contract_TenantHookList) tenantHookListSchema" "answer_read (Some contract_TenantHook) tenantHookSchema"
  "answer_read (Some contract_TenantBinding) bindingSchema" "answer_read (Some contract_ModuleList) moduleListSchema"
  "answer_read (Some contract_Module) moduleSchema" "answer_read (Some contract_TenantList) tenantListSchema"
  "answer_read (Some contract_Tenant) tenantSchema" "answer_read (Some contract_ConsoleSession) consoleSessionSchema"
  by (rule accepted_pair, simp add: accepts_defs)+

lemma bodies_fit:
  "body_fits (JsonBody contract_HookCreate) (JsonValue (create_body h))" "body_fits (JsonBody contract_HookSpec) (JsonValue (replace_body h))"
  "body_fits (JsonBody contract_TenantCreate) (JsonValue (tenant_body v))"
  "body_fits (JsonBody contract_TenantPatch) (JsonValue (JObj (tenantChanges t v)))"
  "body_fits (JsonBody contract_ApiKeyCreate) (JsonValue (JObj [(lit ''name'', JStr n)]))"
  "body_fits (JsonBody contract_BindingUpdate) (JsonValue (JObj [(lit ''config'', config_json c)]))"
  "body_fits (JsonBody contract_BindingUpdate) (JsonValue (JObj [(lit ''active_module_id'', JStr i)]))"
  "body_fits (MultipartBody contract_Body_upload_module) (FormData f)" "body_fits NoRequestBody NoBody" "answer_read None ZUndefined"
  using spec_typed tenant_bodies_typed binding_bodies_typed key_body_typed
  by (simp_all add: body_fits_def answer_read_def create_body_def replace_body_def)

lemmas call_defs = literal_call_defs param_call_defs useSaveConfig_def useActivateModule_def useUploadModule_def post_options_def

text \<open>
  Every request has the method of its operation and a body of its type, and its answer is one the schema takes in, except for
  the log of invocations, which no operation of the contract stands for.
\<close>

lemma requests_keep_contract:
  "filter (\<lambda>r. \<not> follows_contract r) (console_requests h v t rows s f flt) = [log_request flt]"
  using operation_methods
  by (simp add: console_requests_def log_request_def with_token_def follows_contract_def call_defs operation_defs [THEN arg_cong [where f = op_body]]
      operation_defs [THEN arg_cong [where f = op_ok]] answers_read bodies_fit)

end
