(* ===== verification/Contract_Mocks.thy ===== *)
theory Contract_Mocks
  imports Contract_Api
begin

text \<open>
  The answers of the mock handlers against the contract. A request whose body has the type of the contract gets an answer, never an
  exception of the handler: the success of the operation with a body of its type, or a refusal with a problem document. The mocks
  depart from the contract in two ways, which are spelt out here: they refuse with statuses the contract does not declare
  (\<open>undeclared\<close>), and leave out the detail of some problems (\<open>silent\<close>). They store the settings of
  a binding as the request has them, so that the types of the stored settings are an invariant of the same proof.
\<close>

section \<open>Answers\<close>

text \<open>The statuses of refusals that an endpoint of the mocks has beyond those its operation declares.\<close>

fun undeclared :: "endpoint \<Rightarrow> nat list" where
  "undeclared (GetHook n) = [404]"
| "undeclared PostHook = [409]"
| "undeclared (PutHook n) = [404, 409]"
| "undeclared (GetTenant i) = [404]"
| "undeclared PostTenant = [409]"
| "undeclared (PatchTenant i) = [404]"
| "undeclared (PostConsoleSession i) = [404]"
| "undeclared PostKey = [409]"
| "undeclared (DeleteKey i) = [404]"
| "undeclared (GetTenantHook n) = [404]"
| "undeclared (GetModules n) = [404]"
| "undeclared (PostModule n) = [404, 409, 413]"
| "undeclared (PutBinding n) = [404, 409]"
| "undeclared p = []"

text \<open>Refusals without a detail: no token, an empty or too large module, nothing to change in a binding.\<close>

definition silent :: "endpoint \<Rightarrow> nat \<Rightarrow> bool" where
  "silent p s \<longleftrightarrow> s = 401 \<or> (case p of PostModule n \<Rightarrow> s \<in> {413, 422} | PutBinding n \<Rightarrow> s = 400 | _ \<Rightarrow> False)"

text \<open>An object type with one property less.\<close>

fun without_prop :: "jstr \<Rightarrow> cty \<Rightarrow> cty" where
  "without_prop k (TObj fs) = TObj (filter (\<lambda>(n, optional, t). n \<noteq> k) fs)"
| "without_prop k t = t"

definition refusal :: "endpoint \<Rightarrow> operation \<Rightarrow> response \<Rightarrow> bool" where
  "refusal p o' r \<longleftrightarrow> resp_status r \<in> fst ` set (op_errors o') \<union> set (undeclared p)
     \<and> (\<exists>v. resp_text r = json_stringify v
          \<and> (has_type contract_Problem (Some v) \<or> silent p (resp_status r) \<and> has_type (without_prop (lit ''detail'') contract_Problem) (Some v)))"

definition success :: "operation \<Rightarrow> response \<Rightarrow> bool" where
  "success o' r \<longleftrightarrow> resp_status r = fst (op_ok o')
     \<and> (case snd (op_ok o') of
          None \<Rightarrow> resp_text r = []
        | Some c \<Rightarrow> (\<exists>v. resp_text r = json_stringify v \<and> has_type c (Some v)))"

definition body_typed :: "operation \<Rightarrow> request \<Rightarrow> bool" where
  "body_typed o' req =
     (case op_body o' of
        NoRequestBody \<Rightarrow> True
      | JsonBody c \<Rightarrow> (case json_body req of Some v \<Rightarrow> has_type c (Some v) | None \<Rightarrow> False)
      | MultipartBody c \<Rightarrow> form_file req \<noteq> None)"

definition bindings_typed :: "db \<Rightarrow> bool" where
  "bindings_typed d \<longleftrightarrow> (\<forall>n b. db_bindings d n = Some b \<longrightarrow> has_type (TDict TString) (Some (binding_config b)))"

text \<open>An answer of an endpoint, which is no exception, and the world it leaves.\<close>

definition kept :: "endpoint \<Rightarrow> operation \<Rightarrow> result \<times> world \<Rightarrow> bool" where
  "kept p o' x \<longleftrightarrow> (case fst x of Inl e \<Rightarrow> False | Inr r \<Rightarrow> success o' r \<or> refusal p o' r) \<and> bindings_typed (wdb (snd x))"

lemma kept_pair:
  "\<not> kept p o' (Inl x, w)" "kept p o' (Inr r, w) \<longleftrightarrow> (success o' r \<or> refusal p o' r) \<and> bindings_typed (wdb w)"
  by (simp_all add: kept_def)

lemma op_errors_declared: "contract_of p = Some o' \<Longrightarrow> fst ` set (op_errors o') = {400, 401, 422}"
  by (cases p) (auto simp: operation_defs problem_answer_def)

lemma problem_typed:
  "has_type contract_Problem (Some (JObj
    ([(lit ''type'', JStr u), (lit ''title'', JStr title), (lit ''status'', json_int s)] @ (case Some (JStr t) of None \<Rightarrow> [] | Some x \<Rightarrow> [(lit ''detail'', x)]))))"
  "has_type (without_prop (lit ''detail'') contract_Problem) (Some (JObj
    ([(lit ''type'', JStr u), (lit ''title'', JStr title), (lit ''status'', json_int s)] @ (case None of None \<Rightarrow> [] | Some x \<Rightarrow> [(lit ''detail'', x)]))))"
  by (simp_all add: contract_Problem_def obj_get_def json_int_def)

lemma problem_refusal:
  assumes "contract_of p = Some o'" "s \<in> {400, 401, 422} \<union> set (undeclared p)"
  shows "refusal p o' (problem s title (Some (JStr t)))" "silent p s \<Longrightarrow> refusal p o' (problem s title None)"
proof -
  have body: "resp_text (problem s title d) = json_stringify (JObj ([(lit ''type'', JStr (lit ''about:blank'')), (lit ''title'', JStr title),
      (lit ''status'', json_int (int s))] @ (case d of None \<Rightarrow> [] | Some x \<Rightarrow> [(lit ''detail'', x)])))" for d
    by (simp add: problem_def http_json_def)
  have status: "s \<in> fst ` set (op_errors o') \<union> set (undeclared p)" unfolding op_errors_declared [OF assms(1)] by (rule assms(2))
  show "refusal p o' (problem s title (Some (JStr t)))"
    unfolding refusal_def resp_status_simps using status body problem_typed(1) by blast
  show "silent p s \<Longrightarrow> refusal p o' (problem s title None)"
    unfolding refusal_def resp_status_simps using status body problem_typed(2) by blast
qed

lemma json_success: "op_ok o' = (s, Some c) \<Longrightarrow> has_type c (Some v) \<Longrightarrow> success o' (http_json s v)"
  by (auto simp: success_def http_json_def)

section \<open>Checks\<close>

text \<open>A check that answers refuses with 422 and a detail; one of a body of the contract's type never throws.\<close>

definition refuses :: "check \<Rightarrow> bool" where
  "refuses c \<longleftrightarrow> (\<forall>r. c = Inr (Some r) \<longrightarrow> (\<exists>title d. r = problem 422 title (Some (JStr d))))"

definition throws :: "check \<Rightarrow> bool" where
  "throws c \<longleftrightarrow> (case c of Inl x \<Rightarrow> True | Inr r \<Rightarrow> False)"

lemma throws_simps [simp]: "throws (Inl x)" "\<not> throws (Inr r)" "\<not> throws (invalid_body d)" "\<not> throws (invalid_hook d)"
  by (simp_all add: throws_def invalid_body_def invalid_hook_def)

lemma refuses_simps [simp]:
  "refuses (Inl x)" "refuses (Inr None)" "refuses (invalid_body d)" "refuses (invalid_hook d)"
  by (auto simp: refuses_def invalid_body_def invalid_hook_def)

lemma refuses_first_error: "list_all refuses cs \<Longrightarrow> refuses (first_error cs)"
  by (induction cs rule: first_error.induct) simp_all

lemma calm_first_error: "list_all (\<lambda>c. \<not> throws c) cs \<Longrightarrow> \<not> throws (first_error cs)"
  by (induction cs rule: first_error.induct) simp_all

lemma refuses_field_check: "(\<And>v. refuses (p v)) \<Longrightarrow> refuses (field_check e b k p)"
  by (simp add: field_check_def split: option.splits)

lemma refuses_required_text: "refuses (required_text k n v)"
  by (simp add: required_text_def split: option.splits json.splits)

lemma refuses_quota: "refuses (quotaError e b k)"
  unfolding quotaError_def by (rule refuses_field_check) (simp split: option.splits json.splits)

lemma refuses_body_checks:
  "refuses (extra_check ks k)" "refuses (required_check e b k)" "refuses (name_check e b)" "refuses (range_check e b fr)"
  "refuses (dict_check e b k)"
  by (auto simp: extra_check_def required_check_def name_check_def range_check_def dict_check_def Let_def
      split: option.splits json.splits prod.splits bool.splits)

lemma refuses_errors:
  "refuses (bodyError e b al req)" "refuses (hookError s)" "refuses (createError e b)" "refuses (patchError e b)" "refuses (keyError e b)"
proof -
  show "refuses (bodyError e b al req)"
    unfolding bodyError_def by (auto simp: list_all_iff refuses_body_checks split: option.splits intro!: refuses_first_error)
  show "refuses (hookError s)"
    unfolding hookError_def
    by (rule refuses_first_error) (simp add: dialect_check_def sample_check_def split: option.splits json.splits)
  show "refuses (keyError e b)"
    unfolding keyError_def by (rule refuses_field_check) (rule refuses_required_text)
  show "refuses (createError e b)"
    unfolding createError_def
    by (rule refuses_first_error)
      (simp add: refuses_quota refuses_field_check refuses_required_text split: option.splits json.splits)
  show "refuses (patchError e b)"
    unfolding patchError_def
    by (rule refuses_first_error) (simp add: refuses_quota refuses_field_check split: option.splits json.splits)
qed

text \<open>Bodies of the contract's types are objects, and the fields the checks convert are texts.\<close>

lemma calm_field_check: "b \<noteq> JNull \<Longrightarrow> (\<And>v. \<not> throws (p v)) \<Longrightarrow> \<not> throws (field_check e b k p)"
  by (cases b) (simp_all add: field_check_def body_get_def)

lemma calm_required_text: "\<not> throws (required_text k n v)"
  by (simp add: required_text_def split: option.split json.split)

lemma calm_quota: "b \<noteq> JNull \<Longrightarrow> \<not> throws (quotaError e b k)"
  unfolding quotaError_def by (erule calm_field_check) (simp split: option.split json.split)

lemma calm_tenant_checks:
  assumes "b \<noteq> JNull"
  shows "\<not> throws (createError e b)" "\<not> throws (patchError e b)" "\<not> throws (keyError e b)"
proof -
  show "\<not> throws (keyError e b)" unfolding keyError_def using assms by (rule calm_field_check) (rule calm_required_text)
  show "\<not> throws (createError e b)"
    unfolding createError_def using assms
    by (intro calm_first_error) (simp add: calm_quota calm_field_check calm_required_text split: option.split json.split)
  show "\<not> throws (patchError e b)"
    unfolding patchError_def using assms
    by (intro calm_first_error) (simp add: calm_quota calm_field_check split: option.split json.split)
qed

lemma calm_hookError: "\<not> throws (hookError s)"
  unfolding hookError_def by (rule calm_first_error) (simp add: dialect_check_def sample_check_def split: option.split json.split)

lemma calm_object_checks:
  "\<not> throws (extra_check ks k)" "\<not> throws (required_check e (JObj ob) k)" "\<not> throws (range_check e (JObj ob) fr)" "\<not> throws (dict_check e (JObj ob) k)"
  by (auto simp: extra_check_def required_check_def range_check_def dict_check_def body_has_def body_get_def
      split: option.split json.split prod.split)

lemma name_no_proto: "lit ''name'' \<notin> set object_proto"
  by (simp add: object_proto_def)

text \<open>The name of a body is a text, or one that the checks before refuse.\<close>

lemma calm_bodyError:
  assumes "lit ''name'' \<in> set allowed \<Longrightarrow> \<exists>s. obj_get ob (lit ''name'') = Some (JStr s)"
  shows "\<not> throws (bodyError e (JObj ob) allowed required)"
proof (cases "lit ''name'' \<in> set (obj_keys ob) \<and> lit ''name'' \<notin> set allowed")
  case True
  let ?es = "map (extra_check allowed) (obj_keys ob)"
  have "extra_check allowed (lit ''name'') \<noteq> Inr None" using True by (simp add: extra_check_def invalid_body_def)
  moreover have "extra_check allowed (lit ''name'') \<in> set ?es" unfolding set_map using True by (intro imageI) (rule conjunct1)
  ultimately have "first_error ?es \<noteq> Inr None" unfolding first_error_pass by blast
  moreover have "\<not> throws (first_error ?es)" by (rule calm_first_error) (simp add: list_all_iff ball_Un calm_object_checks)
  ultimately show ?thesis by (simp add: bodyError_def body_keys_def first_error_append)
next
  case False
  have "\<not> throws (name_check e (JObj ob))"
  proof (cases "lit ''name'' \<in> set (obj_keys ob)")
    case True
    then obtain s where "obj_get ob (lit ''name'') = Some (JStr s)" using False assms by blast
    then show ?thesis by (simp add: name_check_def body_has_def body_get_def body_string_def split: bool.split)
  next
    case absent: False
    then show ?thesis using name_no_proto by (simp add: name_check_def body_has_def in_object_def)
  qed
  then show ?thesis
    unfolding bodyError_def body_keys_def json.case option.case
    by (intro calm_first_error) (simp add: list_all_iff ball_Un calm_object_checks)
qed

lemma strings_sorted:
  "has_type (TArray TString) (Some v) \<Longrightarrow> sorted_strings (Some v) \<noteq> None"
proof -
  assume "has_type (TArray TString) (Some v)"
  then obtain xs where v: "v = JArr xs" and typed: "\<forall>x \<in> set xs. has_type TString (Some x)"
    by (auto simp: list_all_iff split: json.splits)
  have "\<exists>s. x = JStr s" if "x \<in> set xs" for x using bspec [OF typed that] by (simp split: json.splits)
  then have "js_string x \<noteq> None" if "x \<in> set xs" for x using that by force
  then have "None \<notin> set (map js_string xs)" unfolding set_map image_iff by (metis)
  then have "all_some (map js_string xs) \<noteq> None" by (simp only: all_some_None not_False_eq_True)
  then show ?thesis by (simp add: v(1) sorted_strings_def)
qed

lemma spec_read:
  assumes "has_type contract_HookSpec (Some b)"
  obtains ob s where "b = JObj ob" "specOf e b = Inr s"
proof -
  obtain ob where b: "b = JObj ob" using assms by (auto simp: contract_HookSpec_def split: json.splits)
  have "sorted_strings (obj_get ob (lit k)) \<noteq> None" if "k \<in> {''allowed_host_functions'', ''allowed_effect_types''}" for k
  proof (cases "obj_get ob (lit k)")
    case (Some v)
    then have "has_type (TArray TString) (Some v)" using assms that by (auto simp: b contract_HookSpec_def split: option.splits)
    then show ?thesis unfolding Some by (rule strings_sorted)
  qed (simp add: sorted_strings_def)
  then obtain hs es where "sorted_strings (obj_get ob (lit ''allowed_host_functions'')) = Some hs"
    "sorted_strings (obj_get ob (lit ''allowed_effect_types'')) = Some es" by fastforce
  then have "\<exists>s. specOf e b = Inr s" by (simp add: b specOf_def body_get_def Let_def)
  then show thesis using b that by blast
qed

lemma create_is_spec:
  "has_type contract_HookCreate (Some b) \<Longrightarrow> has_type contract_HookSpec (Some b) \<and> (\<exists>ob s. b = JObj ob \<and> obj_get ob (lit ''name'') = Some (JStr s))"
  by (auto simp: contract_HookCreate_def contract_HookSpec_def split: json.splits option.splits)

lemma kept_guarded:
  assumes "contract_of p = Some o'" "refuses c" "\<not> throws c" "bindings_typed (wdb w)" "c = Inr None \<Longrightarrow> kept p o' (k ())"
  shows "kept p o' (guarded c w k)"
  using assms problem_refusal(1) [OF assms(1), of 422] by (cases c) (auto simp: guarded_def refuses_def kept_pair split: option.splits)

lemma kept_with_body:
  assumes "op_body o' = JsonBody c" "body_typed o' req" "\<And>b. json_body req = Some b \<Longrightarrow> has_type c (Some b) \<Longrightarrow> kept p o' (k b)"
  shows "kept p o' (with_body e req w k)"
  using assms by (auto simp: with_body_def body_typed_def split: option.splits)

lemma typed_no_null: "has_type (TObj fs) (Some b) \<Longrightarrow> b \<noteq> JNull"
  by auto

section \<open>Entities as the handlers write them\<close>

lemma nullable_typed: "has_type (TUnion [TString, TNull]) (Some (json_nullable s))"
  by (cases s) (simp_all add: json_nullable_def)

lemma items_typed: "(\<And>x. x \<in> set xs \<Longrightarrow> has_type t (Some x)) \<Longrightarrow> has_type (TObj [(lit ''items'', False, TArray t)]) (Some (items_json xs))"
  by (simp add: items_json_def obj_get_def list_all_iff)

lemma hook_typed: "has_type contract_Hook (Some (hook_json h))" "has_type contract_HookView (Some (hook_json h))"
  using strings_typed by (simp_all add: contract_Hook_def contract_HookView_def hook_json_def spec_fields_def obj_get_def list_all_iff)

lemma tenant_typed: "has_type contract_Tenant (Some (tenant_json t))"
  by (simp add: contract_Tenant_def tenant_json_def obj_get_def)

lemma key_typed:
  "has_type contract_ApiKey (Some (JObj (api_key_fields k)))"
  "has_type contract_ApiKeyCreated (Some (JObj (api_key_fields k @ [(lit ''token'', JStr t)])))"
  using nullable_typed by (simp_all add: contract_ApiKey_def contract_ApiKeyCreated_def api_key_fields_def obj_get_def)

lemma session_typed: "has_type contract_ConsoleSession (Some (session_json t x))"
  by (simp add: contract_ConsoleSession_def session_json_def obj_get_def)

lemma binding_typed:
  "has_type (TDict TString) (Some (binding_config b)) \<Longrightarrow> has_type contract_TenantBinding (Some (binding_json b))"
  using nullable_typed by (simp add: contract_TenantBinding_def binding_json_def obj_get_def)

lemma check_typed: "has_type contract_ValidationCheck (Some (check_json c))"
  by (cases "check_name_of c"; cases "check_detail c") (simp_all add: contract_ValidationCheck_def check_json_def obj_get_def check_text_def)

lemma report_typed: "has_type (TUnion [contract_ValidationReport, TNull]) (Some (report_json r))"
  by (simp add: contract_ValidationReport_def report_json_def obj_get_def list_all_iff check_typed split: option.splits)

lemma module_typed: "has_type contract_Module (Some (module_json m))"
  using report_typed [of "mod_report m"]
  by (cases "mod_status m") (simp_all add: contract_Module_def module_json_def obj_get_def status_text_def)

lemma tenant_hook_typed:
  "bindings_typed d \<Longrightarrow> has_type contract_TenantHook (Some (tenant_hook_json h d))"
  using hook_typed(2) [of h]
  by (auto simp: contract_TenantHook_def tenant_hook_json_def obj_get_def bindings_typed_def binding_typed split: option.splits)

section \<open>Handlers\<close>

lemma wdb_hooks_typed [simp]:
  "bindings_typed (d\<lparr>db_hooks := hs\<rparr>) = bindings_typed d" "bindings_typed (d\<lparr>db_tenants := ts\<rparr>) = bindings_typed d"
  "bindings_typed (d\<lparr>db_keys := ks\<rparr>) = bindings_typed d" "bindings_typed (d\<lparr>db_modules := ms\<rparr>) = bindings_typed d"
  by (simp_all add: bindings_typed_def)

lemma op_oks:
  "op_ok op_list_hooks = (200, Some contract_HookList)" "op_ok op_get_hook = (200, Some contract_Hook)"
  "op_ok op_create_hook = (201, Some contract_Hook)" "op_ok op_replace_hook = (200, Some contract_Hook)"
  "op_ok op_list_tenants = (200, Some contract_TenantList)" "op_ok op_get_tenant = (200, Some contract_Tenant)"
  "op_ok op_create_tenant = (201, Some contract_Tenant)" "op_ok op_patch_tenant = (200, Some contract_Tenant)"
  "op_ok op_create_console_session = (201, Some contract_ConsoleSession)"
  "op_ok op_list_api_keys = (200, Some contract_ApiKeyList)" "op_ok op_create_api_key = (201, Some contract_ApiKeyCreated)"
  "op_ok op_revoke_api_key = (204, None)"
  "op_ok op_list_tenant_hooks = (200, Some contract_TenantHookList)" "op_ok op_get_tenant_hook = (200, Some contract_TenantHook)"
  "op_ok op_list_modules = (200, Some contract_ModuleList)" "op_ok op_upload_module = (201, Some contract_Module)"
  "op_ok op_update_binding = (200, Some contract_TenantBinding)"
  by (simp_all add: operation_defs)

lemma kept_json:
  "fst (op_ok o') = s \<Longrightarrow> snd (op_ok o') \<noteq> None \<Longrightarrow> has_type (the (snd (op_ok o'))) (Some v) \<Longrightarrow> bindings_typed (wdb w)
     \<Longrightarrow> kept p o' (Inr (http_json s v), w)"
  by (cases "op_ok o'") (auto simp: kept_pair intro: json_success)

lemma kept_problem:
  assumes "contract_of p = Some o'" "s \<in> {400, 401, 422} \<union> set (undeclared p)" "bindings_typed (wdb w)"
  shows "kept p o' (Inr (problem s title (Some (JStr t))), w)" "silent p s \<Longrightarrow> kept p o' (Inr (problem s title None), w)"
  using assms(3) problem_refusal [OF assms(1,2)] by (simp_all add: kept_pair)

lemmas kept_answers = kept_json kept_problem op_oks

lemma hook_lists_kept:
  assumes "bindings_typed (wdb w)"
  shows "kept GetHooks op_list_hooks (get_hooks e req w)" "kept (GetHook n) op_get_hook (get_hook n e req w)"
    "kept GetTenantHooks op_list_tenant_hooks (get_tenant_hooks e req w)"
    "kept (GetTenantHook n) op_get_tenant_hook (get_tenant_hook n e req w)"
proof -
  have hooks: "has_type contract_HookList (Some (items_json (map hook_json hs)))" for hs
    unfolding contract_HookList_def by (rule items_typed) (auto simp: hook_typed)
  show "kept GetHooks op_list_hooks (get_hooks e req w)"
    unfolding get_hooks_def using assms by (simp add: kept_answers hooks)
  show "kept (GetHook n) op_get_hook (get_hook n e req w)"
    unfolding get_hook_def hook_not_found_def using assms by (simp add: kept_answers hook_typed split: option.split)
  have "has_type contract_TenantHookList (Some (items_json (map (\<lambda>h. nullish (tenantHook (hook_name h) (wdb w)) JNull) (db_hooks (wdb w)))))"
    unfolding contract_TenantHookList_def
  proof (rule items_typed)
    fix x assume "x \<in> set (map (\<lambda>h. nullish (tenantHook (hook_name h) (wdb w)) JNull) (db_hooks (wdb w)))"
    then obtain h where h: "h \<in> set (db_hooks (wdb w))" "x = nullish (tenantHook (hook_name h) (wdb w)) JNull" by auto
    then obtain h' where "find_hook (hook_name h) (wdb w) = Some h'"
      by (cases "find_hook (hook_name h) (wdb w)") (auto simp: find_hook_def find_None_iff)
    then show "has_type contract_TenantHook (Some x)"
      using assms by (simp only: h(2) tenantHook_def option.map nullish_def option.case tenant_hook_typed)
  qed
  then show "kept GetTenantHooks op_list_tenant_hooks (get_tenant_hooks e req w)"
    unfolding get_tenant_hooks_def using assms by (simp add: kept_answers)
  show "kept (GetTenantHook n) op_get_tenant_hook (get_tenant_hook n e req w)"
    unfolding get_tenant_hook_def tenantHook_def hook_not_found_def
    using assms by (cases "find_hook n (wdb w)") (simp_all add: kept_answers tenant_hook_typed)
qed

lemma spec_no_name: "lit ''name'' \<notin> set SPEC_FIELDS"
  by (simp add: SPEC_FIELDS_def)

lemma hook_writes_kept:
  assumes typed: "bindings_typed (wdb w)"
  shows "body_typed op_create_hook req \<Longrightarrow> kept PostHook op_create_hook (post_hook e req w)"
    "body_typed op_replace_hook req \<Longrightarrow> kept (PutHook n) op_replace_hook (put_hook n e req w)"
proof -
  have insert: "kept PostHook op_create_hook (insert_hook e m s w)" for m s
    unfolding insert_hook_def Let_def using typed by (simp add: kept_answers hook_typed)
  have replace: "kept (PutHook n) op_replace_hook (replace_hook e n s w)" for s
    unfolding replace_hook_def Let_def hook_not_found_def using typed
    by (simp add: kept_answers hook_typed split: option.split)
  show "kept PostHook op_create_hook (post_hook e req w)" if "body_typed op_create_hook req"
    unfolding post_hook_def
  proof (rule kept_with_body [OF _ that])
    fix b assume b: "has_type contract_HookCreate (Some b)"
    from create_is_spec [OF b] obtain ob m where spec: "has_type contract_HookSpec (Some b)" and m: "b = JObj ob" "obj_get ob (lit ''name'') = Some (JStr m)"
      by blast
    obtain s where s: "specOf e b = Inr s" using spec by (rule spec_read)
    show "kept PostHook op_create_hook (guarded (bodyError e b (lit ''name'' # SPEC_FIELDS) (lit ''name'' # REQUIRED)) w (\<lambda>_.
       case specOf e b of
         Inl x \<Rightarrow> (Inl x, w)
       | Inr s \<Rightarrow> guarded (hookError s) w (\<lambda>_.
           case Option.bind (body_get b (lit ''name'')) body_string of
             None \<Rightarrow> (Inl (type_error e), w)
           | Some name \<Rightarrow> insert_hook e name s w)))"
      unfolding s sum.case using typed m
      by (intro kept_guarded refuses_errors calm_hookError)
        (simp_all add: calm_bodyError body_get_def body_string_def insert)
  qed (simp add: op_create_hook_def)
  show "kept (PutHook n) op_replace_hook (put_hook n e req w)" if "body_typed op_replace_hook req"
    unfolding put_hook_def
  proof (rule kept_with_body [OF _ that])
    fix b assume b: "has_type contract_HookSpec (Some b)"
    obtain ob s where s: "b = JObj ob" "specOf e b = Inr s" using b by (rule spec_read)
    show "kept (PutHook n) op_replace_hook (guarded (bodyError e b SPEC_FIELDS REQUIRED) w (\<lambda>_.
       case specOf e b of
         Inl x \<Rightarrow> (Inl x, w)
       | Inr s \<Rightarrow> guarded (hookError s) w (\<lambda>_. replace_hook e n s w)))"
      unfolding s(2) sum.case using typed s(1)
      by (intro kept_guarded refuses_errors calm_hookError) (simp_all add: calm_bodyError [OF notE [OF spec_no_name]] replace)
  qed (simp add: op_replace_hook_def)
qed

lemma tenants_kept:
  assumes typed: "bindings_typed (wdb w)"
  shows "kept GetTenants op_list_tenants (get_tenants e req w)" "kept (GetTenant n) op_get_tenant (get_tenant n e req w)"
    "body_typed op_create_tenant req \<Longrightarrow> kept PostTenant op_create_tenant (post_tenant e req w)"
    "body_typed op_patch_tenant req \<Longrightarrow> kept (PatchTenant n) op_patch_tenant (patch_tenant n e req w)"
    "kept (PostConsoleSession n) op_create_console_session (post_console_session n e req w)"
proof -
  have tenants: "has_type contract_TenantList (Some (items_json (map tenant_json ts)))" for ts
    unfolding contract_TenantList_def by (rule items_typed) (auto simp: tenant_typed)
  show "kept GetTenants op_list_tenants (get_tenants e req w)"
    unfolding get_tenants_def using typed by (simp add: kept_answers tenants)
  show "kept (GetTenant n) op_get_tenant (get_tenant n e req w)"
    unfolding get_tenant_def tenant_not_found_def using typed by (simp add: kept_answers tenant_typed split: option.split)
  show "kept (PostConsoleSession n) op_create_console_session (post_console_session n e req w)"
    unfolding post_console_session_def tenant_not_found_def Let_def using typed by (simp add: kept_answers session_typed)
  show "kept PostTenant op_create_tenant (post_tenant e req w)" if "body_typed op_create_tenant req"
    unfolding post_tenant_def
  proof (rule kept_with_body [OF _ that])
    fix b assume "has_type contract_TenantCreate (Some b)"
    then have "b \<noteq> JNull" by (auto simp: contract_TenantCreate_def)
    then show "kept PostTenant op_create_tenant (guarded (createError e b) w (\<lambda>_.
       let i = text_of (field_of b ''external_id'') in
       if list_ex (\<lambda>t. external_id t = i) (db_tenants (wdb w))
       then (Inr (problem 409 (ru ''Tenant s takim '' @ lit ''external_id '' @ ru ''uve estx'') (Some (JStr i))), w)
       else (let now = iso_of_ms (env_now e);
                 t = \<lparr>rate_limit_rps = quota_or_zero (field_of b ''rate_limit_rps''),
                      concurrency_limit = quota_or_zero (field_of b ''concurrency_limit''), external_id = i,
                      tenant_name = text_of (field_of b ''name''), tenant_created = now, tenant_updated = now\<rparr>
             in (Inr (http_json 201 (tenant_json t)), w\<lparr>wdb := (wdb w)\<lparr>db_tenants := db_tenants (wdb w) @ [t]\<rparr>\<rparr>))))"
      using typed by (intro kept_guarded refuses_errors calm_tenant_checks) (simp_all add: Let_def kept_answers tenant_typed)
  qed (simp add: op_create_tenant_def)
  show "kept (PatchTenant n) op_patch_tenant (patch_tenant n e req w)" if "body_typed op_patch_tenant req"
    unfolding patch_tenant_def
  proof (rule kept_with_body [OF _ that])
    fix b assume "has_type contract_TenantPatch (Some b)"
    then have "b \<noteq> JNull" by (auto simp: contract_TenantPatch_def)
    then show "kept (PatchTenant n) op_patch_tenant (guarded (patchError e b) w (\<lambda>_.
     case find_index (\<lambda>t. external_id t = n) (db_tenants (wdb w)) of
       None \<Rightarrow> (Inr (tenant_not_found n), w)
     | Some m \<Rightarrow>
         let t = db_tenants (wdb w) ! m; changes = patch_changes b t in
         if changes = [] then (Inr (http_json 200 (tenant_json t)), w)
         else (let t' = foldl (assign_field b) (t\<lparr>tenant_updated := iso_of_ms (env_now e)\<rparr>) changes
               in (Inr (http_json 200 (tenant_json t')), w\<lparr>wdb := (wdb w)\<lparr>db_tenants := (db_tenants (wdb w))[m := t']\<rparr>\<rparr>))))"
      using typed by (intro kept_guarded refuses_errors calm_tenant_checks)
        (simp_all add: Let_def kept_answers tenant_typed tenant_not_found_def split: option.split)
  qed (simp add: op_patch_tenant_def)
qed

lemma keys_kept:
  assumes typed: "bindings_typed (wdb w)"
  shows "kept GetKeys op_list_api_keys (get_keys e req w)" "kept (DeleteKey n) op_revoke_api_key (delete_key n e req w)"
    "body_typed op_create_api_key req \<Longrightarrow> kept PostKey op_create_api_key (post_key e req w)"
proof -
  have keys: "has_type contract_ApiKeyList (Some (items_json (map (\<lambda>k. JObj (api_key_fields (publicKey k))) ks)))" for ks
    unfolding contract_ApiKeyList_def by (rule items_typed) (auto simp: key_typed)
  show "kept GetKeys op_list_api_keys (get_keys e req w)"
    unfolding get_keys_def using typed by (simp add: kept_answers keys)
  show "kept (DeleteKey n) op_revoke_api_key (delete_key n e req w)"
    unfolding delete_key_def using typed by (simp add: kept_answers split: option.split) (simp add: kept_pair success_def op_oks)
  show "kept PostKey op_create_api_key (post_key e req w)" if "body_typed op_create_api_key req"
    unfolding post_key_def
  proof (rule kept_with_body [OF _ that])
    fix b assume "has_type contract_ApiKeyCreate (Some b)"
    then have "b \<noteq> JNull" by (auto simp: contract_ApiKeyCreate_def)
    then show "kept PostKey op_create_api_key (guarded (keyError e b) w (\<lambda>_.
     let name = text_of (field_of b ''name'') in
     if list_ex (\<lambda>k. key_name k = name) (db_keys (wdb w))
     then (Inr (problem 409 (ru ''Kl@~ s takim imenem uve estx'') (Some (JStr name))), w)
     else (let k = new_key e name
           in (Inr (http_json 201 (JObj (api_key_fields (publicKey k) @ [(lit ''token'', JStr (key_token k))]))),
               w\<lparr>wdb := (wdb w)\<lparr>db_keys := db_keys (wdb w) @ [k]\<rparr>\<rparr>))))"
      using typed by (intro kept_guarded refuses_errors calm_tenant_checks) (simp_all add: Let_def kept_answers key_typed)
  qed (simp add: op_create_api_key_def)
qed

lemma modules_kept:
  assumes typed: "bindings_typed (wdb w)"
  shows "kept (GetModules n) op_list_modules (get_modules n e req w)"
    "body_typed op_upload_module req \<Longrightarrow> kept (PostModule n) op_upload_module (post_module n e req w)"
proof -
  have settled: "bindings_typed (settleModules (env_now e) (wdb w))" using typed by (simp add: settleModules_def)
  have listed: "has_type contract_ModuleList (Some (items_json (map (module_json \<circ> publicModule) ms)))" for ms
    unfolding contract_ModuleList_def by (rule items_typed) (auto simp: module_typed)
  show "kept (GetModules n) op_list_modules (get_modules n e req w)"
    unfolding get_modules_def Let_def hook_not_found_def using typed settled by (simp add: kept_answers listed)
  have uploaded: "kept (PostModule n) op_upload_module (upload_file_to n e f w)" for f
    unfolding upload_file_to_def addUploadedModule_def Let_def using typed
    by (simp add: kept_answers module_typed silent_def)
  show "kept (PostModule n) op_upload_module (post_module n e req w)" if "body_typed op_upload_module req"
    unfolding post_module_def hook_not_found_def using typed that uploaded
    by (cases "form_file req") (simp_all add: kept_answers body_typed_def op_upload_module_def)
qed

lemma config_field_typed:
  assumes "has_type contract_BindingUpdate (Some b)" "\<not> nullish_field (field_of b ''config'')"
  shows "has_type (TDict TString) (Some (the (field_of b ''config'')))"
  using assms by (auto simp: contract_BindingUpdate_def field_of_def body_get_def nullish_field_def split: json.splits option.splits)

lemma module_field_typed:
  "has_type contract_BindingUpdate (Some b) \<Longrightarrow> \<not> nullish_field (field_of b ''active_module_id'') \<Longrightarrow>
     \<exists>i. field_of b ''active_module_id'' = Some (JStr i)"
  by (auto simp: contract_BindingUpdate_def field_of_def body_get_def nullish_field_def split: json.splits option.splits)

text \<open>The problems of a requested version have a detail: its id, or its status.\<close>

lemma requested_module_refuses:
  assumes "has_type contract_BindingUpdate (Some b)" "requested_module n (field_of b ''active_module_id'') d = Inl r"
  shows "\<exists>s title t. s \<in> {404, 409} \<and> r = problem s title (Some (JStr t))"
proof (cases "nullish_field (field_of b ''active_module_id'')")
  case True
  then show ?thesis using assms(2) by (simp add: requested_module_def)
next
  case False
  then obtain i where "field_of b ''active_module_id'' = Some (JStr i)" using module_field_typed [OF assms(1)] by blast
  then show ?thesis using assms(2) False
    by (auto simp: requested_module_def simp del: has_type.simps split: option.splits if_splits)
qed

lemma next_binding_typed:
  assumes "has_type contract_BindingUpdate (Some b)" "\<And>p. previous = Some p \<Longrightarrow> has_type (TDict TString) (Some (binding_config p))"
  shows "has_type (TDict TString) (Some (binding_config (next_binding now (field_of b ''config'') m previous)))"
  using config_field_typed [OF assms(1)] assms(2)
  by (simp add: next_binding_def del: has_type.simps split: option.splits) simp

lemma binding_kept:
  assumes typed: "bindings_typed (wdb w)" and body: "body_typed op_update_binding req"
  shows "kept (PutBinding n) op_update_binding (put_binding n e req w)"
proof (cases "tenantHook n (wdb w) = None")
  case True
  then show ?thesis using typed by (simp add: put_binding_def kept_answers hook_not_found_def)
next
  case False
  have previous: "db_bindings (wdb w) n = Some p \<Longrightarrow> has_type (TDict TString) (Some (binding_config p))" for p
    using typed by (simp only: bindings_typed_def)
  have "kept (PutBinding n) op_update_binding
      (if b = JNull then (Inl (type_error e), w)
       else (let v = field_of b ''active_module_id''; c = field_of b ''config''; previous = db_bindings (wdb w) n in
              if nullish_field v \<and> nullish_field c then (Inr (problem 400 (ru ''Ne~ego menqtx'') None), w)
              else (case requested_module n v (wdb w) of
                  Inl r \<Rightarrow> (Inr r, w)
                | Inr m \<Rightarrow>
                    if previous \<noteq> None \<and> \<not> config_changed c previous \<and> \<not> module_changed m previous
                    then (Inr (http_json 200 (binding_json (the previous))), w)
                    else (let nb = next_binding (env_now e) c m previous
                          in (Inr (http_json 200 (binding_json nb)),
                              w\<lparr>wdb := (wdb w)\<lparr>db_bindings := (db_bindings (wdb w))(n \<mapsto> nb)\<rparr>\<rparr>)))))"
    if b: "has_type contract_BindingUpdate (Some b)" for b
  proof -
    have "b \<noteq> JNull" using b by (auto simp: contract_BindingUpdate_def)
    moreover have next_typed: "has_type (TDict TString) (Some (binding_config (next_binding (env_now e) (field_of b ''config'') m (db_bindings (wdb w) n))))" for m
      using next_binding_typed [OF b previous] .
    moreover from this have "bindings_typed ((wdb w)\<lparr>db_bindings := (db_bindings (wdb w))
        (n \<mapsto> next_binding (env_now e) (field_of b ''config'') m (db_bindings (wdb w) n))\<rparr>)" for m
      using typed by (simp add: bindings_typed_def del: has_type.simps)
    moreover have "kept (PutBinding n) op_update_binding (Inr r, w)"
      if "requested_module n (field_of b ''active_module_id'') (wdb w) = Inl r" for r
      using requested_module_refuses [OF b that] typed by (auto simp: kept_problem)
    ultimately show ?thesis
      using typed previous
      by (cases "requested_module n (field_of b ''active_module_id'') (wdb w)"; cases "db_bindings (wdb w) n")
        (simp_all add: Let_def kept_answers binding_typed silent_def del: has_type.simps)
  qed
  then show ?thesis
    unfolding put_binding_def if_not_P [OF False] using body
    by (intro kept_with_body [where c = contract_BindingUpdate]) (simp_all add: op_update_binding_def)
qed

text \<open>Every handler of the contract, behind the bearer check: the answer is the contract's, and so are the settings it leaves.\<close>

lemma mocks_kept:
  assumes "contract_of p = Some o'" "bindings_typed (wdb w)" "body_typed o' req"
  shows "kept p o' (authed (resolve p) e req w)"
proof (cases "hasBearer (wdb w) req")
  case True
  then show ?thesis
    using assms hook_lists_kept hook_writes_kept tenants_kept keys_kept modules_kept binding_kept by (cases p) (auto simp: authed_def)
next
  case False
  then show ?thesis using kept_problem(2) [OF assms(1) _ assms(2), of 401] by (simp add: authed_def unauthorized_def silent_def)
qed

text \<open>The mocks start with settings of the contract's type.\<close>

lemma seed_typed: "bindings_typed (wdb (fresh_world now))"
  by (simp add: fresh_world_def initialDb_def case_prod_unfold Let_def bindings_typed_def)

section \<open>Sequences of requests\<close>

text \<open>
  The answers of the mock control plane to requests that arrive one after the other, each with the environment of its moment. The log
  of invocations is in no operation of the contract: requests for it may come in between, and are answered or refused for their token.
\<close>

type_synonym arrival = "env \<times> endpoint \<times> request"

fun answers :: "arrival list \<Rightarrow> world \<Rightarrow> result list" where
  "answers [] w = []"
| "answers ((e, p, req) # rs) w = (case authed (resolve p) e req w of (x, w') \<Rightarrow> x # answers rs w')"

definition arrival_typed :: "arrival \<Rightarrow> bool" where
  "arrival_typed a = (case a of (e, p, req) \<Rightarrow> (case contract_of p of None \<Rightarrow> True | Some o' \<Rightarrow> body_typed o' req))"

definition answer_kept :: "arrival \<Rightarrow> result \<Rightarrow> bool" where
  "answer_kept a x = (case a of (e, p, req) \<Rightarrow>
     (case x of
        Inl x' \<Rightarrow> False
      | Inr r \<Rightarrow> (case contract_of p of None \<Rightarrow> resp_status r \<in> {200, 401} | Some o' \<Rightarrow> success o' r \<or> refusal p o' r)))"

lemma outside_contract_typed:
  assumes "contract_of p = None" "bindings_typed (wdb w)"
  shows "answer_kept (e, p, req) (fst (authed (resolve p) e req w)) \<and> bindings_typed (wdb (snd (authed (resolve p) e req w)))"
proof -
  have p: "p = GetInvocations" using assms(1) by (cases p) simp_all
  obtain is' where "wdb (tickInvocations (env_now e) \<lparr>wdb = wdb w, rng = rng w\<rparr>) = (wdb w)\<lparr>db_invocations := is'\<rparr>"
    using tick_frame by blast
  then have "db_bindings (wdb (tickInvocations (env_now e) w)) = db_bindings (wdb w)" by simp
  then show ?thesis using assms(2) by (simp add: p authed_def unauthorized_def answer_kept_def get_invocations_def Let_def bindings_typed_def)
qed

theorem answers_kept: "bindings_typed (wdb w) \<Longrightarrow> list_all arrival_typed rs \<Longrightarrow> list_all2 answer_kept rs (answers rs w)"
proof (induction rs w rule: answers.induct)
  case (2 e p req rs w)
  obtain x w' where x: "authed (resolve p) e req w = (x, w')" by fastforce
  have "answer_kept (e, p, req) x \<and> bindings_typed (wdb w')"
  proof (cases "contract_of p")
    case None
    then show ?thesis using outside_contract_typed [of p w e req] 2(2) x by simp
  next
    case (Some o')
    then have "kept p o' (x, w')" using mocks_kept [of p o' w req e] 2(2,3) x by (simp add: arrival_typed_def)
    then show ?thesis using Some by (simp add: kept_def answer_kept_def split: sum.splits)
  qed
  then show ?case using 2 x by simp
qed simp

end
