(* ===== verification/Primitives.thy ===== *)
theory Primitives
  imports Ui
begin

text \<open>
  The styled primitives of \<open>shared/ui\<close> (\<open>button.tsx\<close>, \<open>badge.tsx\<close>, \<open>card.tsx\<close>, \<open>table.tsx\<close>, \<open>dialog.tsx\<close>, \<open>input.tsx\<close>,
  \<open>label.tsx\<close>, \<open>textarea.tsx\<close>, \<open>skeleton.tsx\<close>) and \<open>cn\<close> of \<open>shared/lib/utils.ts\<close>: what a component that the views name by
  its tag renders. \<open>render\<close> replaces the tags of a view's tree by those elements, and the events and texts of the tree stay the same.
  The components of the primitives library are elements again; joining class names is third-party code and a parameter.
\<close>

section \<open>Props and class names\<close>

record variant_config =
  cva_base :: jstr
  cva_variants :: "(string \<times> (string \<times> jstr) list) list"
  cva_defaults :: "(string \<times> string) list"

text \<open>\<open>clsx\<close>, \<open>twMerge\<close> and \<open>cva\<close>; \<open>None\<close> is \<open>undefined\<close>.\<close>

record class_lib =
  clsx :: "jstr option list \<Rightarrow> jstr"
  tw_merge :: "jstr \<Rightarrow> jstr"
  cva :: "variant_config \<Rightarrow> (string \<times> jstr option) list \<Rightarrow> jstr"

definition cn :: "class_lib \<Rightarrow> jstr option list \<Rightarrow> jstr" where
  "cn L inputs = tw_merge L (clsx L inputs)"

type_synonym 'e props = "(string \<times> 'e attr) list"
type_synonym 'e primitive = "class_lib \<Rightarrow> 'e props \<Rightarrow> 'e ui list \<Rightarrow> 'e ui"

text \<open>Attributes followed by \<open>{...props}\<close>: a prop takes the place of an attribute of its name, the others come after them.\<close>

definition spread :: "'e props \<Rightarrow> 'e props \<Rightarrow> 'e props" where
  "spread own ps = map (\<lambda>(k, v). (k, nullish (map_of ps k) v)) own @ filter (\<lambda>(k, v). k \<notin> fst ` set own) ps"

definition rest :: "string list \<Rightarrow> 'e props \<Rightarrow> 'e props" where
  "rest ks ps = filter (\<lambda>(k, v). k \<notin> set ks) ps"

definition text_prop :: "string \<Rightarrow> 'e props \<Rightarrow> jstr option" where
  "text_prop k ps = (case map_of ps k of Some (PStr s) \<Rightarrow> Some s | _ \<Rightarrow> None)"

definition slot :: "string \<Rightarrow> 'e props" where
  "slot s = [(''data-slot'', PStr (lit s))]"

text \<open>An attribute that is \<open>undefined\<close> is not set.\<close>

definition given :: "string \<Rightarrow> 'e props \<Rightarrow> 'e props" where
  "given k ps = (case map_of ps k of None \<Rightarrow> [] | Some v \<Rightarrow> [(k, v)])"

text \<open>An element with its own attributes, the joined class names and the props that are not taken out.\<close>

definition element :: "string \<Rightarrow> 'e props \<Rightarrow> jstr \<Rightarrow> string list \<Rightarrow> 'e props \<Rightarrow> 'e ui list \<Rightarrow> 'e ui" where
  "element tag own class keys ps cs = El tag (spread (own @ [(''className'', PStr class)]) (rest keys ps)) cs"

definition styled :: "string \<Rightarrow> 'e props \<Rightarrow> class_lib \<Rightarrow> jstr list \<Rightarrow> string list \<Rightarrow> 'e props \<Rightarrow> 'e ui list \<Rightarrow> 'e ui" where
  "styled tag own L classes keys ps cs = element tag own (cn L (map Some classes @ [text_prop ''className'' ps])) keys ps cs"

section \<open>Buttons and badges\<close>

definition buttonVariants :: "class_lib \<Rightarrow> (string \<times> jstr option) list \<Rightarrow> jstr" where
  "buttonVariants L = cva L \<lparr>cva_base = lit ''inline-flex items-center justify-center gap-2 whitespace-nowrap rounded-md text-sm font-medium ''
       @ lit ''transition-all disabled:pointer-events-none disabled:opacity-50 [&_svg]:pointer-events-none ''
       @ lit ''[&_svg:not([class*='size-'])]:size-4 shrink-0 [&_svg]:shrink-0 outline-none ''
       @ lit ''focus-visible:border-ring focus-visible:ring-ring/50 focus-visible:ring-[3px] ''
       @ lit ''aria-invalid:ring-destructive/20 dark:aria-invalid:ring-destructive/40 ''
       @ lit ''aria-invalid:border-destructive'',
     cva_variants =
     [(''variant'',
       [(''default'', lit ''bg-primary text-primary-foreground shadow-xs hover:bg-primary/90''),
        (''destructive'', lit ''bg-destructive text-white shadow-xs hover:bg-destructive/90 focus-visible:ring-destructive/20 ''
           @ lit ''dark:focus-visible:ring-destructive/40 dark:bg-destructive/60''),
        (''outline'', lit ''border bg-background shadow-xs hover:bg-accent hover:text-accent-foreground dark:bg-input/30 ''
           @ lit ''dark:border-input dark:hover:bg-input/50''),
        (''secondary'', lit ''bg-secondary text-secondary-foreground shadow-xs hover:bg-secondary/80''),
        (''ghost'', lit ''hover:bg-accent hover:text-accent-foreground dark:hover:bg-accent/50''),
        (''link'', lit ''text-primary underline-offset-4 hover:underline'')]),
      (''size'',
       [(''default'', lit ''h-9 px-4 py-2 has-[>svg]:px-3''),
        (''sm'', lit ''h-8 rounded-md gap-1.5 px-3 has-[>svg]:px-2.5''),
        (''lg'', lit ''h-10 rounded-md px-6 has-[>svg]:px-4''),
        (''icon'', lit ''size-9'')])],
     cva_defaults = [(''variant'', ''default''), (''size'', ''default'')]\<rparr>"

definition comp_tag :: "string \<Rightarrow> 'e props \<Rightarrow> string" where
  "comp_tag tag ps = (case map_of ps ''asChild'' of Some (PBool True) \<Rightarrow> ''Slot.Root'' | _ \<Rightarrow> tag)"

definition Button :: "'e primitive" where
  "Button L ps cs = element (comp_tag ''button'' ps) (slot ''button'')
     (cn L [Some (buttonVariants L (map (\<lambda>k. (k, text_prop k ps)) [''variant'', ''size'', ''className'']))])
     [''className'', ''variant'', ''size'', ''asChild''] ps cs"

definition badgeVariants :: "class_lib \<Rightarrow> (string \<times> jstr option) list \<Rightarrow> jstr" where
  "badgeVariants L = cva L \<lparr>cva_base = lit ''inline-flex items-center justify-center rounded-md border px-2 py-0.5 text-xs font-medium w-fit ''
       @ lit ''whitespace-nowrap shrink-0 [&>svg]:size-3 gap-1 [&>svg]:pointer-events-none ''
       @ lit ''focus-visible:border-ring focus-visible:ring-ring/50 focus-visible:ring-[3px] ''
       @ lit ''aria-invalid:ring-destructive/20 dark:aria-invalid:ring-destructive/40 ''
       @ lit ''aria-invalid:border-destructive transition-[color,box-shadow] overflow-hidden'',
     cva_variants =
     [(''variant'',
       [(''default'', lit ''border-transparent bg-primary text-primary-foreground [a&]:hover:bg-primary/90''),
        (''secondary'', lit ''border-transparent bg-secondary text-secondary-foreground [a&]:hover:bg-secondary/90''),
        (''destructive'', lit ''border-transparent bg-destructive text-white [a&]:hover:bg-destructive/90 ''
           @ lit ''focus-visible:ring-destructive/20 dark:focus-visible:ring-destructive/40 dark:bg-destructive/60''),
        (''outline'', lit ''text-foreground [a&]:hover:bg-accent [a&]:hover:text-accent-foreground'')])],
     cva_defaults = [(''variant'', ''default'')]\<rparr>"

definition Badge :: "'e primitive" where
  "Badge L ps cs = element (comp_tag ''span'' ps) (slot ''badge'')
     (cn L [Some (badgeVariants L [(''variant'', text_prop ''variant'' ps)]), text_prop ''className'' ps])
     [''className'', ''variant'', ''asChild''] ps cs"

section \<open>Cards\<close>

definition Card :: "'e primitive" where
  "Card L ps cs = styled ''div'' (slot ''card'') L
     [lit ''bg-card text-card-foreground flex flex-col gap-6 rounded-xl border py-6 shadow-sm''] [''className''] ps cs"

definition CardHeader :: "'e primitive" where
  "CardHeader L ps cs = styled ''div'' (slot ''card-header'') L
     [lit ''@container/card-header grid auto-rows-min grid-rows-[auto_auto] items-start gap-1.5 px-6 ''
       @ lit ''has-data-[slot=card-action]:grid-cols-[1fr_auto] [.border-b]:pb-6''] [''className''] ps cs"

definition CardTitle :: "'e primitive" where
  "CardTitle L ps cs = styled ''div'' (slot ''card-title'') L
     [lit ''leading-none font-semibold''] [''className''] ps cs"

definition CardDescription :: "'e primitive" where
  "CardDescription L ps cs = styled ''div'' (slot ''card-description'') L
     [lit ''text-muted-foreground text-sm''] [''className''] ps cs"

definition CardAction :: "'e primitive" where
  "CardAction L ps cs = styled ''div'' (slot ''card-action'') L
     [lit ''col-start-2 row-span-2 row-start-1 self-start justify-self-end''] [''className''] ps cs"

definition CardContent :: "'e primitive" where
  "CardContent L ps cs = styled ''div'' (slot ''card-content'') L
     [lit ''px-6''] [''className''] ps cs"

definition CardFooter :: "'e primitive" where
  "CardFooter L ps cs = styled ''div'' (slot ''card-footer'') L
     [lit ''flex items-center px-6 [.border-t]:pt-6''] [''className''] ps cs"

section \<open>Tables\<close>

definition Table :: "'e primitive" where
  "Table L ps cs = El ''div'' [(''data-slot'', PStr (lit ''table-container'')), (''className'', PStr (lit ''relative w-full overflow-x-auto''))]
     [styled ''table'' (slot ''table'') L
       [lit ''w-full caption-bottom text-sm''] [''className''] ps cs]"

definition TableHeader :: "'e primitive" where
  "TableHeader L ps cs = styled ''thead'' (slot ''table-header'') L
     [lit ''[&_tr]:border-b''] [''className''] ps cs"

definition TableBody :: "'e primitive" where
  "TableBody L ps cs = styled ''tbody'' (slot ''table-body'') L
     [lit ''[&_tr:last-child]:border-0''] [''className''] ps cs"

definition TableRow :: "'e primitive" where
  "TableRow L ps cs = styled ''tr'' (slot ''table-row'') L
     [lit ''hover:bg-muted/50 data-[state=selected]:bg-muted border-b transition-colors''] [''className''] ps cs"

definition TableHead :: "'e primitive" where
  "TableHead L ps cs = styled ''th'' (slot ''table-head'') L
     [lit ''text-foreground h-10 px-2 text-left align-middle font-medium whitespace-nowrap ''
       @ lit ''[&:has([role=checkbox])]:pr-0''] [''className''] ps cs"

definition TableCell :: "'e primitive" where
  "TableCell L ps cs = styled ''td'' (slot ''table-cell'') L
     [lit ''p-2 align-middle whitespace-nowrap [&:has([role=checkbox])]:pr-0''] [''className''] ps cs"

definition TableCaption :: "'e primitive" where
  "TableCaption L ps cs = styled ''caption'' (slot ''table-caption'') L
     [lit ''text-muted-foreground mt-4 text-sm''] [''className''] ps cs"

section \<open>Dialogs\<close>

definition Dialog :: "'e primitive" where
  "Dialog L ps cs = El ''DialogPrimitive.Root'' ps cs"

definition DialogTrigger :: "'e primitive" where
  "DialogTrigger L ps cs = El ''DialogPrimitive.Trigger'' ps cs"

definition DialogClose :: "'e primitive" where
  "DialogClose L ps cs = El ''DialogPrimitive.Close'' ps cs"

definition DialogContent :: "'e primitive" where
  "DialogContent L ps cs = El ''DialogPrimitive.Portal'' []
     [El ''DialogPrimitive.Overlay'' [(''className'', PStr (lit ''data-[state=open]:animate-in data-[state=closed]:animate-out data-[state=closed]:fade-out-0 ''
         @ lit ''data-[state=open]:fade-in-0 fixed inset-0 z-50 bg-slate-900/40''))] [],
      styled ''DialogPrimitive.Content'' [] L
       [lit ''bg-background data-[state=open]:animate-in data-[state=closed]:animate-out ''
         @ lit ''data-[state=closed]:fade-out-0 data-[state=open]:fade-in-0 data-[state=closed]:zoom-out-95 ''
         @ lit ''data-[state=open]:zoom-in-95 fixed top-1/2 left-1/2 z-50 flex w-[calc(100%-2rem)] max-w-140 ''
         @ lit ''-translate-x-1/2 -translate-y-1/2 flex-col gap-4 rounded-md border p-6 shadow-lg outline-none''] [''className''] ps cs]"

definition DialogTitle :: "'e primitive" where
  "DialogTitle L ps cs = styled ''DialogPrimitive.Title'' [] L
     [lit ''text-lg font-semibold''] [''className''] ps cs"

definition DialogDescription :: "'e primitive" where
  "DialogDescription L ps cs = styled ''DialogPrimitive.Description'' [] L
     [lit ''text-muted-foreground flex flex-col gap-4 text-sm''] [''className''] ps cs"

definition DialogFooter :: "'e primitive" where
  "DialogFooter L ps cs = styled ''div'' [] L
     [lit ''flex justify-end gap-2 pt-2''] [''className''] ps cs"

section \<open>Fields and placeholders\<close>

definition Input :: "'e primitive" where
  "Input L ps cs = styled ''input'' (given ''type'' ps @ (slot ''input'')) L
     [lit ''file:text-foreground placeholder:text-muted-foreground selection:bg-primary ''
       @ lit ''selection:text-primary-foreground dark:bg-input/30 border-input h-9 w-full min-w-0 rounded-md ''
       @ lit ''border bg-transparent px-3 py-1 text-base shadow-xs transition-[color,box-shadow] outline-none ''
       @ lit ''file:inline-flex file:h-7 file:border-0 file:bg-transparent file:text-sm file:font-medium ''
       @ lit ''disabled:pointer-events-none disabled:cursor-not-allowed disabled:opacity-50 md:text-sm'',
      lit ''focus-visible:border-ring focus-visible:ring-ring/50 focus-visible:ring-[3px]'',
      lit ''aria-invalid:ring-destructive/20 dark:aria-invalid:ring-destructive/40 ''
       @ lit ''aria-invalid:border-destructive''] [''className'', ''type''] ps cs"

definition Label :: "'e primitive" where
  "Label L ps cs = styled ''LabelPrimitive.Root'' (slot ''label'') L
     [lit ''flex items-center gap-2 text-sm leading-none font-medium select-none ''
       @ lit ''group-data-[disabled=true]:pointer-events-none group-data-[disabled=true]:opacity-50 ''
       @ lit ''peer-disabled:cursor-not-allowed peer-disabled:opacity-50''] [''className''] ps cs"

definition Textarea :: "'e primitive" where
  "Textarea L ps cs = styled ''textarea'' (slot ''textarea'') L
     [lit ''border-input placeholder:text-muted-foreground focus-visible:border-ring ''
       @ lit ''focus-visible:ring-ring/50 aria-invalid:ring-destructive/20 ''
       @ lit ''dark:aria-invalid:ring-destructive/40 aria-invalid:border-destructive dark:bg-input/30 flex ''
       @ lit ''field-sizing-content min-h-16 w-full rounded-md border bg-transparent px-3 py-2 text-base ''
       @ lit ''shadow-xs transition-[color,box-shadow] outline-none focus-visible:ring-[3px] ''
       @ lit ''disabled:cursor-not-allowed disabled:opacity-50 md:text-sm''] [''className''] ps cs"

definition Skeleton :: "'e primitive" where
  "Skeleton L ps cs = styled ''div'' (slot ''skeleton'') L
     [lit ''bg-accent animate-pulse rounded-md''] [''className''] ps cs"

section \<open>Rendering\<close>

text \<open>The components that the trees of the views name.\<close>

definition primitives :: "(string \<times> 'e primitive) list" where
  "primitives =
     [(''Button'', Button), (''Badge'', Badge), (''Card'', Card), (''CardHeader'', CardHeader), (''CardTitle'', CardTitle),
      (''CardDescription'', CardDescription), (''CardAction'', CardAction), (''CardContent'', CardContent),
      (''CardFooter'', CardFooter), (''Table'', Table), (''TableHeader'', TableHeader), (''TableBody'', TableBody),
      (''TableRow'', TableRow), (''TableHead'', TableHead), (''TableCell'', TableCell), (''TableCaption'', TableCaption),
      (''Dialog'', Dialog), (''DialogTrigger'', DialogTrigger), (''DialogClose'', DialogClose),
      (''DialogContent'', DialogContent), (''DialogTitle'', DialogTitle), (''DialogDescription'', DialogDescription),
      (''DialogFooter'', DialogFooter), (''Input'', Input), (''Label'', Label), (''Textarea'', Textarea),
      (''Skeleton'', Skeleton)]"

fun render :: "class_lib \<Rightarrow> 'e ui \<Rightarrow> 'e ui" where
  "render L (Txt t) = Txt t"
| "render L (El tag ps cs) =
     (case map_of primitives tag of None \<Rightarrow> El tag ps (map (render L) cs) | Some P \<Rightarrow> P L ps (map (render L) cs))"

section \<open>Lemmas\<close>

text \<open>What the caller passes is on the element, and what the primitive sets itself where the caller does not.\<close>

lemma spread_lookup: "map_of (spread own ps) k = (case map_of ps k of Some v \<Rightarrow> Some v | None \<Rightarrow> map_of own k)"
proof -
  have own: "map_of (map (\<lambda>(k, v). (k, nullish (map_of ps k) v)) own) k = map_option (nullish (map_of ps k)) (map_of own k)" for k
    by (induction own) auto
  have others: "map_of (filter (\<lambda>(k, v). k \<notin> A) ps) k = (if k \<in> A then None else map_of ps k)" for A
    by (induction ps) auto
  have none: "map_of own k = None \<longleftrightarrow> k \<notin> fst ` set own" by (rule map_of_eq_None_iff)
  show ?thesis
    by (cases "map_of ps k"; cases "map_of own k") (use none in \<open>auto simp: spread_def map_add_def own others\<close>)
qed

text \<open>The props that primitives set or take out name no events, in any sensible tree.\<close>

definition styled_keys :: "string list" where
  "styled_keys = [''className'', ''data-slot'', ''type'', ''variant'', ''size'', ''asChild'']"

definition is_event :: "'e attr \<Rightarrow> bool" where
  "is_event a \<longleftrightarrow> (case a of PAct x \<Rightarrow> True | _ \<Rightarrow> False)"

definition plain_props :: "'e props \<Rightarrow> bool" where
  "plain_props ps \<longleftrightarrow> list_all (\<lambda>(k, a). k \<in> set styled_keys \<longrightarrow> \<not> is_event a) ps"

fun plain :: "'e ui \<Rightarrow> bool" where
  "plain (Txt t) \<longleftrightarrow> True"
| "plain (El tag ps cs) \<longleftrightarrow> plain_props ps \<and> list_all plain cs"

lemma is_event_simps [simp]: "\<not> is_event (PStr s)" "\<not> is_event (PBool b)" "\<not> is_event (PNum x)" "\<not> is_event (PVal v)" "is_event (PAct e)"
  by (simp_all add: is_event_def)

lemma prop_actions_append [simp]: "prop_actions (ps @ qs) = prop_actions ps @ prop_actions qs"
  by (induction ps rule: prop_actions.induct) simp_all

lemma prop_actions_silent: "list_all (\<lambda>(k, a). \<not> is_event a) ps \<Longrightarrow> prop_actions ps = []"
  by (induction ps rule: prop_actions.induct) simp_all

lemma prop_actions_filter: "\<forall>(k, a) \<in> set ps. Q k \<or> \<not> is_event a \<Longrightarrow> prop_actions (filter (\<lambda>(k, a). Q k) ps) = prop_actions ps"
  by (induction ps rule: prop_actions.induct) auto

lemma spread_actions:
  assumes "plain_props ps" "list_all (\<lambda>(k, a). k \<in> set styled_keys \<and> \<not> is_event a) own" "set ks \<subseteq> set styled_keys"
  shows "prop_actions (spread own (rest ks ps)) = prop_actions ps"
proof -
  have ps: "\<forall>(k, a) \<in> set ps. k \<in> set styled_keys \<longrightarrow> \<not> is_event a" using assms(1) by (simp add: plain_props_def list_all_iff)
  have "\<not> is_event (nullish (map_of (rest ks ps) k) v)" if "(k, v) \<in> set own" for k v
    using that assms(2) ps by (cases "map_of (rest ks ps) k") (fastforce simp: list_all_iff rest_def dest: map_of_SomeD)+
  then have "prop_actions (map (\<lambda>(k, v). (k, nullish (map_of (rest ks ps) k) v)) own) = []"
    by (intro prop_actions_silent) (auto simp: list_all_iff)
  moreover have "prop_actions (filter (\<lambda>(k, v). k \<notin> fst ` set own) (rest ks ps)) = prop_actions (rest ks ps)"
    using ps assms(2) by (intro prop_actions_filter) (fastforce simp: list_all_iff rest_def)
  moreover have "prop_actions (rest ks ps) = prop_actions ps"
    unfolding rest_def using ps assms(3) by (intro prop_actions_filter) fastforce
  ultimately show ?thesis by (simp add: spread_def)
qed

lemma spread_mem: "k \<notin> fst ` set own \<Longrightarrow> k \<notin> set ks \<Longrightarrow> (k, v) \<in> set (spread own (rest ks ps)) \<longleftrightarrow> (k, v) \<in> set ps"
  by (force simp: spread_def rest_def)

text \<open>A primitive keeps the events and the texts of what it is given.\<close>

definition transparent :: "'e primitive \<Rightarrow> bool" where
  "transparent P \<longleftrightarrow> (\<forall>L ps cs tag. plain_props ps \<longrightarrow>
     ui_actions (P L ps cs) = ui_actions (El tag ps cs) \<and> ui_texts (P L ps cs) = ui_texts (El tag ps cs))"

lemma element_transparent:
  assumes "plain_props ps" "list_all (\<lambda>(k, a). k \<in> set styled_keys \<and> \<not> is_event a) own" "set ks \<subseteq> set styled_keys"
  shows "ui_actions (element tag own c ks ps cs) = ui_actions (El tag' ps cs)"
    "ui_texts (element tag own c ks ps cs) = ui_texts (El tag' ps cs)"
proof -
  have own: "list_all (\<lambda>(k, a). k \<in> set styled_keys \<and> \<not> is_event a) (own @ [(''className'', PStr c)])"
    using assms(2) by (simp add: styled_keys_def)
  have "(''disabled'', PBool True) \<in> set (spread (own @ [(''className'', PStr c)]) (rest ks ps)) \<longleftrightarrow> (''disabled'', PBool True) \<in> set ps"
  proof (rule spread_mem)
    show "''disabled'' \<notin> fst ` set (own @ [(''className'', PStr c)])" using own by (force simp: list_all_iff styled_keys_def)
    show "''disabled'' \<notin> set ks" using assms(3) by (force simp: styled_keys_def)
  qed
  then show "ui_actions (element tag own c ks ps cs) = ui_actions (El tag' ps cs)"
    using spread_actions [OF assms(1) own assms(3)] by (simp add: element_def)
  show "ui_texts (element tag own c ks ps cs) = ui_texts (El tag' ps cs)" by (simp add: element_def)
qed

lemma given_plain: "plain_props ps \<Longrightarrow> k \<in> set styled_keys \<Longrightarrow> list_all (\<lambda>(k, a). k \<in> set styled_keys \<and> \<not> is_event a) (given k ps)"
  by (cases "map_of ps k") (auto simp: given_def plain_props_def list_all_iff dest!: map_of_SomeD)

lemmas primitive_defs = Button_def Badge_def Card_def CardHeader_def CardTitle_def CardDescription_def CardAction_def CardContent_def
  CardFooter_def Table_def TableHeader_def TableBody_def TableRow_def TableHead_def TableCell_def TableCaption_def Dialog_def
  DialogTrigger_def DialogClose_def DialogContent_def DialogTitle_def DialogDescription_def DialogFooter_def Input_def Label_def
  Textarea_def Skeleton_def

lemma slot_plain: "list_all (\<lambda>(k, a). k \<in> set styled_keys \<and> \<not> is_event a) (slot s)"
  by (simp add: slot_def styled_keys_def)

lemma primitives_transparent: "list_all (\<lambda>(tag, P). transparent P) primitives"
proof -
  have keys: "''className'' \<in> set styled_keys" "''type'' \<in> set styled_keys" "''variant'' \<in> set styled_keys" "''size'' \<in> set styled_keys"
    "''asChild'' \<in> set styled_keys"
    by (simp_all add: styled_keys_def)
  show ?thesis
    by (simp add: primitives_def transparent_def primitive_defs styled_def slot_plain given_plain keys element_transparent [where tag' = "''x''"])
qed

text \<open>The elements a view ends up as offer the same events in the same order and show the same texts as the tree of the view.\<close>

theorem render_transparent: "plain u \<Longrightarrow> ui_actions (render L u) = ui_actions u \<and> ui_texts (render L u) = ui_texts u"
proof (induction u rule: plain.induct)
  case (2 tag ps cs)
  then have kids: "map ui_actions (map (render L) cs) = map ui_actions cs" "map ui_texts (map (render L) cs) = map ui_texts cs" "plain_props ps"
    by (auto simp: list_all_iff)
  show ?case
  proof (cases "map_of primitives tag :: 'a primitive option")
    case None
    then show ?thesis using kids by (simp del: map_map)
  next
    case (Some P)
    then have "transparent P" using primitives_transparent by (auto simp: list_all_iff dest!: map_of_SomeD)
    then have "ui_actions (P L ps (map (render L) cs)) = ui_actions (El tag ps (map (render L) cs))"
      "ui_texts (P L ps (map (render L) cs)) = ui_texts (El tag ps (map (render L) cs))"
      using kids(3) unfolding transparent_def by blast+
    then show ?thesis using kids Some by (simp del: map_map)
  qed
qed simp

end
