(* ===== verification/Rendered.thy ===== *)
theory Rendered
  imports System Primitives
begin

text \<open>
  The dialogs, editors and the versions table as elements: their trees are plain, so that rendering the styled primitives in them
  changes neither the events they offer nor the texts they show.
\<close>

section \<open>Plain trees\<close>

lemma plain_props_simps [simp]:
  "plain_props []" "plain_props ((k, a) # ps) \<longleftrightarrow> (k \<in> set styled_keys \<longrightarrow> \<not> is_event a) \<and> plain_props ps"
  "plain_props (ps @ qs) \<longleftrightarrow> plain_props ps \<and> plain_props qs"
  by (simp_all add: plain_props_def)

lemma event_keys [simp]:
  "''onClick'' \<notin> set styled_keys" "''onSubmit'' \<notin> set styled_keys" "''onDismiss'' \<notin> set styled_keys"
  by (simp_all add: styled_keys_def)

lemma plain_parts [simp]:
  "plain (text_el tag t)" "plain (alert_p t)" "plain (button b ps t) \<longleftrightarrow> plain_props ps" "plain (input_el tag v b)"
  "plain (dialog_close b change t)" "list_all plain (error_text e)"
  by (auto simp: text_el_def alert_p_def button_def input_el_def dialog_close_def error_text_def styled_keys_def)

lemma plain_whenever [simp]: "list_all plain us \<Longrightarrow> list_all plain (whenever b us)"
  by (simp add: whenever_def)

lemma plain_dialog [simp]: "list_all plain trigger \<Longrightarrow> list_all plain content \<Longrightarrow> list_all plain (dialog b change trigger content)"
  by (auto simp: dialog_def whenever_def list_all_iff)

lemma attr_map_event [simp]: "is_event (attr_map f a) = is_event a"
  by (cases a) simp_all

lemma plain_map [simp]: "plain (ui_map f u) = plain u"
proof (induction u)
  case (El tag ps cs)
  have "plain_props (map (apsnd (attr_map f)) ps) = plain_props ps" by (induction ps) auto
  then show ?case using El by (simp add: list_all_iff)
qed simp

lemma plain_map_list: "list_all plain us \<Longrightarrow> list_all plain (map (ui_map f) us)"
  by (simp add: list_all_iff)

section \<open>The views\<close>

lemma plain_key_dialogs: "list_all plain (IssueApiKeyDialog s)" "list_all plain (RevokeApiKeyDialog k r)"
  by (simp_all add: IssueApiKeyDialog_def IssuedToken_def issue_form_def RevokeApiKeyDialog_def split: mutation.split option.split)

lemma plain_module_dialogs: "list_all plain (UploadModuleDialog n h u)" "list_all plain (ActivateModuleDialog n m h a)"
  by (simp_all add: UploadModuleDialog_def upload_pick_def upload_picked_def upload_unconfirmed_def ActivateModuleDialog_def Let_def
      split: upload_step_name.split option.split)

lemma plain_list_input: "list_all plain (string_list_input items locked hint draft)"
  by (auto simp: string_list_input_def list_item_def list_all_iff whenever_def split: option.split)

lemma plain_field: "list_all plain action \<Longrightarrow> list_all plain children \<Longrightarrow> list_all plain (field_el label hint error action children)"
  by (simp add: field_el_def)

lemma plain_tenant_dialog: "list_all plain (TenantDialog lib t d)"
  by (simp add: TenantDialog_def Let_def tenant_input_def Field_def split: option.split)

lemma plain_config_editor: "list_all plain (BindingConfigEditor lib b c)"
  by (auto simp: BindingConfigEditor_def Let_def row_el_def list_all_iff split: option.split)

lemma plain_hook_form: "list_all plain (HookForm lib hook f)"
  by (auto simp: HookForm_def Let_def ServerError_def json_field_el_def plain_list_input
      intro!: plain_field plain_map_list plain_whenever split: option.split)

lemma plain_panel: "plain (StatusPanel p)"
  by (simp add: StatusPanel_def RejectedPanel_def info_panel_def Let_def whenever_def split: panel_state.split option.split)

lemma plain_versions: "list_all plain (ModuleVersions compare n b q v)"
proof -
  have action: "list_all plain (version_action n a h p v m)" for a h p m
    using plain_module_dialogs by (simp add: version_action_def plain_map_list)
  have rows: "plain (version_row n a h p v m)" for a h p m
    using action by (simp add: version_row_def styled_keys_def)
  have row_list: "list_all plain (map (version_row n a h p v) ms)" for a h p ms
    using rows by (simp add: list_all_iff)
  have body: "list_all plain (query_body 3 q f)" if "\<And>d. list_all plain (f d)" for f :: "module list \<Rightarrow> versions_event ui list"
    using that by (simp add: query_body_def loading_rows_def error_state_def not_implemented_state_def whenever_def styled_keys_def
        list_all_iff split: query_state.split)
  show ?thesis
    unfolding ModuleVersions_def Let_def
    by (simp add: body row_list plain_panel plain_map_list plain_module_dialogs)
qed

text \<open>The elements of a view offer the events of its tree in their order, and show its texts.\<close>

definition rendered_same :: "class_lib \<Rightarrow> 'e ui list \<Rightarrow> bool" where
  "rendered_same L us \<longleftrightarrow> actions_of (map (render L) us) = actions_of us \<and> texts_of (map (render L) us) = texts_of us"

lemma plain_rendered: "list_all plain us \<Longrightarrow> rendered_same L us"
  unfolding rendered_same_def by (induction us) (simp_all add: render_transparent)

lemmas plain_views = plain_key_dialogs plain_module_dialogs plain_list_input plain_tenant_dialog plain_config_editor plain_hook_form
  plain_versions

end
