(* ===== verification/Session_Expiry.thy ===== *)
theory Session_Expiry
  imports Console_Session
begin

text \<open>
  The expiry timer of \<open>features/console-session/ui/tenant-session-gate.tsx\<close> over time: the check, the timer it sets, the check
  when that fires, and so on, until the token is dropped. Timers are those of the platform: they hold a delay of 32 bits and may fire late.
\<close>

section \<open>Timers\<close>

text \<open>
  What \<open>setTimeout\<close> makes of a delay: the fraction is cut off, the rest taken as a signed 32-bit number, and what
  comes out negative is no delay at all.
\<close>

definition timer_wait :: "number \<Rightarrow> int" where
  "timer_wait d =
     (case d of
        Fin q \<Rightarrow> max 0 (sint (word_of_int (if 0 \<le> q then \<lfloor>q\<rfloor> else \<lceil>q\<rceil>) :: 32 word))
      | _ \<Rightarrow> 0)"

lemma timer_wait_num:
  assumes "0 \<le> d" "d \<le> MAX_TIMER_DELAY_MS" shows "timer_wait (num d) = d"
proof -
  have "take_bit 32 d = d" "signed_take_bit 31 d = d"
    using assms by (simp_all add: MAX_TIMER_DELAY_MS_def take_bit_int_eq_self signed_take_bit_int_eq_self)
  then show ?thesis using assms(1) by (simp add: timer_wait_def sint_uint unsigned_of_int)
qed

text \<open>
  When the token is dropped by a chain of checks that starts at \<open>now\<close>, with how late each timer fires; \<open>None\<close> when the
  timers of the list do not get that far.
\<close>

fun timer_chain :: "nat list \<Rightarrow> number \<Rightarrow> int \<Rightarrow> int option" where
  "timer_chain [] expiresAt now = (case expiry_check expiresAt (num now) of ClearNow \<Rightarrow> Some now | WaitMs d \<Rightarrow> None)"
| "timer_chain (late # lates) expiresAt now =
     (case expiry_check expiresAt (num now) of
        ClearNow \<Rightarrow> Some now
      | WaitMs d \<Rightarrow> timer_chain lates expiresAt (now + timer_wait d + int late))"

text \<open>How many timers a time takes at most.\<close>

definition timers_needed :: "int \<Rightarrow> nat" where
  "timers_needed remaining = nat ((remaining + MAX_TIMER_DELAY_MS - 1) div MAX_TIMER_DELAY_MS)"

lemma max_delay_pos: "0 < MAX_TIMER_DELAY_MS"
  by (simp add: MAX_TIMER_DELAY_MS_def)

lemma timers_needed_less:
  assumes "0 < remaining" "later \<le> remaining - min remaining MAX_TIMER_DELAY_MS"
  shows "timers_needed later < timers_needed remaining"
proof -
  let ?M = MAX_TIMER_DELAY_MS and ?f = "\<lambda>x. (x + MAX_TIMER_DELAY_MS - 1) div MAX_TIMER_DELAY_MS"
  have M: "0 < ?M" by (rule max_delay_pos)
  have pos: "1 \<le> ?f remaining" using assms(1) M zdiv_mono1 [of ?M "remaining + ?M - 1" ?M] by simp
  have "?f later \<le> ?f (remaining - min remaining ?M)" using assms(2) M by (intro zdiv_mono1) simp_all
  also have "?f (remaining - min remaining ?M) \<le> ?f remaining - 1"
  proof (cases "remaining \<le> ?M")
    case True
    then show ?thesis using pos M by (simp add: div_pos_pos_trivial)
  next
    case False
    have ne: "?M \<noteq> 0" using M by simp
    have "remaining + ?M - 1 = (remaining - ?M + ?M - 1) + ?M" by simp
    then have "?f remaining = ?f (remaining - ?M) + 1" by (simp only: div_add_self2 [OF ne])
    then show ?thesis using False by simp
  qed
  finally show ?thesis using pos by (simp add: timers_needed_def)
qed

lemma timer_chain_due:
  assumes "e \<le> n" "safe_int (e - n)" shows "timer_chain lates (num e) n = Some n"
  using assms expiry_check_num [OF assms(2)] by (cases lates) (simp_all del: of_int_diff)

text \<open>The token is dropped not before its expiry, and no later than one timer is late.\<close>

theorem timer_chain_ends:
  assumes "0 \<le> e" "0 \<le> n" "n < e" "safe_int (e + slack)" "\<forall>l \<in> set lates. int l \<le> slack" "timers_needed (e - n) \<le> length lates"
  shows "\<exists>t. timer_chain lates (num e) n = Some t \<and> e \<le> t \<and> t \<le> e + slack"
  using assms
proof (induction lates arbitrary: n)
  case Nil
  have "timers_needed 0 < timers_needed (e - n)" using Nil by (intro timers_needed_less) (simp_all add: min_def max_delay_pos)
  then show ?case using Nil by simp
next
  case (Cons l ls)
  have l: "int l \<le> slack" using Cons.prems by simp
  have safe: "safe_int (e - n)" using Cons.prems l by (auto simp: safe_int_def)
  define d where "d = min (e - n) MAX_TIMER_DELAY_MS"
  have d: "0 < d" "d \<le> e - n" "d \<le> MAX_TIMER_DELAY_MS" using Cons.prems max_delay_pos by (auto simp: d_def)
  let ?n = "n + d + int l"
  have "expiry_check (num e) (num n) = WaitMs (num d)" using expiry_check_num [OF safe] Cons.prems by (simp add: d_def)
  then have step: "timer_chain (l # ls) (num e) n = timer_chain ls (num e) ?n" using timer_wait_num [of d] d by simp
  show ?case
  proof (cases "e \<le> ?n")
    case True
    have "safe_int (e - ?n)" using Cons.prems d l by (auto simp: safe_int_def)
    then show ?thesis using step timer_chain_due [OF True] True d l by auto
  next
    case False
    have "timers_needed (e - ?n) < timers_needed (e - n)" using Cons.prems by (intro timers_needed_less) (simp_all add: d_def)
    then show ?thesis unfolding step using Cons.prems d False by (intro Cons.IH) auto
  qed
qed

end
