(* ===== verification/Issued_Tokens.thy ===== *)
theory Issued_Tokens
  imports System
begin

text \<open>
  Where the token of a new API key can be seen: in the dialog that issued it, as long as it shows its answer
  (\<open>features/issue-api-key\<close>), and in no answer of the control plane after the one to the request that issues it (\<open>mocks/\<close>).
\<close>

section \<open>The dialog\<close>

text \<open>A value the dialog has or is about to show came in an answer, and is there only while the request is answered.\<close>

definition issue_traced :: "issue_event list \<Rightarrow> issue_state \<Rightarrow> bool" where
  "issue_traced es s \<longleftrightarrow>
     (\<forall>v. mut (is_mutation s) = MDone v \<or> succeeded (is_mutation s) = Some v \<longrightarrow> IsAnswer (Inr v) \<in> set es)
     \<and> (succeeded (is_mutation s) \<noteq> None \<longrightarrow> issue_pending s)"

lemma issue_traced_step:
  "issue_traced es s \<Longrightarrow> issue_traced (es @ [e]) (fst (issue_step e s))"
  by (cases e) (auto simp: issue_traced_def issue_step_def issue_change_open_def issue_submit_def issue_answer_def issue_pending_def
      mut_answer_def mut_refreshed_def mut_idle_def mut_sent_def Let_def split: sum.splits option.splits)

lemma run_events_append: "run_events step (es @ fs) s = run_events step fs (run_events step es s)"
  by (induction es arbitrary: s) simp_all

lemma issue_run_traced: "issue_traced es (run_events issue_step es issue_init)"
proof (induction es rule: rev_induct)
  case Nil
  then show ?case by (simp add: issue_traced_def issue_init_def)
next
  case (snoc e es)
  then show ?case using issue_traced_step by (simp add: run_events_append)
qed

text \<open>Once a dialog that does not wait was closed, it shows no token before the next answer.\<close>

definition issue_hidden :: "issue_state \<Rightarrow> bool" where
  "issue_hidden s \<longleftrightarrow> succeeded (is_mutation s) = None \<and> (is_open s \<longrightarrow> (\<forall>v. mut (is_mutation s) \<noteq> MDone v))"

lemma issue_hidden_step: "issue_hidden s \<Longrightarrow> (\<forall>r. e \<noteq> IsAnswer r) \<Longrightarrow> issue_hidden (fst (issue_step e s))"
  by (cases e) (auto simp: issue_hidden_def issue_step_def issue_change_open_def issue_submit_def issue_pending_def mut_refreshed_def Let_def)

lemma issue_hidden_run: "issue_hidden s \<Longrightarrow> answers_in IsAnswer es = 0 \<Longrightarrow> issue_hidden (run_events issue_step es s)"
  by (induction es arbitrary: s) (auto simp: answers_in_def issue_hidden_step split: if_splits)

lemma issue_closed_hidden:
  "issue_traced es s \<Longrightarrow> \<not> issue_pending s \<Longrightarrow> issue_hidden (fst (issue_step (IsChangeOpen b) s))"
  by (auto simp: issue_traced_def issue_hidden_def issue_step_def issue_change_open_def)

lemma issue_shows_token:
  "''code'' \<in> set (tags_of (IssueApiKeyDialog s)) \<longleftrightarrow>
     is_open s \<and> (\<exists>v. mut (is_mutation s) = MDone v \<and> issued_field v ''token'' \<in> set (texts_of (IssueApiKeyDialog s)))"
  unfolding code_shown by (auto simp: IssueApiKeyDialog_def dialog_def IssuedToken_def)

section \<open>The answers of the control plane\<close>

definition without_tokens :: "world \<Rightarrow> world" where
  "without_tokens w = w\<lparr>wdb := (wdb w)\<lparr>db_keys := map (\<lambda>k. k\<lparr>key_token := []\<rparr>) (db_keys (wdb w))\<rparr>\<rparr>"

lemma without_tokens_fields [simp]:
  "db_hooks (wdb (without_tokens w)) = db_hooks (wdb w)" "db_tenants (wdb (without_tokens w)) = db_tenants (wdb w)"
  "db_modules (wdb (without_tokens w)) = db_modules (wdb w)" "db_bindings (wdb (without_tokens w)) = db_bindings (wdb w)"
  "db_invocations (wdb (without_tokens w)) = db_invocations (wdb w)" "rng (without_tokens w) = rng w"
  "db_keys (wdb (without_tokens w)) = map (\<lambda>k. k\<lparr>key_token := []\<rparr>) (db_keys (wdb w))"
  by (simp_all add: without_tokens_def)

lemma js_sort_map:
  assumes "\<And>a b. cmp (g a) (g b) = cmp' a b" shows "js_sort cmp (map g xs) = map g (js_sort cmp' xs)"
proof -
  have "sort_insert cmp (g x) (map g ys) = map g (sort_insert cmp' x ys)" for x ys
    by (induction ys) (simp_all add: assms)
  then show ?thesis by (induction xs) simp_all
qed

lemma find_index_map: "find_index P (map g xs) = find_index (P \<circ> g) xs"
  by (induction xs) simp_all

lemma fst_guarded: "fst (guarded c w k) = (case c of Inl e \<Rightarrow> Inl e | Inr (Some r) \<Rightarrow> Inr r | Inr None \<Rightarrow> fst (k ()))"
  by (simp add: guarded_def split: sum.split option.split)

lemma fst_with_body: "fst (with_body e req w k) = (case json_body req of None \<Rightarrow> Inl (syntax_error e) | Some b \<Rightarrow> fst (k b))"
  by (simp add: with_body_def split: option.split)

lemma find_hook_tokens [simp]: "find_hook n (wdb (without_tokens w)) = find_hook n (wdb w)" "tenantHook n (wdb (without_tokens w)) = tenantHook n (wdb w)"
  "requested_module n v (wdb (without_tokens w)) = requested_module n v (wdb w)"
  by (simp_all add: find_hook_def tenantHook_def tenant_hook_json_def requested_module_def)

lemma key_answers:
  "fst (get_keys e req (without_tokens w)) = fst (get_keys e req w)" "fst (delete_key n e req (without_tokens w)) = fst (delete_key n e req w)"
  "fst (post_key e req (without_tokens w)) = fst (post_key e req w)"
  by (simp_all add: post_key_def fst_with_body fst_guarded list_ex_map_mem image_image Let_def get_keys_def delete_key_def js_sort_map [where cmp' = "\<lambda>a b. locale_compare e (key_created a) (key_created b)"]
      publicKey_def find_index_map o_def split: option.split sum.split)

lemma hook_answers:
  "fst (get_hooks e req (without_tokens w)) = fst (get_hooks e req w)" "fst (get_hook n e req (without_tokens w)) = fst (get_hook n e req w)"
  "fst (post_hook e req (without_tokens w)) = fst (post_hook e req w)" "fst (put_hook n e req (without_tokens w)) = fst (put_hook n e req w)"
proof -
  have "fst (insert_hook e m s (without_tokens w)) = fst (insert_hook e m s w)" for m s by (simp add: insert_hook_def Let_def)
  then show "fst (post_hook e req (without_tokens w)) = fst (post_hook e req w)"
    by (auto simp: post_hook_def fst_with_body fst_guarded split: option.split sum.split)
  have "fst (replace_hook e n s (without_tokens w)) = fst (replace_hook e n s w)" for s
    by (simp add: replace_hook_def Let_def split: option.split)
  then show "fst (put_hook n e req (without_tokens w)) = fst (put_hook n e req w)"
    by (auto simp: put_hook_def fst_with_body fst_guarded split: option.split sum.split)
qed (simp_all add: get_hooks_def get_hook_def)

lemma tenant_answers:
  "fst (get_tenants e req (without_tokens w)) = fst (get_tenants e req w)" "fst (get_tenant n e req (without_tokens w)) = fst (get_tenant n e req w)"
  "fst (post_tenant e req (without_tokens w)) = fst (post_tenant e req w)" "fst (patch_tenant n e req (without_tokens w)) = fst (patch_tenant n e req w)"
  "fst (post_console_session n e req (without_tokens w)) = fst (post_console_session n e req w)"
  by (auto simp: get_tenants_def get_tenant_def find_tenant_def post_tenant_def patch_tenant_def post_console_session_def fst_with_body fst_guarded
      Let_def split: option.split sum.split)

lemma module_answers:
  "fst (get_tenant_hooks e req (without_tokens w)) = fst (get_tenant_hooks e req w)"
  "fst (get_tenant_hook n e req (without_tokens w)) = fst (get_tenant_hook n e req w)"
  "fst (get_modules n e req (without_tokens w)) = fst (get_modules n e req w)" "fst (post_module n e req (without_tokens w)) = fst (post_module n e req w)"
  "fst (put_binding n e req (without_tokens w)) = fst (put_binding n e req w)"
proof -
  have "fst (upload_file_to n e f (without_tokens w)) = fst (upload_file_to n e f w)" for f
    by (simp add: upload_file_to_def addUploadedModule_def new_module_id_def Let_def)
  then show "fst (post_module n e req (without_tokens w)) = fst (post_module n e req w)"
    by (simp add: post_module_def split: option.split)
  show "fst (get_modules n e req (without_tokens w)) = fst (get_modules n e req w)"
    by (simp add: get_modules_def hook_modules_def settleModules_def Let_def)
  show "fst (put_binding n e req (without_tokens w)) = fst (put_binding n e req w)"
    by (simp add: put_binding_def fst_with_body Let_def split: option.split sum.split)
qed (simp_all add: get_tenant_hooks_def get_tenant_hook_def)

lemma log_answer: "fst (get_invocations e req (without_tokens w)) = fst (get_invocations e req w)"
proof -
  have "db_invocations (wdb (tickInvocations now (without_tokens w))) = db_invocations (wdb (tickInvocations now w))" for now
    by (simp add: tickInvocations_def Let_def case_prod_unfold split: option.split)
  then show ?thesis by (simp add: get_invocations_def listed_invocations_def Let_def)
qed

text \<open>No answer depends on the tokens that are stored; the one that issues a key shows the token it has just drawn.\<close>

theorem answers_without_tokens: "fst (resolve p e req (without_tokens w)) = fst (resolve p e req w)"
  by (cases p) (simp_all add: key_answers hook_answers tenant_answers module_answers log_answer)

end
