(* ===== verification/Spec2Isabelle.thy ===== *)
theory Spec2Isabelle
  imports Upload_Verdict Contract_Mocks Rendered Session_Expiry Issued_Tokens
begin

text \<open>
  A model of the web console of WasmHooks (\<open>src/web/src\<close>, TypeScript) and of the mock control plane it carries.

  \<^bold>\<open>The program.\<close> One front end holds two consoles, the operator's and the tenants', and a stub of a shop. Each console
  keeps a token in \<open>sessionStorage\<close>, guards its pages with a sign-in gate, and reads and changes the control plane
  over HTTP through one request function. The operator defines hooks, tenants and installation keys and opens a
  tenant's console in a new tab, handing a session token over in the fragment of its address. A tenant uploads WebAssembly
  modules for the hooks, activates the versions that passed their checks, edits the configuration of a binding and
  reads the log of invocations. In development a service worker answers in place of the control plane; its
  handlers, with their database, are the mock control plane. The control plane of the other directories is met
  only through the network, which is a parameter here.

  \<^bold>\<open>Theories and code.\<close>
  \<^item> \<open>Prelude\<close>, \<open>Js_Number\<close>, \<open>Js_Text\<close>, \<open>Js_Date\<close>, \<open>Js_Json\<close>: what the sources use of the language. Strings are lists of
    16-bit code units, numbers are binary64 values held as rationals and rounded after every operation, objects keep their
    key order, \<open>JSON.parse\<close>, \<open>JSON.stringify\<close>, UTF-8, base64url, percent encoding, ISO dates.
  \<^item> \<open>Zod\<close>: the schemas as data and the laws of the schema library; \<open>Jwt\<close>: \<open>shared/lib/jwt.ts\<close>; \<open>Session\<close>:
    \<open>shared/api/session.ts\<close>; \<open>Http_Client\<close>: \<open>shared/api/http.ts\<close>; \<open>Entities\<close>: \<open>entities/\<close>, \<open>shared/config\<close>,
    \<open>shared/lib/format.ts\<close>.
  \<^item> \<open>Mock_Db\<close> (\<open>mocks/db.ts\<close>), \<open>Mock_Http\<close> (\<open>mocks/http.ts\<close>), \<open>Mock_Hooks\<close> (\<open>operator-hooks.ts\<close>), \<open>Mock_Tenants\<close>
    (\<open>operator-tenants.ts\<close>), \<open>Mock_Tenant_Api\<close> (\<open>handlers.ts\<close>): the mock control plane, one definition per handler,
    a function of the environment, the request and the world to an answer and a world. \<open>Mock_Server\<close>: the dispatch and the
    abstract control plane \<open>control_step\<close> that the handlers implement. \<open>Mock_Invariant\<close>: the invariant \<open>db_ok\<close>, what never
    goes back (\<open>evolves\<close>), and requests in flight, carried out in any order (\<open>served\<close>).
  \<^item> \<open>Console_Session\<close> (\<open>features/console-session\<close>): adopting a token, the gates, the check of the expiry; \<open>Session_Expiry\<close>:
    that check over time, with timers that hold 32 bits and fire late. \<open>Open_Console\<close>
    (\<open>features/open-tenant-console\<close>, \<open>mocks/pending.ts\<close>, \<open>browser.ts\<close>): the routing of the mock handlers and the whole
    of opening a console.
  \<^item> \<open>Ui\<close> (\<open>shared/ui\<close>): what a component renders is a tree whose attributes name the events its controls raise.
    \<open>Mutations\<close>: the mutations of all features with the caches they invalidate, and the contract of a dialog with a request.
    \<open>Form_State\<close>: the form library.
  \<^item> \<open>Forms\<close> (the form models of the editors), \<open>Key_Dialogs\<close>, \<open>Module_Dialogs\<close>, \<open>Hook_Editor\<close>, \<open>Tenant_Editor\<close>,
    \<open>Config_Editor\<close>: the dialogs and editors under \<open>features/\<close>, each a state record, events, a step function that also
    returns the requests it sends, and a view; \<open>Module_Versions\<close>, \<open>Pages\<close>: \<open>widgets/\<close> and \<open>views/\<close>; \<open>App\<close>: \<open>app/\<close>.
  \<^item> \<open>Primitives\<close>: the styled elements of \<open>shared/ui\<close> with their class names and spread props, and \<open>render\<close>, which puts them in the
    place of the tags that the views name. \<open>Rendered\<close>: the dialogs, editors and the versions table keep their events and texts in it.
  \<^item> \<open>Contract_Types\<close> (\<open>shared/api/contract.gen.ts\<close>, \<open>contract.ts\<close>, the \<open>contract.check.ts\<close> files): the types of the API contract as
    data with the values they have, the compiler's assignability, the input types of the schemas, and the checks between them.
    \<open>Contract_Api\<close>: the operations and paths of the contract with the requests of the consoles against them;
    \<open>Contract_Mocks\<close>: the answers of the mock handlers against them.
  \<^item> \<open>System\<close>: lemmas that join components; \<open>Issued_Tokens\<close>: where the token of a new key can be seen; \<open>Upload_Verdict\<close>: a version from its upload to its verdict, over all orders of
    requests; this theory: the properties.

  \<^bold>\<open>Interfaces.\<close> \<open>token_store\<close> is the contract of the token store, interpreted on the code's store. \<open>mutation_dialog\<close> is
  the contract of everything that sends a request while it is shown (one request at a time, no closing while it runs),
  interpreted on all seven dialogs and editors. \<open>evolution\<close> gives the laws of growing lists, interpreted on hooks,
  tenants, keys and versions (twice, the second time on what settling does to them); \<open>comparator\<close> those of sorting. The locales \<open>zod\<close>, \<open>field_parser\<close>, \<open>form_library\<close>
  and \<open>path_matcher\<close> state documented behaviour of third-party code (zod, react-hook-form, the router of the mocking library)
  and carry the lemmas that rest on it; each is interpreted on a concrete instance, which the witnesses use.

  \<^bold>\<open>What the properties show.\<close> Opening a console signs in exactly that tenant, and no failure leaves a tab or a token
  behind. The mock control plane keeps its invariant under any order of requests, implements its abstract machine, takes
  nothing back and refuses revoked keys for ever. Every request reaches its endpoint; saving what was not changed changes
  nothing; what a valid form says is what is stored, for hooks, tenants and configurations. Only checked WebAssembly
  files are sent, a refused upload stored nothing, an accepted one gets its verdict, polling ends with it, and what is offered to activate is
  accepted. No dialog runs two requests or closes on one, and tokens are shown once; the styled elements hide and add nothing. The consoles keep to the API contract with every request
  but that for the log of invocations, which is not in it; the mocks do with every answer, apart from the refusals with statuses it does not declare or without a detail that
  \<open>Contract_Mocks\<close> lists; and what the contract promises fits the schemas. Answers fit their
  schemas, the consoles do not touch each other's tokens, gates store only checked keys, sessions end at the expiry, and links open
  their pages.

  \<^bold>\<open>Bounds and fuel.\<close> The JSON parser takes twice the length of its text and two as fuel, which is as good as any more, and round trips are proved for every value
  whose keys are in canonical order and whose numbers are safe integers (\<open>json_ok\<close>). \<open>timer_chain\<close> runs down a list that says how late
  each timer fires, and \<open>expiry_timer_ends\<close> shows that \<open>timers_needed\<close> of them are enough, for expiries at whole milliseconds in the range of
  safe integers; an expiry at a fraction of a millisecond or beyond that range is not claimed to end. The numbering of the invocation log
  is claimed up to \<open>2 ^ 53\<close> entries. That an unchanged configuration is not sent again is claimed for keys without outer white space (\<open>config_ok\<close>), as
  the editor saves them; the control plane takes others from other clients, and \<open>untrimmed_key_sent_again\<close> shows what happens to one.

  \<^bold>\<open>Parameters.\<close> The network and its world, the schema library, the form library, the path matcher, \<open>localeCompare\<close>,
  SHA-256, random bytes, the clock, the host's date format, the joining of class names, and the texts of errors that the platform throws.

  \<^bold>\<open>Not modelled.\<close> The views name the styled primitives by their tags, without the class names they pass and without icons; what the class
  names join to is the business of third-party code. Of the types of the contract, those that only say that an operation has no query, headers
  or cookies are left out, and so are the formats and limits that the document keeps in comments.
  The script of the service worker is third-party code, \<open>vitest.setup.ts\<close>, \<open>test-utils.tsx\<close> and \<open>mocks/node.ts\<close> serve tests. The index files
  re-export names. Of the request cache of TanStack Query there are the keys, the options, the invalidations and the order of a
  mutation's callbacks, not its scheduling. Negative zero and the headers of answers are left out, as no code here depends on them; an aborted
  request is a failure of the network. A handler reads the clock once where the code asks for the time twice in a row (\<open>post_console_session\<close>,
  \<open>addUploadedModule\<close>). The laws of \<open>path_matcher\<close> compare the literals of a path exactly and leave out the star before it: the library is more lenient
  about case and a final slash, which no path of the consoles has. The records of the schemas treat the key \<open>__proto__\<close> like any other. The services in Python, Go and Rust are other programs behind the HTTP contract.
\<close>

text \<open>Concrete data of the witnesses.\<close>

definition sample_env :: env where
  "sample_env = \<lparr>env_now = 1790000000000, locale_compare = default_compare, sha256_digest = (\<lambda>b. b), id_bytes = replicate 16 7,
     secret_bytes = replicate 32 9, error_text = (\<lambda>s. s), env_zod = zeval\<rparr>"

definition sample_host :: host where
  "sample_host = \<lparr>zod_parse = zeval, zod_prettify = (\<lambda>_ _. []), header_message = (\<lambda>s. s), syntax_message = (\<lambda>s. s)\<rparr>"

text \<open>A browser whose operator console holds the key that the mock seeds carry.\<close>

definition operator_browser :: browser where
  "operator_browser = set_token Operator (key_token (API_KEYS ! 0)) \<lparr>storage = Some Map.empty, listeners = []\<rparr>"

definition get_with :: "jstr \<Rightarrow> request" where
  "get_with auth = \<lparr>req_method = GET, req_url = api_url (lit ''/hooks'') [], req_auth = Some auth,
     req_content_type = None, req_body = WireNone\<rparr>"

definition upload_request :: "jstr \<Rightarrow> request" where
  "upload_request name = (get_with [])\<lparr>req_method := POST, req_body := WireForm \<lparr>file_name = name, file_bytes = WASM_MAGIC\<rparr>\<rparr>"

section \<open>Opening a tenant console\<close>

text \<open>C1: Opening a tenant's console signs that tenant in and nobody else. With an operator key the control
  plane does not refuse, the button's mutation of a registered tenant succeeds, sends the new tab to
  the console's address, and when the tab has loaded it holds the tenant token just issued and no operator
  key, its address bar no longer shows the token, and the session is that of the tenant asked for.\<close>

theorem open_console_signs_in:
  assumes "zod (zod_parse h)" "path_matcher matches" "get_token b Operator = Some op" "list_all token_unit op"
    "encode_uri_component ext = Some u" "ext \<notin> {[], lit ''.'', lit ''..''}" "ext \<in> external_id ` set (db_tenants (wdb w))"
    "\<not> list_ex (key_refused op) (db_keys (wdb w))"
    "zod_parse h ZDatetime (Some (JStr (iso_of_ms (env_now e + SESSION_TTL_MS)))) \<noteq> None"
    "safe_int (env_now e div 1000)" "safe_int ((env_now e + SESSION_TTL_MS) div 1000)"
  shows "\<exists>s tab l. open_tenant_console h (mock_network matches handlers on_error e net) ext (Some (open_tab b)) b w = (Inr s, Some tab, b, w)
    \<and> \<not> tab_opener tab \<and> get_token (tab_browser (load_tab tab)) Operator = None
    \<and> get_token (tab_browser (load_tab tab)) Tenant = Some (consoleToken (env_now e) ext (env_now e + SESSION_TTL_MS))
    \<and> tab_location (load_tab tab) = Some l \<and> loc_hash l = []
    \<and> map_option session_tenant (useTenantSession (zod_parse h) (use_session_token False (tab_browser (load_tab tab)) Tenant)) = Some (Some ext)"
proof -
  let ?t = "consoleToken (env_now e) ext (env_now e + SESSION_TTL_MS)"
  have op: "\<And>c. c \<in> set op \<Longrightarrow> token_unit c" "op \<noteq> []"
    using assms(4) tokens.get_nonempty [of b Operator] assms(3) by (auto simp: list_all_iff)
  obtain req where req: "build_request h (lit ''/tenants/'' @ u @ lit ''/console-sessions'') (post_options consoleSessionSchema) b = Inr req"
      "req_method req = POST" "req_auth req = Some (lit ''Bearer '' @ op)"
      "url_path (req_url req) = [lit ''api'', lit ''v1'', lit ''tenants'', u, lit ''console-sessions'']"
    by (rule session_request [OF assms(3) op(1) assms(5,6)])
  have ext: "ext \<noteq> []" using assms(6) by simp
  have ans: "mock_network matches handlers on_error e net req w =
      (Inr (http_json 201 (session_json ?t (iso_of_ms (env_now e + SESSION_TTL_MS)))), w)"
    by (rule session_answer [OF assms(2) req(2-4) assms(5) ext op assms(8,7)])
  have units: "\<And>c. c \<in> set ?t \<Longrightarrow> token_unit c" by (rule consoleToken_unit)
  obtain v where v: "encode_uri_component ?t = Some v"
    "open_tenant_console h (mock_network matches handlers on_error e net) ext (Some (open_tab b)) b w =
       (Inr (Some (session_json ?t (iso_of_ms (env_now e + SESSION_TTL_MS)))),
        Some ((detach (open_tab b))\<lparr>tab_location := Some \<lparr>loc_path = lit ''/tenant'', loc_search = [], loc_hash = lit ''#token='' @ v\<rparr>\<rparr>), b, w)"
    by (rule open_console_request [where net = "mock_network matches handlers on_error e net" and t = ?t, OF assms(1,5) req(1) ans assms(9) units])
  have t: "?t \<noteq> []" by (simp add: consoleToken_def)
  have st: "storage (tab_browser (open_tab b)) \<noteq> None" using assms(3) by (auto simp: open_tab_def get_token_def split: option.splits)
  note tab = load_console_tab [OF v(1) units t st refl]
  have "46 \<in> set ?t" "46 \<notin> set MOCK_TENANT_TOKEN" by (simp_all add: consoleToken_def MOCK_TENANT_TOKEN_def lit_def)
  then have "?t \<noteq> MOCK_TENANT_TOKEN" by metis
  then have "map_option session_tenant (useTenantSession (zod_parse h) (use_session_token False (tab_browser (load_tab
      ((detach (open_tab b))\<lparr>tab_location := Some \<lparr>loc_path = lit ''/tenant'', loc_search = [], loc_hash = lit ''#token='' @ v\<rparr>\<rparr>))) Tenant))
      = Some (Some ext)"
    using zod.read_consoleToken [OF assms(1,10,11)] t by (simp add: use_session_token_def tab(2) useTenantSession_def Let_def)
  moreover have "\<not> tab_opener ((detach (open_tab b))\<lparr>tab_location := y\<rparr>)" for y by (simp add: detach_def)
  moreover have "loc_hash (\<lparr>loc_path = lit ''/tenant'', loc_search = [], loc_hash = lit ''#token='' @ v\<rparr>\<lparr>loc_hash := []\<rparr>) = []" by simp
  ultimately show ?thesis unfolding v(2) using tab by blast
qed

theorem open_console_signs_in_witness:
  "\<exists>s tab l. open_tenant_console sample_host (mock_network match_parts handlers (\<lambda>_. problem 500 [] None) sample_env (\<lambda>req w. (Inl NotError, w)))
       (lit ''merchant-a'') (Some (open_tab operator_browser)) operator_browser (fresh_world 0) = (Inr s, Some tab, operator_browser, fresh_world 0)
    \<and> \<not> tab_opener tab \<and> get_token (tab_browser (load_tab tab)) Operator = None
    \<and> get_token (tab_browser (load_tab tab)) Tenant = Some (consoleToken (env_now sample_env) (lit ''merchant-a'') (env_now sample_env + SESSION_TTL_MS))
    \<and> tab_location (load_tab tab) = Some l \<and> loc_hash l = []
    \<and> map_option session_tenant (useTenantSession (zod_parse sample_host) (use_session_token False (tab_browser (load_tab tab)) Tenant))
       = Some (Some (lit ''merchant-a''))"
proof (rule open_console_signs_in)
  have db: "db_keys (wdb (fresh_world 0)) = API_KEYS" "db_tenants (wdb (fresh_world 0)) = TENANTS"
    by (simp_all add: fresh_world_def initialDb_def case_prod_unfold Let_def)
  show "zod (zod_parse sample_host)" using zm.zod_axioms by (simp add: sample_host_def)
  show "path_matcher match_parts" by (rule plain_matcher.path_matcher_axioms)
  show "get_token operator_browser Operator = Some (key_token (API_KEYS ! 0))"
    by (simp add: operator_browser_def get_token_def set_token_def API_KEYS_def lit_def)
  show "list_all token_unit (key_token (API_KEYS ! 0))" by (simp add: API_KEYS_def lit_def token_unit_def)
  show "encode_uri_component (lit ''merchant-a'') = Some (lit ''merchant-a'')"
    by (rule uri_unchanged) (simp add: lit_def uri_unreserved_def)
  show "lit ''merchant-a'' \<notin> {[], lit ''.'', lit ''..''}" by (simp add: lit_def)
  show "lit ''merchant-a'' \<in> external_id ` set (db_tenants (wdb (fresh_world 0)))" unfolding db by (simp add: TENANTS_def)
  show "\<not> list_ex (key_refused (key_token (API_KEYS ! 0))) (db_keys (wdb (fresh_world 0)))"
    unfolding db by (simp add: API_KEYS_def key_refused_def lit_def)
  show "zod_parse sample_host ZDatetime (Some (JStr (iso_of_ms (env_now sample_env + SESSION_TTL_MS)))) \<noteq> None"
    by code_simp
  show "safe_int (env_now sample_env div 1000)" "safe_int ((env_now sample_env + SESSION_TTL_MS) div 1000)"
    by (simp_all add: sample_env_def SESSION_TTL_MS_def safe_int_def)
qed

text \<open>C2: When opening a console fails, for whatever reason (the address cannot be built, the network fails, the
  key is refused, the answer breaks the contract), the new tab is closed, has been sent nowhere, can no longer
  reach its opener and holds no token of either console.\<close>

theorem open_console_failure_closes:
  assumes "open_tenant_console h net ext (Some t) b w = (Inl x, tab', b', w')"
  shows "\<exists>t'. tab' = Some t' \<and> tab_closed t' \<and> tab_location t' = tab_location t \<and> \<not> tab_opener t' \<and> get_token (tab_browser t') k = None"
proof -
  have "tab' = Some (close_tab (detach t))" using open_console_failed [OF assms] by auto
  then show ?thesis by (simp add: close_tab_def detach_def get_token_def split: option.split)
qed

theorem open_console_failure_closes_witness:
  "\<exists>t'. Some (close_tab (detach (open_tab operator_browser))) = Some t' \<and> tab_closed t' \<and> tab_location t' = tab_location (open_tab operator_browser)
     \<and> \<not> tab_opener t' \<and> get_token (tab_browser t') Operator = None"
proof (rule open_console_failure_closes)
  show "open_tenant_console sample_host (\<lambda>req w. (Inl NotError, w)) [0xD800] (Some (open_tab operator_browser)) operator_browser () =
      (Inl uri_error, Some (close_tab (detach (open_tab operator_browser))), operator_browser, ())"
    by (simp add: open_tenant_console_def encode_uri_component_def high_surrogate_def low_surrogate_def Let_def)
qed

text \<open>C3: A console token says what it was issued for and when it ends: reading the claims of the token that
  the control plane builds gives back the tenant and the expiry in whole seconds, and the console takes the token
  for expired exactly from that second on.\<close>

theorem console_token_roundtrip:
  assumes "zod zp" "safe_int (now div 1000)" "safe_int (t div 1000)" "safe_int (t div 1000 * 1000)"
  shows "read_jwt_claims zp (consoleToken now ext t) = Some \<lparr>claim_sub = Some ext, claim_exp = Some (num (t div 1000))\<rparr>
    \<and> (is_jwt_expired zp (consoleToken now ext t) (num n) \<longleftrightarrow> t div 1000 * 1000 \<le> n)"
proof -
  have claims: "read_jwt_claims zp (consoleToken now ext t) = Some \<lparr>claim_sub = Some ext, claim_exp = Some (num (t div 1000))\<rparr>"
    by (rule zod.read_consoleToken [OF assms(1-3)])
  have "fl (rat_of_int (t div 1000) * 1000) = num (t div 1000 * 1000)" using fl_int [OF assms(4)] by simp
  then show ?thesis
    using claims by (simp add: is_jwt_expired_def del: of_int_mult)
qed

theorem console_token_roundtrip_witness:
  "read_jwt_claims zeval (consoleToken 0 (lit ''merchant-a'') 3600999) = Some \<lparr>claim_sub = Some (lit ''merchant-a''), claim_exp = Some (num (3600999 div 1000))\<rparr>
    \<and> is_jwt_expired zeval (consoleToken 0 (lit ''merchant-a'') 3600999) (num 3600000)"
  using console_token_roundtrip [OF zm.zod_axioms, of 0 3600999 "lit ''merchant-a''" 3600000] by (simp add: safe_int_def)

text \<open>C4: Every query and every mutation of the consoles reaches the endpoint made for it, with its name decoded to
  what the console meant: whatever request is built for it, the mock's routing picks that handler.\<close>

theorem requests_reach_endpoints:
  assumes "path_matcher matches" "s \<notin> {[], lit ''.'', lit ''..''}"
  shows "list_all (\<lambda>(q, opts, p). served_by matches q opts p) (fixed_requests body name f @ named_requests s body c i file0)"
  using all_routes [OF assms(1)] assms(2) by simp

theorem requests_reach_endpoints_witness:
  "list_all (\<lambda>(q, opts, p). served_by match_parts q opts p)
     (fixed_requests (JObj []) (lit ''ci'') \<lparr>filter_outcome = None, filter_hook = None\<rparr>
      @ named_requests (lit ''checkout.discount'') (JObj []) [] (lit ''m1'') \<lparr>file_name = [], file_bytes = []\<rparr>)"
  by (rule requests_reach_endpoints [OF plain_matcher.path_matcher_axioms]) (simp add: lit_def)

text \<open>C5: The exception is real: the tenant form lets \<open>..\<close> through as an identifier, yet the address parser takes the
  encoded identifier for a dot segment, so the request to open that tenant's console goes to
  \<open>/api/v1/console-sessions\<close>, which no handler serves.\<close>

theorem dot_tenant_unreachable:
  assumes "field_parser zf" "path_matcher matches" "encode_uri_component (lit ''..'') = Some u"
    "build_request h (lit ''/tenants/'' @ u @ lit ''/console-sessions'') (post_options consoleSessionSchema) b = Inr req"
  shows "zf external_id_field (FStr (lit ''..'')) = Inr (FStr (lit ''..''))
    \<and> url_path (req_url req) = map lit [''api'', ''v1'', ''console-sessions''] \<and> match_route matches handlers req = None"
proof (intro conjI)
  show "zf external_id_field (FStr (lit ''..'')) = Inr (FStr (lit ''..''))"
    using field_parser.external_id_ok [OF assms(1), of "lit ''..''" "FStr (lit ''..'')"]
    by (simp add: EXTERNAL_ID_MAX_def lit_def js_trim_def is_space_def ws_units_def)
  have "api_base_url @ lit ''/tenants/'' @ u @ lit ''/console-sessions'' = lit ''/api/v1/tenants/../console-sessions''"
    using assms(3) unfolding dots_encoded by (simp add: api_base_url_def lit_def)
  then show path: "url_path (req_url req) = map lit [''api'', ''v1'', ''console-sessions'']"
    using build_request_frame(2) [OF assms(4)] dots_resolved by (simp add: api_url_def)
  show "match_route matches handlers req = None"
    by (rule dots_unmatched [OF assms(2) _ path]) (simp add: build_request_frame(1) [OF assms(4)] post_options_def)
qed

theorem dot_tenant_unreachable_witness:
  "field_eval external_id_field (FStr (lit ''..'')) = Inr (FStr (lit ''..''))"
proof -
  obtain req where "build_request sample_host (lit ''/tenants/'' @ lit ''..'' @ lit ''/console-sessions'') (post_options consoleSessionSchema)
      \<lparr>storage = None, listeners = []\<rparr> = Inr req"
    by (simp add: build_request_def api_token_def post_options_def get_options_def get_token_def)
  from dot_tenant_unreachable [OF field_zod.field_parser_axioms plain_matcher.path_matcher_axioms dots_encoded this] show ?thesis by blast
qed

section \<open>The mock control plane\<close>

text \<open>C6: From its seeds, whatever requests arrive and in whatever order the admitted ones are carried
  out, the mock control plane keeps its invariant: hook, tenant and key names are unique and within their
  limits, definitions are within their ranges, module versions are unique per hook and carry a verdict
  exactly when they are no longer validating, an active version exists, belongs to the hook and has passed
  its checks, and invocations are numbered without gaps.\<close>

theorem mock_invariant:
  assumes "served \<lparr>srv_world = fresh_world start, in_flight = []\<rparr> s"
  shows "db_ok (wdb (srv_world s))"
proof (rule served_ok [OF assms])
  show "db_ok (wdb (srv_world \<lparr>srv_world = fresh_world start, in_flight = []\<rparr>))" by (simp add: seeded_ok)
qed

lemma mock_invariant_witness:
  "db_ok (wdb (srv_world \<lparr>srv_world = fresh_world 1790000000000, in_flight = []\<rparr>))"
  by (rule mock_invariant [OF served.none])

text \<open>C7: A revoked API key is refused from then on, whatever happens to the control plane afterwards:
  in every later state a request that carries its token fails the bearer check and is answered with 401
  without any effect.\<close>

theorem mock_revocation_final:
  assumes "served s s'" "k \<in> set (db_keys (wdb (srv_world s)))" "truthy (revoked_at k)"
    "req_auth req = Some (lit ''Bearer '' @ key_token k)" "key_token k \<noteq> []" "list_all (\<lambda>c. \<not> is_space c) (key_token k)"
  shows "authed (resolve p) e req (srv_world s') = (Inr unauthorized, srv_world s')"
proof (rule refused_no_trace, rule refused_persists [OF served_evolves [OF assms(1)] assms(2,3)])
  show "bearer_token (nullish (req_auth req) []) = Some (key_token k)"
    using assms(4-6) by (simp add: bearer_token_header list_all_iff)
qed

lemma mock_revocation_final_witness:
  "authed (resolve GetHooks) sample_env (get_with (lit ''Bearer whk_mockRevokedKey00000000000000000'')) (fresh_world 0)
     = (Inr unauthorized, fresh_world 0)"
proof -
  let ?k = "API_KEYS ! 1"
  have keys: "db_keys (wdb (fresh_world 0)) = API_KEYS"
    by (simp add: fresh_world_def initialDb_def case_prod_unfold Let_def)
  have hdr: "lit ''Bearer whk_mockRevokedKey00000000000000000'' = lit ''Bearer '' @ key_token ?k" by code_simp
  have k: "truthy (revoked_at ?k)" "key_token ?k \<noteq> []" "list_all (\<lambda>c. \<not> is_space c) (key_token ?k)" by code_simp+
  have mem: "?k \<in> set (db_keys (wdb (srv_world \<lparr>srv_world = fresh_world 0, in_flight = []\<rparr>)))"
    by (simp only: server.select_convs keys) (simp add: API_KEYS_def)
  from mock_revocation_final [OF served.none mem k(1), of "get_with (lit ''Bearer whk_mockRevokedKey00000000000000000'')"
      GetHooks sample_env] k hdr
  show ?thesis by (simp only: server.select_convs) (simp add: get_with_def)
qed

text \<open>C8: Every handler of the mock control plane implements the abstract control plane: whatever the request, its effect on the database is
  one step of a machine that adds, changes and revokes under its rules, and never anything else.\<close>

theorem handlers_refine:
  "control_step (env_now e) (wdb w) (wdb (snd (resolve p e req w)))"
  by (rule resolve_step)

text \<open>C9: Nothing the control plane has granted is taken back: between a state and any later one, with requests carried out in any
  order, the functions and effects a hook may use only grow, a key keeps its token and stays revoked, a
  verdict on a version stays, and no hook, tenant, key, version or binding disappears.\<close>

theorem history_is_kept:
  assumes "served s s'"
  shows "(\<forall>h \<in> set (db_hooks (wdb (srv_world s))). \<exists>h' \<in> set (db_hooks (wdb (srv_world s'))). hook_name h' = hook_name h
        \<and> set (allowed_host_functions (hook_spec_of h)) \<subseteq> set (allowed_host_functions (hook_spec_of h'))
        \<and> set (allowed_effect_types (hook_spec_of h)) \<subseteq> set (allowed_effect_types (hook_spec_of h')))
    \<and> (\<forall>t \<in> set (db_tenants (wdb (srv_world s))). external_id t \<in> external_id ` set (db_tenants (wdb (srv_world s'))))
    \<and> (\<forall>k \<in> set (db_keys (wdb (srv_world s))). \<exists>k' \<in> set (db_keys (wdb (srv_world s'))). key_id k' = key_id k \<and> key_token k' = key_token k
        \<and> (revoked_at k \<noteq> None \<longrightarrow> revoked_at k' = revoked_at k))
    \<and> (\<forall>m \<in> set (db_modules (wdb (srv_world s))). \<exists>m' \<in> set (db_modules (wdb (srv_world s'))). mod_id m' = mod_id m
        \<and> content_hash m' = content_hash m \<and> (mod_status m \<noteq> Validating \<longrightarrow> m' = m))
    \<and> dom (db_bindings (wdb (srv_world s))) \<subseteq> dom (db_bindings (wdb (srv_world s')))"
proof -
  have e: "evolves (wdb (srv_world s)) (wdb (srv_world s'))" by (rule served_evolves [OF assms])
  then have g: "grows hook_grows (db_hooks (wdb (srv_world s))) (db_hooks (wdb (srv_world s')))"
    "grows tenant_kept (db_tenants (wdb (srv_world s))) (db_tenants (wdb (srv_world s')))"
    "grows key_persists (db_keys (wdb (srv_world s))) (db_keys (wdb (srv_world s')))"
    "grows verdict_persists (db_modules (wdb (srv_world s))) (db_modules (wdb (srv_world s')))" by (simp_all add: evolves_def)
  show ?thesis
  proof (intro conjI ballI, goal_cases)
    case (1 h)
    then show ?case using hook_evolution.grows_mem [OF g(1) 1] unfolding hook_grows_def by blast
  next
    case (2 t)
    then show ?case using tenant_evolution.grows_mem [OF g(2) 2] unfolding tenant_kept_def by (metis imageI)
  next
    case (3 k)
    then show ?case using key_evolution.grows_mem [OF g(3) 3] unfolding key_persists_def by blast
  next
    case (4 m)
    then show ?case using module_evolution.grows_mem [OF g(4) 4] unfolding verdict_persists_def by blast
  next
    case 5
    show ?case using e by (simp add: evolves_def)
  qed
qed

theorem history_is_kept_witness:
  "dom (db_bindings (wdb (fresh_world 0))) \<subseteq> dom (db_bindings (wdb (snd (resolve GetKeys sample_env (get_with []) (fresh_world 0)))))"
proof -
  have "served \<lparr>srv_world = fresh_world 0, in_flight = [(GetKeys, get_with [])]\<rparr>
      \<lparr>srv_world = snd (resolve GetKeys sample_env (get_with []) (fresh_world 0)), in_flight = []\<rparr>"
    using served.more [OF served.none serve.finish [of "\<lparr>srv_world = fresh_world 0, in_flight = [(GetKeys, get_with [])]\<rparr>" "[]" GetKeys "get_with []" "[]" sample_env]]
    by simp
  from history_is_kept [OF this] show ?thesis by simp
qed

text \<open>C10: The invocation log is listed as it was asked for: the answer to the console's query holds the latest hundred of the
  invocations with the outcome and the hook it names, the newest first.\<close>

theorem log_listed_newest_first:
  assumes "zod (env_zod e)" "req_url req = api_url p (opt_query (query_opts (invocationQueries_list f)))" "db_ok (wdb w)"
    "length (db_invocations (wdb (tickInvocations (env_now e) w))) < 2 ^ 53"
  shows "fst (get_invocations e req w) = Inr (http_json 200 (items_json (map invocation_json
        (take 100 (rev (filter (wanted f) (db_invocations (wdb (snd (get_invocations e req w))))))))))
    \<and> sorted_wrt (\<lambda>i j. js_lt (inv_seq j) (inv_seq i)) (take 100 (rev (filter (wanted f) (db_invocations (wdb (snd (get_invocations e req w)))))))"
proof -
  have "db_ok (wdb (tickInvocations (env_now e) w))"
    using db_ok_step [OF control_step.log [of "env_now e" "wdb w" "rng w"] assms(3)] by simp
  then show ?thesis
    using log_descends [OF _ assms(4)] by (simp add: get_invocations_def listed_query [OF assms(1,2)] Let_def db_ok_def)
qed

theorem log_listed_newest_first_witness:
  "sorted_wrt (\<lambda>i j. js_lt (inv_seq j) (inv_seq i)) (take 100 (rev (filter (wanted \<lparr>filter_outcome = Some OutTimeout, filter_hook = None\<rparr>)
      (db_invocations (wdb (snd (get_invocations sample_env ((get_with [])\<lparr>req_url := api_url []
        (opt_query (query_opts (invocationQueries_list \<lparr>filter_outcome = Some OutTimeout, filter_hook = None\<rparr>)))\<rparr>) (fresh_world 0))))))))"
proof -
  let ?req = "(get_with [])\<lparr>req_url := api_url [] (opt_query (query_opts (invocationQueries_list \<lparr>filter_outcome = Some OutTimeout, filter_hook = None\<rparr>)))\<rparr>"
  have "length (db_invocations (wdb (fresh_world 0))) = 60" by (rule seeded_log)
  then have "length (db_invocations (wdb (tickInvocations (env_now sample_env) (fresh_world 0)))) < 2 ^ 53"
    using tick_length [of "env_now sample_env" "fresh_world 0"] by (intro order_le_less_trans [OF tick_length]) (simp only:, simp)
  moreover have "zod (env_zod sample_env)" by (simp add: sample_env_def zm.zod_axioms)
  moreover have "req_url ((get_with [])\<lparr>req_url := u\<rparr>) = u" for u by simp
  ultimately show ?thesis by (intro conjunct2 [OF log_listed_newest_first] seeded_ok)
qed

section \<open>Hook definitions\<close>

text \<open>C11: Saving a hook's form without having changed it changes nothing. The body built from the form of a stored
  hook, sent over the wire, makes the control plane answer with that very hook and leaves its state as it was, and
  the hook read back from the answer is the one the form was filled from.\<close>

theorem hook_save_unchanged:
  assumes "h \<in> set (db_hooks (wdb w))" "hooks_ok (wdb w)" "spec_json_ok (hook_spec_of h)" "hookError (hook_spec_of h) = Inr None"
    "build_request host q (call_opts (useReplaceHook (hook_name h) (replace_body (formFromHook h)))) b = Inr req"
  shows "put_hook (hook_name h) e req w = (Inr (http_json 200 (hook_json h)), w)
    \<and> hook_of_json (Some (hook_json h)) = h"
proof (intro conjI)
  have body: "replace_body (formFromHook h) = JObj (spec_fields (hook_spec_of h))"
    by (simp add: replace_body_def specFromForm_formFromHook [OF assms(3)])
  have ok: "spec_ok (hook_spec_of h)" using assms(1,2) by (simp add: hooks_ok_def list_all_iff)
  have "json_ok (JObj (spec_fields (hook_spec_of h)))"
    by (rule spec_body_ok [OF assms(3)]) (use ok in \<open>simp_all add: spec_ok_def\<close>)
  then have "json_body req = Some (JObj (spec_fields (hook_spec_of h)))"
    using body_on_wire(1) assms(5) by (simp add: useReplaceHook_def body)
  then show "put_hook (hook_name h) e req w = (Inr (http_json 200 (hook_json h)), w)" by (rule put_unchanged [OF assms(1,2,4)])
  show "hook_of_json (Some (hook_json h)) = h" by (rule hook_of_hook_json)
qed

theorem hook_save_unchanged_witness:
  "\<exists>req. put_hook (lit ''order.validate'') sample_env req (fresh_world 0) = (Inr (http_json 200 (hook_json (HOOKS ! 1))), fresh_world 0)"
proof -
  let ?b = "\<lparr>storage = None, listeners = []\<rparr>" and ?c = "useReplaceHook (hook_name (HOOKS ! 1)) (replace_body (formFromHook (HOOKS ! 1)))"
  obtain req where req: "build_request sample_host (lit ''/hooks/order.validate'') (call_opts ?c) ?b = Inr req"
    by (simp add: build_request_def api_token_def useReplaceHook_def json_options_def get_options_def get_token_def)
  note db = seeded_db [of 0]
  have name: "hook_name (HOOKS ! 1) = lit ''order.validate''" by (simp add: HOOKS_def)
  have "put_hook (hook_name (HOOKS ! 1)) sample_env req (fresh_world 0) = (Inr (http_json 200 (hook_json (HOOKS ! 1))), fresh_world 0)
      \<and> hook_of_json (Some (hook_json (HOOKS ! 1))) = HOOKS ! 1"
  proof (rule hook_save_unchanged [OF _ _ _ _ req])
    show "HOOKS ! 1 \<in> set (db_hooks (wdb (fresh_world 0)))" unfolding db initial_fields(1) by (rule nth_mem) (simp add: HOOKS_def)
    show "hooks_ok (wdb (fresh_world 0))" unfolding db by (rule initial_hooks_ok)
    show "spec_json_ok (hook_spec_of (HOOKS ! 1))"
      by (simp add: HOOKS_def spec_json_ok_def json_strs_def json_int_def js_type_def canon_keys_def key_before_def array_index_lit is_digit_def safe_int_def)
    show "hookError (hook_spec_of (HOOKS ! 1)) = Inr None" by code_simp
  qed
  then show ?thesis unfolding name by blast
qed

text \<open>A form that creates a copy of the second seeded hook under a name, and the request that carries it.\<close>

definition sample_hook :: "jstr \<Rightarrow> operator_hook" where
  "sample_hook n = (HOOKS ! 1)\<lparr>hook_name := n\<rparr>"

definition create_request :: "jstr \<Rightarrow> request" where
  "create_request n = (get_with [])\<lparr>req_body := WireText (json_stringify (create_body (formFromHook (sample_hook n))))\<rparr>"

lemma sample_form:
  assumes "hook_name_ok n" "n \<noteq> []"
  shows "hookFormSchema field_eval (formFromHook (sample_hook n)) = []"
    "json_body (create_request n) = Some (create_body (formFromHook (sample_hook n)))"
    "specFromForm (formFromHook (sample_hook n)) = hook_spec_of (HOOKS ! 1)" "hf_name (formFromHook (sample_hook n)) = n"
    "hookError (stored_spec (specFromForm (formFromHook (sample_hook n)))) = Inr None"
proof -
  have json: "spec_json_ok (hook_spec_of (sample_hook n))"
    by (simp add: sample_hook_def HOOKS_def spec_json_ok_def json_strs_def json_int_def js_type_def canon_keys_def key_before_def array_index_lit is_digit_def safe_int_def)
  have ok: "spec_ok (hook_spec_of (sample_hook n))"
    using initial_hooks_ok [of 0 42] by (simp add: sample_hook_def hooks_ok_def initial_fields(1) HOOKS_def)
  show name: "hf_name (formFromHook (sample_hook n)) = n" by (simp add: sample_hook_def formFromHook_def Let_def)
  show spec: "specFromForm (formFromHook (sample_hook n)) = hook_spec_of (HOOKS ! 1)"
    using specFromForm_formFromHook [OF json] by (simp add: sample_hook_def)
  show "hookFormSchema field_eval (formFromHook (sample_hook n)) = []"
    by (rule stored_form_valid [OF field_zod.field_parser_axioms json ok]) (simp_all add: sample_hook_def assms)
  show "json_body (create_request n) = Some (create_body (formFromHook (sample_hook n)))"
    using json_parse_stringify create_body_ok [OF json ok] spec by (simp add: json_body_def create_body_def create_request_def sample_hook_def)
  have "hookError (hook_spec_of (HOOKS ! 1)) = Inr None" by code_simp
  moreover have "stored_spec (hook_spec_of (HOOKS ! 1)) = hook_spec_of (HOOKS ! 1)" using stored_again [OF ok] by (simp add: sample_hook_def)
  ultimately show "hookError (stored_spec (specFromForm (formFromHook (sample_hook n)))) = Inr None" unfolding spec by simp
qed

text \<open>A definition that the control plane's check of definitions refuses: one answer, with the finding as its detail.\<close>

lemma definition_refused:
  assumes "hookError s \<noteq> Inr None"
  obtains d where "hookError s = Inr (Some (problem 422 (ru ''Newalidnoe opredelenie huka'') (Some (JStr d))))"
proof -
  have "hookError s \<in> set [dialect_check (lit ''input_schema'', input_schema s), dialect_check (lit ''output_schema'', output_schema s), sample_check s]"
    using assms unfolding hookError_def by (intro first_error_mem) (rule refl)
  then have "\<exists>d. hookError s = invalid_hook d"
    using assms by (auto simp: dialect_check_def sample_check_def split: option.splits json.splits if_splits)
  then show thesis using that by (auto simp: invalid_hook_def)
qed

lemma post_of_invalid_form:
  assumes "bodyError e (create_body v) (lit ''name'' # SPEC_FIELDS) (lit ''name'' # REQUIRED) = Inr None"
    "json_body req = Some (create_body v)" "hookError (stored_spec (specFromForm v)) = Inr (Some r)"
  shows "post_hook e req w = (Inr r, w)"
proof -
  have "specOf e (create_body v) = Inr (stored_spec (specFromForm v))"
    using specOf_fields [of "[(lit ''name'', JStr (hf_name v))]" e "specFromForm v"] by (simp add: create_body_def SPEC_FIELDS_def)
  then show ?thesis using assms by (simp add: post_hook_def with_body_def)
qed

text \<open>C12: A hook form that passes its own checks is never refused for its shape. What the control plane may still find is an
  invalid definition (a schema of another dialect, a sample without a required member): then it answers 422 with the finding,
  whatever the name, and stores nothing. A valid definition under a free name is stored exactly as the form says, its lists sorted and without
  repetitions, as version 1; under a taken name the answer is 409 and nothing is stored.\<close>

theorem hook_create_from_form:
  assumes "field_parser zf" "hookFormSchema zf v = []" "json_body req = Some (create_body v)"
  shows "if hookError (stored_spec (specFromForm v)) \<noteq> Inr None
    then \<exists>d. hookError (stored_spec (specFromForm v)) = Inr (Some (problem 422 (ru ''Newalidnoe opredelenie huka'') (Some (JStr d))))
      \<and> post_hook e req w = (Inr (problem 422 (ru ''Newalidnoe opredelenie huka'') (Some (JStr d))), w)
    else if hf_name v \<notin> set (hook_names (wdb w))
    then snd (post_hook e req w) = w\<lparr>wdb := (wdb w)\<lparr>db_hooks := db_hooks (wdb w) @ [new_hook (hf_name v) (env_now e) (stored_spec (specFromForm v))]\<rparr>\<rparr>
      \<and> (\<exists>r. fst (post_hook e req w) = Inr r \<and> resp_status r = 201)
    else \<exists>r. post_hook e req w = (Inr r, w) \<and> resp_status r = 409"
proof (cases "hookError (stored_spec (specFromForm v)) = Inr None")
  case True
  show ?thesis
    using post_from_form [OF field_parser.form_bodies_pass(1) [OF assms(1,2)] assms(3) True, of e w] True
    by (auto simp: insert_hook_def list_ex_map_mem hook_names_def Let_def)
next
  case False
  then obtain d where d: "hookError (stored_spec (specFromForm v)) = Inr (Some (problem 422 (ru ''Newalidnoe opredelenie huka'') (Some (JStr d))))"
    by (rule definition_refused)
  show ?thesis
    using post_of_invalid_form [OF field_parser.form_bodies_pass(1) [OF assms(1,2)] assms(3) d, of e w] d by auto
qed

theorem hook_create_from_form_witness:
  "snd (post_hook sample_env (create_request (lit ''cart.price'')) (fresh_world 0)) = (fresh_world 0)\<lparr>wdb := (wdb (fresh_world 0))\<lparr>db_hooks := HOOKS
      @ [new_hook (lit ''cart.price'') (env_now sample_env) (stored_spec (hook_spec_of (HOOKS ! 1)))]\<rparr>\<rparr>"
proof -
  have name: "hook_name_ok (lit ''cart.price'')" "lit ''cart.price'' \<noteq> []"
    by (simp_all add: hook_name_ok_def HOOK_NAME_PATTERN_def HOOK_NAME_MAX_def lit_def name_part_def lower_unit_def is_digit_def)
  note form = sample_form [OF name]
  have new: "lit ''cart.price'' \<notin> set (hook_names (wdb (fresh_world 0)))"
    unfolding hook_names_def seeded_db initial_fields(1) by (simp add: HOOKS_def checkout_discount_def)
  show ?thesis
    using hook_create_from_form [OF field_zod.field_parser_axioms form(1,2), of sample_env "fresh_world 0"] new form(5)
    unfolding form(3,4) seeded_db initial_fields(1) by auto
qed

text \<open>C13: A name that is taken is reported where it is typed, once the definition itself is valid: the control plane's refusal becomes the
  message of the form's name field, in its own words. The control plane looks at the definition before the name, so with an invalid definition the
  finding comes first: it is shown above the form with its detail, and the name field keeps what it says. Either way nothing is stored,
  everything typed stays as it is and the form can be sent again.\<close>

theorem hook_name_taken:
  assumes "form_library lib" "field_parser zf" "zod (zod_parse h)" "hookFormSchema zf v = []" "json_body req = Some (create_body v)"
    "hf_name v \<in> set (hook_names (wdb w))" "he_editing s = None"
  shows "\<exists>r. post_hook e req w = (Inr r, w) \<and> (case hook_editor_step zf lib None (HeAnswer (Inl (api_error h r))) s of (s', calls) \<Rightarrow>
      (if hookError (stored_spec (specFromForm v)) = Inr None
       then field_error (fl_errors lib (he_form s')) HfName = Some (ru ''Huk s takim imenem uve estx'') \<and> he_error s' = he_error s
       else (\<exists>d. hookError (stored_spec (specFromForm v)) = Inr (Some (problem 422 (ru ''Newalidnoe opredelenie huka'') (Some (JStr d))))
             \<and> he_error s' = Some (ApiError 422 (ru ''Newalidnoe opredelenie huka'') (Some d)))
         \<and> field_error (fl_errors lib (he_form s')) HfName = field_error (fl_errors lib (he_form s)) HfName)
      \<and> fl_values lib (he_form s') = fl_values lib (he_form s) \<and> \<not> awaits (he_mutation s') \<and> calls = [])"
proof (cases "hookError (stored_spec (specFromForm v)) = Inr None")
  case True
  let ?r = "problem 409 (ru ''Huk s takim imenem uve estx'') (Some (JStr (hf_name v)))"
  have post: "post_hook e req w = (Inr ?r, w)"
    using post_from_form [OF field_parser.form_bodies_pass(1) [OF assms(2,4)] assms(5) True, of e w] assms(6)
    by (auto simp: insert_hook_def list_ex_map_mem hook_names_def)
  have x: "api_error h ?r = ApiError 409 (ru ''Huk s takim imenem uve estx'') (Some (hf_name v))"
    by (rule api_error_problem [OF assms(3)]) (simp add: safe_int_def)
  have "is_status 409 (api_error h ?r)" "error_message (api_error h ?r) = (ru ''Huk s takim imenem uve estx'')"
    by (simp_all add: x is_status_def error_message_def)
  with hook_form_library.name_conflict [OF hook_form_library.intro [OF assms(1)] assms(7) this(1)] post True show ?thesis
    by (intro exI [of _ ?r]) (simp add: hook_editor_step_def)
next
  case False
  then obtain d where d: "hookError (stored_spec (specFromForm v)) = Inr (Some (problem 422 (ru ''Newalidnoe opredelenie huka'') (Some (JStr d))))"
    by (rule definition_refused)
  let ?r = "problem 422 (ru ''Newalidnoe opredelenie huka'') (Some (JStr d))"
  have post: "post_hook e req w = (Inr ?r, w)"
    by (rule post_of_invalid_form [OF field_parser.form_bodies_pass(1) [OF assms(2,4)] assms(5) d])
  have x: "api_error h ?r = ApiError 422 (ru ''Newalidnoe opredelenie huka'') (Some d)"
    by (rule api_error_problem [OF assms(3)]) (simp add: safe_int_def)
  have step: "hook_editor_step zf lib None (HeAnswer (Inl x)) s
      = (s\<lparr>he_form := fl_settled lib (he_form s), he_error := Some x, he_mutation := mut_answer (Inl x)\<rparr>, [])"
    if "x = ApiError 422 (ru ''Newalidnoe opredelenie huka'') (Some d)" for x
    by (simp add: that hook_editor_step_def hook_failed_def is_status_def)
  show ?thesis using post d form_library.settled [OF assms(1)]
    by (intro exI [of _ ?r]) (auto simp: x step mut_answer_def awaits_def)
qed

theorem hook_name_taken_witness:
  "\<exists>r. post_hook sample_env (create_request (lit ''order.validate'')) (fresh_world 0) = (Inr r, fresh_world 0) \<and> field_error (fl_errors plain_form (he_form
      (fst (hook_editor_step field_eval plain_form None (HeAnswer (Inl (api_error sample_host r))) (hook_editor_init plain_form None))))) HfName
        = Some (ru ''Huk s takim imenem uve estx'')"
proof -
  have name: "hook_name_ok (lit ''order.validate'')" "lit ''order.validate'' \<noteq> []"
    by (simp_all add: hook_name_ok_def HOOK_NAME_PATTERN_def HOOK_NAME_MAX_def lit_def name_part_def lower_unit_def is_digit_def)
  note form = sample_form [OF name]
  have taken: "hf_name (formFromHook (sample_hook (lit ''order.validate''))) \<in> set (hook_names (wdb (fresh_world 0)))"
    unfolding form(4) hook_names_def seeded_db initial_fields(1) by (simp add: HOOKS_def)
  have zod: "zod (zod_parse sample_host)" using zm.zod_axioms by (simp add: sample_host_def)
  have new: "he_editing (hook_editor_init plain_form None) = None" by (simp add: hook_editor_init_def)
  show ?thesis
    using hook_name_taken [OF plain_form.form_library_axioms field_zod.field_parser_axioms zod form(1,2) taken new, of sample_env] form(5)
    by (auto simp: case_prod_unfold)
qed

text \<open>C14: Along any run of the hook editor's controls, whatever is typed, added, removed, formatted or answered before the
  next saved version arrives, the lists of the form keep every value the saved hook allows, so the control plane finds
  nothing taken away.\<close>

theorem hook_lists_only_grow:
  assumes "form_library lib" "legal_run (hook_editor_step zf lib (Some h)) (hook_offered lib (Some h)) es (hook_editor_init lib (Some h))"
    "list_all (\<lambda>e. e \<noteq> HeRefreshed) es"
  shows "narrowed_by (hook_spec_of h)
    (specFromForm (fl_values lib (he_form (run_events (hook_editor_step zf lib (Some h)) es (hook_editor_init lib (Some h)))))) = []"
proof -
  note lib = hook_form_library.intro [OF assms(1)]
  have "keeps_allowed lib h (run_events (hook_editor_step zf lib (Some h)) es (hook_editor_init lib (Some h)))"
    by (rule run_invariant [OF hook_form_library.keeps_allowed_step [OF lib] assms(2,3) hook_form_library.keeps_allowed_init [OF lib]])
  then show ?thesis by (simp add: keeps_allowed_def)
qed

theorem hook_lists_only_grow_witness:
  "narrowed_by (hook_spec_of (HOOKS ! 1)) (specFromForm (fl_values plain_form (he_form
     (run_events (hook_editor_step field_eval plain_form (Some (HOOKS ! 1)))
       [HeHosts (Draft (lit ''clock'')), HeHosts (KeyDown (lit ''Enter'')), HeTimeout (num 80)]
       (hook_editor_init plain_form (Some (HOOKS ! 1))))))) = []"
  by (rule hook_lists_only_grow [OF plain_form.form_library_axioms]) (simp_all add: hook_offered_def typed_def)

section \<open>Tenants and configurations\<close>

definition empty_browser :: browser where
  "empty_browser = \<lparr>storage = None, listeners = []\<rparr>"

definition body_request :: "json \<Rightarrow> request" where
  "body_request v = (get_with [])\<lparr>req_body := WireText (json_stringify v)\<rparr>"

text \<open>C15: Creating a tenant from a valid form stores exactly what the form says, its name without outer white space,
  when the identifier is free, and nothing when it is taken; the control plane never refuses it for its shape.\<close>

theorem tenant_create_from_form:
  assumes "field_parser zf" "tenant_resolver zf v = []" "json_body req = Some (tenant_body (tenant_parsed zf v))"
  shows "js_trim (tf_name v) \<noteq> [] \<and> (if tf_external_id v \<notin> external_id ` set (db_tenants (wdb w))
    then post_tenant e req w = (Inr (http_json 201 (tenant_json (created_tenant (env_now e) (v\<lparr>tf_name := js_trim (tf_name v)\<rparr>)))),
      w\<lparr>wdb := (wdb w)\<lparr>db_tenants := db_tenants (wdb w) @ [created_tenant (env_now e) (v\<lparr>tf_name := js_trim (tf_name v)\<rparr>)]\<rparr>\<rparr>)
    else \<exists>r. post_tenant e req w = (Inr r, w) \<and> resp_status r = 409)"
proof -
  note ok = field_parser.tenant_parsed_ok [OF assms(1,2)]
  have "tenant_parsed zf v = v\<lparr>tf_name := js_trim (tf_name v)\<rparr>" using ok by simp
  then show ?thesis
    using post_tenant_from_form [OF field_parser.tenant_body_accepted [OF assms(1,2)] assms(3)] ok(6) by simp
qed

definition shop_form :: tenant_form where
  "shop_form = \<lparr>tf_external_id = lit ''shop-1'', tf_name = lit '' Shop '', tf_rate = num 5, tf_concurrency = num 0\<rparr>"

lemma shop_form_valid: "tenant_resolver field_eval shop_form = []"
proof -
  have "field_eval external_id_field (FStr (lit ''shop-1'')) = Inr (FStr (lit ''shop-1''))"
    by (simp add: field_zod.external_id_ok EXTERNAL_ID_MAX_def js_trim_def is_space_def ws_units_def lit_def)
  moreover have "field_eval tenant_name_field (FStr (lit '' Shop '')) = Inr (FStr (js_trim (lit '' Shop '')))"
    by (simp add: field_zod.tenant_name_ok js_trim_def is_space_def ws_units_def lit_def)
  moreover have "field_eval quota_field (FNum (num 5)) = Inr (FNum (num 5))" "field_eval quota_field (FNum (num 0)) = Inr (FNum (num 0))"
    by (simp_all add: field_zod.quota_field_ok QUOTA_MAX_def safe_int_def)
  ultimately show ?thesis
    by (simp add: tenant_resolver_def tenantFormSchema_def tenant_field_parse_def shop_form_def put_message_def field_message_def)
qed

lemma shop_form_parsed: "tenant_parsed field_eval shop_form = shop_form\<lparr>tf_name := lit ''Shop''\<rparr>"
proof -
  have "js_trim (tf_name shop_form) = lit ''Shop''" by (simp add: shop_form_def js_trim_def is_space_def ws_units_def lit_def)
  then show ?thesis using field_zod.tenant_parsed_ok [OF shop_form_valid] by simp
qed

theorem tenant_create_from_form_witness:
  "\<exists>req. snd (post_tenant sample_env req (fresh_world 0)) = (fresh_world 0)\<lparr>wdb := (wdb (fresh_world 0))\<lparr>db_tenants :=
     TENANTS @ [created_tenant (env_now sample_env) (shop_form\<lparr>tf_name := js_trim (tf_name shop_form)\<rparr>)]\<rparr>\<rparr>"
proof -
  let ?b = "tenant_body (tenant_parsed field_eval shop_form)"
  note valid = shop_form_valid and form = shop_form_parsed
  have "canon_keys (map lit [''external_id'', ''name'', ''rate_limit_rps'', ''concurrency_limit''])" by (rule canon_lits; simp add: is_digit_def)
  then have "json_ok ?b" unfolding form by (simp add: tenant_body_def shop_form_def safe_int_def)
  then have body: "json_body (body_request ?b) = Some ?b" using json_parse_stringify by (simp add: json_body_def body_request_def)
  have db: "db_tenants (wdb (fresh_world 0)) = TENANTS" by (simp add: fresh_world_def initialDb_def case_prod_unfold Let_def)
  have "tf_external_id shop_form \<notin> external_id ` set TENANTS" by (simp add: TENANTS_def shop_form_def)
  with tenant_create_from_form [OF field_zod.field_parser_axioms valid body, of "fresh_world 0" sample_env]
  have res: "post_tenant sample_env (body_request ?b) (fresh_world 0) = (Inr (http_json 201 (tenant_json (created_tenant (env_now sample_env)
       (shop_form\<lparr>tf_name := js_trim (tf_name shop_form)\<rparr>)))), (fresh_world 0)\<lparr>wdb := (wdb (fresh_world 0))\<lparr>db_tenants :=
       TENANTS @ [created_tenant (env_now sample_env) (shop_form\<lparr>tf_name := js_trim (tf_name shop_form)\<rparr>)]\<rparr>\<rparr>)"
    unfolding db by meson
  show ?thesis by (rule exI [of _ "body_request ?b"]) (simp only: res snd_conv)
qed

text \<open>C16: Editing a tenant sends only what changed and leaves the tenant as the form shows it. When saving the dialog sends a
  request, its body over the wire is a patch that has the name exactly when the form's name, without outer white space, is another, and each limit
  exactly when it is another number, with the form's values and nothing else; the control plane accepts it, sets the name and both limits to the form's,
  and touches no other tenant.\<close>

theorem tenant_edit_from_form:
  assumes "field_parser zf" "form_library lib" "t \<in> set (db_tenants (wdb w))" "tenants_ok (wdb w)"
    "snd (tenant_step zf lib (Some t) TdSubmit s) = [c]" "build_request host q (call_opts c) b = Inr req"
  shows "\<exists>p ch. tenantFormSchema zf (fl_values lib (td_form s)) = Inr p \<and> req_method req = PATCH \<and> json_body req = Some (JObj ch)
    \<and> obj_get ch (lit ''name'') = (if tf_name p \<noteq> tenant_name t then Some (JStr (tf_name p)) else None)
    \<and> obj_get ch (lit ''rate_limit_rps'') = (if js_num_eq (tf_rate p) (rate_limit_rps t) then None else Some (JNum (tf_rate p)))
    \<and> obj_get ch (lit ''concurrency_limit'') = (if js_num_eq (tf_concurrency p) (concurrency_limit t) then None else Some (JNum (tf_concurrency p)))
    \<and> set (obj_keys ch) \<subseteq> lit ` {''name'', ''rate_limit_rps'', ''concurrency_limit''} \<and> ch \<noteq> []
    \<and> patch_tenant (external_id t) e req w =
       (Inr (http_json 200 (tenant_json (edited_tenant (env_now e) p t))),
        w\<lparr>wdb := (wdb w)\<lparr>db_tenants := map (\<lambda>u. if external_id u = external_id t then edited_tenant (env_now e) p t else u)
          (db_tenants (wdb w))\<rparr>\<rparr>)"
proof -
  let ?v = "fl_values lib (td_form s)" and ?p = "tenant_parsed zf (fl_values lib (td_form s))"
  have "tenant_form_library lib" using assms(2) by (rule tenant_form_library.intro)
  note submit = tenant_form_library.tenant_submit_cases [OF this, of zf "Some t" s]
  have valid: "tenant_resolver zf ?v = []" and change: "tenantChanges t ?p \<noteq> []" and c: "c = usePatchTenant (external_id t) (JObj (tenantChanges t ?p))"
    using assms(5) by (auto simp: tenant_step_def submit Let_def split: if_splits)
  have schema: "tenantFormSchema zf ?v = Inr ?p"
    using valid by (auto simp: tenant_resolver_def tenant_parsed_def tenantFormSchema_def Let_def split: if_splits)
  have n: "js_is_safe (tf_rate ?p)" "\<not> js_lt (tf_rate ?p) (num 0)" "js_is_safe (tf_concurrency ?p)" "\<not> js_lt (tf_concurrency ?p) (num 0)"
    using field_parser.tenant_parsed_ok [OF assms(1) valid] by simp_all
  have wire: "json_body req = Some (JObj (tenantChanges t ?p))" "req_method req = PATCH"
    using body_on_wire patch_body_ok [OF n(1,3)] assms(6) by (simp_all add: c usePatchTenant_def)
  have gets: "obj_get (tenantChanges t ?p) (lit ''name'') = (if tf_name ?p \<noteq> tenant_name t then Some (JStr (tf_name ?p)) else None)"
    "obj_get (tenantChanges t ?p) (lit ''rate_limit_rps'') = (if js_num_eq (tf_rate ?p) (rate_limit_rps t) then None else Some (JNum (tf_rate ?p)))"
    "obj_get (tenantChanges t ?p) (lit ''concurrency_limit'') = (if js_num_eq (tf_concurrency ?p) (concurrency_limit t) then None else Some (JNum (tf_concurrency ?p)))"
    using tenantChanges_gets [of t ?p] by (simp_all add: field_of_def body_get_def)
  have "set (obj_keys (tenantChanges t ?p)) \<subseteq> lit ` {''name'', ''rate_limit_rps'', ''concurrency_limit''}"
    by (auto simp: tenantChanges_def obj_keys_def)
  with schema wire gets change patch_from_form [OF n assms(3,4) wire(1) change] show ?thesis by blast
qed

text \<open>A dialog in which a tenant's name was overwritten.\<close>

definition shop_dialog :: "(tenant_form, tenant_form_field) plain tenant_dialog" where
  "shop_dialog = \<lparr>td_open = True, td_error = None, td_form = plain_new shop_form, td_mutation = mut_idle\<rparr>"

theorem tenant_edit_from_form_witness:
  "\<exists>req ch. json_body req = Some (JObj ch) \<and> obj_get ch (lit ''name'') = Some (JStr (lit ''Shop''))
    \<and> snd (patch_tenant (external_id (TENANTS ! 0)) sample_env req (fresh_world 0)) = (fresh_world 0)\<lparr>wdb := (wdb (fresh_world 0))\<lparr>db_tenants :=
     map (\<lambda>u. if external_id u = external_id (TENANTS ! 0) then edited_tenant (env_now sample_env) (shop_form\<lparr>tf_name := lit ''Shop''\<rparr>) (TENANTS ! 0) else u)
       TENANTS\<rparr>\<rparr>"
proof -
  let ?p = "shop_form\<lparr>tf_name := lit ''Shop''\<rparr>"
  have shown: "fl_values plain_form (td_form shop_dialog) = shop_form" by (simp add: shop_dialog_def plain_form_def plain_new_def)
  have parsed: "tenantFormSchema field_eval shop_form = Inr ?p"
    using shop_form_valid shop_form_parsed
    by (auto simp: tenant_resolver_def tenant_parsed_def tenantFormSchema_def Let_def split: if_splits)
  have change: "tenantChanges (TENANTS ! 0) ?p \<noteq> []" by (simp add: tenantChanges_Nil shop_form_def TENANTS_def)
  let ?c = "usePatchTenant (external_id (TENANTS ! 0)) (JObj (tenantChanges (TENANTS ! 0) ?p))"
  have sent: "snd (tenant_step field_eval plain_form (Some (TENANTS ! 0)) TdSubmit shop_dialog) = [?c]"
    using change by (simp add: tenant_step_def plain_tenant.tenant_submit_cases shown shop_form_valid shop_form_parsed)
  obtain req where req: "build_request sample_host (lit ''/tenants/merchant-a'') (call_opts ?c) empty_browser = Inr req"
    by (simp add: build_request_def api_token_def usePatchTenant_def json_options_def get_options_def get_token_def empty_browser_def)
  note db = seeded_db [of 0]
  have mem: "TENANTS ! 0 \<in> set (db_tenants (wdb (fresh_world 0)))" unfolding db initial_fields by (rule nth_mem) (simp add: TENANTS_def)
  have ok: "tenants_ok (wdb (fresh_world 0))" unfolding db by (rule initial_tenants_ok)
  have name: "tf_name ?p \<noteq> tenant_name (TENANTS ! 0)" "tf_name ?p = lit ''Shop''" by (simp_all add: TENANTS_def lit_def)
  from tenant_edit_from_form [OF field_zod.field_parser_axioms plain_form.form_library_axioms mem ok sent req, of sample_env]
  obtain ch where ch: "json_body req = Some (JObj ch)" "obj_get ch (lit ''name'') = Some (JStr (lit ''Shop''))"
    and res: "patch_tenant (external_id (TENANTS ! 0)) sample_env req (fresh_world 0) =
       (Inr (http_json 200 (tenant_json (edited_tenant (env_now sample_env) ?p (TENANTS ! 0)))),
        (fresh_world 0)\<lparr>wdb := (wdb (fresh_world 0))\<lparr>db_tenants := map (\<lambda>u. if external_id u = external_id (TENANTS ! 0)
          then edited_tenant (env_now sample_env) ?p (TENANTS ! 0) else u) (db_tenants (wdb (fresh_world 0)))\<rparr>\<rparr>)"
    unfolding shown parsed sum.inject using name by (metis (no_types, lifting))
  have "snd (patch_tenant (external_id (TENANTS ! 0)) sample_env req (fresh_world 0)) = (fresh_world 0)\<lparr>wdb := (wdb (fresh_world 0))\<lparr>db_tenants :=
     map (\<lambda>u. if external_id u = external_id (TENANTS ! 0) then edited_tenant (env_now sample_env) ?p (TENANTS ! 0) else u) TENANTS\<rparr>\<rparr>"
    by (simp only: res snd_conv db initial_fields(2))
  with ch show ?thesis by blast
qed

text \<open>C17: A valid configuration form loses no row: the configuration it sends has, for every row with a key or a value,
  that key without outer white space with exactly that value, and nothing else.\<close>

theorem config_form_complete:
  assumes "configFormSchema rows = []"
  shows "obj_get (configFromForm rows) k = Some v \<longleftrightarrow> (\<exists>r \<in> set rows. \<not> isBlank r \<and> k = js_trim (row_key r) \<and> v = row_value r)"
  unfolding config_of_valid_form(1) [OF assms] kept_rows_def by auto

theorem config_form_complete_witness:
  "obj_get (configFromForm [\<lparr>row_key = lit '' min '', row_value = lit ''10''\<rparr>, \<lparr>row_key = lit '' '', row_value = []\<rparr>]) (lit ''min'') = Some (lit ''10'')"
  by (subst config_form_complete)
    (auto simp: configFormSchema_def isBlank_def js_trim_def is_space_def ws_units_def lit_def)

text \<open>C18: Saving a configuration stores it: whatever the rows, the configuration sent over the wire is what the control plane
  answers 200 for and keeps for the hook, and the active version stays the same.\<close>

theorem config_save_stores:
  assumes "hook \<in> set (hook_names (wdb w))" "\<And>p. db_bindings (wdb w) hook = Some p \<Longrightarrow> json_ok (binding_config p)"
    "build_request host q (call_opts (useSaveConfig hook (configFromForm rows))) br = Inr req"
  shows "\<exists>r w' b. put_binding hook e req w = (Inr r, w') \<and> resp_status r = 200 \<and> db_bindings (wdb w') hook = Some b
    \<and> config_of_json (binding_config b) = configFromForm rows
    \<and> active_module_id b = Option.bind (db_bindings (wdb w) hook) active_module_id"
proof -
  have "json_body req = Some (JObj [(lit ''config'', config_json (configFromForm rows))])"
    using body_on_wire(1) [OF _ config_body_ok] assms(3) by (simp add: useSaveConfig_def)
  from config_stored [OF assms(1) this assms(2)] show ?thesis by (metis config_of_config_json)
qed

theorem config_save_stores_witness:
  "\<exists>req r w' b. put_binding (lit ''order.validate'') sample_env req (fresh_world 0) = (Inr r, w') \<and> resp_status r = 200
    \<and> db_bindings (wdb w') (lit ''order.validate'') = Some b \<and> config_of_json (binding_config b) = configFromForm [\<lparr>row_key = lit ''mode'', row_value = lit ''soft''\<rparr>]
    \<and> active_module_id b = Option.bind (db_bindings (wdb (fresh_world 0)) (lit ''order.validate'')) active_module_id"
proof -
  let ?rows = "[\<lparr>row_key = lit ''mode'', row_value = lit ''soft''\<rparr>]"
  obtain req where req: "build_request sample_host (lit ''/tenant/hooks/order.validate/binding'')
      (call_opts (useSaveConfig (lit ''order.validate'') (configFromForm ?rows))) empty_browser = Inr req"
    by (simp add: build_request_def api_token_def useSaveConfig_def json_options_def get_options_def get_token_def empty_browser_def)
  note db = seeded_db [of 0]
  have hook: "lit ''order.validate'' \<in> set (hook_names (wdb (fresh_world 0)))"
    unfolding hook_names_def db initial_fields(1) by (simp add: HOOKS_def)
  have new: "json_ok (binding_config p)" if "db_bindings (wdb (fresh_world 0)) (lit ''order.validate'') = Some p" for p
    using that initial_fields(6) [of 0 42 "lit ''order.validate''"] unfolding db by (simp add: checkout_discount_def)
  show ?thesis using config_save_stores [OF hook new req] by blast
qed

text \<open>C19: Opening the configuration editor on a saved configuration and saving without a change sends nothing, whichever
  order the rows are listed in, provided that its keys have no outer white space and none is empty. Every configuration the editor itself saves is
  like that; a key that another client of the API stored with white space around it is sent again without it.\<close>

theorem config_unmodified_sends_nothing:
  assumes "form_library lib" "config_ok (current_config b)"
  shows "snd (config_step lib compare hook b CeSubmit (config_editor_init lib compare b)) = []
    \<and> (\<forall>rs. configFormSchema rs = [] \<longrightarrow> config_ok (configFromForm rs))"
  using config_form_library.config_unchanged [OF config_form_library.intro [OF assms(1)] assms(2)] saved_config_ok by blast

theorem config_unmodified_sends_nothing_witness:
  "snd (config_step plain_form default_compare checkout_discount (Some \<lparr>active_module_id = None, active_module_hash = None,
     binding_config = config_json [(lit ''b'', lit ''2''), (lit ''a'', lit ''1'')], config_version = num 1, binding_updated = []\<rparr>) CeSubmit
     (config_editor_init plain_form default_compare (Some \<lparr>active_module_id = None, active_module_hash = None,
     binding_config = config_json [(lit ''b'', lit ''2''), (lit ''a'', lit ''1'')], config_version = num 1, binding_updated = []\<rparr>))) = []"
  by (rule config_unmodified_sends_nothing [OF plain_form.form_library_axioms, THEN conjunct1])
    (simp_all add: current_config_def config_of_config_json config_ok_def obj_keys_def js_trim_def is_space_def ws_units_def lit_def)

text \<open>The condition is needed: with white space around its key, an unchanged setting is sent again under another key.\<close>

lemma untrimmed_key_sent_again:
  assumes "form_library lib" "js_trim k \<noteq> k" "js_trim k \<noteq> []" "config_of_json (binding_config x) = [(k, v)]"
  shows "snd (config_step lib compare hook (Some x) CeSubmit (config_editor_init lib compare (Some x))) = [useSaveConfig hook [(js_trim k, v)]]"
proof -
  let ?s = "config_editor_init lib compare (Some x)"
  have rows: "formFromConfig compare (Some [(k, v)]) = [\<lparr>row_key = k, row_value = v\<rparr>]" by (simp add: formFromConfig_def nullish_def)
  have shown: "fl_values lib (ce_form ?s) = [\<lparr>row_key = k, row_value = v\<rparr>]"
    using form_library.init [OF assms(1)] by (simp add: config_editor_init_def current_config_def assms(4) rows)
  have form: "configFromForm [\<lparr>row_key = k, row_value = v\<rparr>] = [(js_trim k, v)]"
    using assms(3) by (simp add: configFromForm_def isBlank_def obj_of_list_def obj_put_def obj_keys_def split: option.split)
  have ok: "configFormSchema [\<lparr>row_key = k, row_value = v\<rparr>] = []" using assms(3) by (simp add: configFormSchema_Nil kept_rows_def isBlank_def)
  have differs: "\<not> sameConfig [(js_trim k, v)] [(k, v)]" using assms(2) by (simp add: sameConfig_def obj_keys_def obj_get_def)
  show ?thesis
    using form_library.submit [OF assms(1), of configFormSchema "ce_form ?s"]
    by (cases "fl_submit lib configFormSchema (ce_form ?s)")
      (simp add: config_step_def config_submit_def shown ok form differs current_config_def assms(4) Let_def)
qed

section \<open>Module versions\<close>

text \<open>C20: Whatever happens in the upload dialog, in any order (files chosen and checked, closed and opened again, answers,
  retries), every file it sends is at most 10 MiB long and starts with the WebAssembly magic number.\<close>

theorem upload_sends_only_wasm:
  "list_all (\<lambda>c. \<exists>f. c = useUploadModule hook f \<and> length (file_bytes f) \<le> MAX_MODULE_BYTES \<and> take 4 (file_bytes f) = WASM_MAGIC)
     (calls_of (upload_step hook) es upload_init)"
proof (rule calls_invariant [of upload_ok])
  fix s e assume "upload_ok s"
  then show "upload_ok (fst (upload_step hook e s))" by (rule upload_ok_step)
  show "list_all (\<lambda>c. \<exists>f. c = useUploadModule hook f \<and> length (file_bytes f) \<le> MAX_MODULE_BYTES \<and> take 4 (file_bytes f) = WASM_MAGIC)
      (snd (upload_step hook e s))"
    using upload_sends_checked [OF \<open>upload_ok s\<close>] checkWasmFile_None by (fastforce simp: list_all_iff)
qed (rule upload_ok_init)

text \<open>C21: When the upload dialog reports a refusal instead of an unconfirmed upload, nothing was stored: an error it takes for
  final means the control plane is as it was before, so the version list it shows is right.\<close>

theorem upload_refusal_is_final:
  assumes "path_matcher matches" "hook \<notin> {[], lit ''.'', lit ''..''}"
    "run_mutation h (mock_network matches handlers on_error e net) (useUploadModule hook f) b w = (Inl x, fx, b', w')"
    "\<not> isUploadUnconfirmed x"
  shows "w' = w"
  by (rule upload_refused_world [OF assms])

theorem upload_refusal_is_final_witness:
  "\<exists>x fx b' w'. run_mutation sample_host (mock_network match_parts handlers (\<lambda>_. problem 500 [] None) sample_env (\<lambda>req w. (Inl NotError, w)))
       (useUploadModule (lit ''order.validate'') \<lparr>file_name = lit ''a.wasm'', file_bytes = WASM_MAGIC\<rparr>) empty_browser (fresh_world 0)
       = (Inl x, fx, b', w') \<and> \<not> isUploadUnconfirmed x \<and> w' = fresh_world 0"
proof -
  let ?f = "\<lparr>file_name = lit ''a.wasm'', file_bytes = WASM_MAGIC\<rparr>" and ?net = "mock_network match_parts handlers (\<lambda>_. problem 500 [] None) sample_env (\<lambda>req w. (Inl NotError, w))"
  let ?c = "useUploadModule (lit ''order.validate'') ?f"
  have "encode_uri_component (lit ''order.validate'') = Some (lit ''order.validate'')"
    by (rule uri_unchanged) (simp add: lit_def uri_unreserved_def)
  then obtain q where q: "call_path ?c = Some q" by (simp add: useUploadModule_def hook_part_def)
  obtain req where req: "build_request sample_host q (call_opts ?c) empty_browser = Inr req" "req_auth req = None"
    by (simp add: build_request_def api_token_def useUploadModule_def get_options_def get_token_def empty_browser_def)
  have name: "lit ''order.validate'' \<notin> {[], lit ''.'', lit ''..''}" by (simp add: lit_def)
  have "match_route match_parts handlers req = Some (PostModule (lit ''order.validate''))"
    using param_routes(9) [OF plain_matcher.path_matcher_axioms name, of ?f] req(1) q unfolding served_by_def by blast
  then have "?net req (fresh_world 0) = (Inr unauthorized, fresh_world 0)"
    using refused_no_trace [OF no_header_refused [OF req(2)]] by (simp add: mock_network_def)
  then obtain b' where run: "run_mutation sample_host ?net ?c empty_browser (fresh_world 0) = (Inl (api_error sample_host unauthorized), [], b', fresh_world 0)"
    using req(1) q by (simp add: run_mutation_def api_request_def unauthorized_def response_ok_def)
  have final: "\<not> isUploadUnconfirmed (api_error sample_host unauthorized)"
    by (simp add: isUploadUnconfirmed_def api_error_def unauthorized_def Let_def)
  from upload_refusal_is_final [OF plain_matcher.path_matcher_axioms name run final] run final show ?thesis by blast
qed

text \<open>C22: Once the delay of the check has passed for every version of a hook, the next listing shows a verdict for each of
  them and the console stops polling.\<close>

theorem validation_finishes:
  assumes "modules_ok (wdb w)" "hook \<in> set (hook_names (wdb w))"
    "\<And>m. m \<in> set (db_modules (wdb w)) \<Longrightarrow> mod_hook m = hook \<Longrightarrow> validates_at m \<le> env_now e"
  shows "fst (get_modules hook e req w) = Inr (http_json 200 (items_json (map module_json (listed_modules e hook (wdb (snd (get_modules hook e req w)))))))
    \<and> module_refetch (Some (listed_modules e hook (wdb (snd (get_modules hook e req w))))) = None"
proof -
  obtain th where name: "tenantHook hook (wdb w) = Some th" using assms(2) tenantHook_None by fastforce
  have "\<not> isPending (mod_status (settle_module (env_now e) m))" if "m \<in> set (db_modules (wdb w))" "mod_hook m = hook" for m
    using that assms(1,3) by (intro settled_all) (auto simp: modules_ok_def list_all_iff)
  then have "\<forall>m \<in> set (listed_modules e hook (settleModules (env_now e) (wdb w))). \<not> isPending (mod_status m)"
    by (auto simp: in_listed_modules settleModules_def settle_frame)
  then show ?thesis
    using name by (simp add: get_modules_def module_refetch_stops listed_modules_def Let_def)
qed

theorem validation_finishes_witness:
  "module_refetch (Some (listed_modules sample_env checkout_discount (wdb (snd (get_modules checkout_discount sample_env (get_with []) (fresh_world 0)))))) = None"
proof -
  note db = seeded_db [of 0]
  have hook: "checkout_discount \<in> set (hook_names (wdb (fresh_world 0)))" unfolding hook_names_def db initial_fields(1) by (simp add: HOOKS_def)
  have ok: "modules_ok (wdb (fresh_world 0))" unfolding db by (rule initial_modules_ok)
  have "\<forall>m \<in> set initialModules. validates_at m \<le> env_now sample_env" by (simp add: initialModules_def seed_module_def sample_env_def)
  then have "validates_at m \<le> env_now sample_env" if "m \<in> set (db_modules (wdb (fresh_world 0)))" for m
    using that unfolding db initial_fields(4) by blast
  with validation_finishes [OF ok hook, of sample_env "get_with []"] show ?thesis by blast
qed

text \<open>C23: Every upload the control plane accepts gets its verdict: whatever requests come in between, in whatever order, a listing
  made once the delay of the check has passed shows that file's version, rejected when the file's name contains
  \<open>http\<close> and as having passed its checks otherwise.\<close>

theorem upload_gets_verdict:
  assumes "post_module hook e req w = (Inr r, srv_world s)" "resp_status r = 201" "form_file req = Some f" "served s s'"
    "env_now e + VALIDATION_MS \<le> env_now later"
  shows "\<exists>ms. fst (get_modules hook later req' (srv_world s')) = Inr (http_json 200 (items_json (map module_json ms)))
    \<and> (\<exists>m \<in> set ms. content_hash m = sha256 e (file_bytes f) \<and> mod_status m = verdict_of (file_name f))"
proof -
  have "hook \<in> set (hook_names (wdb (srv_world s')))"
    using upload_stored [OF assms(1-3)] served_names [OF assms(4)] by blast
  then obtain th where "tenantHook hook (wdb (srv_world s')) = Some th" using tenantHook_None by fastforce
  then have "fst (get_modules hook later req' (srv_world s')) = Inr (http_json 200 (items_json (map module_json
      (listed_modules later hook (settleModules (env_now later) (wdb (srv_world s')))))))"
    by (simp add: get_modules_def listed_modules_def Let_def)
  then show ?thesis using listed_verdict [OF assms(1-4) refl assms(5)] by blast
qed

theorem upload_gets_verdict_witness:
  "\<exists>w' ms. snd (post_module checkout_discount sample_env (upload_request (lit ''http.wasm'')) (fresh_world 0)) = w'
    \<and> fst (get_modules checkout_discount (sample_env\<lparr>env_now := 1790000060000\<rparr>) (get_with []) w') = Inr (http_json 200 (items_json (map module_json ms)))
    \<and> (\<exists>m \<in> set ms. content_hash m = sha256 sample_env WASM_MAGIC \<and> mod_status m = Rejected)"
proof -
  let ?q = "upload_request (lit ''http.wasm'')"
  have "checkout_discount \<in> set (hook_names (wdb (fresh_world 0)))" unfolding hook_names_def seeded_db initial_fields(1) by (simp add: HOOKS_def)
  then obtain th where th: "tenantHook checkout_discount (wdb (fresh_world 0)) = Some th" using tenantHook_None by fastforce
  have fresh: "\<not> list_ex (\<lambda>m. mod_hook m = checkout_discount \<and> content_hash m = sha256 sample_env WASM_MAGIC) (db_modules (wdb (fresh_world 0)))"
    unfolding seeded_db initial_fields(4) by code_simp
  obtain r w' where r: "post_module checkout_discount sample_env ?q (fresh_world 0) = (Inr r, w')" "resp_status r = 201"
    using th fresh by (simp add: post_module_def upload_file_to_def upload_request_def form_file_def WASM_MAGIC_def MAX_MODULE_BYTES_def Let_def
        addUploadedModule_def)
  have "verdict_of (lit ''http.wasm'') = Rejected" by code_simp
  then show ?thesis
    using upload_gets_verdict [of checkout_discount sample_env ?q "fresh_world 0" r "\<lparr>srv_world = w', in_flight = []\<rparr>"
        "\<lparr>file_name = lit ''http.wasm'', file_bytes = WASM_MAGIC\<rparr>" _ "sample_env\<lparr>env_now := 1790000060000\<rparr>" "get_with []", OF _ r(2) _ served.none] r(1)
    by (simp add: upload_request_def form_file_def sample_env_def VALIDATION_MS_def)
qed

text \<open>C24: What the versions table offers to activate can be activated: a confirmed activation of a version the control plane
  listed is accepted even if the control plane has gone on meanwhile, and that version is then the active one.\<close>

theorem offered_activation_accepted:
  assumes "db_ok (wdb (srv_world s))" "served s s'"
    "MvActivate m AcConfirm \<in> set (actions_of (ModuleVersions compare hook b (QReady (listed_modules e hook (wdb (srv_world s)))) st))"
    "build_request host q (call_opts (useActivateModule hook (mod_id m))) br = Inr req"
  shows "\<exists>r w'. put_binding hook e' req (srv_world s') = (Inr r, w') \<and> resp_status r = 200
    \<and> Option.bind (db_bindings (wdb w') hook) active_module_id = Some (mod_id m)"
proof -
  from assms(3) obtain p where p: "p \<in> set (db_modules (wdb (srv_world s)))" "mod_hook p = hook" "m = publicModule p" "mod_status p = Validated"
    unfolding versions_activate by (auto simp: in_listed_modules)
  have ok: "modules_ok (wdb (srv_world s'))" using served_ok [OF assms(2,1)] by (simp add: db_ok_def)
  have "json_ok (JObj [(lit ''active_module_id'', JStr (mod_id p))])" by (simp add: canon_keys_def)
  then have "json_body req = Some (JObj [(lit ''active_module_id'', JStr (mod_id p))])"
    using body_on_wire(1) assms(4) p(3) by (simp add: useActivateModule_def)
  from activation_accepted [OF ok validated_persists [OF assms(2) p(1,4)] p(4) this] show ?thesis using p by simp
qed

theorem offered_activation_accepted_witness:
  "\<exists>req r w'. put_binding checkout_discount sample_env req (fresh_world 0) = (Inr r, w') \<and> resp_status r = 200
    \<and> Option.bind (db_bindings (wdb w') checkout_discount) active_module_id = Some (mod_id (initialModules ! 0))"
proof -
  let ?s = "\<lparr>srv_world = fresh_world 0, in_flight = []\<rparr>" and ?m = "publicModule (initialModules ! 0)"
  let ?st = "versions_init\<lparr>mv_dialogs := [mod_id ?m \<mapsto> \<lparr>ac_open = True, ac_mutation = mut_idle\<rparr>]\<rparr>"
  note db = seeded_db [of 0]
  have ok: "db_ok (wdb (srv_world ?s))" by (simp add: db db_ok_def initial_hooks_ok initial_tenants_ok initial_keys_ok initial_modules_ok initial_bindings_ok initial_log_ok)
  have mem: "initialModules ! 0 \<in> set initialModules" by (rule nth_mem) (simp add: initialModules_def)
  have seed: "mod_hook (initialModules ! 0) = checkout_discount" "mod_status (initialModules ! 0) = Validated"
    by (simp_all add: initialModules_def seed_module_def)
  have listed: "?m \<in> set (listed_modules sample_env checkout_discount (wdb (srv_world ?s)))"
    unfolding in_listed_modules server.select_convs db initial_fields(4) using mem seed(1) by blast
  have shown: "MvActivate ?m AcConfirm \<in> set (actions_of (ModuleVersions default_compare checkout_discount None
      (QReady (listed_modules sample_env checkout_discount (wdb (srv_world ?s)))) ?st))"
    unfolding versions_activate using listed seed(2) by (simp add: activate_actions row_dialog_def activate_pending_def)
  obtain req where req: "build_request sample_host (lit ''/tenant/hooks/checkout.discount/binding'')
      (call_opts (useActivateModule checkout_discount (mod_id ?m))) empty_browser = Inr req"
    by (simp add: build_request_def api_token_def useActivateModule_def json_options_def get_options_def get_token_def empty_browser_def)
  from offered_activation_accepted [OF ok served.none shown req, of sample_env] show ?thesis by auto
qed

section \<open>Dialogs\<close>

text \<open>C25: No dialog or editor ever has two requests under way: along any run of events its controls allow, from the state it is
  mounted in, the requests it has sent are the answers it has got and one more exactly while it waits. This
  holds for issuing and revoking keys, uploading and activating modules, and the hook, tenant and configuration editors.\<close>

theorem one_request_in_flight:
  assumes "form_library hf" "form_library tf" "form_library cf"
    "legal_run issue_step issue_offered e1 issue_init" "legal_run (revoke_step k) (revoke_offered k) e2 revoke_mounted"
    "legal_run (upload_step hook) (upload_offered hook activeHash) e3 upload_init"
    "legal_run (activate_step hook m) (activate_offered hook m activeHash) e4 activate_mounted"
    "legal_run (hook_editor_step zf hf ho) (hook_offered hf ho) e5 (hook_editor_init hf ho)"
    "legal_run (tenant_step zf tf t) (tenant_offered tf t) e6 (tenant_dialog_init tf t)"
    "legal_run (config_step cf compare hook b) (config_offered cf b) e7 (config_editor_init cf compare b)"
  shows "single_flight issue_step IsAnswer is_mutation e1 issue_init
    \<and> single_flight (revoke_step k) RvAnswer rv_mutation e2 revoke_mounted
    \<and> single_flight (upload_step hook) UpAnswer up_mutation e3 upload_init
    \<and> single_flight (activate_step hook m) AcAnswer ac_mutation e4 activate_mounted
    \<and> single_flight (hook_editor_step zf hf ho) HeAnswer he_mutation e5 (hook_editor_init hf ho)
    \<and> single_flight (tenant_step zf tf t) TdAnswer td_mutation e6 (tenant_dialog_init tf t)
    \<and> single_flight (config_step cf compare hook b) CeAnswer ce_mutation e7 (config_editor_init cf compare b)"
  using issue.one_flight [OF TrueI assms(4)] revoke.one_flight [OF TrueI assms(5)] upload.one_flight [OF TrueI assms(6)]
    activate.one_flight [OF TrueI assms(7)] hook_form_library.hook_flights [OF hook_form_library.intro [OF assms(1)] assms(8)]
    tenant_form_library.tenant_flights [OF tenant_form_library.intro [OF assms(2)] assms(9)]
    config_form_library.config_flights [OF config_form_library.intro [OF assms(3)] assms(10)]
  unfolding single_flight_def by (simp add: issue_init_def revoke_mounted_def upload_init_def activate_mounted_def)

theorem one_request_in_flight_witness:
  "single_flight issue_step IsAnswer is_mutation [IsChangeOpen True, IsName (lit ''ci''), IsSubmit] issue_init"
proof -
  have "legal_run issue_step issue_offered [IsChangeOpen True, IsName (lit ''ci''), IsSubmit] issue_init"
    by (simp add: issue_offered_def issue_actions issue_step_def issue_change_open_def issue_init_def issue_pending_def)
  from one_request_in_flight [OF plain_form.form_library_axioms plain_form.form_library_axioms plain_form.form_library_axioms this,
      of undefined "[]" _ _ "[]" undefined "[]" undefined None "[]" None "[]" _ None "[]"]
  show ?thesis by simp
qed

text \<open>C26: A dialog cannot be dismissed while its request is under way: until the answer arrives, no event its controls allow closes
  it or starts another request, be it a key, a module or a tenant that is being saved.\<close>

theorem dialogs_stay_open:
  assumes "form_library lib" "tenant_good lib s5"
    "legal_run issue_step issue_offered e1 s1" "awaits (is_mutation s1)" "answers_in IsAnswer e1 = 0"
    "legal_run (revoke_step k) (revoke_offered k) e2 s2" "awaits (rv_mutation s2)" "answers_in RvAnswer e2 = 0"
    "legal_run (upload_step hook) (upload_offered hook activeHash) e3 s3" "awaits (up_mutation s3)" "answers_in UpAnswer e3 = 0"
    "legal_run (activate_step hook m) (activate_offered hook m activeHash) e4 s4" "awaits (ac_mutation s4)" "answers_in AcAnswer e4 = 0"
    "legal_run (tenant_step zf lib t) (tenant_offered lib t) e5 s5" "awaits (td_mutation s5)" "answers_in TdAnswer e5 = 0"
  shows "stays_put issue_step is_open e1 s1 \<and> stays_put (revoke_step k) rv_open e2 s2 \<and> stays_put (upload_step hook) up_open e3 s3
    \<and> stays_put (activate_step hook m) ac_open e4 s4 \<and> stays_put (tenant_step zf lib t) td_open e5 s5"
  using issue.stays_open [OF TrueI assms(3-5)] revoke.stays_open [OF TrueI assms(6-8)] upload.stays_open [OF TrueI assms(9-11)]
    activate.stays_open [OF TrueI assms(12-14)]
    tenant_form_library.tenant_dialog_waits [OF tenant_form_library.intro [OF assms(1)] assms(2,15-17)]
  by (simp add: stays_put_def)

theorem dialogs_stay_open_witness:
  "stays_put issue_step is_open [IsChangeOpen False, IsName []] (issue_init\<lparr>is_open := True, is_mutation := mut_sent\<rparr>)"
proof -
  let ?s = "issue_init\<lparr>is_open := True, is_mutation := mut_sent\<rparr>"
  let ?t = "(tenant_dialog_init plain_form None)\<lparr>td_form := fst (fl_submit plain_form (\<lambda>_. []) (fl_init plain_form emptyTenantForm)), td_mutation := mut_sent\<rparr>"
  have run: "legal_run issue_step issue_offered [IsChangeOpen False, IsName []] ?s"
    by (simp add: issue_offered_def issue_actions issue_step_def issue_change_open_def issue_pending_def)
  have good: "tenant_good plain_form ?t" by (simp add: tenant_good_def plain_form.submit)
  have none: "answers_in IsAnswer [IsChangeOpen False, IsName []] = 0" by simp
  let ?r = "revoke_mounted\<lparr>rv_mutation := mut_sent\<rparr>" and ?u = "upload_init\<lparr>up_mutation := mut_sent\<rparr>"
    and ?a = "activate_mounted\<lparr>ac_mutation := mut_sent\<rparr>"
  have idle: "legal_run step offered [] s" "answers_in answer [] = 0" for step :: "'e \<Rightarrow> 's \<Rightarrow> 's \<times> mutation_call list" and offered s answer
    by simp_all
  have sent: "awaits mut_sent" by simp
  have "stays_put issue_step is_open [IsChangeOpen False, IsName []] ?s \<and> stays_put (revoke_step k) rv_open [] ?r
      \<and> stays_put (upload_step hook) up_open [] ?u \<and> stays_put (activate_step hook m) ac_open [] ?a
      \<and> stays_put (tenant_step zf plain_form t) td_open [] ?t" for k hook m zf t
    by (rule dialogs_stay_open [OF plain_form.form_library_axioms good run _ none idle(1) _ idle(2) idle(1) _ idle(2)
          idle(1) _ idle(2) idle(1) _ idle(2)]) (simp_all add: sent)
  then show ?thesis by blast
qed

text \<open>C27: The styled elements change nothing for the user: with every button, field, label, badge and dialog of the dialogs, the editors and the
  versions table replaced by the elements it renders, whatever the class names are, exactly the same events are offered, in
  the same order, and the same texts are shown.\<close>

theorem styled_views_same:
  "rendered_same L (IssueApiKeyDialog s) \<and> rendered_same L (RevokeApiKeyDialog k r) \<and> rendered_same L (UploadModuleDialog n hash u)
    \<and> rendered_same L (ActivateModuleDialog n m hash a) \<and> rendered_same L (TenantDialog tlib t d) \<and> rendered_same L (BindingConfigEditor clib b c)
    \<and> rendered_same L (HookForm hlib hook f) \<and> rendered_same L (ModuleVersions compare n b q v)
    \<and> rendered_same L (string_list_input items locked hint draft)"
  by (intro conjI plain_rendered plain_views)

text \<open>C28: The token of a new key is shown once. Whatever happened to the dialog, it shows a token exactly while it is open on an
  answered request, and then the token of an answer it got; once it was closed or opened again without a request under way, no token stands there until the next
  answer arrives. The control plane keeps the tokens to itself: no answer of any handler, to whatever request, depends on the tokens that are stored, so none can
  carry one (only the bearer check before the handlers looks at them), and the mutation puts nothing into the cache of the queries but drops the list of keys. (What a new key's answer shows is the token drawn for it.)\<close>

theorem token_shown_once:
  assumes "\<not> issue_pending (run_events issue_step es issue_init)" "answers_in IsAnswer fs = 0"
  shows "(''code'' \<in> set (tags_of (IssueApiKeyDialog (run_events issue_step es issue_init))) \<longleftrightarrow>
      is_open (run_events issue_step es issue_init)
      \<and> (\<exists>v. mut (is_mutation (run_events issue_step es issue_init)) = MDone v \<and> IsAnswer (Inr v) \<in> set es
          \<and> issued_field v ''token'' \<in> set (texts_of (IssueApiKeyDialog (run_events issue_step es issue_init)))))
    \<and> ''code'' \<notin> set (tags_of (IssueApiKeyDialog (run_events issue_step (es @ IsChangeOpen b # fs) issue_init)))
    \<and> fst (resolve p e req (without_tokens w)) = fst (resolve p e req w)
    \<and> call_effects (useIssueApiKey name) v' = [Invalidate apiKeyKeys_all]"
proof -
  let ?s = "run_events issue_step es issue_init"
  have traced: "issue_traced es ?s" by (rule issue_run_traced)
  have "issue_hidden (run_events issue_step fs (fst (issue_step (IsChangeOpen b) ?s)))"
    using issue_closed_hidden [OF traced assms(1)] assms(2) by (rule issue_hidden_run)
  then have "''code'' \<notin> set (tags_of (IssueApiKeyDialog (run_events issue_step (es @ IsChangeOpen b # fs) issue_init)))"
    by (auto simp: run_events_append issue_shows_token issue_hidden_def)
  then show ?thesis
    using traced answers_without_tokens [of p e req w] issue_shows_token [of ?s]
    by (auto simp: issue_traced_def useIssueApiKey_def)
qed

theorem token_shown_once_witness:
  "''code'' \<in> set (tags_of (IssueApiKeyDialog (run_events issue_step [IsChangeOpen True, IsName (lit ''shop''), IsSubmit, IsAnswer (Inr None), IsRefreshed] issue_init)))
    \<and> ''code'' \<notin> set (tags_of (IssueApiKeyDialog (run_events issue_step
        ([IsChangeOpen True, IsName (lit ''shop''), IsSubmit, IsAnswer (Inr None), IsRefreshed] @ IsChangeOpen False # [IsChangeOpen True]) issue_init)))"
proof -
  let ?es = "[IsChangeOpen True, IsName (lit ''shop''), IsSubmit, IsAnswer (Inr None), IsRefreshed]"
  have run: "is_open (run_events issue_step ?es issue_init) \<and> mut (is_mutation (run_events issue_step ?es issue_init)) = MDone None"
    by code_simp
  then have "\<not> issue_pending (run_events issue_step ?es issue_init)" by (simp add: issue_pending_def)
  moreover have "answers_in IsAnswer [IsChangeOpen True] = 0" by (simp add: answers_in_def)
  ultimately have "''code'' \<notin> set (tags_of (IssueApiKeyDialog (run_events issue_step (?es @ IsChangeOpen False # [IsChangeOpen True]) issue_init)))"
    using token_shown_once by blast
  moreover have "''code'' \<in> set (tags_of (IssueApiKeyDialog (run_events issue_step ?es issue_init)))" using run by (simp add: code_shown)
  ultimately show ?thesis by blast
qed

text \<open>C29: The dialog and the control plane agree on key names: the dialog sends a name exactly when the control plane's check
  of the body it sends lets it pass.\<close>

theorem key_name_checks_agree:
  "(snd (issue_step IsSubmit s) = [useIssueApiKey (js_trim (is_name s))])
     = (keyError e (JObj [(lit ''name'', JStr (js_trim (is_name s)))]) = Inr None)"
proof -
  have "nameError (js_trim (is_name s)) = None \<longleftrightarrow> keyError e (JObj [(lit ''name'', JStr (js_trim (is_name s)))]) = Inr None"
    by (rule nameError_keyError)
  then show ?thesis by (auto simp: issue_step_def issue_submit_def Let_def split: option.split)
qed

text \<open>The lists of the hook editor stay sets of trimmed texts, and no control of a list takes away a locked value.\<close>

theorem list_editor_keeps_values:
  assumes "list_value_ok items" "set locked \<subseteq> set items" "list_step items draft e = (d, Some v)"
    "e \<in> set (actions_of (string_list_input items locked hint draft)) \<or> e = KeyDown key"
  shows "list_value_ok v \<and> set locked \<subseteq> set v"
  using list_step_ok [OF assms(1,3)] list_step_locked [OF _ assms(3,2)] assms(4) by blast

theorem list_editor_keeps_values_witness:
  "list_value_ok [lit ''order.flag'', lit ''tax''] \<and> set [lit ''order.flag''] \<subseteq> set [lit ''order.flag'', lit ''tax'']"
proof (rule list_editor_keeps_values [where hint = None and locked = "[lit ''order.flag'']" and key = "lit ''Enter''"])
  show "list_value_ok [lit ''order.flag'']" by (simp add: list_value_ok_def js_trim_def is_space_def ws_units_def lit_def)
  show "list_step [lit ''order.flag''] (lit '' tax '') (KeyDown (lit ''Enter'')) = ([], Some [lit ''order.flag'', lit ''tax''])"
    by (simp add: list_step_def add_draft_def js_trim_def is_space_def ws_units_def lit_def)
qed simp_all

section \<open>The contract\<close>

text \<open>C30: The consoles keep to the API contract. Of all the requests they send (queries, mutations, the checks of both sign-in forms, the opening of a
  console), whatever their forms say, exactly one is outside it, that for the log of invocations, which the contract does not have yet; every other has the
  method of an operation and a body of the operation's type, and its answer is one the schema of the request takes in. What the types of the program say they
  send fits as well; and the mock control plane has a handler for every operation and, apart from the pending one for the log, no other.\<close>

theorem consoles_follow_contract:
  "filter (\<lambda>r. \<not> follows_contract r) (console_requests h v t rows s f flt) = [log_request flt]
    \<and> list_all (\<lambda>(a, c). FitsContract a c) contract_fits
    \<and> list_all (\<lambda>(m, ps, o'). (m, ps) \<in> set (handler_keys handlers)) contract_paths
    \<and> list_all (\<lambda>(m, ps, g). case contract_of (g args) of
        None \<Rightarrow> (m, ps) \<in> set (handler_keys pendingHandlers) | Some o' \<Rightarrow> (m, ps, o') \<in> set contract_paths) handlers"
proof (intro conjI requests_keep_contract contract_fitted contract_in_handlers)
  show "list_all (\<lambda>(m, ps, g). case contract_of (g args) of
      None \<Rightarrow> (m, ps) \<in> set (handler_keys pendingHandlers) | Some o' \<Rightarrow> (m, ps, o') \<in> set contract_paths) handlers"
    unfolding list_all_iff using handlers_in_contract by fast
qed

text \<open>C31: The schemas take in what the contract promises: they pass the compile-time check against its types, and a value of such a type
  whose numbers and dates are as the schema demands is accepted.\<close>

theorem contract_values_accepted:
  assumes "zod zp" "(s, c) \<in> set contract_accepts" "has_type c v" "refined zp s v"
  shows "AcceptsContract s c \<and> zp s v \<noteq> None"
proof -
  have sub: "AcceptsContract s c" "subtype c (z_input s)" using assms(2) contract_accepted contract_subtypes by (auto simp: list_all_iff)
  then show ?thesis using zod.input_accepted [OF assms(1) subtype_sound [OF sub(2) assms(3)] assms(4)] by blast
qed

theorem contract_values_accepted_witness:
  "\<exists>w. zeval apiKeySchema (Some (JObj (api_key_fields
     \<lparr>key_id = lit ''key_1'', key_name = lit ''shop'', key_created = lit ''2026-09-18T14:45:00Z'', revoked_at = None\<rparr>))) = Some w"
proof -
  let ?v = "Some (JObj (api_key_fields \<lparr>key_id = lit ''key_1'', key_name = lit ''shop'', key_created = lit ''2026-09-18T14:45:00Z'', revoked_at = None\<rparr>))"
  have "(apiKeySchema, contract_ApiKey) \<in> set contract_accepts" by (simp add: accepts_defs)
  moreover have "refined zeval apiKeySchema ?v"
    by (simp add: apiKeySchema_def apiKeySchema_fields_def api_key_fields_def ZNullish_def obj_get_def json_nullable_def datetime_like_def lit_def is_digit_def)
  ultimately have "zeval apiKeySchema ?v \<noteq> None"
    using contract_values_accepted [OF zm.zod_axioms _ key_typed(1)] by blast
  then show ?thesis by blast
qed

text \<open>C32: The mock control plane keeps to the contract, up to two departures. From its seeds on, whatever requests with bodies of the contract's types
  arrive, no handler throws, and each answer is the operation's success with a body of the operation's type, or a refusal with a problem of the
  contract's type and a status the operation declares. The departures: conflicts, unknown names and too large modules are refused with 404, 409 and 413, at the endpoints
  that \<open>undeclared\<close> lists; and the problems that \<open>silent\<close> lists (no token, an empty or too large module, nothing to change) have no
  detail. Requests for the log of invocations, which the contract does not have, may come in between and are answered or refused for their token.\<close>

theorem mock_answers_keep_contract:
  assumes "list_all arrival_typed rs"
  shows "list_all2 answer_kept rs (answers rs (fresh_world now))"
  by (rule answers_kept [OF seed_typed assms])

theorem mock_answers_keep_contract_witness:
  "list_all2 answer_kept
     [(sample_env, PutBinding checkout_discount, (body_request (JObj [(lit ''config'', config_json [(lit ''threshold'', lit ''5'')])]))\<lparr>req_auth := Some (lit ''Bearer t'')\<rparr>),
      (sample_env, GetTenantHooks, get_with (lit ''Bearer t''))]
     (answers [(sample_env, PutBinding checkout_discount, (body_request (JObj [(lit ''config'', config_json [(lit ''threshold'', lit ''5'')])]))\<lparr>req_auth := Some (lit ''Bearer t'')\<rparr>),
      (sample_env, GetTenantHooks, get_with (lit ''Bearer t''))] (fresh_world 0))"
proof (rule mock_answers_keep_contract)
  let ?b = "JObj [(lit ''config'', config_json [(lit ''threshold'', lit ''5'')])]"
  have "json_ok ?b" by (simp add: config_json_def canon_keys_def key_before_def array_index_def lit_def is_digit_def)
  then have "json_body (body_request ?b) = Some ?b" using json_parse_stringify by (simp add: json_body_def body_request_def)
  then show "list_all arrival_typed
     [(sample_env, PutBinding checkout_discount, (body_request ?b)\<lparr>req_auth := Some (lit ''Bearer t'')\<rparr>), (sample_env, GetTenantHooks, get_with (lit ''Bearer t''))]"
    using binding_bodies_typed(1) [of "[(lit ''threshold'', lit ''5'')]"]
    by (simp add: arrival_typed_def body_typed_def json_body_def op_update_binding_def op_list_tenant_hooks_def del: has_type.simps)
qed

section \<open>Requests, sessions and answers\<close>

text \<open>C33: What the control plane stores is what the console reads: every key, tenant, module, invocation and hook definition whose
  dates and numbers are in range passes the schema of its query unchanged, and the hook read back is the hook stored.\<close>

theorem records_fit_schemas:
  assumes "zod zp" "\<forall>d \<in> {key_created k, tenant_created t, tenant_updated t, uploaded_at m, inv_ts i, hook_created h, hook_updated h} \<union> set_option (revoked_at k).
      zp ZDatetime (Some (JStr d)) \<noteq> None"
    "\<forall>x \<in> {rate_limit_rps t, concurrency_limit t, size_bytes m, inv_seq i, def_version h}. js_is_safe x"
    "js_le (num 0) (size_bytes m)" "finite_number (inv_duration i)" "js_le (num 0) (inv_duration i)" "spec_ok (hook_spec_of h)"
    "\<forall>ob \<in> {input_schema (hook_spec_of h), output_schema (hook_spec_of h), sample_input (hook_spec_of h)}. canon_keys (map fst ob)"
  shows "zp apiKeySchema (Some (JObj (api_key_fields k))) = Some (Some (JObj (api_key_fields k)))
    \<and> zp tenantSchema (Some (tenant_json t)) = Some (Some (tenant_json t))
    \<and> zp moduleSchema (Some (module_json m)) = Some (Some (module_json m))
    \<and> zp invocationSchema (Some (invocation_json i)) = Some (Some (invocation_json i))
    \<and> (\<exists>v. zp operatorHookSchema (Some (hook_json h)) = Some v \<and> hook_of_json v = h)"
  using assms(2-) by (intro conjI zod.key_fits [OF assms(1)] zod.tenant_fits [OF assms(1)] zod.module_fits [OF assms(1)]
      zod.invocation_fits [OF assms(1)] zod.hook_fits [OF assms(1)]) auto

theorem records_fit_schemas_witness:
  "zeval tenantSchema (Some (tenant_json (TENANTS ! 0))) = Some (Some (tenant_json (TENANTS ! 0)))
    \<and> (\<exists>v. zeval operatorHookSchema (Some (hook_json (HOOKS ! 1))) = Some v \<and> hook_of_json v = HOOKS ! 1)"
proof -
  let ?d = "lit ''2026-09-18T14:45:00Z''"
  let ?k = "\<lparr>key_id = [], key_name = [], key_created = ?d, revoked_at = None\<rparr>"
  let ?m = "\<lparr>mod_id = [], mod_hook = [], content_hash = [], size_bytes = num 1, mod_status = Validating, mod_report = None, uploaded_at = ?d\<rparr>"
  let ?i = "\<lparr>inv_seq = num 1, inv_ts = ?d, inv_hook = [], inv_module_hash = None, inv_outcome = OutOk, inv_reason = None, inv_error = None,
      inv_duration = num 1, inv_cold_start = False, inv_key = None, inv_logs = []\<rparr>"
  have "spec_ok (hook_spec_of (HOOKS ! 1))" using initial_hooks_ok [of 0 42] by (simp add: hooks_ok_def initial_fields(1) HOOKS_def)
  then show ?thesis
    using records_fit_schemas [OF zm.zod_axioms, of ?k "TENANTS ! 0" ?m ?i "HOOKS ! 1"]
    by (simp add: HOOKS_def TENANTS_def datetime_like_def lit_def is_digit_def safe_int_def finite_number_def
        canon_keys_def key_before_def array_index_def json_strs_def json_int_def js_type_def)
qed

text \<open>C34: A request succeeds only on an answer with a status of success whose body passes the schema it was sent with, and the only
  thing it does to the browser is to drop the token of its own console, when that token, and no token given
  for the request, was refused with 401.\<close>

theorem request_outcomes:
  assumes "api_request h net path opts b w = (x, b', w')"
  shows "(\<forall>v. x = Inr v \<longrightarrow> b' = b \<and> (\<exists>req r. build_request h path opts b = Inr req \<and> net req w = (Inr r, w') \<and> response_ok r
      \<and> zod_parse h (opt_schema opts) (if resp_status r = 204 then None else json_parse (resp_text r)) = Some v))
    \<and> (b' = b \<or> b' = clear_token (console_for_path path) b \<and> opt_token opts = None \<and> (\<exists>e. x = Inl e \<and> is_status 401 e))"
proof (cases rule: api_request_cases [of h net path opts b w])
  case (answered req r w1)
  then show ?thesis using assms api_payload_Inr [of h path opts r] by auto
qed (use assms in \<open>auto split: if_splits\<close>)

theorem request_outcomes_witness:
  "\<not> (\<exists>v. fst (api_request sample_host (\<lambda>req w. (Inr unauthorized, w)) (lit ''/hooks'') (get_options ZUnknown) operator_browser ()) = Inr v)"
proof -
  obtain x b' where run: "api_request sample_host (\<lambda>req w. (Inr unauthorized, w)) (lit ''/hooks'') (get_options ZUnknown) operator_browser () = (x, b', ())"
    by (cases "api_request sample_host (\<lambda>req w. (Inr unauthorized, w)) (lit ''/hooks'') (get_options ZUnknown) operator_browser ()") auto
  have "\<not> response_ok unauthorized" by (simp add: response_ok_def unauthorized_def)
  then show ?thesis using request_outcomes [OF run] by (auto simp: run)
qed

text \<open>C35: The two consoles do not disturb each other: with another token of the other console, or none, a request of a
  console is the same request, gets the same answer, and leaves the other console's token as it was.\<close>

theorem consoles_apart:
  assumes "has_storage b" "k \<noteq> console_for_path path"
  shows "api_request h net path opts (set_token k t b) w = (case api_request h net path opts b w of (x, b', w') \<Rightarrow> (x, set_token k t b', w'))
    \<and> api_request h net path opts (clear_token k b) w = (case api_request h net path opts b w of (x, b', w') \<Rightarrow> (x, clear_token k b', w'))"
proof -
  have token: "api_token path opts (set_token k t b) = api_token path opts b" "api_token path opts (clear_token k b) = api_token path opts b"
    using assms(1) assms(2) [symmetric] by (simp_all add: api_token_def tokens.get_put tokens.get_clear split: option.split)
  have clear: "clear_token (console_for_path path) (set_token k t b) = set_token k t (clear_token (console_for_path path) b)"
    "clear_token (console_for_path path) (clear_token k b) = clear_token k (clear_token (console_for_path path) b)"
    using assms(2) by (cases b; cases "storage b"; simp add: clear_token_def set_token_def fun_upd_twist)+
  have build: "build_request h path opts (set_token k t b) = build_request h path opts b"
    "build_request h path opts (clear_token k b) = build_request h path opts b"
    by (simp_all only: build_request_def token)
  show ?thesis
    by (cases "build_request h path opts b") (simp_all add: api_request_def build clear split: prod.splits sum.splits)
qed

theorem consoles_apart_witness:
  "api_request sample_host (\<lambda>req w. (Inr unauthorized, w)) (lit ''/hooks'') (get_options ZUnknown) (set_token Tenant (lit ''t'') operator_browser) ()
    = (case api_request sample_host (\<lambda>req w. (Inr unauthorized, w)) (lit ''/hooks'') (get_options ZUnknown) operator_browser () of
        (x, b', w') \<Rightarrow> (x, set_token Tenant (lit ''t'') b', w'))"
proof -
  have "has_storage operator_browser" by (simp add: operator_browser_def tokens.usable_put) (simp add: has_storage_def)
  moreover have "Tenant \<noteq> console_for_path (lit ''/hooks'')" by (simp add: console_for_path_def str_starts_with_def lit_def)
  ultimately show ?thesis by (rule conjunct1 [OF consoles_apart])
qed

text \<open>C36: A sign-in form that checks keys stores only checked ones: along any order of typing, submitting and answers of the checks, the
  console's token is the one it had or the last candidate whose check succeeded, trimmed and not empty, and
  the other console's token stays.\<close>

theorem gate_stores_checked:
  assumes "gate_run c b0 gb pend passed" "gate_verifies c" "has_storage b0"
  shows "get_token (snd gb) (gate_kind c) = (case passed of [] \<Rightarrow> get_token b0 (gate_kind c) | t # ts \<Rightarrow> Some t)
    \<and> list_all (\<lambda>t. t \<noteq> [] \<and> js_trim t = t) passed \<and> (\<forall>k. k \<noteq> gate_kind c \<longrightarrow> get_token (snd gb) k = get_token b0 k)"
  using gate_run_inv [OF assms] by simp

theorem gate_stores_checked_witness:
  "get_token (snd (fst (gate_step operator_gate (GateVerified (lit ''key'') (Inr ()))
      (fst (gate_step operator_gate GateSubmit (fst (gate_step operator_gate (GateInput (lit '' key '')) (empty_gate, operator_browser)))))))) Operator = Some (lit ''key'')"
proof -
  let ?g1 = "fst (gate_step operator_gate (GateInput (lit '' key '')) (empty_gate, operator_browser))"
  let ?g2 = "fst (gate_step operator_gate GateSubmit ?g1)"
  let ?g3 = "fst (gate_step operator_gate (GateVerified (lit ''key'') (Inr ())) ?g2)"
  have v: "js_trim (lit '' key '') = lit ''key''" by (simp add: js_trim_def is_space_def ws_units_def lit_def)
  have "gate_run operator_gate operator_browser ?g1 ([] @ (case None of None \<Rightarrow> [] | Some t \<Rightarrow> [t])) []"
    by (rule gate_run.user [OF gate_run.start, where s = "lit '' key ''" and e = "GateInput (lit '' key '')"]) (simp_all add: gate_step_def)
  then have g1: "gate_run operator_gate operator_browser ?g1 [] []" by simp
  have "gate_run operator_gate operator_browser ?g2 ([] @ (case Some (lit ''key'') of None \<Rightarrow> [] | Some t \<Rightarrow> [t])) []"
    by (rule gate_run.user [OF g1, where s = "[]" and e = GateSubmit]) (simp_all add: gate_step_def v operator_gate_def Let_def)
  then have g2: "gate_run operator_gate operator_browser ?g2 [lit ''key''] []" by simp
  have run: "gate_run operator_gate operator_browser ?g3 (remove1 (lit ''key'') [lit ''key'']) [lit ''key'']"
    by (rule gate_run.accepted [OF g2, where o' = None and u = "()"]) (simp_all add: gate_step_def v operator_gate_def Let_def)
  have "has_storage operator_browser" by (simp add: operator_browser_def tokens.usable_put) (simp add: has_storage_def)
  from gate_stores_checked [OF run _ this] show ?thesis by (simp add: operator_gate_def)
qed

text \<open>C37: The tenant's session ends when its token does. For a token that expires at a whole millisecond from 1970 on, in the range of
  safe integers, the effect of the token checks that moment; an expired token is dropped at once, any other not before it expires and no later than a timer is late,
  however many timers that takes: the platform keeps a delay in 32 bits, taking a longer one as a negative number or a short delay, and may fire late.\<close>

theorem expiry_timer_ends:
  assumes "token \<noteq> []" "read_jwt_claims zp token = Some c" "claim_exp c = Some x" "js_mul x (num 1000) = num e"
    "0 \<le> e" "0 \<le> n" "safe_int n" "safe_int (e + int slack)" "list_all (\<lambda>l. l \<le> slack) lates" "timers_needed (e - n) \<le> length lates"
  shows "expiry_effect zp (Some token) (num n) = Some (expiry_check (num e) (num n))
    \<and> (if e \<le> n then expiry_check (num e) (num n) = ClearNow \<and> timer_chain lates (num e) n = Some n
       else \<exists>t. timer_chain lates (num e) n = Some t \<and> e \<le> t \<and> t \<le> e + int slack)"
proof -
  have effect: "expiry_effect zp (Some token) (num n) = Some (expiry_check (num e) (num n))"
    using assms(1-4) by (simp add: expiry_effect_def)
  show ?thesis
  proof (cases "e \<le> n")
    case True
    have safe: "safe_int (e - n)" using assms(5-8) by (auto simp: safe_int_def)
    show ?thesis using effect True timer_chain_due [OF True safe] expiry_check_num [OF safe] by simp
  next
    case False
    have "\<forall>l \<in> set lates. int l \<le> int slack" using assms(9) by (simp add: list_all_iff)
    then show ?thesis using effect False timer_chain_ends [OF assms(5,6) _ assms(8) _ assms(10)] by simp
  qed
qed

text \<open>A token for thirty days, and two timers, both a second late.\<close>

theorem expiry_timer_ends_witness:
  "\<exists>t. timer_chain [1000, 1000] (num 1792592000000) 1790000000000 = Some t \<and> 1792592000000 \<le> t \<and> t \<le> 1792592000000 + int 1000"
proof -
  let ?t = "consoleToken 1790000000000 (lit ''merchant-a'') 1792592000000"
  have "?t \<noteq> []" by (simp add: consoleToken_def)
  moreover have "read_jwt_claims zeval ?t = Some \<lparr>claim_sub = Some (lit ''merchant-a''), claim_exp = Some (num 1792592000)\<rparr>"
    using zm.read_consoleToken [of 1790000000000 1792592000000 "lit ''merchant-a''"] by (simp add: safe_int_def)
  moreover have "js_mul (num 1792592000) (num 1000) = num 1792592000000" using js_mul_num [of 1792592000 1000] by (simp add: safe_int_def)
  moreover have "timers_needed (1792592000000 - 1790000000000) = 2" by (simp add: timers_needed_def MAX_TIMER_DELAY_MS_def)
  ultimately show ?thesis
    using expiry_timer_ends [of ?t zeval _ "num 1792592000" 1792592000000 1790000000000 1000 "[1000, 1000]"] by (simp add: safe_int_def)
qed

text \<open>C38: No timer of that chain is longer than what timers can hold, and none is empty.\<close>

theorem expiry_delay_fits:
  assumes "expiry_check expiresAt (Fin n) = WaitMs d" "expiresAt \<noteq> NaN"
  shows "js_le d (num 2147483647) \<and> js_lt (num 0) d"
  using expiry_delay_bounded [OF assms] by (simp add: MAX_TIMER_DELAY_MS_def)

theorem expiry_delay_fits_witness:
  "\<exists>d. expiry_check PInf (Fin 0) = WaitMs d \<and> js_le d (num 2147483647) \<and> js_lt (num 0) d"
proof -
  have "expiry_check PInf (Fin 0) = WaitMs (num MAX_TIMER_DELAY_MS)"
    by (simp add: expiry_check_def js_sub_def js_min_def js_le_def js_num_eq_def)
  with expiry_delay_fits [OF this] show ?thesis by simp
qed

text \<open>C39: A link leads to the page it names: every address of the application, with the name of a hook encoded into it, is
  opened as its own page, and a hook's page gets exactly the hook's name. In particular no hook can be named
  like the page that creates hooks.\<close>

theorem links_open_pages:
  assumes "\<And>n. r = TenantHook n \<or> r = OperatorHook n \<Longrightarrow> hook_name_ok n"
  shows "\<exists>p. route_path r = Some p \<and> app_page_at (address_segments p) = route_page r"
proof -
  have name: "n \<notin> {[], lit ''.'', lit ''..''} \<and> n \<noteq> lit ''new-hook'' \<and> encode_uri_component n = Some n" if "hook_name_ok n" for n
    using that new_hook_no_name hook_name_uri by (auto simp: hook_name_ok_def)
  show ?thesis
    using assms name hook_link by (cases r) (auto simp: route_path_def route_page_def static_link)
qed

theorem links_open_pages_witness:
  "\<exists>p. route_path (OperatorHook (lit ''order.validate'')) = Some p \<and> app_page_at (address_segments p) = PageOperatorHook (lit ''order.validate'')"
  using links_open_pages [of "OperatorHook (lit ''order.validate'')"]
  by (simp add: route_page_def hook_name_ok_def HOOK_NAME_PATTERN_def HOOK_NAME_MAX_def lit_def name_part_def lower_unit_def is_digit_def)

text \<open>Whatever page is open, at most one entry of the operator console's navigation is marked as the current one.\<close>

theorem one_entry_current:
  assumes "n \<in> set operator_nav" "m \<in> set operator_nav" "route_path (nav_href n) = Some h" "route_path (nav_href m) = Some k"
    "isActive p h" "isActive p k"
  shows "n = m"
  using assms by (rule nav_exclusive)

theorem one_entry_current_witness:
  "isActive (lit ''/operator/hooks/tax'') (lit ''/operator/hooks'') \<and> \<not> isActive (lit ''/operator/hooks/tax'') (lit ''/operator/tenants'')"
proof -
  have a: "isActive (lit ''/operator/hooks/tax'') (lit ''/operator/hooks'')" by (simp add: isActive_def str_starts_with_def lit_def)
  have "operator_nav ! 0 \<noteq> operator_nav ! 1" by (simp add: operator_nav_def)
  then have "\<not> isActive (lit ''/operator/hooks/tax'') (lit ''/operator/tenants'')"
    using one_entry_current [of "operator_nav ! 0" "operator_nav ! 1" "lit ''/operator/hooks''" "lit ''/operator/tenants''", OF _ _ _ _ a]
    by (auto simp: operator_nav_def route_path_def)
  with a show ?thesis by simp
qed

text \<open>Formatting the JSON of a hook's form does not change what it means, and formatting it again changes nothing.\<close>

theorem format_keeps_value:
  assumes "json_parse s = Some v" "json_ok v"
  shows "json_parse (formatJson s) = Some v \<and> formatJson (formatJson s) = formatJson s"
  using formatJson_same [OF assms] formatJson_idem [OF assms] by simp

theorem format_keeps_value_witness:
  "json_parse (formatJson (json_stringify (JArr [JNull, JStr (lit ''a'')]))) = Some (JArr [JNull, JStr (lit ''a'')])"
  using format_keeps_value [OF json_parse_stringify [of "JArr [JNull, JStr (lit ''a'')]"]] by simp

text \<open>C40: The panel above the versions never says more than is known: it calls a version saved only if it is the active one, ready
  only if it has passed its checks and is not active, being checked only if it is, and rejected only if its
  check failed or the user asked why it did.\<close>

theorem panel_tells_truth:
  "case panelState ms a f of
     PanelSaved m \<Rightarrow> m \<in> set ms \<and> Some (mod_id m) = a
   | PanelChecking m \<Rightarrow> m \<in> set ms \<and> isPending (mod_status m)
   | PanelReady m \<Rightarrow> m \<in> set ms \<and> mod_status m = Validated \<and> Some (mod_id m) \<noteq> a
   | PanelRejected m \<Rightarrow> m \<in> set ms \<and> (mod_status m = Rejected \<or> f = Some (FocusRejected, mod_id m))
   | PanelIdle \<Rightarrow> True"
  using panelState_sound by (simp split: panel_state.split)

text \<open>Every number the mock's generator draws is a fraction between 0 and 1.\<close>

theorem generator_in_range:
  "\<exists>x. fst (mulberry32 g) = Fin x \<and> 0 \<le> x \<and> x < 1"
proof -
  have frac: "0 \<le> (of_nat (unat u) :: rat) / 4294967296 \<and> (of_nat (unat u) :: rat) / 4294967296 < 1" for u :: "32 word"
  proof -
    have "unat u < 4294967296" using unsigned_less [of u, where 'a = nat] by simp
    then have "of_nat (unat u) < (of_nat 4294967296 :: rat)" by (simp only: of_nat_less_iff)
    then show ?thesis by (intro conjI divide_nonneg_pos of_nat_0_le_iff) (simp_all add: divide_less_eq)
  qed
  show ?thesis unfolding mulberry32_def Let_def fst_conv by (rule exI, rule conjI, rule refl, rule frac)
qed

end
